(* ===== verification/Go_Prelude.thy ===== *)
theory Go_Prelude
  imports Main "HOL-Library.AList" "HOL-Library.Word" "HOL-Library.State_Monad"
    "HOL-Library.Char_ord" "HOL-Library.List_Lexorder" "HOL-Library.Product_Lexorder"
    "HOL-Library.Sublist" "HOL-Library.Multiset"
begin

text \<open>
  What the development uses of Go and of its standard library, and the lemmas the components
  share.

  \<^item> Go values: \<open>error\<close> is the text \<open>err.Error()\<close>, a nil error is \<open>None\<close>; \<open>gotime\<close> is an instant
    in nanoseconds since the Unix epoch; a \<open>gomap\<close> is an association list with distinct keys
    whose order carries no meaning; \<open>ctx\<close> records how a \<open>context.Context\<close> was derived.
  \<^item> Go statements: sequences of effects are terms of \<open>HOL-Library.State_Monad\<close>; \<open>wp\<close> is the
    weakest precondition of such a term and the collection \<open>wp\<close> computes it.
  \<^item> \<open>strings\<close> and \<open>strconv\<close>: \<open>Split\<close>, \<open>TrimSpace\<close>, \<open>TrimRight\<close>, \<open>HasPrefix\<close>, \<open>Contains\<close>,
    \<open>ToLower\<close>, \<open>ReplaceAll\<close>, decimal printing, \<open>Atoi\<close>, \<open>ParseInt\<close>, \<open>ParseBool\<close> and \<open>%q\<close>, on
    byte strings. \<open>TrimSpace\<close>, \<open>ToLower\<close> and \<open>%q\<close> are those of ASCII text: bytes above 127 are
    passed through unchanged.
\<close>

section \<open>Values\<close>

type_synonym error = string
type_synonym gotime = int
type_synonym u64 = "64 word"
type_synonym ('k, 'v) gomap = "('k \<times> 'v) list"

text \<open>
  A context: the background context, a context made outside the modelled code (an HTTP request,
  a leadership session), and the contexts derived from one: cancelled with another context
  (\<open>WithCancel\<close> together with \<open>AfterFunc\<close>), cancelled with the etcd session behind a lock or a
  leadership, and bounded by a timeout in seconds.
\<close>

datatype ctx = Background | Root nat | Bound ctx ctx | Locked ctx | Timeout ctx int

text \<open>The order in which a \<open>range\<close> statement visits the keys of a map is the runtime's choice.\<close>

record 'w Runtime =
  rt_now :: "('w, gotime) state"
  rt_ctxErr :: "ctx \<Rightarrow> ('w, error option) state"
  rt_range :: "string list \<Rightarrow> ('w, string list) state"

definition runtime_ok :: "'w Runtime \<Rightarrow> bool" where
  "runtime_ok rt \<longleftrightarrow> (\<forall>ks w. mset (fst (run_state (rt_range rt ks) w)) = mset ks)"

section \<open>Statements\<close>

named_theorems wp \<open>weakest preconditions of the statements of the model\<close>

named_theorems wp_call \<open>calls of an interface about which nothing is assumed\<close>

definition wp :: "('s, 'a) state \<Rightarrow> ('a \<Rightarrow> 's \<Rightarrow> bool) \<Rightarrow> 's \<Rightarrow> bool" where
  "wp m Q s = (case run_state m s of (a, s') \<Rightarrow> Q a s')"

definition modify :: "('s \<Rightarrow> 's) \<Rightarrow> ('s, unit) state" where
  "modify f = State (\<lambda>s. ((), f s))"

definition gets :: "('s \<Rightarrow> 'a) \<Rightarrow> ('s, 'a) state" where
  "gets f = State (\<lambda>s. (f s, s))"

lemma run_state_modify [simp]: "run_state (modify f) s = ((), f s)"
  by (simp add: modify_def)

lemma run_state_gets [simp]: "run_state (gets f) s = (f s, s)"
  by (simp add: gets_def)

lemma run_state_return [simp]: "run_state (State_Monad.return x) s = (x, s)"
  by (simp add: State_Monad.return_def)

lemma run_state_bind [simp]:
  "run_state (State_Monad.bind m f) s = (case run_state m s of (a, s') \<Rightarrow> run_state (f a) s')"
  by (simp add: State_Monad.bind_def)

lemma wp_return [wp]: "wp (State_Monad.return x) Q = Q x"
  by (simp add: wp_def fun_eq_iff)

lemma wp_bind [wp]: "wp (State_Monad.bind m f) Q = wp m (\<lambda>a. wp (f a) Q)"
  by (simp add: wp_def fun_eq_iff split: prod.splits)

lemma wp_modify [wp]: "wp (modify f) Q s = Q () (f s)"
  by (simp add: wp_def)

lemma wp_gets [wp]: "wp (gets f) Q s = Q (f s) s"
  by (simp add: wp_def)

lemma wp_if [wp]: "wp (if b then m else n) Q s = (if b then wp m Q s else wp n Q s)"
  by simp

lemma wp_case_sum [wp]:
  "wp (case r of Inl e \<Rightarrow> f e | Inr x \<Rightarrow> g x) Q s =
    (case r of Inl e \<Rightarrow> wp (f e) Q s | Inr x \<Rightarrow> wp (g x) Q s)"
  by (simp split: sum.splits)

lemma wp_case_option [wp]:
  "wp (case r of None \<Rightarrow> m | Some x \<Rightarrow> g x) Q s =
    (case r of None \<Rightarrow> wp m Q s | Some x \<Rightarrow> wp (g x) Q s)"
  by (simp split: option.splits)

lemma wp_case_prod [wp]:
  "wp (case p of (x, y) \<Rightarrow> f x y) Q s = (case p of (x, y) \<Rightarrow> wp (f x y) Q s)"
  by (simp split: prod.splits)

lemma wp_let [wp]: "wp (Let x f) Q s = wp (f x) Q s"
  by (simp add: Let_def)

lemma wp_mono:
  assumes "wp m P s" and "\<And>a t. P a t \<Longrightarrow> Q a t"
  shows "wp m Q s"
  using assms by (auto simp: wp_def split: prod.splits)

lemma wp_conj: "wp m (\<lambda>a t. P a t \<and> Q a t) s \<longleftrightarrow> wp m P s \<and> wp m Q s"
  by (auto simp: wp_def split: prod.splits)

lemma wp_run: "wp m Q s \<longleftrightarrow> Q (fst (run_state m s)) (snd (run_state m s))"
  by (simp add: wp_def split: prod.splits)


lemma of_nat_u64_nonzero: "0 < k \<Longrightarrow> k < 2 ^ 64 \<Longrightarrow> (of_nat k :: u64) \<noteq> 0"
  by (auto simp: word_of_nat_eq_0_iff dest: nat_dvd_not_less)


text \<open>A call about which nothing is known may return anything in any state.\<close>

lemma wp_any: "(\<And>a t. Q a t) \<Longrightarrow> wp m Q s"
  by (simp add: wp_def split: prod.splits)

lemma wp_runtime [wp_call]:
  "(\<And>a t. Q a t) \<Longrightarrow> wp (rt_now rt) Q s"
  "(\<And>a t. R a t) \<Longrightarrow> wp (rt_ctxErr rt c) R s"
  "(\<And>a t. T a t) \<Longrightarrow> wp (rt_range rt ks) T s"
  by (simp_all add: wp_any)

lemma wp_frame:
  assumes "f (snd (run_state m d)) = f d" and "\<And>r d'. f d' = f d \<Longrightarrow> Q r d'"
  shows "wp m Q d"
  using assms by (simp add: wp_run)

section \<open>Invariants of statements\<close>

named_theorems maintains \<open>rules for statements that keep a condition on the state\<close>

definition maintains :: "('s \<Rightarrow> bool) \<Rightarrow> ('s, 'a) state \<Rightarrow> bool" where
  "maintains I m \<longleftrightarrow> (\<forall>s. I s \<longrightarrow> wp m (\<lambda>_. I) s)"

lemma maintainsI: "(\<And>s. I s \<Longrightarrow> wp m (\<lambda>_. I) s) \<Longrightarrow> maintains I m"
  by (simp add: maintains_def)

lemma maintainsD: "maintains I m \<Longrightarrow> I s \<Longrightarrow> wp m (\<lambda>_. I) s"
  by (simp add: maintains_def)

lemma maintains_run: "maintains I m \<Longrightarrow> I s \<Longrightarrow> I (snd (run_state m s))"
  by (simp add: maintains_def wp_run)

lemma wp_maintains: "maintains I m \<Longrightarrow> I s \<Longrightarrow> (\<And>r t. I t \<Longrightarrow> Q r t) \<Longrightarrow> wp m Q s"
  by (auto simp: maintains_def elim!: allE wp_mono)

lemma maintains_return [maintains]: "maintains I (State_Monad.return x)"
  by (simp add: maintains_def wp)

lemma maintains_bind [maintains]:
  "maintains I m \<Longrightarrow> (\<And>a. maintains I (f a)) \<Longrightarrow> maintains I (State_Monad.bind m f)"
  unfolding maintains_def wp_bind by (blast intro: wp_mono)

lemma maintains_gets [maintains]: "maintains I (gets f)"
  by (simp add: maintains_def wp)

lemma maintains_if [maintains]:
  "(b \<Longrightarrow> maintains I m) \<Longrightarrow> (\<not> b \<Longrightarrow> maintains I n) \<Longrightarrow> maintains I (if b then m else n)"
  by simp

lemma maintains_case_sum [maintains]:
  "(\<And>e. maintains I (f e)) \<Longrightarrow> (\<And>x. maintains I (g x)) \<Longrightarrow>
    maintains I (case r of Inl e \<Rightarrow> f e | Inr x \<Rightarrow> g x)"
  by (simp split: sum.splits)

lemma maintains_case_option [maintains]:
  "maintains I m \<Longrightarrow> (\<And>x. maintains I (g x)) \<Longrightarrow>
    maintains I (case r of None \<Rightarrow> m | Some x \<Rightarrow> g x)"
  by (simp split: option.splits)

lemma maintains_case_prod [maintains]:
  "(\<And>x y. maintains I (f x y)) \<Longrightarrow> maintains I (case p of (x, y) \<Rightarrow> f x y)"
  by (simp split: prod.splits)

lemma maintains_let [maintains]: "maintains I (f x) \<Longrightarrow> maintains I (Let x f)"
  by (simp add: Let_def)

section \<open>Parts of a state\<close>

text \<open>A statement over a part of the state, run on the whole.\<close>

definition zoom ::
  "('w \<Rightarrow> 's) \<Rightarrow> ('s \<Rightarrow> 'w \<Rightarrow> 'w) \<Rightarrow> ('s, 'a) state \<Rightarrow> ('w, 'a) state" where
  "zoom sel upd m = State (\<lambda>w. case run_state m (sel w) of (a, s) \<Rightarrow> (a, upd s w))"

lemma run_state_zoom [simp]:
  "run_state (zoom sel upd m) w = (case run_state m (sel w) of (a, s) \<Rightarrow> (a, upd s w))"
  by (simp add: zoom_def)

lemma wp_zoom [wp]: "wp (zoom sel upd m) Q w = wp m (\<lambda>a s. Q a (upd s w)) (sel w)"
  by (simp add: wp_def split: prod.splits)

end
