(* ===== verification/Go_Strings.thy ===== *)
theory Go_Strings
  imports Go_Prelude
begin

text \<open>
  The functions of Go's \<open>strings\<close>, \<open>strconv\<close> and \<open>fmt\<close> that the program calls, on byte strings.
  The lemmas are the ones the components rest on: \<open>Split\<close> loses nothing but the separator,
  \<open>TrimSpace\<close> leaves no white space at the ends, decimal printing is inverted by \<open>Atoi\<close>.
\<close>

section \<open>Definitions\<close>

fun Split :: "string \<Rightarrow> char \<Rightarrow> string list" where
  "Split [] c = [[]]"
| "Split (x # xs) c =
    (if x = c then [] # Split xs c
     else (case Split xs c of [] \<Rightarrow> [[x]] | p # ps \<Rightarrow> (x # p) # ps))"

fun Join :: "char \<Rightarrow> string list \<Rightarrow> string" where
  "Join c [] = []"
| "Join c [p] = p"
| "Join c (p # q # ps) = p @ c # Join c (q # ps)"

definition isSpace :: "char \<Rightarrow> bool" where
  "isSpace c \<longleftrightarrow> c = CHR '' '' \<or> (9 \<le> (of_char c :: nat) \<and> (of_char c :: nat) \<le> 13)"

definition TrimLeftFunc :: "(char \<Rightarrow> bool) \<Rightarrow> string \<Rightarrow> string" where
  "TrimLeftFunc P s = dropWhile P s"

definition TrimRightFunc :: "(char \<Rightarrow> bool) \<Rightarrow> string \<Rightarrow> string" where
  "TrimRightFunc P s = rev (dropWhile P (rev s))"

definition TrimSpace :: "string \<Rightarrow> string" where
  "TrimSpace s = TrimRightFunc isSpace (TrimLeftFunc isSpace s)"

definition TrimRight :: "string \<Rightarrow> char \<Rightarrow> string" where
  "TrimRight s c = TrimRightFunc (\<lambda>x. x = c) s"

definition HasPrefix :: "string \<Rightarrow> string \<Rightarrow> bool" where
  "HasPrefix s p \<longleftrightarrow> take (length p) s = p"

fun Contains :: "string \<Rightarrow> string \<Rightarrow> bool" where
  "Contains [] sub \<longleftrightarrow> sub = []"
| "Contains (x # xs) sub \<longleftrightarrow> HasPrefix (x # xs) sub \<or> Contains xs sub"

definition lowerChar :: "char \<Rightarrow> char" where
  "lowerChar c = (if 65 \<le> (of_char c :: nat) \<and> (of_char c :: nat) \<le> 90
     then char_of ((of_char c :: nat) + 32) else c)"

definition ToLower :: "string \<Rightarrow> string" where
  "ToLower s = map lowerChar s"

definition ReplaceAll :: "string \<Rightarrow> char \<Rightarrow> string \<Rightarrow> string" where
  "ReplaceAll s c r = concat (map (\<lambda>x. if x = c then r else [x]) s)"

subsection \<open>Decimal numbers\<close>

definition digitChar :: "nat \<Rightarrow> char" where
  "digitChar d = ''0123456789'' ! d"

fun showNat :: "nat \<Rightarrow> string" where
  "showNat n = (if n < 10 then [digitChar n] else showNat (n div 10) @ [digitChar (n mod 10)])"

declare showNat.simps [simp del]

definition showInt :: "int \<Rightarrow> string" where
  "showInt i = (if i < 0 then CHR ''-'' # showNat (nat (- i)) else showNat (nat i))"

definition isDigit :: "char \<Rightarrow> bool" where
  "isDigit c \<longleftrightarrow> 48 \<le> (of_char c :: nat) \<and> (of_char c :: nat) \<le> 57"

definition digitVal :: "char \<Rightarrow> nat" where
  "digitVal c = (of_char c :: nat) - 48"

definition digitsVal :: "string \<Rightarrow> nat" where
  "digitsVal s = foldl (\<lambda>n c. 10 * n + digitVal c) 0 s"

definition parseDigits :: "string \<Rightarrow> nat option" where
  "parseDigits s = (if s \<noteq> [] \<and> list_all isDigit s then Some (digitsVal s) else None)"

text \<open>\<open>strconv.ParseInt (s, 10, 64)\<close>; \<open>strconv.Atoi\<close> is the same function on a 64-bit platform.\<close>

definition inInt64 :: "int \<Rightarrow> bool" where
  "inInt64 i \<longleftrightarrow> - (2 ^ 63) \<le> i \<and> i < 2 ^ 63"

definition checkInt64 :: "int \<Rightarrow> int option" where
  "checkInt64 i = (if inInt64 i then Some i else None)"

definition ParseInt :: "string \<Rightarrow> int option" where
  "ParseInt s = (case s of
      [] \<Rightarrow> None
    | c # cs \<Rightarrow>
        if c = CHR ''-'' then Option.bind (parseDigits cs) (\<lambda>n. checkInt64 (- int n))
        else if c = CHR ''+'' then Option.bind (parseDigits cs) (\<lambda>n. checkInt64 (int n))
        else Option.bind (parseDigits s) (\<lambda>n. checkInt64 (int n)))"

abbreviation Atoi :: "string \<Rightarrow> int option" where
  "Atoi \<equiv> ParseInt"

definition ParseBool :: "string \<Rightarrow> bool option" where
  "ParseBool s =
    (if s \<in> {''1'', ''t'', ''T'', ''TRUE'', ''true'', ''True''} then Some True
     else if s \<in> {''0'', ''f'', ''F'', ''FALSE'', ''false'', ''False''} then Some False
     else None)"

subsection \<open>Formatting\<close>

definition hexChar :: "nat \<Rightarrow> char" where
  "hexChar d = ''0123456789abcdef'' ! d"

definition quoteChar :: "char \<Rightarrow> string" where
  "quoteChar c =
    (let n = (of_char c :: nat); b = char_of (92 :: nat) in
     if n = 34 \<or> n = 92 then [b, c]
     else if n = 7 then b # ''a'' else if n = 8 then b # ''b'' else if n = 9 then b # ''t''
     else if n = 10 then b # ''n'' else if n = 11 then b # ''v'' else if n = 12 then b # ''f''
     else if n = 13 then b # ''r''
     else if n < 32 \<or> n = 127 then b # CHR ''x'' # [hexChar (n div 16), hexChar (n mod 16)]
     else [c])"

text \<open>The verb \<open>%q\<close>.\<close>

definition Quote :: "string \<Rightarrow> string" where
  "Quote s = CHR 0x22 # concat (map quoteChar s) @ [CHR 0x22]"

text \<open>The verb \<open>%t\<close>.\<close>

definition showBool :: "bool \<Rightarrow> string" where
  "showBool b = (if b then ''true'' else ''false'')"

section \<open>Lemmas\<close>

lemma Split_nonempty [simp]: "Split s c \<noteq> []"
  by (induction s) (auto split: list.splits)

lemma Join_Cons_chars: "Join c ((x # p) # ps) = x # Join c (p # ps)"
  by (cases ps) simp_all

lemma Join_Cons_Nil: "ps \<noteq> [] \<Longrightarrow> Join c ([] # ps) = c # Join c ps"
  by (cases ps) simp_all

lemma Join_Split: "Join c (Split s c) = s"
  by (induction s) (auto simp: Join_Cons_chars Join_Cons_Nil split: list.splits)

lemma Split_no_sep: "p \<in> set (Split s c) \<Longrightarrow> c \<notin> set p"
  by (induction s arbitrary: p) (auto split: list.splits if_splits)

lemma Split_id: "c \<notin> set s \<Longrightarrow> Split s c = [s]"
  by (induction s) auto

lemma Split_append_sep: "c \<notin> set p \<Longrightarrow> Split (p @ c # s) c = p # Split s c"
  by (induction p) auto

lemma Split_Join:
  "ps \<noteq> [] \<Longrightarrow> (\<And>p. p \<in> set ps \<Longrightarrow> c \<notin> set p) \<Longrightarrow> Split (Join c ps) c = ps"
  by (induction c ps rule: Join.induct) (auto simp: Split_id Split_append_sep)

lemma dropWhile_hd: "dropWhile P s \<noteq> [] \<Longrightarrow> \<not> P (hd (dropWhile P s))"
  by (rule hd_dropWhile)

lemma TrimRightFunc_Nil [simp]: "TrimRightFunc P [] = []"
  by (simp add: TrimRightFunc_def)

lemma TrimRightFunc_last: "TrimRightFunc P s \<noteq> [] \<Longrightarrow> \<not> P (last (TrimRightFunc P s))"
  by (simp add: TrimRightFunc_def last_rev hd_dropWhile)

lemma TrimRightFunc_prefix: "prefix (TrimRightFunc P s) s"
proof -
  have "suffix (dropWhile P (rev s)) (rev s)" by (rule suffix_dropWhile)
  then show ?thesis by (simp add: TrimRightFunc_def suffix_to_prefix)
qed

lemma TrimRightFunc_id: "s = [] \<or> \<not> P (last s) \<Longrightarrow> TrimRightFunc P s = s"
  by (cases s rule: rev_cases) (auto simp: TrimRightFunc_def)

lemma TrimSpace_hd:
  assumes "TrimSpace s \<noteq> []"
  shows "\<not> isSpace (hd (TrimSpace s))"
proof -
  let ?t = "dropWhile isSpace s"
  from assms have ne: "TrimRightFunc isSpace ?t \<noteq> []"
    by (simp add: TrimSpace_def TrimLeftFunc_def)
  obtain u where u: "?t = TrimRightFunc isSpace ?t @ u"
    using TrimRightFunc_prefix by (auto simp: prefix_def)
  with ne have "hd ?t = hd (TrimRightFunc isSpace ?t)"
    by (metis hd_append2)
  moreover have "?t \<noteq> []" using u ne by (metis Nil_is_append_conv)
  ultimately show ?thesis
    using hd_dropWhile [of isSpace s] by (simp add: TrimSpace_def TrimLeftFunc_def)
qed

lemma TrimSpace_last: "TrimSpace s \<noteq> [] \<Longrightarrow> \<not> isSpace (last (TrimSpace s))"
  by (simp add: TrimSpace_def TrimRightFunc_last)

lemma TrimSpace_trimmed:
  "s = [] \<or> \<not> isSpace (hd s) \<and> \<not> isSpace (last s) \<Longrightarrow> TrimSpace s = s"
  by (cases s) (auto simp: TrimSpace_def TrimLeftFunc_def TrimRightFunc_id)

lemma TrimSpace_idem [simp]: "TrimSpace (TrimSpace s) = TrimSpace s"
  by (rule TrimSpace_trimmed) (use TrimSpace_hd TrimSpace_last in blast)

lemma HasPrefix_iff: "HasPrefix s p \<longleftrightarrow> prefix p s"
  by (auto simp: HasPrefix_def prefix_def) (metis append_take_drop_id)

lemma Contains_iff: "Contains s sub \<longleftrightarrow> sublist sub s"
  by (induction s) (auto simp: HasPrefix_iff sublist_Cons_right)

subsection \<open>Decimal numbers\<close>

lemma digit_cases: "(d :: nat) < 10 \<Longrightarrow> d \<in> {0, 1, 2, 3, 4, 5, 6, 7, 8, 9}"
  by auto

lemma digitChar_ok: "d < 10 \<Longrightarrow> isDigit (digitChar d) \<and> digitVal (digitChar d) = d"
  by (drule digit_cases) (auto simp: digitChar_def isDigit_def digitVal_def)

lemma digitsVal_snoc: "digitsVal (s @ [c]) = 10 * digitsVal s + digitVal c"
  by (simp add: digitsVal_def)

lemma showNat_digits: "list_all isDigit (showNat n)"
  by (induction n rule: showNat.induct) (subst showNat.simps, simp add: digitChar_ok)

lemma showNat_nonempty: "showNat n \<noteq> []"
  by (subst showNat.simps) simp

lemma digitsVal_showNat: "digitsVal (showNat n) = n"
proof (induction n rule: showNat.induct)
  case (1 n)
  show ?case
  proof (cases "n < 10")
    case True
    then show ?thesis
      by (subst showNat.simps) (simp add: digitsVal_def digitChar_ok)
  next
    case False
    then show ?thesis
      using "1" by (subst showNat.simps) (simp add: digitsVal_snoc digitChar_ok)
  qed
qed

lemma parseDigits_showNat [simp]: "parseDigits (showNat n) = Some n"
  by (simp add: parseDigits_def showNat_digits showNat_nonempty digitsVal_showNat)

lemma showNat_Cons: "showNat n = c # cs \<Longrightarrow> isDigit c"
  using showNat_digits [of n] by simp

lemma isDigit_not_sign: "isDigit c \<Longrightarrow> c \<noteq> CHR ''-'' \<and> c \<noteq> CHR ''+''"
  by (auto simp: isDigit_def)

lemma ParseInt_showInt: "inInt64 i \<Longrightarrow> ParseInt (showInt i) = Some i"
proof (cases "i < 0")
  case True
  assume "inInt64 i"
  with True show ?thesis by (simp add: ParseInt_def showInt_def checkInt64_def)
next
  case False
  assume i: "inInt64 i"
  obtain c cs where s: "showNat (nat i) = c # cs"
    using showNat_nonempty by (metis neq_Nil_conv)
  then have "c \<noteq> CHR ''-'' \<and> c \<noteq> CHR ''+''"
    by (blast dest: showNat_Cons isDigit_not_sign)
  with False i s show ?thesis
    using parseDigits_showNat [of "nat i"]
    by (simp add: ParseInt_def showInt_def checkInt64_def)
qed

lemma ParseInt_range: "ParseInt s = Some i \<Longrightarrow> inInt64 i"
  by (auto simp: ParseInt_def checkInt64_def bind_eq_Some_conv split: list.splits if_splits)

lemma showInt_inj: "inInt64 i \<Longrightarrow> inInt64 j \<Longrightarrow> showInt i = showInt j \<Longrightarrow> i = j"
  using ParseInt_showInt by (metis option.inject)

end
