(* ===== verification/HA_Model.thy ===== *)
theory HA_Model
  imports Go_Strings
begin

text \<open>
  The data of \<open>internal/model/model.go\<close>: every struct is a record with the source's fields, each
  field name carrying a short prefix of its struct. A \<open>Role\<close> is a string, as in the source, with
  three named constants: a status read from the network may hold any text. Pointers are options.
  The zero values (\<open>model.NodeStatus{}\<close>, \<open>time.Time{}\<close>) are written out because the code builds
  its values from them.
\<close>

section \<open>Types\<close>

type_synonym Role = string

definition RoleUnknown :: Role where "RoleUnknown = ''unknown''"

definition RolePrimary :: Role where "RolePrimary = ''primary''"

definition RoleReplica :: Role where "RoleReplica = ''replica''"

text \<open>The zero \<open>time.Time\<close>: January 1, year 1, 00:00:00 UTC.\<close>

definition zeroTime :: gotime where "zeroTime = - 62135596800000000000"

record AgentNodeConfig =
  anc_ID :: string
  anc_Address :: string
  anc_AgentURL :: string

record MySQLNodeConfig =
  mnc_ID :: string
  mnc_Address :: string
  mnc_DSN :: string
  mnc_ReplicationUser :: string
  mnc_ReplicationPass :: string

record SwitchAuthorization =
  auth_OperationID :: string
  auth_FromEpoch :: u64
  auth_ToEpoch :: u64

record ReplicaRequest =
  rr_Authorization :: SwitchAuthorization
  rr_Source :: AgentNodeConfig

record OperationRequest =
  or_Authorization :: SwitchAuthorization

record WaitGTIDRequest =
  wr_Authorization :: SwitchAuthorization
  wr_GTID :: string
  wr_TimeoutSeconds :: int

record ReplicaStatus =
  rs_IOThreadRunning :: bool
  rs_SQLThreadRunning :: bool
  rs_SecondsBehind :: "int option"
  rs_LastIOError :: string
  rs_LastSQLError :: string
  rs_ExecutedGTID :: string
  rs_RetrievedGTID :: string

record NodeStatus =
  ns_NodeID :: string
  ns_Address :: string
  ns_Reachable :: bool
  ns_Healthy :: bool
  ns_Role :: Role
  ns_ServerUUID :: string
  ns_ReadOnly :: bool
  ns_SuperReadOnly :: bool
  ns_Replica :: "ReplicaStatus option"
  ns_Error :: string
  ns_CheckedAt :: gotime
  ns_FailureCount :: int

record ClusterState =
  cs_Name :: string
  cs_Primary :: string
  cs_Epoch :: u64
  cs_AutoFailover :: bool
  cs_UpdatedAt :: gotime

record SwitchTask =
  st_ID :: string
  st_From :: string
  st_To :: string
  st_Automatic :: bool
  st_DryRun :: bool
  st_State :: string
  st_Error :: string
  st_StartedAt :: gotime
  st_FinishedAt :: gotime

record AlertEvent =
  ae_NodeID :: string
  ae_Severity :: string
  ae_Title :: string
  ae_Message :: string
  ae_Resolved :: bool
  ae_CreatedAt :: gotime

section \<open>Zero values\<close>

definition zeroAgentNodeConfig :: AgentNodeConfig where
  "zeroAgentNodeConfig = \<lparr>anc_ID = '''', anc_Address = '''', anc_AgentURL = ''''\<rparr>"

definition zeroSwitchAuthorization :: SwitchAuthorization where
  "zeroSwitchAuthorization = \<lparr>auth_OperationID = '''', auth_FromEpoch = 0, auth_ToEpoch = 0\<rparr>"

definition zeroReplicaRequest :: ReplicaRequest where
  "zeroReplicaRequest =
    \<lparr>rr_Authorization = zeroSwitchAuthorization, rr_Source = zeroAgentNodeConfig\<rparr>"

definition zeroOperationRequest :: OperationRequest where
  "zeroOperationRequest = \<lparr>or_Authorization = zeroSwitchAuthorization\<rparr>"

definition zeroWaitGTIDRequest :: WaitGTIDRequest where
  "zeroWaitGTIDRequest = \<lparr>wr_Authorization = zeroSwitchAuthorization, wr_GTID = '''',
     wr_TimeoutSeconds = 0\<rparr>"

definition zeroReplicaStatus :: ReplicaStatus where
  "zeroReplicaStatus = \<lparr>rs_IOThreadRunning = False, rs_SQLThreadRunning = False,
     rs_SecondsBehind = None, rs_LastIOError = '''', rs_LastSQLError = '''',
     rs_ExecutedGTID = '''', rs_RetrievedGTID = ''''\<rparr>"

definition zeroNodeStatus :: NodeStatus where
  "zeroNodeStatus = \<lparr>ns_NodeID = '''', ns_Address = '''', ns_Reachable = False,
     ns_Healthy = False, ns_Role = '''', ns_ServerUUID = '''', ns_ReadOnly = False,
     ns_SuperReadOnly = False, ns_Replica = None, ns_Error = '''', ns_CheckedAt = zeroTime,
     ns_FailureCount = 0\<rparr>"

definition zeroClusterState :: ClusterState where
  "zeroClusterState = \<lparr>cs_Name = '''', cs_Primary = '''', cs_Epoch = 0,
     cs_AutoFailover = False, cs_UpdatedAt = zeroTime\<rparr>"

definition zeroSwitchTask :: SwitchTask where
  "zeroSwitchTask = \<lparr>st_ID = '''', st_From = '''', st_To = '''', st_Automatic = False,
     st_DryRun = False, st_State = '''', st_Error = '''', st_StartedAt = zeroTime,
     st_FinishedAt = zeroTime\<rparr>"

lemmas zero_defs = zeroAgentNodeConfig_def zeroSwitchAuthorization_def zeroReplicaStatus_def
  zeroNodeStatus_def zeroClusterState_def zeroSwitchTask_def

lemmas role_defs = RoleUnknown_def RolePrimary_def RoleReplica_def

lemma role_distinct [simp]:
  "RolePrimary \<noteq> RoleReplica" "RoleReplica \<noteq> RolePrimary"
  "RoleUnknown \<noteq> RolePrimary" "RolePrimary \<noteq> RoleUnknown"
  "RoleUnknown \<noteq> RoleReplica" "RoleReplica \<noteq> RoleUnknown"
  by (simp_all add: role_defs)

section \<open>Predicates the components share\<close>

text \<open>
  A replica whose two replication threads run and whose lag is known: what
  \<open>mysql.Client.Status\<close> calls a healthy replica.
\<close>

definition replicating :: "ReplicaStatus \<Rightarrow> bool" where
  "replicating r \<longleftrightarrow>
    rs_IOThreadRunning r \<and> rs_SQLThreadRunning r \<and> rs_SecondsBehind r \<noteq> None"

definition writable :: "NodeStatus \<Rightarrow> bool" where
  "writable s \<longleftrightarrow> ns_Reachable s \<and> \<not> ns_ReadOnly s \<and> \<not> ns_SuperReadOnly s"

definition confirmedReadOnly :: "NodeStatus \<Rightarrow> bool" where
  "confirmedReadOnly s \<longleftrightarrow> ns_Reachable s \<and> ns_ReadOnly s \<and> ns_SuperReadOnly s"

end
