(* ===== verification/HA_Json.thy ===== *)
theory HA_Json
  imports HA_Model
begin

text \<open>
  \<open>encoding/json\<close> on the structs of \<open>model.go\<close>. A document is a tree with the members of an
  object in the order of the text; bytes that are no JSON are \<open>Malformed\<close>. The struct tags of
  \<open>model.go\<close> fix the member names and \<open>omitempty\<close>: the encoders write them out. Decoding goes
  through the members in order, finds the field by its exact name or else ignoring case, leaves
  a field alone at \<open>null\<close>, and rejects an unknown member only when the decoder was told so
  (\<open>DisallowUnknownFields\<close>). A time token is a constructor of its own: the RFC 3339 text of an
  instant is not spelled out.

  The locale \<open>json_codec\<close> is what the stores and the HTTP layers rely on: decoding an encoded
  value gives it back. It is interpreted for every struct that crosses a process boundary.
\<close>

section \<open>Documents\<close>

datatype json =
    JNull
  | JBool bool
  | JNum int
  | JFrac string
  | JStr string
  | JTime gotime
  | JArr "json list"
  | JObj "(string \<times> json) list"

datatype doc = Doc json | Malformed

fun jsonKind :: "json \<Rightarrow> string" where
  "jsonKind JNull = ''null''"
| "jsonKind (JBool _) = ''bool''"
| "jsonKind (JNum _) = ''number''"
| "jsonKind (JFrac _) = ''number''"
| "jsonKind (JStr _) = ''string''"
| "jsonKind (JTime _) = ''string''"
| "jsonKind (JArr _) = ''array''"
| "jsonKind (JObj _) = ''object''"

definition typeError :: "json \<Rightarrow> string \<Rightarrow> error" where
  "typeError j ty = ''json: cannot unmarshal '' @ jsonKind j @ '' into Go value of type '' @ ty"

definition syntaxError :: error where
  "syntaxError = ''invalid character in JSON text''"

section \<open>Decoding\<close>

fun decString :: "string \<Rightarrow> json \<Rightarrow> error + string" where
  "decString old JNull = Inr old"
| "decString old (JStr s) = Inr s"
| "decString old j = Inl (typeError j ''string'')"

fun decBool :: "bool \<Rightarrow> json \<Rightarrow> error + bool" where
  "decBool old JNull = Inr old"
| "decBool old (JBool b) = Inr b"
| "decBool old j = Inl (typeError j ''bool'')"

fun decInt :: "int \<Rightarrow> json \<Rightarrow> error + int" where
  "decInt old JNull = Inr old"
| "decInt old (JNum i) = (if inInt64 i then Inr i else Inl (typeError (JNum i) ''int''))"
| "decInt old j = Inl (typeError j ''int'')"

fun decIntPtr :: "int option \<Rightarrow> json \<Rightarrow> error + int option" where
  "decIntPtr old JNull = Inr None"
| "decIntPtr old (JNum i) =
    (if inInt64 i then Inr (Some i) else Inl (typeError (JNum i) ''int64''))"
| "decIntPtr old j = Inl (typeError j ''int64'')"

fun decUint64 :: "u64 \<Rightarrow> json \<Rightarrow> error + u64" where
  "decUint64 old JNull = Inr old"
| "decUint64 old (JNum i) =
    (if 0 \<le> i \<and> i < 2 ^ 64 then Inr (word_of_int i) else Inl (typeError (JNum i) ''uint64''))"
| "decUint64 old j = Inl (typeError j ''uint64'')"

fun decTime :: "gotime \<Rightarrow> json \<Rightarrow> error + gotime" where
  "decTime old JNull = Inr old"
| "decTime old (JTime t) = Inr t"
| "decTime old j = Inl (typeError j ''time.Time'')"

type_synonym 'r fields = "(string \<times> ('r \<Rightarrow> json \<Rightarrow> error + 'r)) list"

definition field ::
  "string \<Rightarrow> ('a \<Rightarrow> json \<Rightarrow> error + 'a) \<Rightarrow> ('r \<Rightarrow> 'a) \<Rightarrow> ('a \<Rightarrow> 'r \<Rightarrow> 'r) \<Rightarrow>
    string \<times> ('r \<Rightarrow> json \<Rightarrow> error + 'r)" where
  "field tag dec sel upd =
    (tag, \<lambda>r j. case dec (sel r) j of Inl e \<Rightarrow> Inl e | Inr v \<Rightarrow> Inr (upd v r))"

definition lookupField :: "'r fields \<Rightarrow> string \<Rightarrow> ('r \<Rightarrow> json \<Rightarrow> error + 'r) option" where
  "lookupField fs k = (case map_of fs k of
      Some f \<Rightarrow> Some f
    | None \<Rightarrow> map_option snd (find (\<lambda>f. ToLower (fst f) = ToLower k) fs))"

text \<open>The error reported is that of the first member that has one.\<close>

fun decMembers :: "bool \<Rightarrow> 'r fields \<Rightarrow> 'r \<Rightarrow> (string \<times> json) list \<Rightarrow> error + 'r" where
  "decMembers strict fs r [] = Inr r"
| "decMembers strict fs r ((k, j) # ms) = (case lookupField fs k of
      None \<Rightarrow>
        if strict then Inl (''json: unknown field '' @ Quote k) else decMembers strict fs r ms
    | Some dec \<Rightarrow> (case dec r j of
          Inl e \<Rightarrow> Inl e
        | Inr r' \<Rightarrow> decMembers strict fs r' ms))"

definition decStruct :: "bool \<Rightarrow> string \<Rightarrow> 'r fields \<Rightarrow> 'r \<Rightarrow> json \<Rightarrow> error + 'r" where
  "decStruct strict ty fs r j = (case j of
      JNull \<Rightarrow> Inr r
    | JObj ms \<Rightarrow> decMembers strict fs r ms
    | _ \<Rightarrow> Inl (typeError j ty))"

fun decPtr :: "('r \<Rightarrow> json \<Rightarrow> error + 'r) \<Rightarrow> 'r \<Rightarrow> 'r option \<Rightarrow> json \<Rightarrow> error + 'r option" where
  "decPtr dec z old JNull = Inr None"
| "decPtr dec z old j = (case dec (case old of None \<Rightarrow> z | Some r \<Rightarrow> r) j of
      Inl e \<Rightarrow> Inl e
    | Inr r \<Rightarrow> Inr (Some r))"

text \<open>\<open>json.Unmarshal (data, &v)\<close> and \<open>Decoder.Decode (&v)\<close> with \<open>v\<close> the zero value.\<close>

definition unmarshal :: "('r \<Rightarrow> json \<Rightarrow> error + 'r) \<Rightarrow> 'r \<Rightarrow> doc \<Rightarrow> error + 'r" where
  "unmarshal dec z d = (case d of Malformed \<Rightarrow> Inl syntaxError | Doc j \<Rightarrow> dec z j)"

section \<open>Encoding\<close>

definition omitEmpty :: "string \<Rightarrow> string \<Rightarrow> (string \<times> json) list" where
  "omitEmpty k v = (if v = '''' then [] else [(k, JStr v)])"

definition encIntPtr :: "int option \<Rightarrow> json" where
  "encIntPtr v = (case v of None \<Rightarrow> JNull | Some i \<Rightarrow> JNum i)"

definition encUint64 :: "u64 \<Rightarrow> json" where
  "encUint64 w = JNum (uint w)"

section \<open>The structs\<close>

definition encAgentNodeConfig :: "AgentNodeConfig \<Rightarrow> json" where
  "encAgentNodeConfig n = JObj
    [(''id'', JStr (anc_ID n)), (''address'', JStr (anc_Address n)),
     (''agent_url'', JStr (anc_AgentURL n))]"

definition decAgentNodeConfig :: "bool \<Rightarrow> AgentNodeConfig \<Rightarrow> json \<Rightarrow> error + AgentNodeConfig" where
  "decAgentNodeConfig strict = decStruct strict ''model.AgentNodeConfig''
    [field ''id'' decString anc_ID (\<lambda>v. anc_ID_update (\<lambda>_. v)),
     field ''address'' decString anc_Address (\<lambda>v. anc_Address_update (\<lambda>_. v)),
     field ''agent_url'' decString anc_AgentURL (\<lambda>v. anc_AgentURL_update (\<lambda>_. v))]"

definition encSwitchAuthorization :: "SwitchAuthorization \<Rightarrow> json" where
  "encSwitchAuthorization a = JObj
    [(''operation_id'', JStr (auth_OperationID a)), (''from_epoch'', encUint64 (auth_FromEpoch a)),
     (''to_epoch'', encUint64 (auth_ToEpoch a))]"

definition decSwitchAuthorization ::
  "bool \<Rightarrow> SwitchAuthorization \<Rightarrow> json \<Rightarrow> error + SwitchAuthorization" where
  "decSwitchAuthorization strict = decStruct strict ''model.SwitchAuthorization''
    [field ''operation_id'' decString auth_OperationID (\<lambda>v. auth_OperationID_update (\<lambda>_. v)),
     field ''from_epoch'' decUint64 auth_FromEpoch (\<lambda>v. auth_FromEpoch_update (\<lambda>_. v)),
     field ''to_epoch'' decUint64 auth_ToEpoch (\<lambda>v. auth_ToEpoch_update (\<lambda>_. v))]"

definition encReplicaRequest :: "ReplicaRequest \<Rightarrow> json" where
  "encReplicaRequest r = JObj
    [(''authorization'', encSwitchAuthorization (rr_Authorization r)),
     (''source'', encAgentNodeConfig (rr_Source r))]"

definition decReplicaRequest :: "bool \<Rightarrow> ReplicaRequest \<Rightarrow> json \<Rightarrow> error + ReplicaRequest" where
  "decReplicaRequest strict = decStruct strict ''model.ReplicaRequest''
    [field ''authorization'' (decSwitchAuthorization strict) rr_Authorization
       (\<lambda>v. rr_Authorization_update (\<lambda>_. v)),
     field ''source'' (decAgentNodeConfig strict) rr_Source (\<lambda>v. rr_Source_update (\<lambda>_. v))]"

definition encOperationRequest :: "OperationRequest \<Rightarrow> json" where
  "encOperationRequest r =
    JObj [(''authorization'', encSwitchAuthorization (or_Authorization r))]"

definition decOperationRequest :: "bool \<Rightarrow> OperationRequest \<Rightarrow> json \<Rightarrow> error + OperationRequest" where
  "decOperationRequest strict = decStruct strict ''model.OperationRequest''
    [field ''authorization'' (decSwitchAuthorization strict) or_Authorization
       (\<lambda>v. or_Authorization_update (\<lambda>_. v))]"

definition encWaitGTIDRequest :: "WaitGTIDRequest \<Rightarrow> json" where
  "encWaitGTIDRequest r = JObj
    [(''authorization'', encSwitchAuthorization (wr_Authorization r)),
     (''gtid'', JStr (wr_GTID r)), (''timeout_seconds'', JNum (wr_TimeoutSeconds r))]"

definition decWaitGTIDRequest :: "bool \<Rightarrow> WaitGTIDRequest \<Rightarrow> json \<Rightarrow> error + WaitGTIDRequest" where
  "decWaitGTIDRequest strict = decStruct strict ''model.WaitGTIDRequest''
    [field ''authorization'' (decSwitchAuthorization strict) wr_Authorization
       (\<lambda>v. wr_Authorization_update (\<lambda>_. v)),
     field ''gtid'' decString wr_GTID (\<lambda>v. wr_GTID_update (\<lambda>_. v)),
     field ''timeout_seconds'' decInt wr_TimeoutSeconds (\<lambda>v. wr_TimeoutSeconds_update (\<lambda>_. v))]"

definition encReplicaStatus :: "ReplicaStatus \<Rightarrow> json" where
  "encReplicaStatus r = JObj
    ([(''io_thread_running'', JBool (rs_IOThreadRunning r)),
      (''sql_thread_running'', JBool (rs_SQLThreadRunning r)),
      (''seconds_behind'', encIntPtr (rs_SecondsBehind r))]
     @ omitEmpty ''last_io_error'' (rs_LastIOError r)
     @ omitEmpty ''last_sql_error'' (rs_LastSQLError r)
     @ omitEmpty ''executed_gtid'' (rs_ExecutedGTID r)
     @ omitEmpty ''retrieved_gtid'' (rs_RetrievedGTID r))"

definition decReplicaStatus :: "bool \<Rightarrow> ReplicaStatus \<Rightarrow> json \<Rightarrow> error + ReplicaStatus" where
  "decReplicaStatus strict = decStruct strict ''model.ReplicaStatus''
    [field ''io_thread_running'' decBool rs_IOThreadRunning (\<lambda>v. rs_IOThreadRunning_update (\<lambda>_. v)),
     field ''sql_thread_running'' decBool rs_SQLThreadRunning
       (\<lambda>v. rs_SQLThreadRunning_update (\<lambda>_. v)),
     field ''seconds_behind'' decIntPtr rs_SecondsBehind (\<lambda>v. rs_SecondsBehind_update (\<lambda>_. v)),
     field ''last_io_error'' decString rs_LastIOError (\<lambda>v. rs_LastIOError_update (\<lambda>_. v)),
     field ''last_sql_error'' decString rs_LastSQLError (\<lambda>v. rs_LastSQLError_update (\<lambda>_. v)),
     field ''executed_gtid'' decString rs_ExecutedGTID (\<lambda>v. rs_ExecutedGTID_update (\<lambda>_. v)),
     field ''retrieved_gtid'' decString rs_RetrievedGTID (\<lambda>v. rs_RetrievedGTID_update (\<lambda>_. v))]"

definition encNodeStatus :: "NodeStatus \<Rightarrow> json" where
  "encNodeStatus s = JObj
    ([(''node_id'', JStr (ns_NodeID s)), (''address'', JStr (ns_Address s)),
      (''reachable'', JBool (ns_Reachable s)), (''healthy'', JBool (ns_Healthy s)),
      (''role'', JStr (ns_Role s))]
     @ omitEmpty ''server_uuid'' (ns_ServerUUID s)
     @ [(''read_only'', JBool (ns_ReadOnly s)), (''super_read_only'', JBool (ns_SuperReadOnly s))]
     @ (case ns_Replica s of None \<Rightarrow> [] | Some r \<Rightarrow> [(''replica'', encReplicaStatus r)])
     @ omitEmpty ''error'' (ns_Error s)
     @ [(''checked_at'', JTime (ns_CheckedAt s)), (''failure_count'', JNum (ns_FailureCount s))])"

definition decNodeStatus :: "bool \<Rightarrow> NodeStatus \<Rightarrow> json \<Rightarrow> error + NodeStatus" where
  "decNodeStatus strict = decStruct strict ''model.NodeStatus''
    [field ''node_id'' decString ns_NodeID (\<lambda>v. ns_NodeID_update (\<lambda>_. v)),
     field ''address'' decString ns_Address (\<lambda>v. ns_Address_update (\<lambda>_. v)),
     field ''reachable'' decBool ns_Reachable (\<lambda>v. ns_Reachable_update (\<lambda>_. v)),
     field ''healthy'' decBool ns_Healthy (\<lambda>v. ns_Healthy_update (\<lambda>_. v)),
     field ''role'' decString ns_Role (\<lambda>v. ns_Role_update (\<lambda>_. v)),
     field ''server_uuid'' decString ns_ServerUUID (\<lambda>v. ns_ServerUUID_update (\<lambda>_. v)),
     field ''read_only'' decBool ns_ReadOnly (\<lambda>v. ns_ReadOnly_update (\<lambda>_. v)),
     field ''super_read_only'' decBool ns_SuperReadOnly (\<lambda>v. ns_SuperReadOnly_update (\<lambda>_. v)),
     field ''replica'' (decPtr (decReplicaStatus strict) zeroReplicaStatus) ns_Replica
       (\<lambda>v. ns_Replica_update (\<lambda>_. v)),
     field ''error'' decString ns_Error (\<lambda>v. ns_Error_update (\<lambda>_. v)),
     field ''checked_at'' decTime ns_CheckedAt (\<lambda>v. ns_CheckedAt_update (\<lambda>_. v)),
     field ''failure_count'' decInt ns_FailureCount (\<lambda>v. ns_FailureCount_update (\<lambda>_. v))]"

definition encClusterState :: "ClusterState \<Rightarrow> json" where
  "encClusterState c = JObj
    [(''name'', JStr (cs_Name c)), (''primary'', JStr (cs_Primary c)),
     (''epoch'', encUint64 (cs_Epoch c)), (''auto_failover'', JBool (cs_AutoFailover c)),
     (''updated_at'', JTime (cs_UpdatedAt c))]"

definition decClusterState :: "bool \<Rightarrow> ClusterState \<Rightarrow> json \<Rightarrow> error + ClusterState" where
  "decClusterState strict = decStruct strict ''model.ClusterState''
    [field ''name'' decString cs_Name (\<lambda>v. cs_Name_update (\<lambda>_. v)),
     field ''primary'' decString cs_Primary (\<lambda>v. cs_Primary_update (\<lambda>_. v)),
     field ''epoch'' decUint64 cs_Epoch (\<lambda>v. cs_Epoch_update (\<lambda>_. v)),
     field ''auto_failover'' decBool cs_AutoFailover (\<lambda>v. cs_AutoFailover_update (\<lambda>_. v)),
     field ''updated_at'' decTime cs_UpdatedAt (\<lambda>v. cs_UpdatedAt_update (\<lambda>_. v))]"

definition encSwitchTask :: "SwitchTask \<Rightarrow> json" where
  "encSwitchTask t = JObj
    ([(''id'', JStr (st_ID t))] @ omitEmpty ''from'' (st_From t)
     @ [(''to'', JStr (st_To t)), (''automatic'', JBool (st_Automatic t)),
        (''dry_run'', JBool (st_DryRun t)), (''state'', JStr (st_State t))]
     @ omitEmpty ''error'' (st_Error t)
     @ [(''started_at'', JTime (st_StartedAt t)), (''finished_at'', JTime (st_FinishedAt t))])"

definition decSwitchTask :: "bool \<Rightarrow> SwitchTask \<Rightarrow> json \<Rightarrow> error + SwitchTask" where
  "decSwitchTask strict = decStruct strict ''model.SwitchTask''
    [field ''id'' decString st_ID (\<lambda>v. st_ID_update (\<lambda>_. v)),
     field ''from'' decString st_From (\<lambda>v. st_From_update (\<lambda>_. v)),
     field ''to'' decString st_To (\<lambda>v. st_To_update (\<lambda>_. v)),
     field ''automatic'' decBool st_Automatic (\<lambda>v. st_Automatic_update (\<lambda>_. v)),
     field ''dry_run'' decBool st_DryRun (\<lambda>v. st_DryRun_update (\<lambda>_. v)),
     field ''state'' decString st_State (\<lambda>v. st_State_update (\<lambda>_. v)),
     field ''error'' decString st_Error (\<lambda>v. st_Error_update (\<lambda>_. v)),
     field ''started_at'' decTime st_StartedAt (\<lambda>v. st_StartedAt_update (\<lambda>_. v)),
     field ''finished_at'' decTime st_FinishedAt (\<lambda>v. st_FinishedAt_update (\<lambda>_. v))]"

section \<open>Round trips\<close>

locale json_codec =
  fixes enc :: "'r \<Rightarrow> json"
    and dec :: "'r \<Rightarrow> json \<Rightarrow> error + 'r"
    and zero :: 'r
    and wf :: "'r \<Rightarrow> bool"
  assumes dec_enc: "wf r \<Longrightarrow> dec zero (enc r) = Inr r"
begin

lemma unmarshal_enc: "wf r \<Longrightarrow> unmarshal dec zero (Doc (enc r)) = Inr r"
  by (simp add: unmarshal_def dec_enc)

lemma enc_inj: "wf r \<Longrightarrow> wf r' \<Longrightarrow> enc r = enc r' \<longleftrightarrow> r = r'"
  by (metis dec_enc sum.inject(2))

end

lemma fst_field [simp]: "fst (field t dec sel upd) = t"
  by (simp add: field_def)

lemma snd_field [simp]:
  "snd (field t dec sel upd) r j =
    (case dec (sel r) j of Inl e \<Rightarrow> Inl e | Inr v \<Rightarrow> Inr (upd v r))"
  by (simp add: field_def)

text \<open>A member whose name is a field's exact name is decoded by that field.\<close>

lemma decMembers_known:
  "map_of fs k \<noteq> None \<Longrightarrow> decMembers strict fs r ((k, j) # ms) =
    (case the (map_of fs k) r j of Inl e \<Rightarrow> Inl e | Inr r' \<Rightarrow> decMembers strict fs r' ms)"
  by (auto simp: decMembers.simps(2) lookupField_def)

declare decMembers.simps(2) [simp del]

lemma decUint64_enc [simp]: "decUint64 old (encUint64 w) = Inr w"
proof -
  have "uint w < 2 ^ 64" using uint_lt2p [of w] by simp
  then show ?thesis by (simp add: encUint64_def)
qed

definition wfReplicaStatus :: "ReplicaStatus \<Rightarrow> bool" where
  "wfReplicaStatus r \<longleftrightarrow> (case rs_SecondsBehind r of None \<Rightarrow> True | Some i \<Rightarrow> inInt64 i)"

definition wfNodeStatus :: "NodeStatus \<Rightarrow> bool" where
  "wfNodeStatus s \<longleftrightarrow> inInt64 (ns_FailureCount s) \<and>
    (case ns_Replica s of None \<Rightarrow> True | Some r \<Rightarrow> wfReplicaStatus r)"

lemma decIntPtr_enc:
  "wfReplicaStatus r \<Longrightarrow>
    decIntPtr old (encIntPtr (rs_SecondsBehind r)) = Inr (rs_SecondsBehind r)"
  by (auto simp: encIntPtr_def wfReplicaStatus_def split: option.splits)

interpretation anc: json_codec encAgentNodeConfig "decAgentNodeConfig strict"
  zeroAgentNodeConfig "\<lambda>_. True" for strict
  by unfold_locales (simp add: encAgentNodeConfig_def decAgentNodeConfig_def decStruct_def
    zeroAgentNodeConfig_def decMembers_known)

interpretation auth: json_codec encSwitchAuthorization "decSwitchAuthorization strict"
  zeroSwitchAuthorization "\<lambda>_. True" for strict
  by unfold_locales (simp add: encSwitchAuthorization_def decSwitchAuthorization_def
    decStruct_def zeroSwitchAuthorization_def decMembers_known)

interpretation cstate: json_codec encClusterState "decClusterState strict"
  zeroClusterState "\<lambda>_. True" for strict
  by unfold_locales (simp add: encClusterState_def decClusterState_def decStruct_def
    zeroClusterState_def decMembers_known)

interpretation stask: json_codec encSwitchTask "decSwitchTask strict"
  zeroSwitchTask "\<lambda>_. True" for strict
  by unfold_locales (simp add: encSwitchTask_def decSwitchTask_def decStruct_def
    zeroSwitchTask_def decMembers_known omitEmpty_def)

interpretation rstatus: json_codec encReplicaStatus "decReplicaStatus strict"
  zeroReplicaStatus wfReplicaStatus for strict
  by unfold_locales (simp add: encReplicaStatus_def decReplicaStatus_def decStruct_def
    zeroReplicaStatus_def decMembers_known omitEmpty_def decIntPtr_enc)

interpretation nstatus: json_codec encNodeStatus "decNodeStatus strict"
  zeroNodeStatus wfNodeStatus for strict
proof unfold_locales
  fix s assume wf: "wfNodeStatus s"
  show "decNodeStatus strict zeroNodeStatus (encNodeStatus s) = Inr s"
  proof (cases "ns_Replica s")
    case None
    with wf show ?thesis
      by (simp add: encNodeStatus_def decNodeStatus_def decStruct_def zeroNodeStatus_def
        decMembers_known omitEmpty_def wfNodeStatus_def)
  next
    case (Some r)
    with wf have r: "decPtr (decReplicaStatus strict) zeroReplicaStatus None (encReplicaStatus r) =
        Inr (Some r)"
      using rstatus.dec_enc [of r strict]
      by (simp add: wfNodeStatus_def encReplicaStatus_def)
    from Some wf r show ?thesis
      by (simp add: encNodeStatus_def decNodeStatus_def decStruct_def zeroNodeStatus_def
        decMembers_known omitEmpty_def wfNodeStatus_def)
  qed
qed

interpretation opreq: json_codec encOperationRequest "decOperationRequest strict"
  zeroOperationRequest "\<lambda>_. True" for strict
  by unfold_locales (simp add: encOperationRequest_def decOperationRequest_def decStruct_def
    zeroOperationRequest_def decMembers_known auth.dec_enc)

interpretation rreq: json_codec encReplicaRequest "decReplicaRequest strict"
  zeroReplicaRequest "\<lambda>_. True" for strict
  by unfold_locales (simp add: encReplicaRequest_def decReplicaRequest_def decStruct_def
    zeroReplicaRequest_def decMembers_known auth.dec_enc anc.dec_enc)

interpretation wreq: json_codec encWaitGTIDRequest "decWaitGTIDRequest strict"
  zeroWaitGTIDRequest "\<lambda>r. inInt64 (wr_TimeoutSeconds r)" for strict
  by unfold_locales (simp add: encWaitGTIDRequest_def decWaitGTIDRequest_def decStruct_def
    zeroWaitGTIDRequest_def decMembers_known auth.dec_enc)

end
