(* ===== verification/HA_Mysql.thy ===== *)
theory HA_Mysql
  imports HA_Json
begin

text \<open>
  \<open>internal/mysql/client.go\<close>: the agent's client of its local MySQL server. The handle
  \<open>*sql.DB\<close> and the server behind it are the record \<open>DB\<close> of the calls the client makes, over a
  state \<open>'d\<close>; the conversions of \<open>database/sql\<close> from column values to Go variables are written
  out. \<open>rt\<close> is the Go runtime over the same state (the clock).
\<close>

section \<open>The database handle\<close>

text \<open>A column value as the driver hands it over; \<open>SqlOther\<close> carries its \<open>fmt.Sprint\<close> text.\<close>

datatype sqlval = SqlNull | SqlInt int | SqlBytes string | SqlOther string

text \<open>What the client asks of \<open>*sql.Rows\<close>, in its order: \<open>Next\<close>, \<open>Err\<close>, \<open>Columns\<close>, \<open>Scan\<close>.\<close>

record Rows =
  rows_Next :: bool
  rows_Err :: "error option"
  rows_Columns :: "error + string list"
  rows_Scan :: "error + sqlval list"

text \<open>
  \<open>db_QueryRow\<close> is \<open>QueryRowContext\<close> up to the conversions of \<open>Scan\<close>: the values of the first row,
  or the error (no row is an error).
\<close>

record 'd DB =
  db_Ping :: "ctx \<Rightarrow> ('d, error option) state"
  db_QueryRow :: "ctx \<Rightarrow> string \<Rightarrow> sqlval list \<Rightarrow> ('d, error + sqlval list) state"
  db_Query :: "ctx \<Rightarrow> string \<Rightarrow> ('d, error + Rows) state"
  db_Exec :: "ctx \<Rightarrow> string \<Rightarrow> ('d, error option) state"
  db_Close :: "('d, error option) state"

text \<open>
  The client: its configuration, its handle and the limits of the pool behind it. \<open>sqlOpen\<close> is
  \<open>sql.Open\<close>.
\<close>

record 'd MysqlClient =
  mc_config :: MySQLNodeConfig
  mc_db :: "'d DB"
  mc_ConnMaxLifetime :: int
  mc_MaxOpenConns :: int
  mc_MaxIdleConns :: int

definition Mysql_NewClient ::
  "(string \<Rightarrow> string \<Rightarrow> error + 'd DB) \<Rightarrow> MySQLNodeConfig \<Rightarrow> error + 'd MysqlClient" where
  "Mysql_NewClient sqlOpen config = (case sqlOpen ''mysql'' (mnc_DSN config) of
      Inl err \<Rightarrow> Inl err
    | Inr db \<Rightarrow> Inr \<lparr>mc_config = config, mc_db = db, mc_ConnMaxLifetime = 300000000000,
        mc_MaxOpenConns = 4, mc_MaxIdleConns = 2\<rparr>)"

definition Mysql_Close :: "'d DB \<Rightarrow> ('d, error option) state" where
  "Mysql_Close db = db_Close db"

definition scanError :: "nat \<Rightarrow> string \<Rightarrow> error" where
  "scanError i what = ''sql: Scan error on column index '' @ showNat i @ '': '' @ what"

fun scanString :: "sqlval \<Rightarrow> string option" where
  "scanString SqlNull = None"
| "scanString (SqlInt i) = Some (showInt i)"
| "scanString (SqlBytes s) = Some s"
| "scanString (SqlOther s) = Some s"

fun scanBool :: "sqlval \<Rightarrow> bool option" where
  "scanBool (SqlInt i) = (if i = 1 then Some True else if i = 0 then Some False else None)"
| "scanBool (SqlBytes s) = ParseBool s"
| "scanBool _ = None"

text \<open>\<open>sql.NullInt64\<close>: \<open>None\<close> is a conversion error, \<open>Some None\<close> a NULL.\<close>

fun scanNullInt64 :: "sqlval \<Rightarrow> int option option" where
  "scanNullInt64 SqlNull = Some None"
| "scanNullInt64 (SqlInt i) = Some (Some i)"
| "scanNullInt64 (SqlBytes s) = map_option Some (ParseInt s)"
| "scanNullInt64 (SqlOther s) = map_option Some (ParseInt s)"

definition scanCount :: "nat \<Rightarrow> nat \<Rightarrow> error" where
  "scanCount expected got = ''sql: expected '' @ showNat expected @
     '' destination arguments in Scan, not '' @ showNat got"

section \<open>Pure helpers\<close>

fun first :: "string list \<Rightarrow> string" where
  "first [] = ''''"
| "first (v # vs) = (if v \<noteq> '''' then v else first vs)"

definition splitAddress :: "string \<Rightarrow> string \<times> int" where
  "splitAddress address = (case Split address CHR '':'' of
      [host, port] \<Rightarrow> (case Atoi port of Some n \<Rightarrow> (host, n) | None \<Rightarrow> (address, 3306))
    | _ \<Rightarrow> (address, 3306))"

abbreviation backslash :: char where "backslash \<equiv> CHR 0x5C"
abbreviation apostrophe :: char where "apostrophe \<equiv> CHR 0x27"

definition quoteSQL :: "string \<Rightarrow> string" where
  "quoteSQL value =
     ReplaceAll (ReplaceAll value backslash [backslash, backslash])
       apostrophe [backslash, apostrophe]"

definition replicaChannelAbsent :: "error \<Rightarrow> bool" where
  "replicaChannelAbsent err = (let message = ToLower err in
     Contains message ''not running'' \<or>
     Contains message ''not configured as a replica'' \<or>
     Contains message ''no replica defined for channel'' \<or>
     Contains message ''no channels exist'')"

section \<open>Reading the state of the server\<close>

text \<open>\<open>Scan (&ServerUUID, &ReadOnly, &SuperReadOnly)\<close>: the variables before a failing one are set.\<close>

definition scanGlobals :: "NodeStatus \<Rightarrow> sqlval list \<Rightarrow> NodeStatus \<times> error option" where
  "scanGlobals status vs = (case vs of
      [uuid, ro, sro] \<Rightarrow> (case scanString uuid of
          None \<Rightarrow> (status, Some (scanError 0 ''server_uuid''))
        | Some u \<Rightarrow> (let status = status\<lparr>ns_ServerUUID := u\<rparr> in case scanBool ro of
              None \<Rightarrow> (status, Some (scanError 1 ''read_only''))
            | Some r \<Rightarrow> (let status = status\<lparr>ns_ReadOnly := r\<rparr> in case scanBool sro of
                  None \<Rightarrow> (status, Some (scanError 2 ''super_read_only''))
                | Some s \<Rightarrow> (status\<lparr>ns_SuperReadOnly := s\<rparr>, None))))
    | _ \<Rightarrow> (status, Some (scanCount (length vs) 3)))"

text \<open>The loop that turns a row into a map from column to text; NULLs are left out.\<close>

fun rowFields :: "string list \<Rightarrow> sqlval list \<Rightarrow> (string, string) gomap \<Rightarrow> (string, string) gomap" where
  "rowFields (column # columns) (SqlNull # values) fs = rowFields columns values fs"
| "rowFields (column # columns) (SqlInt i # values) fs =
     rowFields columns values (AList.update column (showInt i) fs)"
| "rowFields (column # columns) (SqlBytes s # values) fs =
     rowFields columns values (AList.update column s fs)"
| "rowFields (column # columns) (SqlOther s # values) fs =
     rowFields columns values (AList.update column s fs)"
| "rowFields _ _ fs = fs"

definition fieldOf :: "(string, string) gomap \<Rightarrow> string \<Rightarrow> string" where
  "fieldOf fs k = (case map_of fs k of None \<Rightarrow> '''' | Some v \<Rightarrow> v)"

definition parseReplica :: "(string, string) gomap \<Rightarrow> ReplicaStatus" where
  "parseReplica fs = (let f = fieldOf fs;
     lag = first [f ''Seconds_Behind_Source'', f ''Seconds_Behind_Master''] in
     \<lparr>rs_IOThreadRunning = f ''Replica_IO_Running'' = ''Yes'' \<or> f ''Slave_IO_Running'' = ''Yes'',
      rs_SQLThreadRunning = f ''Replica_SQL_Running'' = ''Yes'' \<or> f ''Slave_SQL_Running'' = ''Yes'',
      rs_SecondsBehind = (if lag \<noteq> '''' \<and> lag \<noteq> ''NULL'' then ParseInt lag else None),
      rs_LastIOError = f ''Last_IO_Error'',
      rs_LastSQLError = f ''Last_SQL_Error'',
      rs_ExecutedGTID = first [f ''Executed_Gtid_Set'', f ''Exec_Source_Log_Pos''],
      rs_RetrievedGTID = first [f ''Retrieved_Gtid_Set'', f ''Retrieved_GTID_Set'']\<rparr>)"

definition readReplica :: "Rows \<Rightarrow> error + ReplicaStatus" where
  "readReplica rows =
     (if \<not> rows_Next rows then (case rows_Err rows of
          Some err \<Rightarrow> Inl err
        | None \<Rightarrow> Inl ''replica status is empty'')
      else (case rows_Columns rows of
          Inl err \<Rightarrow> Inl err
        | Inr columns \<Rightarrow> (case rows_Scan rows of
              Inl err \<Rightarrow> Inl err
            | Inr values \<Rightarrow> Inr (parseReplica (rowFields columns values [])))))"

definition replicaStatus :: "'d DB \<Rightarrow> ctx \<Rightarrow> ('d, error + ReplicaStatus) state" where
  "replicaStatus db c = do {
     r \<leftarrow> db_Query db c ''SHOW REPLICA STATUS'';
     r \<leftarrow> (case r of
         Inl err \<Rightarrow> db_Query db c ''SHOW SLAVE STATUS''
       | Inr rows \<Rightarrow> State_Monad.return (Inr rows));
     State_Monad.return (case r of Inl err \<Rightarrow> Inl err | Inr rows \<Rightarrow> readReplica rows)
   }"

definition globalsQuery :: string where
  "globalsQuery = ''SELECT @@GLOBAL.server_uuid, @@GLOBAL.read_only, @@GLOBAL.super_read_only''"

definition Mysql_Status ::
  "'d Runtime \<Rightarrow> 'd DB \<Rightarrow> MySQLNodeConfig \<Rightarrow> ctx \<Rightarrow> ('d, NodeStatus) state" where
  "Mysql_Status rt db config c = do {
     now \<leftarrow> rt_now rt;
     let status = zeroNodeStatus\<lparr>ns_NodeID := mnc_ID config, ns_Address := mnc_Address config,
       ns_CheckedAt := now, ns_Role := RoleUnknown\<rparr>;
     ping \<leftarrow> db_Ping db c;
     (case ping of
        Some err \<Rightarrow> State_Monad.return (status\<lparr>ns_Error := err\<rparr>)
      | None \<Rightarrow> do {
          let status = status\<lparr>ns_Reachable := True\<rparr>;
          row \<leftarrow> db_QueryRow db c globalsQuery [];
          (case (case row of Inl err \<Rightarrow> (status, Some err) | Inr vs \<Rightarrow> scanGlobals status vs) of
             (status, Some err) \<Rightarrow> State_Monad.return (status\<lparr>ns_Error := err\<rparr>)
           | (status, None) \<Rightarrow>
               if \<not> ns_ReadOnly status \<and> \<not> ns_SuperReadOnly status
               then State_Monad.return (status\<lparr>ns_Role := RolePrimary, ns_Healthy := True\<rparr>)
               else do {
                 r \<leftarrow> replicaStatus db c;
                 State_Monad.return (case r of
                     Inl err \<Rightarrow> status\<lparr>ns_Error := err, ns_Role := RoleReplica\<rparr>
                   | Inr replica \<Rightarrow> status\<lparr>ns_Role := RoleReplica, ns_Replica := Some replica,
                       ns_Healthy := rs_IOThreadRunning replica \<and> rs_SQLThreadRunning replica \<and>
                         rs_SecondsBehind replica \<noteq> None\<rparr>)
               })
        })
   }"

definition Mysql_ExecutedGTID :: "'d DB \<Rightarrow> ctx \<Rightarrow> ('d, error + string) state" where
  "Mysql_ExecutedGTID db c = do {
     row \<leftarrow> db_QueryRow db c ''SELECT @@GLOBAL.gtid_executed'' [];
     State_Monad.return (case row of
         Inl err \<Rightarrow> Inl err
       | Inr [v] \<Rightarrow> (case scanString v of
             None \<Rightarrow> Inl (scanError 0 ''gtid_executed'')
           | Some gtids \<Rightarrow> Inr gtids)
       | Inr vs \<Rightarrow> Inl (scanCount (length vs) 1))
   }"

definition Mysql_WaitForGTID :: "'d DB \<Rightarrow> ctx \<Rightarrow> string \<Rightarrow> int \<Rightarrow> ('d, error option) state" where
  "Mysql_WaitForGTID db c gtids timeoutSeconds =
     (if gtids = '''' then State_Monad.return (Some ''source GTID set is empty'')
      else do {
        row \<leftarrow> db_QueryRow db c ''SELECT WAIT_FOR_EXECUTED_GTID_SET(?, ?)''
          [SqlBytes gtids, SqlInt timeoutSeconds];
        State_Monad.return (case row of
            Inl err \<Rightarrow> Some err
          | Inr [v] \<Rightarrow> (case scanNullInt64 v of
                None \<Rightarrow> Some (scanError 0 ''WAIT_FOR_EXECUTED_GTID_SET'')
              | Some timedOut \<Rightarrow>
                  if timedOut \<noteq> Some 0
                  then Some ''replica did not catch up to source GTID set'' else None)
          | Inr vs \<Rightarrow> Some (scanCount (length vs) 1))
      })"

section \<open>Changing the role of the server\<close>

definition SetReadOnly :: "'d DB \<Rightarrow> ctx \<Rightarrow> bool \<Rightarrow> ('d, error option) state" where
  "SetReadOnly db c readOnly = do {
     let value = (if readOnly then ''ON'' else ''OFF'');
     r \<leftarrow> db_Exec db c (''SET GLOBAL super_read_only = '' @ value);
     (case r of
        Some err \<Rightarrow> State_Monad.return (Some err)
      | None \<Rightarrow> db_Exec db c (''SET GLOBAL read_only = '' @ value))
   }"

text \<open>An \<open>Exec\<close> whose error is ignored where it says that there is no replication channel.\<close>

definition execReplica :: "'d DB \<Rightarrow> ctx \<Rightarrow> string \<Rightarrow> ('d, error option) state" where
  "execReplica db c query = do {
     r \<leftarrow> db_Exec db c query;
     State_Monad.return (case r of
         None \<Rightarrow> None
       | Some err \<Rightarrow> if replicaChannelAbsent err then None else Some err)
   }"

definition Mysql_Promote :: "'d DB \<Rightarrow> ctx \<Rightarrow> ('d, error option) state" where
  "Mysql_Promote db c = do {
     r \<leftarrow> execReplica db c ''STOP REPLICA'';
     (case r of
        Some err \<Rightarrow> State_Monad.return (Some err)
      | None \<Rightarrow> do {
          r \<leftarrow> execReplica db c ''RESET REPLICA ALL'';
          (case r of
             Some err \<Rightarrow> State_Monad.return (Some err)
           | None \<Rightarrow> SetReadOnly db c False)
        })
   }"

definition Mysql_Demote :: "'d DB \<Rightarrow> ctx \<Rightarrow> ('d, error option) state" where
  "Mysql_Demote db c = SetReadOnly db c True"

definition changeSourceQuery :: "string \<Rightarrow> int \<Rightarrow> string \<Rightarrow> string \<Rightarrow> string" where
  "changeSourceQuery host port user pass =
     ''CHANGE REPLICATION SOURCE TO SOURCE_HOST = '' @ [apostrophe] @ quoteSQL host @ [apostrophe] @
     '', SOURCE_PORT = '' @ showInt port @
     '', SOURCE_USER = '' @ [apostrophe] @ quoteSQL user @ [apostrophe] @
     '', SOURCE_PASSWORD = '' @ [apostrophe] @ quoteSQL pass @ [apostrophe] @
     '', SOURCE_AUTO_POSITION = 1''"

definition Mysql_ReconfigureReplica ::
  "'d DB \<Rightarrow> MySQLNodeConfig \<Rightarrow> ctx \<Rightarrow> AgentNodeConfig \<Rightarrow> ('d, error option) state" where
  "Mysql_ReconfigureReplica db config c source = do {
     r \<leftarrow> execReplica db c ''STOP REPLICA'';
     (case r of
        Some err \<Rightarrow> State_Monad.return (Some err)
      | None \<Rightarrow> do {
          r \<leftarrow> execReplica db c ''RESET REPLICA ALL'';
          (case r of
             Some err \<Rightarrow> State_Monad.return (Some err)
           | None \<Rightarrow> (case splitAddress (anc_Address source) of (host, port) \<Rightarrow>
               if mnc_ReplicationUser config = '''' \<or> mnc_ReplicationPass config = ''''
               then State_Monad.return (Some ''replication credentials are missing'')
               else do {
                 r \<leftarrow> db_Exec db c (changeSourceQuery host port
                   (mnc_ReplicationUser config) (mnc_ReplicationPass config));
                 (case r of
                    Some err \<Rightarrow> State_Monad.return (Some err)
                  | None \<Rightarrow> do {
                      r \<leftarrow> db_Exec db c ''START REPLICA'';
                      (case r of
                         Some err \<Rightarrow> State_Monad.return (Some err)
                       | None \<Rightarrow> SetReadOnly db c True)
                    })
               }))
        })
   }"

lemma wp_db [wp_call]:
  "(\<And>a t. Q a t) \<Longrightarrow> wp (db_Ping db c) Q s"
  "(\<And>a t. R a t) \<Longrightarrow> wp (db_QueryRow db c q args) R s"
  "(\<And>a t. T a t) \<Longrightarrow> wp (db_Query db c q) T s"
  "(\<And>a t. Q a t) \<Longrightarrow> wp (db_Exec db c q) Q s"
  "(\<And>a t. Q a t) \<Longrightarrow> wp (db_Close db) Q s"
  by (simp_all add: wp_any)

end
