(* ===== verification/HA_Store.thy ===== *)
theory HA_Store
  imports HA_Json
begin

text \<open>
  \<open>internal/store/store.go\<close>: the \<open>Store\<close> interface, \<open>MemoryStore\<close> and \<open>EtcdStore\<close>.

  The interface is the record \<open>Store\<close> of the operations, each a statement over the store's
  state; a \<open>release\<close> closure is a statement too. \<open>MemoryStore\<close> is its struct. \<open>EtcdStore\<close> is
  written over a record \<open>Etcd\<close> of the client calls it makes (\<open>Get\<close>, \<open>Put\<close>, \<open>Txn\<close>, \<open>Delete\<close>,
  sessions, mutexes): the client library is a parameter.

  The contracts of the stores, and what is assumed of etcd, are in \<open>HA_Store_Laws\<close>;
  \<open>RunLeaderElection\<close> is in \<open>HA_Election\<close>.
\<close>

section \<open>The interface\<close>

type_synonym 's lock = "error + ctx \<times> ('s, unit) state"

record 's Store =
  s_GetCluster :: "ctx \<Rightarrow> ('s, error + ClusterState) state"
  s_PutCluster :: "ctx \<Rightarrow> ClusterState \<Rightarrow> ('s, error option) state"
  s_PutClusterIfEpoch :: "ctx \<Rightarrow> u64 \<Rightarrow> ClusterState \<Rightarrow> ('s, error option) state"
  s_AcquireLock :: "ctx \<Rightarrow> string \<Rightarrow> int \<Rightarrow> ('s, 's lock) state"
  s_AcquireSwitchLock :: "ctx \<Rightarrow> string \<Rightarrow> int \<Rightarrow> SwitchAuthorization \<Rightarrow> ('s, 's lock) state"
  s_VerifySwitchOperation :: "ctx \<Rightarrow> SwitchAuthorization \<Rightarrow> ('s, error option) state"
  s_PutTask :: "ctx \<Rightarrow> SwitchTask \<Rightarrow> ('s, error option) state"
  s_ListTasks :: "ctx \<Rightarrow> int \<Rightarrow> ('s, error + SwitchTask list) state"
  s_Close :: "('s, error option) state"

text \<open>\<open>sortTasks\<close>: newest first. \<open>sort.Slice\<close> leaves the order of equal instants open, and so
  does the order in which the tasks are collected.\<close>

definition sortTasks :: "SwitchTask list \<Rightarrow> SwitchTask list" where
  "sortTasks ts = sort_key (\<lambda>t. - st_StartedAt t) ts"

section \<open>MemoryStore\<close>

record MemoryStore =
  ms_cluster :: ClusterState
  ms_locked :: bool
  ms_tasks :: "(string, SwitchTask) gomap"
  ms_operation :: "SwitchAuthorization option"

definition NewMemoryStore :: "string \<Rightarrow> MemoryStore" where
  "NewMemoryStore name = \<lparr>ms_cluster = zeroClusterState\<lparr>cs_Name := name\<rparr>, ms_locked = False,
     ms_tasks = [], ms_operation = None\<rparr>"

definition Memory_GetCluster :: "ctx \<Rightarrow> (MemoryStore, error + ClusterState) state" where
  "Memory_GetCluster c = gets (\<lambda>s. Inr (ms_cluster s))"

definition Memory_PutCluster :: "ctx \<Rightarrow> ClusterState \<Rightarrow> (MemoryStore, error option) state" where
  "Memory_PutCluster c state = do {
     modify (\<lambda>s. s\<lparr>ms_cluster := state\<rparr>);
     State_Monad.return None
   }"

definition Memory_PutClusterIfEpoch ::
  "ctx \<Rightarrow> u64 \<Rightarrow> ClusterState \<Rightarrow> (MemoryStore, error option) state" where
  "Memory_PutClusterIfEpoch c expected state = do {
     cur \<leftarrow> gets ms_cluster;
     if cs_Epoch cur \<noteq> expected then State_Monad.return (Some ''cluster epoch changed'')
     else do {
       modify (\<lambda>s. s\<lparr>ms_cluster := state\<rparr>);
       State_Monad.return None
     }
   }"

definition Memory_AcquireLock ::
  "ctx \<Rightarrow> string \<Rightarrow> int \<Rightarrow> (MemoryStore, MemoryStore lock) state" where
  "Memory_AcquireLock c holder ttl = do {
     locked \<leftarrow> gets ms_locked;
     if locked then State_Monad.return (Inl ''switch lock is held'')
     else do {
       modify (\<lambda>s. s\<lparr>ms_locked := True\<rparr>);
       State_Monad.return (Inr (c, modify (\<lambda>s. s\<lparr>ms_locked := False\<rparr>)))
     }
   }"

definition Memory_AcquireSwitchLock ::
  "ctx \<Rightarrow> string \<Rightarrow> int \<Rightarrow> SwitchAuthorization \<Rightarrow> (MemoryStore, MemoryStore lock) state" where
  "Memory_AcquireSwitchLock c holder ttl auth = do {
     r \<leftarrow> Memory_AcquireLock c holder ttl;
     (case r of
        Inl err \<Rightarrow> State_Monad.return (Inl err)
      | Inr (lockCtx, release) \<Rightarrow> do {
          modify (\<lambda>s. s\<lparr>ms_operation := Some auth\<rparr>);
          State_Monad.return (Inr (lockCtx, do {
            modify (\<lambda>s. s\<lparr>ms_operation := None\<rparr>);
            release
          }))
        })
   }"

definition Memory_VerifySwitchOperation ::
  "ctx \<Rightarrow> SwitchAuthorization \<Rightarrow> (MemoryStore, error option) state" where
  "Memory_VerifySwitchOperation c auth = do {
     s \<leftarrow> gets id;
     if ms_operation s \<noteq> Some auth
     then State_Monad.return (Some ''switch operation is not authorized'')
     else if cs_Epoch (ms_cluster s) \<noteq> auth_FromEpoch auth \<and>
         cs_Epoch (ms_cluster s) \<noteq> auth_ToEpoch auth
     then State_Monad.return (Some ''switch operation epoch is stale'')
     else State_Monad.return None
   }"

definition Memory_PutTask :: "ctx \<Rightarrow> SwitchTask \<Rightarrow> (MemoryStore, error option) state" where
  "Memory_PutTask c task = do {
     modify (\<lambda>s. s\<lparr>ms_tasks := AList.update (st_ID task) task (ms_tasks s)\<rparr>);
     State_Monad.return None
   }"

text \<open>\<open>rng\<close> is the order in which \<open>range s.tasks\<close> visits the tasks.\<close>

definition Memory_ListTasks ::
  "(SwitchTask list \<Rightarrow> SwitchTask list) \<Rightarrow> ctx \<Rightarrow> int \<Rightarrow>
    (MemoryStore, error + SwitchTask list) state" where
  "Memory_ListTasks rng c limit = do {
     s \<leftarrow> gets id;
     let tasks = sortTasks (rng (map snd (ms_tasks s)));
     let tasks = (if 0 < limit \<and> limit < int (length tasks) then take (nat limit) tasks
                  else tasks);
     State_Monad.return (Inr tasks)
   }"

definition Memory_Close :: "(MemoryStore, error option) state" where
  "Memory_Close = State_Monad.return None"

definition memoryStore ::
  "(SwitchTask list \<Rightarrow> SwitchTask list) \<Rightarrow> MemoryStore Store" where
  "memoryStore rng = \<lparr>
     s_GetCluster = Memory_GetCluster, s_PutCluster = Memory_PutCluster,
     s_PutClusterIfEpoch = Memory_PutClusterIfEpoch, s_AcquireLock = Memory_AcquireLock,
     s_AcquireSwitchLock = Memory_AcquireSwitchLock,
     s_VerifySwitchOperation = Memory_VerifySwitchOperation, s_PutTask = Memory_PutTask,
     s_ListTasks = Memory_ListTasks rng, s_Close = Memory_Close\<rparr>"

section \<open>EtcdStore\<close>

record KeyValue =
  kv_Key :: string
  kv_Value :: doc
  kv_ModRevision :: int

datatype Cmp = VersionIs string int | ModRevisionIs string int

text \<open>
  The calls of \<open>clientv3\<close> and \<open>concurrency\<close> the store makes. \<open>etcd_GetTasks\<close> is \<open>Get\<close> with
  \<open>WithPrefix\<close>, sorted by descending modification revision; \<open>etcd_TxnPut\<close> is
  \<open>Txn.If (cmp).Then (OpPut (key, value)).Commit\<close> and returns \<open>Succeeded\<close>.
\<close>

type_synonym session = nat

record 'e Etcd =
  etcd_Get :: "ctx \<Rightarrow> string \<Rightarrow> ('e, error + KeyValue list) state"
  etcd_GetTasks :: "ctx \<Rightarrow> string \<Rightarrow> ('e, error + KeyValue list) state"
  etcd_Put :: "ctx \<Rightarrow> string \<Rightarrow> doc \<Rightarrow> session option \<Rightarrow> ('e, error option) state"
  etcd_Delete :: "ctx \<Rightarrow> string \<Rightarrow> ('e, error option) state"
  etcd_TxnPut :: "ctx \<Rightarrow> Cmp \<Rightarrow> string \<Rightarrow> doc \<Rightarrow> ('e, error + bool) state"
  etcd_NewSession :: "ctx \<Rightarrow> int \<Rightarrow> ('e, error + session) state"
  etcd_CloseSession :: "session \<Rightarrow> ('e, unit) state"
  etcd_Lock :: "ctx \<Rightarrow> session \<Rightarrow> string \<Rightarrow> ('e, error option) state"
  etcd_Unlock :: "ctx \<Rightarrow> session \<Rightarrow> string \<Rightarrow> ('e, unit) state"
  etcd_Status :: "ctx \<Rightarrow> string \<Rightarrow> ('e, error option) state"
  etcd_Close :: "('e, error option) state"

record EtcdStore =
  es_prefix :: string

fun tryEndpoints :: "'e Etcd \<Rightarrow> string list \<Rightarrow> error option \<Rightarrow> ('e, error option) state" where
  "tryEndpoints E [] lastErr = State_Monad.return lastErr"
| "tryEndpoints E (endpoint # rest) lastErr = do {
     r \<leftarrow> etcd_Status E (Timeout Background 3) endpoint;
     (case r of None \<Rightarrow> State_Monad.return None | Some e \<Rightarrow> tryEndpoints E rest (Some e))
   }"

text \<open>\<open>new\<close> is \<open>clientv3.New\<close> on the endpoints.\<close>

definition NewEtcdStore ::
  "'e Etcd \<Rightarrow> (string list \<Rightarrow> ('e, error option) state) \<Rightarrow> string list \<Rightarrow> string \<Rightarrow>
    ('e, error + EtcdStore) state" where
  "NewEtcdStore E new endpoints clusterName =
     (if endpoints = [] then State_Monad.return (Inl ''at least one Etcd endpoint is required'')
      else do {
        err \<leftarrow> new endpoints;
        (case err of
           Some e \<Rightarrow> State_Monad.return (Inl e)
         | None \<Rightarrow> do {
             lastErr \<leftarrow> tryEndpoints E endpoints None;
             (case lastErr of
                None \<Rightarrow> State_Monad.return (Inr \<lparr>es_prefix = ''/ha/'' @ clusterName\<rparr>)
              | Some e \<Rightarrow> do {
                  etcd_Close E;
                  State_Monad.return (Inl (''no Etcd endpoint is reachable: '' @ e))
                })
           })
      })"

definition clusterKey :: "EtcdStore \<Rightarrow> string" where
  "clusterKey p = es_prefix p @ ''/cluster''"

definition operationKey :: "EtcdStore \<Rightarrow> string" where
  "operationKey p = es_prefix p @ ''/switch-operation''"

definition tasksKey :: "EtcdStore \<Rightarrow> string" where
  "tasksKey p = es_prefix p @ ''/tasks/''"

definition lockKey :: "EtcdStore \<Rightarrow> string" where
  "lockKey p = es_prefix p @ ''/switch-lock/''"

definition unmarshalCluster :: "doc \<Rightarrow> error + ClusterState" where
  "unmarshalCluster = unmarshal (decClusterState False) zeroClusterState"

definition unmarshalAuth :: "doc \<Rightarrow> error + SwitchAuthorization" where
  "unmarshalAuth = unmarshal (decSwitchAuthorization False) zeroSwitchAuthorization"

definition unmarshalTask :: "doc \<Rightarrow> error + SwitchTask" where
  "unmarshalTask = unmarshal (decSwitchTask False) zeroSwitchTask"

definition Etcd_GetCluster ::
  "'e Etcd \<Rightarrow> EtcdStore \<Rightarrow> ctx \<Rightarrow> ('e, error + ClusterState) state" where
  "Etcd_GetCluster E p c = do {
     response \<leftarrow> etcd_Get E c (clusterKey p);
     State_Monad.return (case response of
         Inl err \<Rightarrow> Inl err
       | Inr [] \<Rightarrow> Inr (zeroClusterState\<lparr>cs_Name := drop 4 (es_prefix p)\<rparr>)
       | Inr (kv # _) \<Rightarrow> unmarshalCluster (kv_Value kv))
   }"

definition Etcd_PutCluster ::
  "'e Etcd \<Rightarrow> EtcdStore \<Rightarrow> ctx \<Rightarrow> ClusterState \<Rightarrow> ('e, error option) state" where
  "Etcd_PutCluster E p c state =
     etcd_Put E c (clusterKey p) (Doc (encClusterState state)) None"

text \<open>The comparison the transaction makes, or the error the current value gives.\<close>

definition epochCompare :: "string \<Rightarrow> u64 \<Rightarrow> KeyValue list \<Rightarrow> error + Cmp" where
  "epochCompare key expected kvs = (case kvs of
      [] \<Rightarrow> if expected \<noteq> 0 then Inl ''cluster epoch changed'' else Inr (VersionIs key 0)
    | kv # _ \<Rightarrow> (case unmarshalCluster (kv_Value kv) of
          Inl err \<Rightarrow> Inl err
        | Inr current \<Rightarrow>
            if cs_Epoch current \<noteq> expected then Inl ''cluster epoch changed''
            else Inr (ModRevisionIs key (kv_ModRevision kv))))"

definition Etcd_PutClusterIfEpoch ::
  "'e Etcd \<Rightarrow> EtcdStore \<Rightarrow> ctx \<Rightarrow> u64 \<Rightarrow> ClusterState \<Rightarrow> ('e, error option) state" where
  "Etcd_PutClusterIfEpoch E p c expected state = do {
     response \<leftarrow> etcd_Get E c (clusterKey p);
     (case response of
        Inl err \<Rightarrow> State_Monad.return (Some err)
      | Inr kvs \<Rightarrow> (case epochCompare (clusterKey p) expected kvs of
          Inl err \<Rightarrow> State_Monad.return (Some err)
        | Inr compare \<Rightarrow> do {
            result \<leftarrow> etcd_TxnPut E c compare (clusterKey p) (Doc (encClusterState state));
            State_Monad.return (case result of
                Inl err \<Rightarrow> Some err
              | Inr succeeded \<Rightarrow>
                  if \<not> succeeded then Some ''cluster state changed concurrently'' else None)
          }))
   }"

definition acquireEtcdLock ::
  "'e Etcd \<Rightarrow> EtcdStore \<Rightarrow> ctx \<Rightarrow> string \<Rightarrow> int \<Rightarrow>
    ('e, error + ctx \<times> ('e, unit) state \<times> session) state" where
  "acquireEtcdLock E p c holder ttl = do {
     let ttlSeconds = (let t = ttl div 1000000000 in if t < 1 then 1 else t);
     r \<leftarrow> etcd_NewSession E c ttlSeconds;
     (case r of
        Inl err \<Rightarrow> State_Monad.return (Inl err)
      | Inr session \<Rightarrow> do {
          l \<leftarrow> etcd_Lock E c session (lockKey p);
          (case l of
             Some err \<Rightarrow> do {
               etcd_CloseSession E session;
               State_Monad.return (Inl err)
             }
           | None \<Rightarrow> State_Monad.return (Inr (Locked c, do {
               etcd_Unlock E Background session (lockKey p);
               etcd_CloseSession E session
             }, session)))
        })
   }"

definition Etcd_AcquireLock ::
  "'e Etcd \<Rightarrow> EtcdStore \<Rightarrow> ctx \<Rightarrow> string \<Rightarrow> int \<Rightarrow> ('e, 'e lock) state" where
  "Etcd_AcquireLock E p c holder ttl = do {
     r \<leftarrow> acquireEtcdLock E p c holder ttl;
     State_Monad.return (case r of
         Inl err \<Rightarrow> Inl err
       | Inr (lockCtx, release, session) \<Rightarrow> Inr (lockCtx, release))
   }"

definition Etcd_AcquireSwitchLock ::
  "'e Etcd \<Rightarrow> EtcdStore \<Rightarrow> ctx \<Rightarrow> string \<Rightarrow> int \<Rightarrow> SwitchAuthorization \<Rightarrow>
    ('e, 'e lock) state" where
  "Etcd_AcquireSwitchLock E p c holder ttl auth = do {
     g \<leftarrow> Etcd_GetCluster E p c;
     (case g of
        Inl err \<Rightarrow> State_Monad.return (Inl err)
      | Inr state \<Rightarrow>
          if cs_Epoch state \<noteq> auth_FromEpoch auth \<or>
             auth_ToEpoch auth \<noteq> auth_FromEpoch auth + 1 \<or> auth_OperationID auth = ''''
          then State_Monad.return (Inl ''invalid switch authorization epoch'')
          else do {
            r \<leftarrow> acquireEtcdLock E p c holder ttl;
            (case r of
               Inl err \<Rightarrow> State_Monad.return (Inl err)
             | Inr (lockCtx, release, session) \<Rightarrow> do {
                 put \<leftarrow> etcd_Put E lockCtx (operationKey p)
                   (Doc (encSwitchAuthorization auth)) (Some session);
                 (case put of
                    Some err \<Rightarrow> do {
                      release;
                      State_Monad.return (Inl err)
                    }
                  | None \<Rightarrow> State_Monad.return (Inr (lockCtx, do {
                      etcd_Delete E Background (operationKey p);
                      release
                    })))
               })
          })
   }"

definition Etcd_VerifySwitchOperation ::
  "'e Etcd \<Rightarrow> EtcdStore \<Rightarrow> ctx \<Rightarrow> SwitchAuthorization \<Rightarrow> ('e, error option) state" where
  "Etcd_VerifySwitchOperation E p c auth =
     (if auth_OperationID auth = '''' \<or> auth_ToEpoch auth \<noteq> auth_FromEpoch auth + 1
      then State_Monad.return (Some ''invalid switch authorization'')
      else do {
        g \<leftarrow> Etcd_GetCluster E p c;
        (case g of
           Inl err \<Rightarrow> State_Monad.return (Some err)
         | Inr state \<Rightarrow>
             if cs_Epoch state \<noteq> auth_FromEpoch auth \<and> cs_Epoch state \<noteq> auth_ToEpoch auth
             then State_Monad.return (Some ''switch operation epoch is stale'')
             else do {
               response \<leftarrow> etcd_Get E c (operationKey p);
               State_Monad.return (case response of
                   Inl err \<Rightarrow> Some err
                 | Inr [kv] \<Rightarrow> (case unmarshalAuth (kv_Value kv) of
                       Inl err \<Rightarrow> Some err
                     | Inr active \<Rightarrow>
                         if active \<noteq> auth
                         then Some ''switch operation authorization mismatch'' else None)
                 | Inr _ \<Rightarrow> Some ''no active switch operation'')
             })
      })"

definition Etcd_PutTask ::
  "'e Etcd \<Rightarrow> EtcdStore \<Rightarrow> ctx \<Rightarrow> SwitchTask \<Rightarrow> ('e, error option) state" where
  "Etcd_PutTask E p c task =
     etcd_Put E c (tasksKey p @ st_ID task) (Doc (encSwitchTask task)) None"

text \<open>The loop over the keys: stops at the first value that does not decode and at the limit.\<close>

fun collectTasks :: "int \<Rightarrow> SwitchTask list \<Rightarrow> KeyValue list \<Rightarrow> error + SwitchTask list" where
  "collectTasks limit tasks [] = Inr tasks"
| "collectTasks limit tasks (kv # kvs) = (case unmarshalTask (kv_Value kv) of
      Inl err \<Rightarrow> Inl err
    | Inr task \<Rightarrow>
        let tasks' = tasks @ [task] in
        if 0 < limit \<and> limit \<le> int (length tasks') then Inr tasks'
        else collectTasks limit tasks' kvs)"

definition Etcd_ListTasks ::
  "'e Etcd \<Rightarrow> EtcdStore \<Rightarrow> ctx \<Rightarrow> int \<Rightarrow> ('e, error + SwitchTask list) state" where
  "Etcd_ListTasks E p c limit = do {
     response \<leftarrow> etcd_GetTasks E c (tasksKey p);
     State_Monad.return (case response of
         Inl err \<Rightarrow> Inl err
       | Inr kvs \<Rightarrow> collectTasks limit [] kvs)
   }"

definition Etcd_Close :: "'e Etcd \<Rightarrow> ('e, error option) state" where
  "Etcd_Close E = etcd_Close E"

definition etcdStore :: "'e Etcd \<Rightarrow> EtcdStore \<Rightarrow> 'e Store" where
  "etcdStore E p = \<lparr>
     s_GetCluster = Etcd_GetCluster E p, s_PutCluster = Etcd_PutCluster E p,
     s_PutClusterIfEpoch = Etcd_PutClusterIfEpoch E p, s_AcquireLock = Etcd_AcquireLock E p,
     s_AcquireSwitchLock = Etcd_AcquireSwitchLock E p,
     s_VerifySwitchOperation = Etcd_VerifySwitchOperation E p, s_PutTask = Etcd_PutTask E p,
     s_ListTasks = Etcd_ListTasks E p, s_Close = Etcd_Close E\<rparr>"

end
