(* ===== verification/HA_Agent.thy ===== *)
theory HA_Agent
  imports HA_Mysql HA_Store
begin

text \<open>
  \<open>internal/agent\<close>: the HTTP server that runs beside each MySQL server and the client the
  controller talks to it with.

  A request carries its method, URL, path and body; a response its status, the document and the
  text of its body, and the error met while reading it. \<open>render\<close> is the text \<open>encoding/json\<close>
  gives a document; the text only ever reaches error messages. The interfaces \<open>MySQLOperator\<close>
  and \<open>Node\<close> are records of operations; the server is a record of its three fields. The polling
  loop of \<open>replica\<close> takes the number of ticks that \<open>select\<close> lets pass before it takes the
  deadline (\<open>ticks\<close>): the 60-second timer, once fired, stays ready, and the theorems hold for
  every number.
\<close>

section \<open>HTTP\<close>

record Request =
  rq_ctx :: ctx
  rq_Method :: string
  rq_URL :: string
  rq_Body :: "doc option"

record Response =
  rsp_Code :: int
  rsp_Doc :: doc
  rsp_Text :: string
  rsp_ReadErr :: "error option"

definition writeJSON :: "(json \<Rightarrow> string) \<Rightarrow> int \<Rightarrow> json \<Rightarrow> Response" where
  "writeJSON render status value =
     \<lparr>rsp_Code = status, rsp_Doc = Doc value, rsp_Text = render value, rsp_ReadErr = None\<rparr>"

definition writeError :: "(json \<Rightarrow> string) \<Rightarrow> int \<Rightarrow> error \<Rightarrow> Response" where
  "writeError render status err = writeJSON render status (JObj [(''error'', JStr err)])"

text \<open>
  \<open>http.ServeMux\<close> on a clean path: a pattern is a method (none: any method; \<open>GET\<close> serves \<open>HEAD\<close>
  too) and a path; the answers where no pattern matches the path, or none the method.
\<close>

definition muxError :: "int \<Rightarrow> string \<Rightarrow> Response" where
  "muxError code text =
     \<lparr>rsp_Code = code, rsp_Doc = Malformed, rsp_Text = text, rsp_ReadErr = None\<rparr>"

definition serveMux ::
  "(string \<times> string \<times> (Request \<Rightarrow> ('w, Response) state)) list \<Rightarrow> string \<Rightarrow> Request \<Rightarrow>
    ('w, Response) state" where
  "serveMux routes path r =
     (case find (\<lambda>(m, p, h). p = path \<and>
         (m = '''' \<or> m = rq_Method r \<or> m = ''GET'' \<and> rq_Method r = ''HEAD''))
        routes of
        Some (m, p, h) \<Rightarrow> h r
      | None \<Rightarrow> State_Monad.return
          (if (\<exists>x \<in> set routes. fst (snd x) = path) then muxError 405 ''Method Not Allowed''
           else muxError 404 ''404 page not found''))"

lemma wp_serveMux_method:
  assumes "\<And>m p h. (m, p, h) \<in> set routes \<Longrightarrow>
      m = '''' \<or> m = rq_Method r \<or> m = ''GET'' \<and> rq_Method r = ''HEAD'' \<Longrightarrow> wp (h r) Q w"
    and "\<And>x. Q x w"
  shows "wp (serveMux routes path r) Q w"
proof (cases "find (\<lambda>(m, p, h). p = path \<and>
    (m = '''' \<or> m = rq_Method r \<or> m = ''GET'' \<and> rq_Method r = ''HEAD'')) routes")
  case None
  then show ?thesis using assms(2) by (simp add: serveMux_def wp)
next
  case (Some x)
  then have "x \<in> set routes" unfolding find_Some_iff by (metis nth_mem)
  moreover from Some have "case x of (m, p, h) \<Rightarrow>
      m = '''' \<or> m = rq_Method r \<or> m = ''GET'' \<and> rq_Method r = ''HEAD''"
    unfolding find_Some_iff by auto
  ultimately show ?thesis using Some assms(1) by (auto simp: serveMux_def split: prod.splits)
qed

lemma wp_serveMux:
  assumes "\<And>m p h. (m, p, h) \<in> set routes \<Longrightarrow> wp (h r) Q w" and "\<And>x. Q x w"
  shows "wp (serveMux routes path r) Q w"
  by (rule wp_serveMux_method) (use assms in blast)+

section \<open>The server\<close>

record 'w MySQLOperator =
  mo_Status :: "ctx \<Rightarrow> ('w, NodeStatus) state"
  mo_ExecutedGTID :: "ctx \<Rightarrow> ('w, error + string) state"
  mo_WaitForGTID :: "ctx \<Rightarrow> string \<Rightarrow> int \<Rightarrow> ('w, error option) state"
  mo_Demote :: "ctx \<Rightarrow> ('w, error option) state"
  mo_Promote :: "ctx \<Rightarrow> ('w, error option) state"
  mo_ReconfigureReplica :: "ctx \<Rightarrow> AgentNodeConfig \<Rightarrow> ('w, error option) state"
  mo_Close :: "('w, error option) state"

type_synonym 'w SwitchVerifier = "ctx \<Rightarrow> SwitchAuthorization \<Rightarrow> ('w, error option) state"

record 'w AgentServer =
  as_nodeID :: string
  as_db :: "'w MySQLOperator"
  as_store :: "'w SwitchVerifier"

definition NewServer ::
  "string \<Rightarrow> 'w MySQLOperator option \<Rightarrow> 'w SwitchVerifier option \<Rightarrow> error + 'w AgentServer" where
  "NewServer nodeID db stateStore = (case (db, stateStore) of
      (Some d, Some v) \<Rightarrow>
        if nodeID = '''' then Inl ''node ID, MySQL client and operation verifier are required''
        else Inr \<lparr>as_nodeID = nodeID, as_db = d, as_store = v\<rparr>
    | _ \<Rightarrow> Inl ''node ID, MySQL client and operation verifier are required'')"

definition authorize ::
  "'w AgentServer \<Rightarrow> ctx \<Rightarrow> SwitchAuthorization \<Rightarrow> ('w, error option) state" where
  "authorize s c auth =
     (if auth_OperationID auth = '''' then State_Monad.return (Some ''operation ID is required'')
      else as_store s (Timeout c 3) auth)"

definition decodeBody ::
  "(bool \<Rightarrow> 'r \<Rightarrow> json \<Rightarrow> error + 'r) \<Rightarrow> 'r \<Rightarrow> Request \<Rightarrow> error + 'r" where
  "decodeBody dec z r = (case rq_Body r of
      None \<Rightarrow> Inl ''request body is required''
    | Some d \<Rightarrow> unmarshal (dec True) z d)"

definition statusBody :: "string \<Rightarrow> json" where
  "statusBody s = JObj [(''status'', JStr s)]"

definition agent_health :: "(json \<Rightarrow> string) \<Rightarrow> Request \<Rightarrow> ('w, Response) state" where
  "agent_health render r = State_Monad.return (writeJSON render 200 (statusBody ''ok''))"

definition agent_status ::
  "(json \<Rightarrow> string) \<Rightarrow> 'w AgentServer \<Rightarrow> Request \<Rightarrow> ('w, Response) state" where
  "agent_status render s r = do {
     st \<leftarrow> mo_Status (as_db s) (rq_ctx r);
     State_Monad.return (writeJSON render 200 (encNodeStatus st))
   }"

definition agent_gtid ::
  "(json \<Rightarrow> string) \<Rightarrow> 'w AgentServer \<Rightarrow> Request \<Rightarrow> ('w, Response) state" where
  "agent_gtid render s r = do {
     g \<leftarrow> mo_ExecutedGTID (as_db s) (rq_ctx r);
     State_Monad.return (case g of
         Inl err \<Rightarrow> writeError render 503 err
       | Inr gtid \<Rightarrow> writeJSON render 200 (JObj [(''gtid'', JStr gtid)]))
   }"

definition agent_waitGTID ::
  "(json \<Rightarrow> string) \<Rightarrow> 'w AgentServer \<Rightarrow> Request \<Rightarrow> ('w, Response) state" where
  "agent_waitGTID render s r = (case decodeBody decWaitGTIDRequest zeroWaitGTIDRequest r of
      Inl err \<Rightarrow> State_Monad.return (writeError render 400 err)
    | Inr request \<Rightarrow> do {
        a \<leftarrow> authorize s (rq_ctx r) (wr_Authorization request);
        (case a of
           Some err \<Rightarrow> State_Monad.return (writeError render 403 err)
         | None \<Rightarrow>
             if wr_TimeoutSeconds request < 1 \<or> wr_TimeoutSeconds request > 60 \<or>
                TrimSpace (wr_GTID request) = ''''
             then State_Monad.return (writeError render 400
               ''GTID and timeout from 1 to 60 seconds are required'')
             else do {
               w \<leftarrow> mo_WaitForGTID (as_db s) (Timeout (rq_ctx r) (wr_TimeoutSeconds request + 2))
                 (wr_GTID request) (wr_TimeoutSeconds request);
               State_Monad.return (case w of
                   Some err \<Rightarrow> writeError render 409 err
                 | None \<Rightarrow> writeJSON render 200 (statusBody ''caught_up''))
             })
      })"

definition agent_demote ::
  "(json \<Rightarrow> string) \<Rightarrow> 'w AgentServer \<Rightarrow> Request \<Rightarrow> ('w, Response) state" where
  "agent_demote render s r = (case decodeBody decOperationRequest zeroOperationRequest r of
      Inl err \<Rightarrow> State_Monad.return (writeError render 400 err)
    | Inr request \<Rightarrow> do {
        a \<leftarrow> authorize s (rq_ctx r) (or_Authorization request);
        (case a of
           Some err \<Rightarrow> State_Monad.return (writeError render 403 err)
         | None \<Rightarrow> do {
             d \<leftarrow> mo_Demote (as_db s) (rq_ctx r);
             State_Monad.return (case d of
                 Some err \<Rightarrow> writeError render 409 err
               | None \<Rightarrow> writeJSON render 200 (statusBody ''read_only''))
           })
      })"

text \<open>The condition under which \<open>promote\<close> goes on: a healthy replica that is not behind at all.\<close>

definition caughtUp :: "NodeStatus \<Rightarrow> bool" where
  "caughtUp st \<longleftrightarrow> ns_Healthy st \<and> ns_Role st = RoleReplica \<and> (case ns_Replica st of
      None \<Rightarrow> False
    | Some r \<Rightarrow> rs_IOThreadRunning r \<and> rs_SQLThreadRunning r \<and> rs_SecondsBehind r = Some 0)"

definition agent_promote ::
  "(json \<Rightarrow> string) \<Rightarrow> 'w AgentServer \<Rightarrow> Request \<Rightarrow> ('w, Response) state" where
  "agent_promote render s r = (case decodeBody decOperationRequest zeroOperationRequest r of
      Inl err \<Rightarrow> State_Monad.return (writeError render 400 err)
    | Inr request \<Rightarrow> do {
        a \<leftarrow> authorize s (rq_ctx r) (or_Authorization request);
        (case a of
           Some err \<Rightarrow> State_Monad.return (writeError render 403 err)
         | None \<Rightarrow> do {
             status \<leftarrow> mo_Status (as_db s) (rq_ctx r);
             if \<not> caughtUp status
             then State_Monad.return (writeError render 409
               ''agent refuses promotion: node is not a healthy caught-up replica'')
             else do {
               p \<leftarrow> mo_Promote (as_db s) (rq_ctx r);
               (case p of
                  Some err \<Rightarrow> State_Monad.return (writeError render 409 err)
                | None \<Rightarrow> do {
                    status \<leftarrow> mo_Status (as_db s) (rq_ctx r);
                    State_Monad.return
                      (if \<not> ns_Healthy status \<or> ns_Role status \<noteq> RolePrimary
                       then writeError render 409 ''promoted node did not become writable''
                       else writeJSON render 200 (statusBody ''primary''))
                  })
             }
           })
      })"

datatype select = CtxDone error | Deadline | Tick

definition replicating_node :: "NodeStatus \<Rightarrow> bool" where
  "replicating_node st \<longleftrightarrow> ns_Healthy st \<and> ns_Role st = RoleReplica \<and> (case ns_Replica st of
      None \<Rightarrow> False
    | Some r \<Rightarrow> rs_IOThreadRunning r \<and> rs_SQLThreadRunning r)"

fun waitReplica ::
  "(json \<Rightarrow> string) \<Rightarrow> ('w, select) state \<Rightarrow> nat \<Rightarrow> 'w AgentServer \<Rightarrow> ctx \<Rightarrow> ('w, Response) state" where
  "waitReplica render sel ticks s c = do {
     status \<leftarrow> mo_Status (as_db s) c;
     if replicating_node status
     then State_Monad.return (writeJSON render 200 (statusBody ''replica''))
     else do {
       x \<leftarrow> sel;
       (case (x, ticks) of
          (CtxDone err, _) \<Rightarrow> State_Monad.return (writeError render 408 err)
        | (Tick, Suc n) \<Rightarrow> waitReplica render sel n s c
        | _ \<Rightarrow> State_Monad.return (writeError render 409
            (''replica reconfiguration did not become healthy: '' @ ns_Error status)))
     }
   }"

declare waitReplica.simps [simp del]

definition agent_replica ::
  "(json \<Rightarrow> string) \<Rightarrow> ('w, select) state \<Rightarrow> nat \<Rightarrow> 'w AgentServer \<Rightarrow> Request \<Rightarrow> ('w, Response) state"
  where
  "agent_replica render sel ticks s r = (case decodeBody decReplicaRequest zeroReplicaRequest r of
      Inl err \<Rightarrow> State_Monad.return (writeError render 400 err)
    | Inr request \<Rightarrow> do {
        a \<leftarrow> authorize s (rq_ctx r) (rr_Authorization request);
        (case a of
           Some err \<Rightarrow> State_Monad.return (writeError render 403 err)
         | None \<Rightarrow>
             if anc_ID (rr_Source request) = '''' \<or> anc_ID (rr_Source request) = as_nodeID s \<or>
                anc_Address (rr_Source request) = ''''
             then State_Monad.return (writeError render 400
               ''a different source node and address are required'')
             else do {
               p \<leftarrow> mo_ReconfigureReplica (as_db s) (rq_ctx r) (rr_Source request);
               (case p of
                  Some err \<Rightarrow> State_Monad.return (writeError render 409 err)
                | None \<Rightarrow> waitReplica render sel ticks s (rq_ctx r))
             })
      })"

definition agent_Handler ::
  "(json \<Rightarrow> string) \<Rightarrow> ('w, select) state \<Rightarrow> nat \<Rightarrow> 'w AgentServer \<Rightarrow> string \<Rightarrow> Request \<Rightarrow>
    ('w, Response) state" where
  "agent_Handler render sel ticks s = serveMux
     [(''GET'', ''/healthz'', agent_health render),
      (''GET'', ''/api/v1/status'', agent_status render s),
      (''GET'', ''/api/v1/gtid'', agent_gtid render s),
      (''POST'', ''/api/v1/wait-gtid'', agent_waitGTID render s),
      (''POST'', ''/api/v1/demote'', agent_demote render s),
      (''POST'', ''/api/v1/promote'', agent_promote render s),
      (''POST'', ''/api/v1/replica'', agent_replica render sel ticks s)]"

section \<open>The MySQL client as the server's operator\<close>

definition mysqlOperator ::
  "'d Runtime \<Rightarrow> 'd DB \<Rightarrow> MySQLNodeConfig \<Rightarrow> 'd MySQLOperator" where
  "mysqlOperator rt db config = \<lparr>
     mo_Status = Mysql_Status rt db config, mo_ExecutedGTID = Mysql_ExecutedGTID db,
     mo_WaitForGTID = Mysql_WaitForGTID db, mo_Demote = Mysql_Demote db,
     mo_Promote = Mysql_Promote db, mo_ReconfigureReplica = Mysql_ReconfigureReplica db config,
     mo_Close = Mysql_Close db\<rparr>"

section \<open>The client\<close>

record 'w HttpClient =
  hc_Do :: "Request \<Rightarrow> ('w, error + Response) state"
  hc_CloseIdleConnections :: "('w, unit) state"

record 'w Node =
  n_Status :: "ctx \<Rightarrow> ('w, NodeStatus) state"
  n_ExecutedGTID :: "ctx \<Rightarrow> ('w, error + string) state"
  n_WaitForGTID :: "ctx \<Rightarrow> SwitchAuthorization \<Rightarrow> string \<Rightarrow> int \<Rightarrow> ('w, error option) state"
  n_Demote :: "ctx \<Rightarrow> SwitchAuthorization \<Rightarrow> ('w, error option) state"
  n_Promote :: "ctx \<Rightarrow> SwitchAuthorization \<Rightarrow> ('w, error option) state"
  n_ReconfigureReplica ::
    "ctx \<Rightarrow> SwitchAuthorization \<Rightarrow> AgentNodeConfig \<Rightarrow> ('w, error option) state"
  n_Close :: "('w, unit) state"

text \<open>The files and the parsers of \<open>crypto/tls\<close> and \<open>crypto/x509\<close> that \<open>NewClient\<close> calls.\<close>

record Tls =
  tls_ReadFile :: "string \<Rightarrow> error + string"
  tls_AppendCertsFromPEM :: "string \<Rightarrow> bool"
  tls_LoadX509KeyPair :: "string \<Rightarrow> string \<Rightarrow> error option"

record 'w AgentClient =
  ac_node :: AgentNodeConfig
  ac_http :: "'w HttpClient"

definition NewClient ::
  "Tls \<Rightarrow> 'w HttpClient \<Rightarrow> AgentNodeConfig \<Rightarrow> string \<Rightarrow> string \<Rightarrow> string \<Rightarrow> error + 'w AgentClient" where
  "NewClient tls http node caFile certFile keyFile =
     (if anc_ID node = '''' \<or> anc_AgentURL node = '''' then Inl ''agent id and URL are required''
      else if \<not> HasPrefix (anc_AgentURL node) ''https://''
      then Inl (''agent '' @ anc_ID node @ '' URL must use HTTPS'')
      else (case tls_ReadFile tls caFile of
          Inl err \<Rightarrow> Inl (''read agent CA: '' @ err)
        | Inr caPEM \<Rightarrow>
            if \<not> tls_AppendCertsFromPEM tls caPEM
            then Inl ''agent CA file contains no certificates''
            else (case tls_LoadX509KeyPair tls certFile keyFile of
                Some err \<Rightarrow> Inl (''load controller client certificate: '' @ err)
              | None \<Rightarrow> Inr \<lparr>ac_node = node, ac_http = http\<rparr>)))"

definition Client_do ::
  "'w AgentClient \<Rightarrow> Request \<Rightarrow> ('w, error + Response) state" where
  "Client_do c request = do {
     r \<leftarrow> hc_Do (ac_http c) request;
     State_Monad.return (case r of
         Inl err \<Rightarrow> Inl err
       | Inr response \<Rightarrow>
           if rsp_Code response < 200 \<or> rsp_Code response \<ge> 300
           then Inl (''agent '' @ anc_ID (ac_node c) @ '' returned HTTP '' @
             showInt (rsp_Code response) @ '': '' @ TrimSpace (rsp_Text response))
           else (case rsp_ReadErr response of Some err \<Rightarrow> Inl err | None \<Rightarrow> Inr response))
   }"

definition Client_get ::
  "'w AgentClient \<Rightarrow> ctx \<Rightarrow> string \<Rightarrow> ('r \<Rightarrow> json \<Rightarrow> error + 'r) \<Rightarrow> 'r \<Rightarrow> ('w, error + 'r) state" where
  "Client_get c cx path dec z = do {
     r \<leftarrow> Client_do c \<lparr>rq_ctx = cx, rq_Method = ''GET'',
       rq_URL = TrimRight (anc_AgentURL (ac_node c)) CHR ''/'' @ path, rq_Body = None\<rparr>;
     State_Monad.return (case r of
         Inl err \<Rightarrow> Inl err
       | Inr response \<Rightarrow> unmarshal dec z (rsp_Doc response))
   }"

definition Client_post :: "'w AgentClient \<Rightarrow> ctx \<Rightarrow> string \<Rightarrow> json \<Rightarrow> ('w, error option) state" where
  "Client_post c cx path body = do {
     r \<leftarrow> Client_do c \<lparr>rq_ctx = cx, rq_Method = ''POST'',
       rq_URL = TrimRight (anc_AgentURL (ac_node c)) CHR ''/'' @ path, rq_Body = Some (Doc body)\<rparr>;
     State_Monad.return (case r of Inl err \<Rightarrow> Some err | Inr response \<Rightarrow> None)
   }"

definition Client_Status ::
  "'w Runtime \<Rightarrow> 'w AgentClient \<Rightarrow> ctx \<Rightarrow> ('w, NodeStatus) state" where
  "Client_Status rt c cx = do {
     r \<leftarrow> Client_get c (Timeout cx 5) ''/api/v1/status'' (decNodeStatus False) zeroNodeStatus;
     (case r of
        Inl err \<Rightarrow> do {
          now \<leftarrow> rt_now rt;
          State_Monad.return (zeroNodeStatus\<lparr>ns_NodeID := anc_ID (ac_node c),
            ns_Address := anc_Address (ac_node c), ns_Role := RoleUnknown, ns_CheckedAt := now,
            ns_Error := err\<rparr>)
        }
      | Inr status \<Rightarrow> State_Monad.return (status\<lparr>ns_NodeID := anc_ID (ac_node c),
          ns_Address := anc_Address (ac_node c)\<rparr>))
   }"

text \<open>The anonymous struct of \<open>ExecutedGTID\<close> has one field, \<open>gtid\<close>.\<close>

definition decGTID :: "string \<Rightarrow> json \<Rightarrow> error + string" where
  "decGTID = decStruct False ''struct'' [field ''gtid'' decString id (\<lambda>v _. v)]"

definition Client_ExecutedGTID :: "'w AgentClient \<Rightarrow> ctx \<Rightarrow> ('w, error + string) state" where
  "Client_ExecutedGTID c cx = Client_get c (Timeout cx 5) ''/api/v1/gtid'' decGTID ''''"

definition Client_WaitForGTID ::
  "'w AgentClient \<Rightarrow> ctx \<Rightarrow> SwitchAuthorization \<Rightarrow> string \<Rightarrow> int \<Rightarrow> ('w, error option) state" where
  "Client_WaitForGTID c cx auth gtids timeoutSeconds =
     Client_post c cx ''/api/v1/wait-gtid'' (encWaitGTIDRequest
       \<lparr>wr_Authorization = auth, wr_GTID = gtids, wr_TimeoutSeconds = timeoutSeconds\<rparr>)"

definition Client_Demote ::
  "'w AgentClient \<Rightarrow> ctx \<Rightarrow> SwitchAuthorization \<Rightarrow> ('w, error option) state" where
  "Client_Demote c cx auth =
     Client_post c cx ''/api/v1/demote'' (encOperationRequest \<lparr>or_Authorization = auth\<rparr>)"

definition Client_Promote ::
  "'w AgentClient \<Rightarrow> ctx \<Rightarrow> SwitchAuthorization \<Rightarrow> ('w, error option) state" where
  "Client_Promote c cx auth =
     Client_post c cx ''/api/v1/promote'' (encOperationRequest \<lparr>or_Authorization = auth\<rparr>)"

definition Client_ReconfigureReplica ::
  "'w AgentClient \<Rightarrow> ctx \<Rightarrow> SwitchAuthorization \<Rightarrow> AgentNodeConfig \<Rightarrow> ('w, error option) state" where
  "Client_ReconfigureReplica c cx auth source =
     Client_post c cx ''/api/v1/replica''
       (encReplicaRequest \<lparr>rr_Authorization = auth, rr_Source = source\<rparr>)"

definition Client_Close :: "'w AgentClient \<Rightarrow> ('w, unit) state" where
  "Client_Close c = hc_CloseIdleConnections (ac_http c)"

definition clientNode :: "'w Runtime \<Rightarrow> 'w AgentClient \<Rightarrow> 'w Node" where
  "clientNode rt c = \<lparr>
     n_Status = Client_Status rt c, n_ExecutedGTID = Client_ExecutedGTID c,
     n_WaitForGTID = Client_WaitForGTID c, n_Demote = Client_Demote c,
     n_Promote = Client_Promote c, n_ReconfigureReplica = Client_ReconfigureReplica c,
     n_Close = Client_Close c\<rparr>"

end
