(* ===== verification/HA_Controller.thy ===== *)
theory HA_Controller
  imports HA_Agent
begin

text \<open>
  \<open>internal/ha/controller.go\<close>, with \<open>internal/alert\<close>, \<open>internal/fence\<close> and \<open>internal/route\<close>.

  A controller is its configuration and its collaborators (the record \<open>Controller\<close>, fixed once
  built) and its mutable fields (the record \<open>ctl\<close>). A statement of the controller runs over
  \<open>sys\<close>: the mutable fields, the world behind the collaborators, and a history of the calls made
  to them with their outcomes. The history is a ghost: no statement reads it. The collaborators
  may do anything to the world, so a theorem about the history holds whatever other controllers,
  agents and servers do meanwhile. A collaborator cannot change the controller's own fields.
  Metrics are events of the history; log lines are left out.
\<close>

section \<open>Configuration\<close>

record Config =
  cfg_HTTPAddr :: string
  cfg_ClusterName :: string
  cfg_ControllerID :: string
  cfg_EtcdEndpoints :: "string list"
  cfg_Nodes :: "AgentNodeConfig list"
  cfg_AgentCAFile :: string
  cfg_AgentCertFile :: string
  cfg_AgentKeyFile :: string
  cfg_AgentsFile :: string
  cfg_ProbeInterval :: int
  cfg_FailureThreshold :: int
  cfg_AlertWebhookURL :: string
  cfg_ExecuteActions :: bool
  cfg_AutoFailoverExecute :: bool
  cfg_RequireEtcd :: bool
  cfg_MaxReplicaLagSeconds :: int

section \<open>Collaborators\<close>

text \<open>\<open>am_Post\<close> is the webhook's HTTP client: the status code of the answer, or the error.\<close>

record 'w AlertManager =
  am_URL :: string
  am_Post :: "ctx \<Rightarrow> string \<Rightarrow> json \<Rightarrow> ('w, error + int) state"

definition Alert_Send ::
  "'w AlertManager \<Rightarrow> ctx \<Rightarrow> string \<Rightarrow> string \<Rightarrow> string \<Rightarrow> ('w, error option) state" where
  "Alert_Send m c severity title message =
     (if am_URL m = '''' then State_Monad.return None
      else do {
        r \<leftarrow> am_Post m c (am_URL m) (JObj [(''message'', JStr message),
          (''severity'', JStr severity), (''title'', JStr title)]);
        State_Monad.return (case r of
            Inl err \<Rightarrow> Some err
          | Inr code \<Rightarrow>
              if code \<ge> 400 then Some (''alert webhook returned HTTP '' @ showInt code) else None)
      })"

type_synonym 'w Fencer = "ctx \<Rightarrow> string \<Rightarrow> ('w, error option) state"
type_synonym 'w Router = "ctx \<Rightarrow> string \<Rightarrow> ('w, error option) state"

definition NoopFence :: "'w Fencer" where
  "NoopFence c node = State_Monad.return None"

definition NoopSetPrimary :: "'w Router" where
  "NoopSetPrimary c node = State_Monad.return None"

record 'w Controller =
  c_cfg :: Config
  c_clients :: "(string, 'w Node) gomap"
  c_configs :: "(string, AgentNodeConfig) gomap"
  c_store :: "'w Store"
  c_alerts :: "'w AlertManager"
  c_router :: "'w Router"
  c_fencer :: "'w Fencer"

section \<open>State\<close>

record ctl =
  v_statuses :: "(string, NodeStatus) gomap"
  v_lastTask :: "SwitchTask option"
  v_tripping :: bool
  v_lastDryRunPrimary :: string
  v_leader :: bool
  v_alertedNodes :: "(string, bool) gomap"
  v_leaderCtx :: "ctx option"

datatype event =
    EvGet "error + ClusterState"
  | EvPutCluster ClusterState "error option"
  | EvCas u64 ClusterState "error option"
  | EvLock "SwitchAuthorization option" "error option"
  | EvRelease
  | EvPutTask SwitchTask "error option"
  | EvStatus string NodeStatus
  | EvFence string "error option"
  | EvDemote string SwitchAuthorization "error option"
  | EvGTID string "error + string"
  | EvWaitGTID string SwitchAuthorization string int "error option"
  | EvPromote string SwitchAuthorization "error option"
  | EvRoute string "error option"
  | EvReconfigure string SwitchAuthorization AgentNodeConfig "error option"
  | EvAlert string string string
  | EvProbe string bool
  | EvLastSwitch gotime
  | EvCampaign string "error option"
  | EvResign

text \<open>
  \<open>others\<close> is what the other goroutines of the process do to the fields of the controller, up to
  this goroutine's next acquisition of the mutex (or access to the atomic flag), the one after
  that, and so on. While the mutex is held nobody else writes.
\<close>

record 'w sys =
  ctl :: ctl
  others :: "nat \<Rightarrow> ctl \<Rightarrow> ctl"
  world :: 'w
  hist :: "event list"

text \<open>A call to a collaborator, with and without a trace in the history.\<close>

definition call :: "('w, 'a) state \<Rightarrow> ('a \<Rightarrow> event) \<Rightarrow> ('w sys, 'a) state" where
  "call m ev = State (\<lambda>s. case run_state m (world s) of
      (a, w) \<Rightarrow> (a, s\<lparr>world := w, hist := hist s @ [ev a]\<rparr>))"

definition ask :: "('w, 'a) state \<Rightarrow> ('w sys, 'a) state" where
  "ask m = State (\<lambda>s. case run_state m (world s) of (a, w) \<Rightarrow> (a, s\<lparr>world := w\<rparr>))"

definition record_event :: "event \<Rightarrow> ('w sys, unit) state" where
  "record_event e = modify (\<lambda>s. s\<lparr>hist := hist s @ [e]\<rparr>)"

definition field_of :: "(ctl \<Rightarrow> 'a) \<Rightarrow> ('w sys, 'a) state" where
  "field_of f = gets (\<lambda>s. f (ctl s))"

definition assign :: "(ctl \<Rightarrow> ctl) \<Rightarrow> ('w sys, unit) state" where
  "assign f = modify (\<lambda>s. s\<lparr>ctl := f (ctl s)\<rparr>)"

definition acquire :: "('w sys, unit) state" where
  "acquire = modify (\<lambda>s. s\<lparr>others := \<lambda>n. others s (Suc n), ctl := others s 0 (ctl s)\<rparr>)"

text \<open>No other goroutine writes a field, or at least not those of leadership.\<close>

definition alone :: "'w sys \<Rightarrow> bool" where
  "alone s \<longleftrightarrow> others s = (\<lambda>_ v. v)"

definition leadershipKept :: "'w sys \<Rightarrow> bool" where
  "leadershipKept s \<longleftrightarrow> (\<forall>n v. v_leader (others s n v) = v_leader v \<and>
     v_leaderCtx (others s n v) = v_leaderCtx v)"

lemma wp_call_run: "wp (call m ev) Q s =
    wp m (\<lambda>a w. Q a (s\<lparr>world := w, hist := hist s @ [ev a]\<rparr>)) (world s)"
  by (simp add: wp_def call_def split: prod.splits)

lemma wp_ask_run: "wp (ask m) Q s = wp m (\<lambda>a w. Q a (s\<lparr>world := w\<rparr>)) (world s)"
  by (simp add: wp_def ask_def split: prod.splits)

lemma wp_call_any [wp_call]:
  "(\<And>a w. Q a (s\<lparr>world := w, hist := hist s @ [ev a]\<rparr>)) \<Longrightarrow> wp (call m ev) Q s"
  by (simp add: wp_call_run wp_any)

lemma wp_ask_any [wp_call]: "(\<And>a w. Q a (s\<lparr>world := w\<rparr>)) \<Longrightarrow> wp (ask m) Q s"
  by (simp add: wp_ask_run wp_any)

lemma wp_range:
  assumes "runtime_ok rt" and "\<And>ids w. set ids = set ks \<Longrightarrow> Q ids (s\<lparr>world := w\<rparr>)"
  shows "wp (ask (rt_range rt ks)) Q s"
proof -
  have "set (fst (run_state (rt_range rt ks) (world s))) = set ks"
    using assms(1) by (metis runtime_ok_def set_mset_mset)
  then show ?thesis using assms(2) unfolding wp_ask_run by (simp add: wp_run)
qed

lemma wp_record_event [wp]: "wp (record_event e) Q s = Q () (s\<lparr>hist := hist s @ [e]\<rparr>)"
  by (simp add: record_event_def wp)

lemma wp_field_of [wp]: "wp (field_of f) Q s = Q (f (ctl s)) s"
  by (simp add: field_of_def wp)

lemma wp_assign [wp]: "wp (assign f) Q s = Q () (s\<lparr>ctl := f (ctl s)\<rparr>)"
  by (simp add: assign_def wp)

lemma alone_update [simp]:
  "alone (s\<lparr>ctl := v\<rparr>) = alone s" "alone (s\<lparr>world := w\<rparr>) = alone s" "alone (s\<lparr>hist := h\<rparr>) = alone s"
  by (simp_all add: alone_def)

lemma leadershipKept_update [simp]:
  "leadershipKept (s\<lparr>ctl := v\<rparr>) = leadershipKept s" "leadershipKept (s\<lparr>world := w\<rparr>) = leadershipKept s"
  "leadershipKept (s\<lparr>hist := h\<rparr>) = leadershipKept s"
  by (simp_all add: leadershipKept_def)

lemma wp_acquire_alone [wp]: "alone s \<Longrightarrow> wp acquire Q s = Q () s"
proof -
  assume "alone s"
  then have "s\<lparr>others := \<lambda>n. others s (Suc n), ctl := others s 0 (ctl s)\<rparr> = s"
    by (simp add: alone_def)
  then show ?thesis by (simp add: acquire_def wp)
qed

lemma wp_acquire_run: "wp acquire Q s =
    Q () (s\<lparr>others := \<lambda>n. others s (Suc n), ctl := others s 0 (ctl s)\<rparr>)"
  by (simp add: acquire_def wp)

lemma wp_acquire_any [wp_call]:
  "(\<And>v p. Q () (s\<lparr>others := p, ctl := v\<rparr>)) \<Longrightarrow> wp acquire Q s"
  by (simp add: wp_acquire_run)

text \<open>From one state to the other only the other goroutines wrote fields.\<close>

definition othersOnly :: "'w sys \<Rightarrow> 'w sys \<Rightarrow> bool" where
  "othersOnly s t \<longleftrightarrow> (\<exists>n. ctl t = fold (others s) [0..<n] (ctl s) \<and> others t = (\<lambda>i. others s (i + n)))"

lemma othersOnly_refl: "othersOnly s s"
  unfolding othersOnly_def by (rule exI [of _ 0]) simp

lemma othersOnly_update [simp]:
  "othersOnly s (t\<lparr>world := w\<rparr>) = othersOnly s t" "othersOnly s (t\<lparr>hist := h\<rparr>) = othersOnly s t"
  by (simp_all add: othersOnly_def)

lemma othersOnly_next:
  assumes "othersOnly s t"
  shows "othersOnly s (t\<lparr>others := \<lambda>n. others t (Suc n), ctl := others t 0 (ctl t)\<rparr>)"
proof -
  from assms obtain n where "ctl t = fold (others s) [0..<n] (ctl s)" "others t = (\<lambda>i. others s (i + n))"
    by (auto simp: othersOnly_def)
  then show ?thesis unfolding othersOnly_def by (intro exI [of _ "Suc n"]) simp
qed

lemma othersOnly_alone:
  assumes "othersOnly s t" and "alone s"
  shows "ctl t = ctl s"
proof -
  have "fold (\<lambda>_ v. v) ns v = v" for ns :: "nat list" and v :: ctl
    by (induction ns) simp_all
  with assms show ?thesis by (auto simp: othersOnly_def alone_def)
qed

lemma wp_acquire_others:
  assumes "othersOnly s t"
    and "\<And>p v. othersOnly s (t\<lparr>others := p, ctl := v\<rparr>) \<Longrightarrow> Q () (t\<lparr>others := p, ctl := v\<rparr>)"
  shows "wp acquire Q t"
  unfolding wp_acquire_run by (rule assms(2) [OF othersOnly_next [OF assms(1)]])

lemma maintains_acquire:
  "(\<And>s v p. I s \<Longrightarrow> I (s\<lparr>others := p, ctl := v\<rparr>)) \<Longrightarrow> maintains I acquire"
  by (auto intro!: maintainsI wp_call)

lemma maintains_call [maintains]:
  "(\<And>s w a. I s \<Longrightarrow> I (s\<lparr>world := w, hist := hist s @ [ev a]\<rparr>)) \<Longrightarrow> maintains I (call m ev)"
  by (auto intro!: maintainsI wp_call)

lemma maintains_ask [maintains]: "(\<And>s w. I s \<Longrightarrow> I (s\<lparr>world := w\<rparr>)) \<Longrightarrow> maintains I (ask m)"
  by (auto intro!: maintainsI wp_call)

lemma maintains_field_of [maintains]: "maintains I (field_of f)"
  by (auto simp: wp intro!: maintainsI)

definition errOf :: "error + 'a \<Rightarrow> error option" where
  "errOf r = (case r of Inl e \<Rightarrow> Some e | Inr _ \<Rightarrow> None)"

definition sendAlert ::
  "'w Controller \<Rightarrow> ctx \<Rightarrow> string \<Rightarrow> string \<Rightarrow> string \<Rightarrow> ('w sys, unit) state" where
  "sendAlert c cx severity title message = do {
     call (Alert_Send (c_alerts c) cx severity title message) (\<lambda>_. EvAlert severity title message);
     State_Monad.return ()
   }"

lemma wp_sendAlert [wp_call]:
  "(\<And>w. Q () (s\<lparr>world := w, hist := hist s @ [EvAlert severity title message]\<rparr>)) \<Longrightarrow>
    wp (sendAlert c cx severity title message) Q s"
  by (simp add: sendAlert_def wp wp_call_run wp_any)

section \<open>Construction\<close>

fun addNodes ::
  "'w Runtime \<Rightarrow> Tls \<Rightarrow> (AgentNodeConfig \<Rightarrow> 'w HttpClient) \<Rightarrow> Config \<Rightarrow> 'w Controller \<Rightarrow>
    AgentNodeConfig list \<Rightarrow> error + 'w Controller" where
  "addNodes rt tls http cfg c [] = Inr c"
| "addNodes rt tls http cfg c (node # nodes) =
    (if anc_ID node = '''' \<or> anc_Address node = '''' \<or> anc_AgentURL node = ''''
     then Inl (''node '' @ Quote (anc_ID node) @ '' must define id, address and agent_url'')
     else (case NewClient tls (http node) node (cfg_AgentCAFile cfg) (cfg_AgentCertFile cfg)
             (cfg_AgentKeyFile cfg) of
         Inl err \<Rightarrow> Inl (''create agent client '' @ anc_ID node @ '': '' @ err)
       | Inr client \<Rightarrow> addNodes rt tls http cfg
           (c\<lparr>c_clients := AList.update (anc_ID node) (clientNode rt client) (c_clients c),
              c_configs := AList.update (anc_ID node) node (c_configs c)\<rparr>) nodes))"

definition initialCtl :: ctl where
  "initialCtl = \<lparr>v_statuses = [], v_lastTask = None, v_tripping = False,
     v_lastDryRunPrimary = '''', v_leader = False, v_alertedNodes = [], v_leaderCtx = None\<rparr>"

definition NewController ::
  "'w Runtime \<Rightarrow> Tls \<Rightarrow> (AgentNodeConfig \<Rightarrow> 'w HttpClient) \<Rightarrow>
    (ctx \<Rightarrow> string \<Rightarrow> json \<Rightarrow> ('w, error + int) state) \<Rightarrow> Config \<Rightarrow> 'w Store \<Rightarrow>
    error + 'w Controller" where
  "NewController rt tls http post cfg stateStore =
     (if cfg_Nodes cfg = []
      then Inl ''HA_AGENTS_JSON must contain at least one MySQL agent''
      else addNodes rt tls http cfg
        \<lparr>c_cfg = cfg, c_clients = [], c_configs = [], c_store = stateStore,
         c_alerts = \<lparr>am_URL = cfg_AlertWebhookURL cfg, am_Post = post\<rparr>,
         c_router = NoopSetPrimary, c_fencer = NoopFence\<rparr> (cfg_Nodes cfg))"

fun closeAll :: "'w Controller \<Rightarrow> string list \<Rightarrow> ('w, unit) state" where
  "closeAll c [] = State_Monad.return ()"
| "closeAll c (nid # ids) = do {
     (case map_of (c_clients c) nid of
        None \<Rightarrow> State_Monad.return ()
      | Some client \<Rightarrow> n_Close client);
     closeAll c ids
   }"

definition Controller_Close :: "'w Runtime \<Rightarrow> 'w Controller \<Rightarrow> ('w, error option) state" where
  "Controller_Close rt c = do {
     ids \<leftarrow> rt_range rt (map fst (c_clients c));
     closeAll c ids;
     s_Close (c_store c)
   }"

section \<open>Leadership\<close>

definition IsLeader :: "('w sys, bool) state" where
  "IsLeader = do { acquire; field_of v_leader }"

definition leaderBoundContext :: "'w Runtime \<Rightarrow> ctx \<Rightarrow> ('w sys, error + ctx) state" where
  "leaderBoundContext rt parent = do {
     acquire;
     leaderCtx \<leftarrow> field_of v_leaderCtx;
     (case leaderCtx of
        None \<Rightarrow> State_Monad.return (Inl ''controller leadership lease is not active'')
      | Some l \<Rightarrow> do {
          err \<leftarrow> ask (rt_ctxErr rt l);
          State_Monad.return (if err \<noteq> None
            then Inl ''controller leadership lease is not active'' else Inr (Bound parent l))
        })
   }"

section \<open>Choosing a node\<close>

definition detectPrimary :: "'w Runtime \<Rightarrow> ('w sys, string) state" where
  "detectPrimary rt = do {
     acquire;
     statuses \<leftarrow> field_of v_statuses;
     ids \<leftarrow> ask (rt_range rt (map fst statuses));
     State_Monad.return (case find (\<lambda>nid. case map_of statuses nid of
           None \<Rightarrow> False
         | Some status \<Rightarrow> ns_Healthy status \<and> ns_Role status = RolePrimary) ids of
         None \<Rightarrow> ''''
       | Some nid \<Rightarrow> nid)
   }"

text \<open>The lag of a candidate, if it is one: \<open>chooseTarget\<close>'s loop body.\<close>

definition candidateLag :: "Config \<Rightarrow> string \<Rightarrow> string \<Rightarrow> NodeStatus \<Rightarrow> int option" where
  "candidateLag cfg exclude nid status =
     (if nid = exclude \<or> \<not> ns_Healthy status \<or> ns_Role status \<noteq> RoleReplica then None
      else (let lag = (case ns_Replica status of
            None \<Rightarrow> 0
          | Some r \<Rightarrow> (case rs_SecondsBehind r of None \<Rightarrow> 0 | Some l \<Rightarrow> l)) in
        if lag \<le> cfg_MaxReplicaLagSeconds cfg then Some lag else None))"

definition candidates ::
  "Config \<Rightarrow> string \<Rightarrow> (string, NodeStatus) gomap \<Rightarrow> string list \<Rightarrow> (int \<times> string) list" where
  "candidates cfg exclude statuses ids = List.map_filter (\<lambda>nid. case map_of statuses nid of
      None \<Rightarrow> None
    | Some status \<Rightarrow> map_option (\<lambda>lag. (lag, nid)) (candidateLag cfg exclude nid status)) ids"

definition chooseTarget ::
  "'w Runtime \<Rightarrow> 'w Controller \<Rightarrow> string \<Rightarrow> ('w sys, error + string) state" where
  "chooseTarget rt c exclude = do {
     acquire;
     statuses \<leftarrow> field_of v_statuses;
     ids \<leftarrow> ask (rt_range rt (map fst statuses));
     State_Monad.return (case sort (candidates (c_cfg c) exclude statuses ids) of
         [] \<Rightarrow> Inl ''no healthy replica is eligible for promotion''
       | (lag, nid) # _ \<Rightarrow> Inr nid)
   }"

definition reportable :: "string \<Rightarrow> string \<Rightarrow> NodeStatus \<Rightarrow> bool" where
  "reportable exclude nid status \<longleftrightarrow>
     nid \<noteq> exclude \<and> ns_Reachable status \<and> ns_Role status = RoleReplica \<and>
     (case ns_Replica status of None \<Rightarrow> False | Some r \<Rightarrow> rs_SQLThreadRunning r)"

definition chooseDryRunTarget :: "'w Runtime \<Rightarrow> string \<Rightarrow> ('w sys, error + string) state" where
  "chooseDryRunTarget rt exclude = do {
     acquire;
     statuses \<leftarrow> field_of v_statuses;
     ids \<leftarrow> ask (rt_range rt (map fst statuses));
     State_Monad.return (case sort (filter (\<lambda>nid. case map_of statuses nid of
           None \<Rightarrow> False
         | Some status \<Rightarrow> reportable exclude nid status) ids) of
         [] \<Rightarrow> Inl ''no reachable replica can be reported in dry-run''
       | nid # _ \<Rightarrow> Inr nid)
   }"

lemma wp_choose [wp_call]:
  "(\<And>a v p w. Q a (s\<lparr>others := p, ctl := v, world := w\<rparr>)) \<Longrightarrow> wp (chooseTarget rt c x) Q s"
  "(\<And>a v p w. Q' a (s\<lparr>others := p, ctl := v, world := w\<rparr>)) \<Longrightarrow> wp (chooseDryRunTarget rt x) Q' s"
  "(\<And>a v p w. R a (s\<lparr>others := p, ctl := v, world := w\<rparr>)) \<Longrightarrow> wp (detectPrimary rt) R s"
  unfolding chooseTarget_def chooseDryRunTarget_def detectPrimary_def
  by (auto simp: wp intro!: wp_call)

lemma wp_leaderBoundContext [wp_call]:
  assumes Q: "\<And>a v p w. Q a (s\<lparr>others := p, ctl := v, world := w\<rparr>)"
  shows "wp (leaderBoundContext rt cx) Q s"
proof -
  have "Q a (s\<lparr>others := p, ctl := v\<rparr>)" for a v p
    using Q [where v = v and p = p and w = "world s"] by simp
  with Q show ?thesis
    unfolding leaderBoundContext_def by (auto simp: wp split: option.splits intro!: wp_call)
qed

section \<open>Alerts\<close>

definition failureAlert :: "NodeStatus \<Rightarrow> string \<times> string \<times> string" where
  "failureAlert status =
    (let message = ns_Error status;
         message = (case ns_Replica status of
             None \<Rightarrow> message
           | Some r \<Rightarrow>
               if message \<noteq> '''' then message
               else if \<not> rs_IOThreadRunning r then
                 (if rs_LastIOError r = '''' then ''replica IO thread is stopped''
                  else rs_LastIOError r)
               else if \<not> rs_SQLThreadRunning r then
                 (if rs_LastSQLError r = '''' then ''replica SQL thread is stopped''
                  else rs_LastSQLError r)
               else if rs_SecondsBehind r = None then ''replica lag is unknown''
               else message);
         message = (if message = '''' then ''node reported unhealthy without diagnostics''
                    else message) in
     if ns_Role status = RoleReplica \<and> (case ns_Replica status of
          None \<Rightarrow> False
        | Some r \<Rightarrow> \<not> rs_IOThreadRunning r \<and> rs_SQLThreadRunning r)
     then (''warning'', ''MySQL replica IO thread unavailable'', message)
     else (''critical'', ''MySQL node unhealthy'', message))"

end
