(* ===== verification/HA_Switch.thy ===== *)
theory HA_Switch
  imports HA_Controller
begin

text \<open>
  \<open>Controller.Switch\<close> and \<open>Controller.SetAutoFailover\<close> of \<open>internal/ha/controller.go\<close>.

  \<open>Switch\<close> is written in the source's order: the checks before the lock (\<open>Switch\<close>), the checks
  under the lock and the dry run (\<open>switchLocked\<close>), and the promotion sequence
  (\<open>switchExecute\<close>). The task is a Go pointer that \<open>lastTask\<close> aliases, so every assignment to
  it is also one to \<open>v_lastTask\<close> (\<open>setTask\<close>). The two deferred calls, storing the task and
  releasing the lock, run in the source's last-in-first-out order on the paths that registered
  them. The result is the pair the source returns: the task, if any, and the error, if any.
\<close>

type_synonym outcome = "SwitchTask option \<times> error option"

section \<open>Tasks\<close>

definition setTask :: "SwitchTask \<Rightarrow> ('w sys, unit) state" where
  "setTask task = assign (\<lambda>v. v\<lparr>v_lastTask := Some task\<rparr>)"

definition finishTask ::
  "'w Runtime \<Rightarrow> 'w Controller \<Rightarrow> SwitchTask \<Rightarrow> error \<Rightarrow> ('w sys, SwitchTask \<times> error option) state"
  where
  "finishTask rt c task err = do {
     now \<leftarrow> ask (rt_now rt);
     let task = task\<lparr>st_State := ''failed'', st_Error := err, st_FinishedAt := now\<rparr>;
     setTask task;
     sendAlert c Background ''critical'' ''MySQL HA switch failed'' err;
     State_Monad.return (task, Some err)
   }"

text \<open>\<open>if err := step; err != nil { return c.finishTask(task, wrap(err)) }\<close>, then the rest.\<close>

definition orFinish ::
  "'w Runtime \<Rightarrow> 'w Controller \<Rightarrow> SwitchTask \<Rightarrow> ('w sys, error option) state \<Rightarrow> (error \<Rightarrow> error) \<Rightarrow>
    ('w sys, SwitchTask \<times> error option) state \<Rightarrow> ('w sys, SwitchTask \<times> error option) state" where
  "orFinish rt c task m wrap rest = do {
     r \<leftarrow> m;
     (case r of
        Some err \<Rightarrow> finishTask rt c task (wrap err)
      | None \<Rightarrow> rest)
   }"

section \<open>The promotion sequence\<close>

fun reconfigureAll ::
  "'w Controller \<Rightarrow> ctx \<Rightarrow> SwitchAuthorization \<Rightarrow> string \<Rightarrow> string list \<Rightarrow> ('w sys, error option) state"
  where
  "reconfigureAll c cx auth target [] = State_Monad.return None"
| "reconfigureAll c cx auth target (nid # ids) =
    (if nid = target then reconfigureAll c cx auth target ids
     else (case map_of (c_clients c) nid of
         None \<Rightarrow> reconfigureAll c cx auth target ids
       | Some client \<Rightarrow> do {
           let source = (case map_of (c_configs c) target of
               None \<Rightarrow> zeroAgentNodeConfig | Some n \<Rightarrow> n);
           r \<leftarrow> call (n_ReconfigureReplica client cx auth source) (EvReconfigure nid auth source);
           (case r of
              Some err \<Rightarrow> State_Monad.return (Some (''reconfigure replica '' @ nid @ '': '' @ err))
            | None \<Rightarrow> reconfigureAll c cx auth target ids)
         }))"

text \<open>From \<open>state.Primary = target\<close> to the end.\<close>

definition switchCommit ::
  "'w Runtime \<Rightarrow> 'w Controller \<Rightarrow> ctx \<Rightarrow> ClusterState \<Rightarrow> string \<Rightarrow> SwitchAuthorization \<Rightarrow>
    SwitchTask \<Rightarrow> ('w sys, SwitchTask \<times> error option) state" where
  "switchCommit rt c cx state target auth task = do {
     now \<leftarrow> ask (rt_now rt);
     let state = state\<lparr>cs_Primary := target, cs_Epoch := cs_Epoch state + 1, cs_UpdatedAt := now\<rparr>;
     orFinish rt c task (call (s_PutClusterIfEpoch (c_store c) cx (cs_Epoch state - 1) state)
       (EvCas (cs_Epoch state - 1) state)) (\<lambda>err. ''persist cluster state: '' @ err) (
     orFinish rt c task (call (c_router c cx target) (EvRoute target))
       (\<lambda>err. ''update route: '' @ err) (do {
     ids \<leftarrow> ask (rt_range rt (map fst (c_clients c)));
     orFinish rt c task (reconfigureAll c cx auth target ids) (\<lambda>err. err) (do {
       now \<leftarrow> ask (rt_now rt);
       record_event (EvLastSwitch (now div 1000000000));
       sendAlert c cx ''info'' ''MySQL HA switch completed''
         (''new_primary='' @ target @ '' epoch='' @ showInt (uint (cs_Epoch state)));
       now \<leftarrow> ask (rt_now rt);
       let task = task\<lparr>st_State := ''completed'', st_FinishedAt := now\<rparr>;
       setTask task;
       State_Monad.return (task, None)
     })}))
   }"

text \<open>From reading the old primary's transactions to the check that the target became writable.\<close>

definition switchCatchUp ::
  "'w Runtime \<Rightarrow> 'w Controller \<Rightarrow> ctx \<Rightarrow> ClusterState \<Rightarrow> string \<Rightarrow> 'w Node \<Rightarrow> SwitchAuthorization \<Rightarrow>
    SwitchTask \<Rightarrow> 'w Node \<Rightarrow> ('w sys, SwitchTask \<times> error option) state" where
  "switchCatchUp rt c cx state target client auth task oldPrimary = do {
     g \<leftarrow> call (n_ExecutedGTID oldPrimary cx) (EvGTID (cs_Primary state));
     (case g of
        Inl err \<Rightarrow> finishTask rt c task (''read old primary GTID: '' @ err)
      | Inr gtid \<Rightarrow>
          orFinish rt c task
            (call (n_WaitForGTID client cx auth gtid 30) (EvWaitGTID target auth gtid 30))
            (\<lambda>err. ''wait for target to catch up: '' @ err) (
          orFinish rt c task (call (n_Promote client cx auth) (EvPromote target auth))
            (\<lambda>err. ''promote '' @ target @ '': '' @ err) (do {
          promoted \<leftarrow> call (n_Status client cx) (EvStatus target);
          if \<not> ns_Healthy promoted \<or> ns_Role promoted \<noteq> RolePrimary
          then finishTask rt c task (''promoted node '' @ target @ '' is not writable'')
          else switchCommit rt c cx state target auth task
          })))
   }"

text \<open>Demoting the old primary and confirming it, then the rest.\<close>

definition switchPromote ::
  "'w Runtime \<Rightarrow> 'w Controller \<Rightarrow> ctx \<Rightarrow> ClusterState \<Rightarrow> string \<Rightarrow> 'w Node \<Rightarrow> SwitchAuthorization \<Rightarrow>
    SwitchTask \<Rightarrow> 'w Node \<Rightarrow> ('w sys, SwitchTask \<times> error option) state" where
  "switchPromote rt c cx state target client auth task oldPrimary =
     orFinish rt c task (call (n_Demote oldPrimary cx auth) (EvDemote (cs_Primary state) auth))
       (\<lambda>err. ''demote old primary: '' @ err) (do {
     demoted \<leftarrow> call (n_Status oldPrimary cx) (EvStatus (cs_Primary state));
     if \<not> ns_Reachable demoted \<or> \<not> ns_ReadOnly demoted \<or> \<not> ns_SuperReadOnly demoted
     then finishTask rt c task (''old primary '' @ cs_Primary state @
       '' could not be confirmed read-only; refusing promotion'')
     else switchCatchUp rt c cx state target client auth task oldPrimary
     })"

definition switchExecute ::
  "'w Runtime \<Rightarrow> 'w Controller \<Rightarrow> ctx \<Rightarrow> ClusterState \<Rightarrow> string \<Rightarrow> 'w Node \<Rightarrow> SwitchAuthorization \<Rightarrow>
    SwitchTask \<Rightarrow> ('w sys, SwitchTask \<times> error option) state" where
  "switchExecute rt c cx state target client auth task =
     orFinish rt c task (call (c_fencer c cx (cs_Primary state)) (EvFence (cs_Primary state)))
       (\<lambda>err. err)
       (case map_of (c_clients c) (cs_Primary state) of
          None \<Rightarrow> finishTask rt c task ''current primary is not configured''
        | Some oldPrimary \<Rightarrow>
            switchPromote rt c cx state target client auth task oldPrimary)"

section \<open>Under the lock\<close>

definition lagWithin :: "Config \<Rightarrow> ReplicaStatus \<Rightarrow> bool" where
  "lagWithin cfg r \<longleftrightarrow> (case rs_SecondsBehind r of
      None \<Rightarrow> False
    | Some lag \<Rightarrow> lag \<le> cfg_MaxReplicaLagSeconds cfg)"

definition candidateEligible :: "Config \<Rightarrow> bool \<Rightarrow> bool \<Rightarrow> NodeStatus \<Rightarrow> bool" where
  "candidateEligible cfg dryRun automatic candidate =
     (if dryRun \<and> automatic
      then ns_Reachable candidate \<and> ns_Role candidate = RoleReplica \<and>
        (case ns_Replica candidate of None \<Rightarrow> False | Some r \<Rightarrow> rs_SQLThreadRunning r)
      else ns_Healthy candidate \<and> (case ns_Replica candidate of
          None \<Rightarrow> False
        | Some r \<Rightarrow> rs_IOThreadRunning r \<and> rs_SQLThreadRunning r \<and> lagWithin cfg r))"

definition dryRunOf :: "Config \<Rightarrow> bool \<Rightarrow> bool" where
  "dryRunOf cfg automatic \<longleftrightarrow>
     \<not> cfg_ExecuteActions cfg \<or> automatic \<and> \<not> cfg_AutoFailoverExecute cfg"

definition switchDryRun ::
  "'w Runtime \<Rightarrow> 'w Controller \<Rightarrow> ctx \<Rightarrow> ClusterState \<Rightarrow> string \<Rightarrow> SwitchTask \<Rightarrow>
    ('w sys, SwitchTask \<times> error option) state" where
  "switchDryRun rt c cx state target task = do {
     now \<leftarrow> ask (rt_now rt);
     let task = task\<lparr>st_State := ''dry-run'', st_FinishedAt := now\<rparr>;
     setTask task;
     acquire;
     assign (\<lambda>v. v\<lparr>v_lastDryRunPrimary := cs_Primary state\<rparr>);
     sendAlert c cx ''warning'' ''MySQL HA automatic failover dry-run''
       (''candidate='' @ target @ '' current_primary='' @ cs_Primary state);
     State_Monad.return (task, None)
   }"

text \<open>The task once registered: the body, then the deferred reset of \<open>tripping\<close> and storing.\<close>

definition switchTask ::
  "'w Runtime \<Rightarrow> 'w Controller \<Rightarrow> ctx \<Rightarrow> ClusterState \<Rightarrow> string \<Rightarrow> 'w Node \<Rightarrow> SwitchAuthorization \<Rightarrow>
    SwitchTask \<Rightarrow> ('w sys, outcome) state" where
  "switchTask rt c cx state target client auth task = do {
     acquire;
     assign (\<lambda>v. v\<lparr>v_tripping := True\<rparr>);
     setTask task;
     r \<leftarrow> call (s_PutTask (c_store c) cx task) (EvPutTask task);
     (case r of
        Some err \<Rightarrow> State_Monad.return (None, Some err)
      | None \<Rightarrow> do {
          (task, err) \<leftarrow> (if st_DryRun task then switchDryRun rt c cx state target task
             else switchExecute rt c cx state target client auth task);
          acquire;
          assign (\<lambda>v. v\<lparr>v_tripping := False\<rparr>);
          call (s_PutTask (c_store c) Background task) (EvPutTask task);
          State_Monad.return (Some task, err)
        })
   }"

definition switchLocked ::
  "'w Runtime \<Rightarrow> 'w Controller \<Rightarrow> ctx \<Rightarrow> ClusterState \<Rightarrow> string \<Rightarrow> 'w Node \<Rightarrow> SwitchAuthorization \<Rightarrow>
    bool \<Rightarrow> ('w sys, outcome) state" where
  "switchLocked rt c cx state target client auth automatic = do {
     r \<leftarrow> call (s_GetCluster (c_store c) cx) EvGet;
     (case r of
        Inl err \<Rightarrow> State_Monad.return (None, Some err)
      | Inr lockedState \<Rightarrow>
          if cs_Epoch lockedState \<noteq> cs_Epoch state \<or> cs_Primary lockedState \<noteq> cs_Primary state
          then State_Monad.return
            (None, Some ''cluster state changed while acquiring switch lock'')
          else if cs_Primary lockedState = ''''
          then State_Monad.return (None, Some ''current primary is unknown'')
          else if target = cs_Primary lockedState
          then State_Monad.return (None, Some ''target is already the current primary'')
          else do {
            let dryRun = dryRunOf (c_cfg c) automatic;
            candidate \<leftarrow> call (n_Status client cx) (EvStatus target);
            if \<not> candidateEligible (c_cfg c) dryRun automatic candidate \<or>
               ns_Role candidate \<noteq> RoleReplica
            then State_Monad.return (None,
              Some (''target '' @ target @ '' is not a healthy, caught-up replica''))
            else do {
              now \<leftarrow> ask (rt_now rt);
              switchTask rt c cx state target client auth
                (zeroSwitchTask\<lparr>st_ID := auth_OperationID auth, st_From := cs_Primary state,
                  st_To := target, st_Automatic := automatic, st_DryRun := dryRun,
                  st_State := ''running'', st_StartedAt := now\<rparr>)
            }
          })
   }"

section \<open>Switch\<close>

text \<open>From the choice of the operation's identity to the release of the lock.\<close>

definition switchFrom ::
  "'w Runtime \<Rightarrow> 'w Controller \<Rightarrow> ctx \<Rightarrow> ClusterState \<Rightarrow> string \<Rightarrow> bool \<Rightarrow> ('w sys, outcome) state" where
  "switchFrom rt c cx state target automatic =
     (case map_of (c_clients c) target of
        None \<Rightarrow> State_Monad.return (None, Some (''unknown target node '' @ Quote target))
      | Some client \<Rightarrow>
          if target = cs_Primary state
          then State_Monad.return (None, Some ''target is already the current primary'')
          else do {
            now \<leftarrow> ask (rt_now rt);
            let auth = \<lparr>auth_OperationID = ''switch-'' @ showInt now,
              auth_FromEpoch = cs_Epoch state, auth_ToEpoch = cs_Epoch state + 1\<rparr>;
            l \<leftarrow> call (s_AcquireSwitchLock (c_store c) cx (cfg_ControllerID (c_cfg c))
              300000000000 auth) (\<lambda>l. EvLock (Some auth) (errOf l));
            (case l of
               Inl err \<Rightarrow> State_Monad.return (None, Some err)
             | Inr (lockCtx, release) \<Rightarrow> do {
                 r \<leftarrow> switchLocked rt c lockCtx state target client auth automatic;
                 call release (\<lambda>_. EvRelease);
                 State_Monad.return r
               })
          })"

definition Switch ::
  "'w Runtime \<Rightarrow> 'w Controller \<Rightarrow> ctx \<Rightarrow> string \<Rightarrow> bool \<Rightarrow> ('w sys, outcome) state" where
  "Switch rt c cx target automatic = do {
     leader \<leftarrow> IsLeader;
     if \<not> leader then State_Monad.return (None, Some ''controller is not the Etcd leader'')
     else do {
       b \<leftarrow> leaderBoundContext rt cx;
       (case b of
          Inl err \<Rightarrow> State_Monad.return (None, Some err)
        | Inr cx \<Rightarrow> do {
            r \<leftarrow> call (s_GetCluster (c_store c) cx) EvGet;
            (case r of
               Inl err \<Rightarrow> State_Monad.return (None, Some err)
             | Inr state \<Rightarrow> do {
                 t \<leftarrow> (if target = '''' then chooseTarget rt c (cs_Primary state)
                    else State_Monad.return (Inr target));
                 (case t of
                    Inl err \<Rightarrow> State_Monad.return (None, Some err)
                  | Inr target \<Rightarrow> switchFrom rt c cx state target automatic)
               })
          })
     }
   }"

section \<open>SetAutoFailover\<close>

definition SetAutoFailover ::
  "'w Runtime \<Rightarrow> 'w Controller \<Rightarrow> ctx \<Rightarrow> bool \<Rightarrow> ('w sys, error option) state" where
  "SetAutoFailover rt c cx enabled = do {
     leader \<leftarrow> IsLeader;
     if \<not> leader then State_Monad.return (Some ''controller is not the Etcd leader'')
     else do {
       b \<leftarrow> leaderBoundContext rt cx;
       (case b of
          Inl err \<Rightarrow> State_Monad.return (Some err)
        | Inr cx \<Rightarrow> do {
            l \<leftarrow> call (s_AcquireLock (c_store c) cx (cfg_ControllerID (c_cfg c)) 10000000000)
              (\<lambda>l. EvLock None (errOf l));
            (case l of
               Inl err \<Rightarrow> State_Monad.return (Some err)
             | Inr (lockCtx, release) \<Rightarrow> do {
                 r \<leftarrow> call (s_GetCluster (c_store c) lockCtx) EvGet;
                 res \<leftarrow> (case r of
                    Inl err \<Rightarrow> State_Monad.return (Some err)
                  | Inr state \<Rightarrow> do {
                      now \<leftarrow> ask (rt_now rt);
                      let state = state\<lparr>cs_AutoFailover := enabled, cs_UpdatedAt := now\<rparr>;
                      call (s_PutClusterIfEpoch (c_store c) lockCtx (cs_Epoch state) state)
                        (EvCas (cs_Epoch state) state)
                    });
                 call release (\<lambda>_. EvRelease);
                 State_Monad.return res
               })
          })
     }
   }"

end
