(* ===== verification/HA_Protocol.thy ===== *)
theory HA_Protocol
  imports HA_Controller
begin

text \<open>
  The failover protocol the controller promises to follow, as a machine that reads the history
  of its calls. A phase says how far a switch has come; an event is either a legal next step
  (\<open>Some\<close> of the next phase) or a violation (\<open>None\<close>). The machine knows nothing of the code: it
  says that a switch happens under the switch lock of its authorization, that the old primary is
  demoted, seen read-only and asked for its transactions before the target waits for exactly
  those, that only then the target is promoted, that the new cluster state is stored only after
  the target was seen writable, with the epochs of the authorization, and that the other nodes
  are pointed at the target only after that.
\<close>

section \<open>The machine\<close>

datatype phase =
    Idle
  | Settings
  | Holding SwitchAuthorization
  | Demoted SwitchAuthorization string
  | Confirmed SwitchAuthorization string
  | Frozen SwitchAuthorization string string
  | CaughtUp SwitchAuthorization string string string
  | Promoted SwitchAuthorization string string
  | Live SwitchAuthorization string string
  | Committed SwitchAuthorization string

text \<open>Events that every phase admits: reading, reporting, and the metrics.\<close>

fun observing :: "event \<Rightarrow> bool" where
  "observing (EvGet _) = True"
| "observing (EvStatus _ _) = True"
| "observing (EvAlert _ _ _) = True"
| "observing (EvProbe _ _) = True"
| "observing _ = False"

definition stay :: "phase \<Rightarrow> event \<Rightarrow> phase option" where
  "stay ph e = (if observing e then Some ph else None)"

definition underLock :: "phase \<Rightarrow> event \<Rightarrow> phase option" where
  "underLock ph e = (case e of
      EvRelease \<Rightarrow> Some Idle
    | EvPutTask _ _ \<Rightarrow> Some ph
    | _ \<Rightarrow> stay ph e)"

fun advance :: "phase \<Rightarrow> event \<Rightarrow> phase option" where
  "advance Idle e = (case e of
      EvLock (Some a) None \<Rightarrow> Some (Holding a)
    | EvLock None None \<Rightarrow> Some Settings
    | EvLock _ (Some _) \<Rightarrow> Some Idle
    | EvPutCluster _ _ \<Rightarrow> Some Idle
    | EvCampaign _ _ \<Rightarrow> Some Idle
    | EvResign \<Rightarrow> Some Idle
    | _ \<Rightarrow> stay Idle e)"
| "advance Settings e = (case e of
      EvCas ep x r \<Rightarrow> if cs_Epoch x = ep then Some Settings else None
    | _ \<Rightarrow> underLock Settings e)"
| "advance (Holding a) e = (case e of
      EvFence _ _ \<Rightarrow> Some (Holding a)
    | EvDemote old a' r \<Rightarrow> if a' \<noteq> a then None
        else Some (if r = None then Demoted a old else Holding a)
    | _ \<Rightarrow> underLock (Holding a) e)"
| "advance (Demoted a old) e = (case e of
      EvStatus n st \<Rightarrow>
        Some (if n = old \<and> confirmedReadOnly st then Confirmed a old else Demoted a old)
    | _ \<Rightarrow> underLock (Demoted a old) e)"
| "advance (Confirmed a old) e = (case e of
      EvGTID n (Inr g) \<Rightarrow> if n = old then Some (Frozen a old g) else None
    | EvGTID n (Inl _) \<Rightarrow> Some (Confirmed a old)
    | _ \<Rightarrow> underLock (Confirmed a old) e)"
| "advance (Frozen a old g) e = (case e of
      EvWaitGTID target a' g' k r \<Rightarrow>
        if a' \<noteq> a \<or> g' \<noteq> g \<or> target = old then None
        else Some (if r = None then CaughtUp a old g target else Frozen a old g)
    | _ \<Rightarrow> underLock (Frozen a old g) e)"
| "advance (CaughtUp a old g target) e = (case e of
      EvPromote t a' r \<Rightarrow>
        if t \<noteq> target \<or> a' \<noteq> a then None
        else Some (Promoted a old target)
    | _ \<Rightarrow> underLock (CaughtUp a old g target) e)"
| "advance (Promoted a old target) e = (case e of
      EvStatus n st \<Rightarrow>
        Some (if n = target \<and> ns_Healthy st \<and> ns_Role st = RolePrimary
          then Live a old target else Promoted a old target)
    | _ \<Rightarrow> underLock (Promoted a old target) e)"
| "advance (Live a old target) e = (case e of
      EvCas ep x r \<Rightarrow>
        if ep \<noteq> auth_FromEpoch a \<or> cs_Epoch x \<noteq> auth_ToEpoch a \<or> cs_Primary x \<noteq> target
        then None else Some (if r = None then Committed a target else Live a old target)
    | _ \<Rightarrow> underLock (Live a old target) e)"
| "advance (Committed a target) e = (case e of
      EvRoute t _ \<Rightarrow> if t = target then Some (Committed a target) else None
    | EvReconfigure n a' src _ \<Rightarrow>
        if n = target \<or> a' \<noteq> a then None else Some (Committed a target)
    | EvLastSwitch _ \<Rightarrow> Some (Committed a target)
    | _ \<Rightarrow> underLock (Committed a target) e)"

fun follows :: "phase \<Rightarrow> event list \<Rightarrow> phase option" where
  "follows ph [] = Some ph"
| "follows ph (e # es) = (case advance ph e of None \<Rightarrow> None | Some ph' \<Rightarrow> follows ph' es)"

lemma follows_append:
  "follows ph (es @ fs) = (case follows ph es of None \<Rightarrow> None | Some ph' \<Rightarrow> follows ph' fs)"
  by (induction ph es rule: follows.induct) (auto split: option.splits)

lemma follows_snoc [simp]:
  "follows ph (es @ [e]) = (case follows ph es of None \<Rightarrow> None | Some ph' \<Rightarrow> advance ph' e)"
  by (simp add: follows_append split: option.splits)

lemma advance_observing [simp]:
  "advance ph (EvAlert x y z) = Some ph"
  "advance ph (EvGet r) = Some ph"
  "advance ph (EvProbe n b) = Some ph"
  by (cases ph; simp add: underLock_def stay_def)+

lemma advance_locked [simp]:
  "ph \<noteq> Idle \<Longrightarrow> advance ph (EvPutTask x r) = Some ph"
  "ph \<noteq> Idle \<Longrightarrow> advance ph EvRelease = Some Idle"
  by (cases ph; simp add: underLock_def)+

section \<open>What a phase proves\<close>

text \<open>
  The milestones of a phase: the successful calls that must have been made, in this order, since
  the lock was acquired.
\<close>

inductive evidence :: "phase \<Rightarrow> event list \<Rightarrow> bool" where
  idle: "evidence Idle []"
| settings: "evidence Settings [EvLock None None]"
| holding: "evidence (Holding a) [EvLock (Some a) None]"
| demoted: "evidence (Holding a) ts \<Longrightarrow> evidence (Demoted a old) (ts @ [EvDemote old a None])"
| confirmed: "evidence (Demoted a old) ts \<Longrightarrow> confirmedReadOnly st \<Longrightarrow>
    evidence (Confirmed a old) (ts @ [EvStatus old st])"
| frozen: "evidence (Confirmed a old) ts \<Longrightarrow> evidence (Frozen a old g) (ts @ [EvGTID old (Inr g)])"
| caughtUp: "evidence (Frozen a old g) ts \<Longrightarrow> target \<noteq> old \<Longrightarrow>
    evidence (CaughtUp a old g target) (ts @ [EvWaitGTID target a g k None])"
| promoted: "evidence (CaughtUp a old g target) ts \<Longrightarrow>
    evidence (Promoted a old target) (ts @ [EvPromote target a r])"
| live: "evidence (Promoted a old target) ts \<Longrightarrow> ns_Healthy st \<Longrightarrow> ns_Role st = RolePrimary \<Longrightarrow>
    evidence (Live a old target) (ts @ [EvStatus target st])"
| committed: "evidence (Live a old target) ts \<Longrightarrow> cs_Epoch x = auth_ToEpoch a \<Longrightarrow>
    cs_Primary x = target \<Longrightarrow>
    evidence (Committed a target) (ts @ [EvCas (auth_FromEpoch a) x None])"

inductive_simps evidence_simps:
  "evidence Idle ts" "evidence Settings ts" "evidence (Holding a) ts"
  "evidence (Demoted a old) ts" "evidence (Confirmed a old) ts" "evidence (Frozen a old g) ts"
  "evidence (CaughtUp a old g target) ts" "evidence (Promoted a old target) ts"
  "evidence (Live a old target) ts" "evidence (Committed a target) ts"

text \<open>The milestones lie in one stretch of the history in which the lock is not released.\<close>

definition milestones :: "phase \<Rightarrow> event list \<Rightarrow> bool" where
  "milestones ph es \<longleftrightarrow>
    (\<exists>ts pre mid. es = pre @ mid \<and> EvRelease \<notin> set mid \<and> subseq ts mid \<and> evidence ph ts)"

lemma evidence_start:
  "evidence Idle ts \<Longrightarrow> evidence Settings (ts @ [EvLock None None])"
  "evidence Idle ts \<Longrightarrow> evidence (Holding a) (ts @ [EvLock (Some a) None])"
  by (simp_all add: evidence_simps)

lemma advance_evidence:
  assumes "advance ph e = Some ph'"
  shows "ph' = Idle \<or> e \<noteq> EvRelease \<and>
    (ph' = ph \<or> (\<forall>ts. evidence ph ts \<longrightarrow> evidence ph' (ts @ [e])))"
  using assms
  by (cases ph; cases e)
    (auto simp: underLock_def stay_def split: if_splits option.splits sum.splits
      intro: evidence.intros evidence_start)

lemma follows_milestones: "follows Idle es = Some ph \<Longrightarrow> milestones ph es"
proof (induction es arbitrary: ph rule: rev_induct)
  case Nil
  then show ?case by (auto simp: milestones_def evidence_simps)
next
  case (snoc e es)
  then obtain q where q: "follows Idle es = Some q" "advance q e = Some ph"
    by (auto split: option.splits)
  from snoc.IH [OF q(1)] obtain ts pre mid where
    m: "es = pre @ mid" "EvRelease \<notin> set mid" "subseq ts mid" "evidence q ts"
    by (auto simp: milestones_def)
  from advance_evidence [OF q(2)] consider "ph = Idle"
    | "e \<noteq> EvRelease" "ph = q" | "e \<noteq> EvRelease" "evidence ph (ts @ [e])"
    using m(4) by auto
  then show ?case
  proof cases
    case 1
    then show ?thesis
      unfolding milestones_def
      by (intro exI [of _ "[]"] exI [of _ "es @ [e]"]) (simp add: evidence_simps)
  next
    case 2
    have "subseq ts (mid @ [e])" using m(3) by (rule subseq_rev_drop_many)
    with 2 m show ?thesis
      unfolding milestones_def by (intro exI [of _ ts] exI [of _ pre] exI [of _ "mid @ [e]"]) auto
  next
    case 3
    have "subseq (ts @ [e]) (mid @ [e])" using m(3) by simp
    with 3 m show ?thesis
      unfolding milestones_def
      by (intro exI [of _ "ts @ [e]"] exI [of _ pre] exI [of _ "mid @ [e]"]) auto
  qed
qed

lemma follows_prefix: "follows ph (es @ fs) = Some q \<Longrightarrow> \<exists>p. follows ph es = Some p \<and> follows p fs = Some q"
  by (auto simp: follows_append split: option.splits)

text \<open>A promotion has all its milestones behind it.\<close>

lemma follows_promote:
  assumes "follows Idle (es @ EvPromote target a r # fs) = Some q"
  shows "\<exists>old g. milestones (CaughtUp a old g target) es"
proof -
  obtain p where p: "follows Idle es = Some p" "follows p (EvPromote target a r # fs) = Some q"
    using follows_prefix [OF assms] by auto
  then obtain p' where "advance p (EvPromote target a r) = Some p'"
    by (auto split: option.splits)
  then obtain old g where "p = CaughtUp a old g target"
    by (cases p) (auto simp: underLock_def stay_def split: if_splits)
  with follows_milestones [OF p(1)] show ?thesis by blast
qed

text \<open>The cluster state is replaced by that of a new epoch only after the target was seen writable.\<close>

lemma follows_cas:
  assumes "follows Idle (es @ EvCas ep x r # fs) = Some q" and "cs_Epoch x \<noteq> ep"
  shows "\<exists>a old. milestones (Live a old (cs_Primary x)) es \<and> ep = auth_FromEpoch a \<and>
    cs_Epoch x = auth_ToEpoch a"
proof -
  obtain p where p: "follows Idle es = Some p" "follows p (EvCas ep x r # fs) = Some q"
    using follows_prefix [OF assms(1)] by auto
  then obtain p' where "advance p (EvCas ep x r) = Some p'"
    by (auto split: option.splits)
  then obtain a old where "p = Live a old (cs_Primary x)" "ep = auth_FromEpoch a"
      "cs_Epoch x = auth_ToEpoch a"
    using assms(2) by (cases p) (auto simp: underLock_def stay_def split: if_splits)
  with follows_milestones [OF p(1)] show ?thesis by blast
qed

section \<open>Histories\<close>

text \<open>
  What the machine's histories have in common, spelled out. Before every promotion, under one
  lock, the old primary was demoted, was seen read-only and told its transactions, and the target,
  another node, waited for exactly those.
\<close>

definition promotionsSafe :: "event list \<Rightarrow> bool" where
  "promotionsSafe h \<longleftrightarrow> (\<forall>es target a r fs. h = es @ EvPromote target a r # fs \<longrightarrow>
     (\<exists>pre mid old st g k. es = pre @ mid \<and> EvRelease \<notin> set mid \<and> target \<noteq> old \<and>
       confirmedReadOnly st \<and>
       subseq [EvLock (Some a) None, EvDemote old a None, EvStatus old st, EvGTID old (Inr g),
         EvWaitGTID target a g k None] mid))"

text \<open>
  A cluster state of a new epoch is stored only for a target that, under the same lock, was
  promoted and then seen healthy and writable; the epochs are those of the authorization.
\<close>

definition commitsSafe :: "event list \<Rightarrow> bool" where
  "commitsSafe h \<longleftrightarrow> (\<forall>es ep x r fs. h = es @ EvCas ep x r # fs \<longrightarrow> cs_Epoch x \<noteq> ep \<longrightarrow>
     (\<exists>pre mid a st q. es = pre @ mid \<and> EvRelease \<notin> set mid \<and> ep = auth_FromEpoch a \<and>
       cs_Epoch x = auth_ToEpoch a \<and> ns_Healthy st \<and> ns_Role st = RolePrimary \<and>
       subseq [EvLock (Some a) None, EvPromote (cs_Primary x) a q, EvStatus (cs_Primary x) st] mid))"

text \<open>Every lock that was acquired is released before another one is asked for.\<close>

definition isLock :: "event \<Rightarrow> bool" where
  "isLock e \<longleftrightarrow> (case e of EvLock _ _ \<Rightarrow> True | _ \<Rightarrow> False)"

definition locksReleased :: "event list \<Rightarrow> bool" where
  "locksReleased h \<longleftrightarrow> (\<forall>es a fs. h = es @ EvLock a None # fs \<longrightarrow>
     (\<exists>mid rest. fs = mid @ EvRelease # rest \<and> list_all (\<lambda>e. \<not> isLock e) mid))"

lemma evidence_CaughtUp:
  "evidence (CaughtUp a old g target) ts \<longleftrightarrow> target \<noteq> old \<and> (\<exists>st k. confirmedReadOnly st \<and>
    ts = [EvLock (Some a) None, EvDemote old a None, EvStatus old st, EvGTID old (Inr g),
      EvWaitGTID target a g k None])"
  by (auto simp: evidence_simps)

lemma follows_promotionsSafe:
  assumes "follows Idle h = Some q"
  shows "promotionsSafe h"
  unfolding promotionsSafe_def
proof (intro allI impI)
  fix es target a r fs
  assume "h = es @ EvPromote target a r # fs"
  with assms obtain old g where "milestones (CaughtUp a old g target) es"
    using follows_promote by blast
  then obtain ts pre mid where "es = pre @ mid" "EvRelease \<notin> set mid" "subseq ts mid"
      "evidence (CaughtUp a old g target) ts"
    unfolding milestones_def by blast
  then show "\<exists>pre mid old st g k. es = pre @ mid \<and> EvRelease \<notin> set mid \<and> target \<noteq> old \<and>
       confirmedReadOnly st \<and>
       subseq [EvLock (Some a) None, EvDemote old a None, EvStatus old st, EvGTID old (Inr g),
         EvWaitGTID target a g k None] mid"
    unfolding evidence_CaughtUp by blast
qed

lemma evidence_Live:
  assumes "evidence (Live a old target) ts"
  shows "\<exists>st q. ns_Healthy st \<and> ns_Role st = RolePrimary \<and>
    subseq [EvLock (Some a) None, EvPromote target a q, EvStatus target st] ts"
  using assms by (auto simp: evidence_simps) 

lemma follows_commitsSafe:
  assumes "follows Idle h = Some q"
  shows "commitsSafe h"
  unfolding commitsSafe_def
proof (intro allI impI)
  fix es ep x r fs
  assume "h = es @ EvCas ep x r # fs" "cs_Epoch x \<noteq> ep"
  with assms obtain a old where a: "milestones (Live a old (cs_Primary x)) es"
      "ep = auth_FromEpoch a" "cs_Epoch x = auth_ToEpoch a"
    using follows_cas by blast
  then obtain ts pre mid where m: "es = pre @ mid" "EvRelease \<notin> set mid" "subseq ts mid"
      "evidence (Live a old (cs_Primary x)) ts"
    unfolding milestones_def by blast
  from evidence_Live [OF m(4)] m(3) obtain st p where "ns_Healthy st" "ns_Role st = RolePrimary"
    "subseq [EvLock (Some a) None, EvPromote (cs_Primary x) a p, EvStatus (cs_Primary x) st] mid"
    by (meson subseq_order.order_trans)
  with a m show "\<exists>pre mid a st q. es = pre @ mid \<and> EvRelease \<notin> set mid \<and> ep = auth_FromEpoch a \<and>
       cs_Epoch x = auth_ToEpoch a \<and> ns_Healthy st \<and> ns_Role st = RolePrimary \<and>
       subseq [EvLock (Some a) None, EvPromote (cs_Primary x) a q, EvStatus (cs_Primary x) st] mid"
    by blast
qed

lemma advance_lock: "advance ph (EvLock a r) = Some ph' \<Longrightarrow> ph = Idle"
  by (cases ph) (auto simp: underLock_def stay_def split: if_splits)

lemma advance_idle: "advance ph e = Some Idle \<Longrightarrow> ph \<noteq> Idle \<Longrightarrow> e = EvRelease"
  by (cases ph; cases e) (auto simp: underLock_def stay_def split: if_splits option.splits sum.splits)

lemma follows_release:
  assumes "follows ph fs = Some Idle" "ph \<noteq> Idle"
  shows "\<exists>mid rest. fs = mid @ EvRelease # rest \<and> list_all (\<lambda>e. \<not> isLock e) mid"
  using assms
proof (induction fs arbitrary: ph)
  case (Cons e fs)
  then obtain ph' where ph': "advance ph e = Some ph'" "follows ph' fs = Some Idle"
    by (auto split: option.splits)
  show ?case
  proof (cases "ph' = Idle")
    case True
    with ph' Cons.prems have "e # fs = [] @ EvRelease # fs" by (simp add: advance_idle)
    then show ?thesis by (metis list.pred_inject(1))
  next
    case False
    with Cons.IH [OF ph'(2)] obtain mid rest where
      "fs = mid @ EvRelease # rest" "list_all (\<lambda>e. \<not> isLock e) mid" by blast
    moreover have "\<not> isLock e"
      using ph'(1) Cons.prems(2) by (auto simp: isLock_def dest: advance_lock split: event.splits)
    ultimately have "e # fs = (e # mid) @ EvRelease # rest" "list_all (\<lambda>e. \<not> isLock e) (e # mid)"
      by simp_all
    then show ?thesis by blast
  qed
qed simp

lemma follows_locksReleased:
  assumes "follows Idle h = Some Idle"
  shows "locksReleased h"
  unfolding locksReleased_def
proof (intro allI impI)
  fix es a fs
  assume "h = es @ EvLock a None # fs"
  with assms obtain p where p: "follows Idle es = Some p" "follows p (EvLock a None # fs) = Some Idle"
    using follows_prefix by blast
  then obtain p' where p': "advance p (EvLock a None) = Some p'" "follows p' fs = Some Idle"
    by (auto split: option.splits)
  moreover have "p' \<noteq> Idle"
    using p'(1) advance_lock [OF p'(1)] by (auto split: option.splits)
  ultimately show "\<exists>mid rest. fs = mid @ EvRelease # rest \<and> list_all (\<lambda>e. \<not> isLock e) mid"
    using follows_release by blast
qed

end
