(* ===== verification/HA_Switch_Laws.thy ===== *)
theory HA_Switch_Laws
  imports HA_Switch HA_Protocol
begin

text \<open>
  What a run of \<open>Switch\<close> and of \<open>SetAutoFailover\<close> does, whatever the collaborators answer and
  whatever happens to the world meanwhile.
\<close>

section \<open>Rules for the steps\<close>

lemma wp_finishTask [wp_call]:
  assumes "\<And>now w. Q (task\<lparr>st_State := ''failed'', st_Error := err, st_FinishedAt := now\<rparr>, Some err)
     (s\<lparr>ctl := (ctl s)\<lparr>v_lastTask := Some (task\<lparr>st_State := ''failed'', st_Error := err,
         st_FinishedAt := now\<rparr>)\<rparr>, world := w,
       hist := hist s @ [EvAlert ''critical'' ''MySQL HA switch failed'' err]\<rparr>)"
  shows "wp (finishTask rt c task err) Q s"
  using assms by (auto simp: finishTask_def setTask_def wp intro!: wp_call)

lemma wp_orFinish [wp]:
  "wp (orFinish rt c task m wrap rest) Q s = wp m (\<lambda>r t. case r of
      None \<Rightarrow> wp rest Q t
    | Some err \<Rightarrow> wp (finishTask rt c task (wrap err)) Q t) s"
  by (auto simp: orFinish_def wp_def split: prod.splits option.splits)

lemma wp_switchDryRun [wp_call]:
  assumes "\<And>now v p w. Q (task\<lparr>st_State := ''dry-run'', st_FinishedAt := now\<rparr>, None)
     (s\<lparr>others := p, ctl := v, world := w,
       hist := hist s @ [EvAlert ''warning'' ''MySQL HA automatic failover dry-run''
         (''candidate='' @ target @ '' current_primary='' @ cs_Primary state)]\<rparr>)"
  shows "wp (switchDryRun rt c cx state target task) Q s"
  using assms unfolding switchDryRun_def by (auto simp: setTask_def wp intro!: wp_call)

section \<open>The protocol\<close>

text \<open>
  Every statement of a switch is a legal continuation of a legal history, and a switch gives the
  lock back on every path.
\<close>

lemma reconfigureAll_follows:
  assumes "follows p (hist s) = Some (Committed auth target)"
  shows "wp (reconfigureAll c cx auth target ids)
    (\<lambda>_ t. follows p (hist t) = Some (Committed auth target)) s"
  using assms
proof (induction ids arbitrary: s)
  case (Cons nid ids)
  then show ?case
    by (auto simp: wp split: option.splits intro!: wp_call)
qed (simp add: wp)

lemma switchCommit_follows:
  assumes "follows p (hist s) = Some (Live auth old target)"
    and "auth_FromEpoch auth = cs_Epoch state" "auth_ToEpoch auth = cs_Epoch state + 1"
  shows "wp (switchCommit rt c cx state target auth task)
    (\<lambda>_ t. \<exists>q. follows p (hist t) = Some q \<and> q \<noteq> Idle) s"
  using assms unfolding switchCommit_def
  by (auto simp: wp follows_append setTask_def split: option.splits intro!: wp_call wp_mono [OF reconfigureAll_follows [where p = p]])

lemma switchExecute_follows:
  assumes "follows p (hist s) = Some (Holding auth)" and "target \<noteq> cs_Primary state"
    and "auth_FromEpoch auth = cs_Epoch state" "auth_ToEpoch auth = cs_Epoch state + 1"
  shows "wp (switchExecute rt c cx state target client auth task)
    (\<lambda>_ t. \<exists>q. follows p (hist t) = Some q \<and> q \<noteq> Idle) s"
  using assms unfolding switchExecute_def switchPromote_def switchCatchUp_def
  by (auto simp: wp follows_append confirmedReadOnly_def split: option.splits sum.splits
    intro!: wp_call switchCommit_follows [where old = "cs_Primary state"])


lemma switchTask_follows:
  assumes "follows p (hist s) = Some (Holding auth)" and "target \<noteq> cs_Primary state"
    and "auth_FromEpoch auth = cs_Epoch state" "auth_ToEpoch auth = cs_Epoch state + 1"
  shows "wp (switchTask rt c cx state target client auth task)
    (\<lambda>_ t. \<exists>q. follows p (hist t) = Some q \<and> q \<noteq> Idle) s"
  using assms unfolding switchTask_def
  by (auto simp: wp follows_append setTask_def underLock_def split: option.splits
    intro!: wp_call wp_mono [OF switchExecute_follows [where p = p]])

lemma switchLocked_follows:
  assumes "follows p (hist s) = Some (Holding auth)"
    and "auth_FromEpoch auth = cs_Epoch state" "auth_ToEpoch auth = cs_Epoch state + 1"
  shows "wp (switchLocked rt c cx state target client auth automatic)
    (\<lambda>_ t. \<exists>q. follows p (hist t) = Some q \<and> q \<noteq> Idle) s"
  using assms unfolding switchLocked_def
  by (auto simp: wp follows_append underLock_def stay_def split: option.splits sum.splits
    intro!: wp_call switchTask_follows)

lemma Switch_follows:
  assumes "follows p (hist s) = Some Idle"
  shows "wp (Switch rt c cx target automatic) (\<lambda>_ t. follows p (hist t) = Some Idle) s"
  using assms unfolding Switch_def switchFrom_def IsLeader_def
  by (auto simp: wp follows_append stay_def errOf_def split: option.splits sum.splits prod.splits
    intro!: wp_call wp_mono [OF switchLocked_follows [where p = p]])

lemma SetAutoFailover_follows:
  assumes "follows p (hist s) = Some Idle"
  shows "wp (SetAutoFailover rt c cx enabled) (\<lambda>_ t. follows p (hist t) = Some Idle) s"
  using assms unfolding SetAutoFailover_def IsLeader_def
  by (auto simp: wp follows_append stay_def underLock_def errOf_def split: option.splits sum.splits prod.splits
    intro!: wp_call)

section \<open>Outcomes\<close>

text \<open>The calls that change a node, the route or the stored cluster state.\<close>

fun acting :: "event \<Rightarrow> bool" where
  "acting (EvPutCluster _ _) = True"
| "acting (EvCas _ _ _) = True"
| "acting (EvFence _ _) = True"
| "acting (EvDemote _ _ _) = True"
| "acting (EvPromote _ _ _) = True"
| "acting (EvRoute _ _) = True"
| "acting (EvReconfigure _ _ _ _) = True"
| "acting _ = False"

lemma Switch_dry:
  assumes "dryRunOf (c_cfg c) automatic"
  shows "wp (Switch rt c cx target automatic)
    (\<lambda>_ t. filter acting (hist t) = filter acting (hist s)) s"
  using assms unfolding Switch_def switchFrom_def switchLocked_def switchTask_def IsLeader_def
  by (auto simp: wp setTask_def split: option.splits sum.splits prod.splits intro!: wp_call)

text \<open>How a task ends, and what the controller then remembers of it.\<close>

definition ended :: "bool \<Rightarrow> SwitchTask \<times> error option \<Rightarrow> bool" where
  "ended dry r \<longleftrightarrow> st_DryRun (fst r) = dry \<and> (case snd r of
      None \<Rightarrow> st_State (fst r) = (if dry then ''dry-run'' else ''completed'') \<and> st_Error (fst r) = ''''
    | Some e \<Rightarrow> \<not> dry \<and> st_State (fst r) = ''failed'' \<and> st_Error (fst r) = e)"

definition settled :: "bool \<Rightarrow> SwitchTask \<times> error option \<Rightarrow> 'w sys \<Rightarrow> bool" where
  "settled dry r t \<longleftrightarrow> v_lastTask (ctl t) = Some (fst r) \<and> ended dry r"

lemma reconfigureAll_ctl:
  "wp (reconfigureAll c cx auth target ids) (\<lambda>_ t. ctl t = ctl s \<and> others t = others s) s"
proof -
  have "ctl t = v \<Longrightarrow> others t = p \<Longrightarrow>
      wp (reconfigureAll c cx auth target ids) (\<lambda>_ t. ctl t = v \<and> others t = p) t" for v p t
    by (induction ids arbitrary: t) (auto simp: wp split: option.splits intro!: wp_call)
  then show ?thesis by simp
qed

lemma switchExecute_settled:
  assumes "\<not> st_DryRun task" "st_Error task = ''''"
  shows "wp (switchExecute rt c cx state target client auth task)
    (\<lambda>r t. settled False r t \<and> others t = others s \<and> ctl t = (ctl s)\<lparr>v_lastTask := v_lastTask (ctl t)\<rparr>) s"
  using assms unfolding switchExecute_def switchPromote_def switchCatchUp_def switchCommit_def
  by (auto simp: wp settled_def ended_def setTask_def split: option.splits sum.splits
    intro!: wp_call wp_mono [OF reconfigureAll_ctl])

definition storedTask :: "SwitchTask \<Rightarrow> event list \<Rightarrow> bool" where
  "storedTask task = list_ex (\<lambda>e. case e of EvPutTask t _ \<Rightarrow> t = task | _ \<Rightarrow> False)"

definition refusedTask :: "event list \<Rightarrow> bool" where
  "refusedTask = list_ex (\<lambda>e. case e of EvPutTask _ (Some _) \<Rightarrow> True | _ \<Rightarrow> False)"

text \<open>What a caller sees of a switch: an error alone, or a stored task that says how it ended.\<close>

definition concluded :: "bool \<Rightarrow> outcome \<Rightarrow> 'w sys \<Rightarrow> bool" where
  "concluded dry r t \<longleftrightarrow> (case fst r of
      None \<Rightarrow> snd r \<noteq> None
    | Some task \<Rightarrow> ended dry (task, snd r) \<and> storedTask task (hist t))"

lemma switchTask_concluded:
  assumes "st_Error task = ''''"
  shows "wp (switchTask rt c cx state target client auth task) (concluded (st_DryRun task)) s"
  using assms unfolding switchTask_def concluded_def storedTask_def
  by (auto simp: wp ended_def settled_def setTask_def split: option.splits
    intro!: wp_call wp_mono [OF switchExecute_settled])

lemma switchLocked_concluded:
  "wp (switchLocked rt c cx state target client auth automatic)
    (concluded (dryRunOf (c_cfg c) automatic)) s"
proof -
  have err: "concluded dry (None, Some e) t" for dry e t
    by (simp add: concluded_def)
  show ?thesis
    unfolding switchLocked_def
    by (auto simp: wp err zeroSwitchTask_def split: option.splits sum.splits
      intro!: wp_call wp_mono [OF switchTask_concluded])
qed

lemma Switch_concluded:
  "wp (Switch rt c cx target automatic) (concluded (dryRunOf (c_cfg c) automatic)) s"
proof -
  have err: "concluded dry (None, Some e) t" for dry e t
    by (simp add: concluded_def)
  have rel: "concluded dry r (t\<lparr>world := w, hist := hist t @ [EvRelease]\<rparr>)"
    if "concluded dry r t" for dry r t w
    using that by (auto simp: concluded_def storedTask_def split: option.splits)
  show ?thesis
    unfolding Switch_def switchFrom_def IsLeader_def
    by (auto simp: wp err rel split: option.splits sum.splits prod.splits
      intro!: wp_call wp_mono [OF switchLocked_concluded])
qed

text \<open>
  What becomes of the controller's fields where no other goroutine writes them. \<open>tripping\<close> is off
  once there is a task; without one it is as before, except that a refused \<open>PutTask\<close> leaves it on.
\<close>

definition switched :: "bool \<Rightarrow> 'w sys \<Rightarrow> outcome \<Rightarrow> 'w sys \<Rightarrow> bool" where
  "switched dry s r t \<longleftrightarrow>
    (case fst r of
       None \<Rightarrow> snd r \<noteq> None \<and> (v_tripping (ctl t) = v_tripping (ctl s) \<or> refusedTask (hist t))
     | Some task \<Rightarrow> settled dry (task, snd r) t \<and> \<not> v_tripping (ctl t) \<and>
         storedTask task (hist t)) \<and>
    ctl t = (ctl s)\<lparr>v_lastTask := v_lastTask (ctl t), v_tripping := v_tripping (ctl t),
      v_lastDryRunPrimary := v_lastDryRunPrimary (ctl t)\<rparr>"

lemma switchTask_switched:
  assumes "st_Error task = ''''" "ctl s = ctl base" "alone s"
  shows "wp (switchTask rt c cx state target client auth task) (switched (st_DryRun task) base) s"
  using assms unfolding switchTask_def switchDryRun_def switched_def storedTask_def refusedTask_def
  by (auto simp: wp settled_def ended_def setTask_def alone_def split: option.splits
    intro!: wp_ask_any wp_call_any wp_sendAlert wp_mono [OF switchExecute_settled])

lemma switchLocked_switched:
  assumes "ctl s = ctl base" "alone s"
  shows "wp (switchLocked rt c cx state target client auth automatic)
    (switched (dryRunOf (c_cfg c) automatic) base) s"
proof -
  have err: "switched dry base (None, Some e) t" if "ctl t = ctl base" for dry e t
    using that by (simp add: switched_def)
  show ?thesis
    using assms unfolding switchLocked_def
    by (auto simp: wp err zeroSwitchTask_def split: option.splits sum.splits
      intro!: wp_call wp_mono [OF switchTask_switched [where base = base]])
qed

lemma Switch_switched:
  assumes "alone s"
  shows "wp (Switch rt c cx target automatic) (switched (dryRunOf (c_cfg c) automatic) s) s"
proof -
  have err: "switched dry s (None, Some e) t" if "ctl t = ctl s" for dry e t
    using that by (simp add: switched_def)
  have rel: "switched dry s r (t\<lparr>world := w, hist := hist t @ [EvRelease]\<rparr>)"
    if "switched dry s r t" for dry r t w
    using that by (auto simp: switched_def settled_def ended_def storedTask_def refusedTask_def split: option.splits)
  show ?thesis
    using assms unfolding Switch_def switchFrom_def IsLeader_def leaderBoundContext_def chooseTarget_def
    by (auto simp: wp err rel split: option.splits sum.splits prod.splits
      intro!: wp_call wp_mono [OF switchLocked_switched [where base = s]])
qed

lemma Switch_result:
  "wp (Switch rt c cx target automatic) (\<lambda>r t. concluded (dryRunOf (c_cfg c) automatic) r t \<and>
    (alone s \<longrightarrow> switched (dryRunOf (c_cfg c) automatic) s r t)) s"
  using Switch_concluded [of rt c cx target automatic s] Switch_switched [of s rt c cx target automatic]
  unfolding wp_run by blast

section \<open>A completed switch\<close>

definition sourceConfig :: "'w Controller \<Rightarrow> string \<Rightarrow> AgentNodeConfig" where
  "sourceConfig c target =
     (case map_of (c_configs c) target of None \<Rightarrow> zeroAgentNodeConfig | Some n \<Rightarrow> n)"

definition reconfigured ::
  "'w Controller \<Rightarrow> SwitchAuthorization \<Rightarrow> string \<Rightarrow> string set \<Rightarrow> event list \<Rightarrow> bool" where
  "reconfigured c auth target ids es \<longleftrightarrow>
    (\<forall>n \<in> ids. n \<noteq> target \<longrightarrow> EvReconfigure n auth (sourceConfig c target) None \<in> set es)"

lemma reconfigureAll_all:
  assumes "\<forall>n \<in> set ids. n \<in> fst ` set (c_clients c)" "P (hist s)" "\<And>es e. P es \<Longrightarrow> P (es @ [e])"
  shows "wp (reconfigureAll c cx auth target ids) (\<lambda>r t. P (hist t) \<and>
      (r = None \<longrightarrow> reconfigured c auth target (set ids) (hist t))) s"
  using assms
proof (induction ids arbitrary: s P)
  case Nil
  then show ?case by (simp add: wp reconfigured_def)
next
  case (Cons nid ids)
  let ?new = "EvReconfigure nid auth (sourceConfig c target) None"
  let ?P = "\<lambda>es. P es \<and> (nid \<noteq> target \<longrightarrow> ?new \<in> set es)"
  have "\<exists>client. map_of (c_clients c) nid = Some client"
    using Cons.prems(1) by (auto simp: weak_map_of_SomeI)
  then show ?case
    using Cons.prems Cons.IH [of ?P]
    by (auto simp: wp sourceConfig_def [symmetric] reconfigured_def split: option.splits
      intro!: wp_call wp_mono [OF Cons.IH [of ?P]])
qed

text \<open>The cluster state a switch to \<open>target\<close> stores when it started from \<open>state\<close>.\<close>

definition committedState :: "ClusterState \<Rightarrow> string \<Rightarrow> ClusterState \<Rightarrow> bool" where
  "committedState state target x \<longleftrightarrow> x = state\<lparr>cs_Primary := target,
     cs_Epoch := cs_Epoch state + 1, cs_UpdatedAt := cs_UpdatedAt x\<rparr>"

definition storedState :: "ClusterState \<Rightarrow> string \<Rightarrow> event list \<Rightarrow> bool" where
  "storedState state target = list_ex (\<lambda>e. case e of
      EvCas ep x None \<Rightarrow> ep = cs_Epoch state \<and> committedState state target x
    | _ \<Rightarrow> False)"

definition completed ::
  "'w Controller \<Rightarrow> ClusterState \<Rightarrow> string \<Rightarrow> SwitchAuthorization \<Rightarrow> event list \<Rightarrow> bool" where
  "completed c state target auth es \<longleftrightarrow> EvPromote target auth None \<in> set es \<and>
     storedState state target es \<and> reconfigured c auth target (set (map fst (c_clients c))) es"

lemma switchCommit_completed:
  assumes "runtime_ok rt" "EvPromote target auth None \<in> set (hist s)"
  shows "wp (switchCommit rt c cx state target auth task) (\<lambda>r t. st_To (fst r) = st_To task \<and>
    (snd r = None \<longrightarrow> completed c state target auth (hist t))) s"
  using assms(2) unfolding switchCommit_def completed_def
  by (auto simp: wp setTask_def reconfigured_def storedState_def committedState_def split: option.splits
    intro!: wp_range [OF assms(1)] wp_ask_any [where m = "rt_now rt"] wp_call_any wp_sendAlert
      wp_finishTask wp_mono [OF reconfigureAll_all [where
        P = "\<lambda>es. EvPromote target auth None \<in> set es \<and> storedState state target es"]])

lemma completed_append: "completed c state target auth es \<Longrightarrow> completed c state target auth (es @ fs)"
  by (auto simp: completed_def storedState_def reconfigured_def)

lemma switchExecute_completed:
  assumes "runtime_ok rt"
  shows "wp (switchExecute rt c cx state target client auth task) (\<lambda>r t. st_To (fst r) = st_To task \<and>
    (snd r = None \<longrightarrow> completed c state target auth (hist t))) s"
  unfolding switchExecute_def switchPromote_def switchCatchUp_def
  by (auto simp: wp split: option.splits sum.splits
    intro!: wp_call wp_mono [OF switchCommit_completed [OF assms]])

text \<open>What the caller may conclude from a task without an error.\<close>

definition achieved :: "'w Controller \<Rightarrow> ClusterState \<Rightarrow> SwitchAuthorization \<Rightarrow> outcome \<Rightarrow> 'w sys \<Rightarrow> bool"
  where
  "achieved c state auth r t \<longleftrightarrow> (case r of
      (Some task, None) \<Rightarrow> st_DryRun task \<or> completed c state (st_To task) auth (hist t)
    | _ \<Rightarrow> True)"

lemma switchTask_achieved:
  assumes "runtime_ok rt" "st_To task = target"
  shows "wp (switchTask rt c cx state target client auth task) (achieved c state auth) s"
  using assms(2) unfolding switchTask_def achieved_def
  by (auto simp: wp setTask_def completed_append split: option.splits
    intro!: wp_call wp_mono [OF switchExecute_completed [OF assms(1)]])

lemma switchLocked_achieved:
  assumes "runtime_ok rt"
  shows "wp (switchLocked rt c cx state target client auth automatic) (achieved c state auth) s"
proof -
  have err: "achieved c state auth (None, e) t" for e t
    by (simp add: achieved_def)
  show ?thesis
    unfolding switchLocked_def
    by (auto simp: wp err split: option.splits sum.splits
      intro!: wp_call switchTask_achieved [OF assms])
qed

lemma Switch_achieved:
  assumes "runtime_ok rt"
  shows "wp (Switch rt c cx target automatic) (\<lambda>r t. \<exists>state auth.
    auth_FromEpoch auth = cs_Epoch state \<and>
    achieved c state auth r t) s"
proof -
  have err: "achieved c state auth (None, e) t" for state auth e t
    by (simp add: achieved_def)
  have ex: "\<exists>auth :: SwitchAuthorization. auth_FromEpoch auth = e" for e
    by (rule exI [of _ "\<lparr>auth_OperationID = [], auth_FromEpoch = e, auth_ToEpoch = e\<rparr>"]) simp
  have rel: "achieved c state auth r (t\<lparr>world := w, hist := hist t @ [EvRelease]\<rparr>)"
    if "achieved c state auth r t" for state auth r t w
    using that by (auto simp: achieved_def completed_append split: option.splits)
  have rel': "\<exists>state auth. auth_FromEpoch auth = cs_Epoch state \<and>
      achieved c state auth r (t\<lparr>world := w, hist := hist t @ [EvRelease]\<rparr>)"
    if "achieved c state auth r t" "auth_FromEpoch auth = cs_Epoch state" for state auth r t w
    using rel [OF that(1)] that(2) by blast
  show ?thesis
    unfolding Switch_def switchFrom_def IsLeader_def
    by (auto simp: wp err ex split: option.splits sum.splits prod.splits
      intro!: wp_call wp_mono [OF switchLocked_achieved [OF assms]])
      (erule rel', simp)+
qed

end
