(* ===== verification/HA_Fleet.thy ===== *)
theory HA_Fleet
  imports HA_Switch_Laws
begin

text \<open>
  A switch over a fleet of nodes: never two nodes that accept writes.

  The locale \<open>fleet\<close> is what the controller relies on: \<open>cl\<close> reads the stored cluster state and
  \<open>rw\<close> the nodes that accept writes. A status tells the truth about being read-only, demoting and
  reconfiguring never open a node, promoting opens at most its own node, and nothing else touches
  either. It leaves out interference: during the switch nobody else writes the cluster state or
  opens a node.
\<close>

definition keeps :: "('w \<Rightarrow> 'a) \<Rightarrow> ('w, 'b) state \<Rightarrow> bool" where
  "keeps f m \<longleftrightarrow> (\<forall>w. f (snd (run_state m w)) = f w)"

lemma keepsD: "keeps f m \<Longrightarrow> run_state m w = (r, w') \<Longrightarrow> f w' = f w"
  by (metis keeps_def snd_conv)

lemma keeps_maintains: "(\<And>v. maintains (\<lambda>w. f w = v) m) \<Longrightarrow> keeps f m"
  by (simp add: keeps_def maintains_def wp_run)

lemma keeps_return: "keeps f (State_Monad.return x)"
  by (simp add: keeps_def)

lemma keeps_bind: "keeps f m \<Longrightarrow> (\<And>a. keeps f (k a)) \<Longrightarrow> keeps f (State_Monad.bind m k)"
  by (simp add: keeps_def split: prod.splits) (metis snd_conv)

definition onlyWriter :: "('w \<Rightarrow> string \<Rightarrow> bool) \<Rightarrow> 'w \<Rightarrow> string \<Rightarrow> bool" where
  "onlyWriter rw w p \<longleftrightarrow> (\<forall>m. rw w m \<longrightarrow> m = p)"

text \<open>Whether a promotion was attempted.\<close>

fun isPromote :: "event \<Rightarrow> bool" where
  "isPromote (EvPromote _ _ _) = True"
| "isPromote _ = False"

definition attempted :: "event list \<Rightarrow> bool" where
  "attempted = list_ex isPromote"

lemma attempted_simps [simp]:
  "\<not> attempted []" "attempted (e # es) \<longleftrightarrow> isPromote e \<or> attempted es"
  "attempted (es @ fs) \<longleftrightarrow> attempted es \<or> attempted fs"
  by (simp_all add: attempted_def)

text \<open>Whether a cluster state was stored.\<close>

fun isCommit :: "event \<Rightarrow> bool" where
  "isCommit (EvCas _ _ r) \<longleftrightarrow> r = None"
| "isCommit _ = False"

definition committed :: "event list \<Rightarrow> bool" where
  "committed = list_ex isCommit"

lemma committed_simps [simp]:
  "\<not> committed []" "committed (e # es) \<longleftrightarrow> isCommit e \<or> committed es"
  "committed (es @ fs) \<longleftrightarrow> committed es \<or> committed fs"
  by (simp_all add: committed_def)

locale fleet =
  fixes rt :: "'w Runtime" and c :: "'w Controller"
    and cl :: "'w \<Rightarrow> ClusterState" and rw :: "'w \<Rightarrow> string \<Rightarrow> bool"
  assumes get: "run_state (s_GetCluster (c_store c) cx) w = (r, w') \<Longrightarrow>
      rw w' = rw w \<and> cl w' = cl w \<and> (\<forall>x. r = Inr x \<longrightarrow> x = cl w)"
    and cas: "run_state (s_PutClusterIfEpoch (c_store c) cx e x) w = (q, w') \<Longrightarrow>
      rw w' = rw w \<and> (cl w' = x \<or> q \<noteq> None \<and> cl w' = cl w)"
    and acquire: "keeps (\<lambda>w. (rw w, cl w)) (s_AcquireSwitchLock (c_store c) cx h ttl a)"
    and release: "run_state (s_AcquireSwitchLock (c_store c) cx h ttl a) w = (Inr (cx', rel), w') \<Longrightarrow>
      keeps (\<lambda>w. (rw w, cl w)) rel"
    and putTask: "keeps (\<lambda>w. (rw w, cl w)) (s_PutTask (c_store c) cx task)"
    and router: "keeps (\<lambda>w. (rw w, cl w)) (c_router c cx n)"
    and fencer: "keeps (\<lambda>w. (rw w, cl w)) (c_fencer c cx n)"
    and alerts: "keeps (\<lambda>w. (rw w, cl w)) (am_Post (c_alerts c) cx url payload)"
    and runtime: "keeps (\<lambda>w. (rw w, cl w)) (rt_now rt)"
      "keeps (\<lambda>w. (rw w, cl w)) (rt_ctxErr rt cx)" "keeps (\<lambda>w. (rw w, cl w)) (rt_range rt ks)"
    and status: "map_of (c_clients c) n = Some node \<Longrightarrow> run_state (n_Status node cx) w = (st, w') \<Longrightarrow>
      rw w' = rw w \<and> cl w' = cl w \<and> (confirmedReadOnly st \<longrightarrow> \<not> rw w n)"
    and gtid: "map_of (c_clients c) n = Some node \<Longrightarrow>
      keeps (\<lambda>w. (rw w, cl w)) (n_ExecutedGTID node cx)"
    and waitGTID: "map_of (c_clients c) n = Some node \<Longrightarrow>
      keeps (\<lambda>w. (rw w, cl w)) (n_WaitForGTID node cx a g k)"
    and demote: "map_of (c_clients c) n = Some node \<Longrightarrow>
      run_state (n_Demote node cx a) w = (q, w') \<Longrightarrow> cl w' = cl w \<and> rw w' \<le> rw w"
    and promote: "map_of (c_clients c) n = Some node \<Longrightarrow>
      run_state (n_Promote node cx a) w = (q, w') \<Longrightarrow> cl w' = cl w \<and> (\<forall>m. rw w' m \<longrightarrow> m = n \<or> rw w m)"
    and reconfigure: "map_of (c_clients c) n = Some node \<Longrightarrow>
      run_state (n_ReconfigureReplica node cx a src) w = (q, w') \<Longrightarrow> cl w' = cl w \<and> rw w' \<le> rw w"
begin

lemma wp_keeps:
  assumes "keeps (\<lambda>w. (rw w, cl w)) m"
    and "\<And>r w'. rw w' = rw w \<Longrightarrow> cl w' = cl w \<Longrightarrow> Q r w'"
  shows "wp m Q w"
  using assms by (simp add: keeps_def wp_run)

lemma wp_run_rule: "(\<And>r w'. run_state m w = (r, w') \<Longrightarrow> Q r w') \<Longrightarrow> wp m Q w"
  by (simp add: wp_def split: prod.splits)

end

section \<open>No two writers\<close>

text \<open>
  After the promotion: only the target may be open, and it is recorded if the switch succeeded or
  stored a cluster state.
\<close>

definition promotedTo ::
  "('w \<Rightarrow> ClusterState) \<Rightarrow> ('w \<Rightarrow> string \<Rightarrow> bool) \<Rightarrow> string \<Rightarrow> error option \<Rightarrow> 'w sys \<Rightarrow> bool" where
  "promotedTo cl rw target err t \<longleftrightarrow> onlyWriter rw (world t) target \<and> attempted (hist t) \<and>
    (err = None \<or> committed (hist t) \<longrightarrow> cs_Primary (cl (world t)) = target)"

text \<open>Otherwise nothing was opened and the record is as it was.\<close>

definition untouched ::
  "('w \<Rightarrow> ClusterState) \<Rightarrow> ('w \<Rightarrow> string \<Rightarrow> bool) \<Rightarrow> ClusterState \<Rightarrow> 'w sys \<Rightarrow> bool" where
  "untouched cl rw state t \<longleftrightarrow> onlyWriter rw (world t) (cs_Primary state) \<and> cl (world t) = state \<and>
    \<not> attempted (hist t) \<and> \<not> committed (hist t)"

definition unsplit ::
  "('w \<Rightarrow> ClusterState) \<Rightarrow> ('w \<Rightarrow> string \<Rightarrow> bool) \<Rightarrow> ClusterState \<Rightarrow> error option \<Rightarrow> 'w sys \<Rightarrow> bool" where
  "unsplit cl rw state err t \<longleftrightarrow> untouched cl rw state t \<or> (\<exists>n. promotedTo cl rw n err t)"

context fleet
begin

lemma call_keeps:
  assumes "keeps (\<lambda>w. (rw w, cl w)) m"
    and "\<And>r w'. rw w' = rw (world s) \<Longrightarrow> cl w' = cl (world s) \<Longrightarrow>
      Q r (s\<lparr>world := w', hist := hist s @ [ev r]\<rparr>)"
  shows "wp (call m ev) Q s"
  using assms by (auto simp: wp_call_run intro!: wp_keeps)

lemma ask_keeps:
  assumes "keeps (\<lambda>w. (rw w, cl w)) m"
    and "\<And>r w'. rw w' = rw (world s) \<Longrightarrow> cl w' = cl (world s) \<Longrightarrow> Q r (s\<lparr>world := w'\<rparr>)"
  shows "wp (ask m) Q s"
  using assms by (auto simp: wp_ask_run intro!: wp_keeps)

lemma send_keeps: "keeps (\<lambda>w. (rw w, cl w)) (Alert_Send (c_alerts c) cx a b d)"
  using alerts unfolding keeps_def Alert_Send_def by (auto split: prod.splits) (metis fst_conv snd_conv)+

lemma wp_sendAlert_keeps:
  assumes "\<And>w'. rw w' = rw (world s) \<Longrightarrow> cl w' = cl (world s) \<Longrightarrow>
      Q () (s\<lparr>world := w', hist := hist s @ [EvAlert a b d]\<rparr>)"
  shows "wp (sendAlert c cx a b d) Q s"
  using assms unfolding sendAlert_def by (auto simp: wp intro!: call_keeps [OF send_keeps])

lemma wp_finishTask_keeps:
  assumes "\<And>task' v w'. rw w' = rw (world s) \<Longrightarrow> cl w' = cl (world s) \<Longrightarrow>
      Q (task', Some err) (s\<lparr>ctl := v, world := w', hist := hist s @
        [EvAlert ''critical'' ''MySQL HA switch failed'' err]\<rparr>)"
  shows "wp (finishTask rt c task err) Q s"
  using assms unfolding finishTask_def setTask_def
  by (auto simp: wp intro!: ask_keeps [OF runtime(1)] wp_sendAlert_keeps)

lemma call_node:
  assumes "map_of (c_clients c) n = Some node"
  shows
    "(\<And>q w'. cl w' = cl (world s) \<Longrightarrow> rw w' \<le> rw (world s) \<Longrightarrow>
        Q q (s\<lparr>world := w', hist := hist s @ [ev q]\<rparr>)) \<Longrightarrow>
      wp (call (n_ReconfigureReplica node cx a src) ev) Q s"
    "(\<And>q w'. cl w' = cl (world s) \<Longrightarrow> rw w' \<le> rw (world s) \<Longrightarrow>
        Q q (s\<lparr>world := w', hist := hist s @ [ev q]\<rparr>)) \<Longrightarrow> wp (call (n_Demote node cx a) ev) Q s"
    "(\<And>q w'. cl w' = cl (world s) \<Longrightarrow> (\<forall>m. rw w' m \<longrightarrow> m = n \<or> rw (world s) m) \<Longrightarrow>
        Q q (s\<lparr>world := w', hist := hist s @ [ev q]\<rparr>)) \<Longrightarrow> wp (call (n_Promote node cx a) ev) Q s"
    "(\<And>st w'. cl w' = cl (world s) \<Longrightarrow> rw w' = rw (world s) \<Longrightarrow>
        (confirmedReadOnly st \<longrightarrow> \<not> rw (world s) n) \<Longrightarrow>
        R st (s\<lparr>world := w', hist := hist s @ [ev' st]\<rparr>)) \<Longrightarrow> wp (call (n_Status node cx) ev') R s"
  using reconfigure [OF assms] demote [OF assms] promote [OF assms] status [OF assms]
  unfolding wp_call_run by (auto intro!: wp_run_rule)

lemma reconfigureAll_maintains:
  assumes "\<And>s w e. I s \<Longrightarrow> cl w = cl (world s) \<Longrightarrow> rw w \<le> rw (world s) \<Longrightarrow>
    I (s\<lparr>world := w, hist := hist s @ [e]\<rparr>)"
  shows "maintains I (reconfigureAll c cx auth target ids)"
proof (induction ids)
  case (Cons nid ids)
  have "maintains I (call (n_ReconfigureReplica node cx auth src) ev)"
    if "map_of (c_clients c) nid = Some node" for node src ev
    using assms by (auto intro!: maintainsI call_node(1) [OF that])
  with Cons show ?case
    by (cases "map_of (c_clients c) nid")
      (auto intro!: maintains_bind maintains_let maintains_case_option maintains_return)
qed (simp add: maintains)

lemma onlyWriter_le: "onlyWriter rw w p \<Longrightarrow> rw w' \<le> rw w \<Longrightarrow> onlyWriter rw w' p"
  by (auto simp: onlyWriter_def le_fun_def)

lemma onlyWriter_eq: "rw w' = rw w \<Longrightarrow> onlyWriter rw w' p = onlyWriter rw w p"
  by (simp add: onlyWriter_def)

lemma call_cas:
  assumes "\<And>q w'. rw w' = rw (world s) \<Longrightarrow> cl w' = x \<or> q \<noteq> None \<and> cl w' = cl (world s) \<Longrightarrow>
      Q q (s\<lparr>world := w', hist := hist s @ [ev q]\<rparr>)"
  shows "wp (call (s_PutClusterIfEpoch (c_store c) cx e x) ev) Q s"
  using assms cas unfolding wp_call_run by (auto intro!: wp_run_rule)

lemmas keep_rules = wp_acquire_any ask_keeps [OF runtime(1)] ask_keeps [OF runtime(2)] ask_keeps [OF runtime(3)]
  wp_sendAlert_keeps wp_finishTask_keeps call_keeps [OF putTask] call_keeps [OF router]
  call_keeps [OF fencer] call_cas

lemma switchCommit_promoted:
  assumes "onlyWriter rw (world s) target" "attempted (hist s)" "\<not> committed (hist s)"
  shows "wp (switchCommit rt c cx state target auth task) (\<lambda>r. promotedTo cl rw target (snd r)) s"
proof -
  define I where "I t \<longleftrightarrow> onlyWriter rw (world t) target \<and> attempted (hist t) \<and>
    cs_Primary (cl (world t)) = target" for t :: "'w sys"
  have "maintains I (reconfigureAll c cx auth target ids)" for ids
    by (rule reconfigureAll_maintains) (auto simp: I_def onlyWriter_le)
  then have rec: "wp (reconfigureAll c cx auth target ids) Q t"
    if "onlyWriter rw (world t) target" "attempted (hist t)" "cs_Primary (cl (world t)) = target"
      "\<And>r u. onlyWriter rw (world u) target \<Longrightarrow> attempted (hist u) \<Longrightarrow>
        cs_Primary (cl (world u)) = target \<Longrightarrow> Q r u" for ids t Q
    by (rule wp_maintains) (use that in \<open>simp_all add: I_def\<close>)
  show ?thesis
    using assms unfolding switchCommit_def promotedTo_def
    by (auto simp: wp setTask_def onlyWriter_def split: option.splits intro!: keep_rules rec)
qed


lemma call_get:
  assumes "\<And>r w'. rw w' = rw (world s) \<Longrightarrow> cl w' = cl (world s) \<Longrightarrow>
      (\<And>x. r = Inr x \<Longrightarrow> x = cl (world s)) \<Longrightarrow> Q r (s\<lparr>world := w', hist := hist s @ [ev r]\<rparr>)"
  shows "wp (call (s_GetCluster (c_store c) cx) ev) Q s"
  using assms get unfolding wp_call_run by (auto intro!: wp_run_rule)

lemma early: "onlyWriter rw (world t) (cs_Primary x) \<Longrightarrow> cl (world t) = x \<Longrightarrow> \<not> attempted (hist t) \<Longrightarrow>
    \<not> committed (hist t) \<Longrightarrow> unsplit cl rw x e t"
  by (simp add: unsplit_def untouched_def)

lemma switchCatchUp_unsplit:
  assumes closed: "\<forall>m. \<not> rw (world s) m" "cl (world s) = state" "\<not> attempted (hist s)" "\<not> committed (hist s)"
    and node: "map_of (c_clients c) target = Some client"
    and old: "map_of (c_clients c) (cs_Primary state) = Some oldPrimary"
  shows "wp (switchCatchUp rt c cx state target client auth task oldPrimary)
    (\<lambda>r. unsplit cl rw state (snd r)) s"
proof -
  have commit: "wp (switchCommit rt c cx x target auth task) (\<lambda>r. unsplit cl rw y (snd r)) t"
    if "\<forall>m. rw (world t) m \<longrightarrow> m = target" "attempted (hist t)" "\<not> committed (hist t)" for x y t
    by (rule wp_mono [OF switchCommit_promoted]) (use that in \<open>auto simp: unsplit_def onlyWriter_def\<close>)
  have late: "unsplit cl rw x (Some e) t"
    if "\<forall>m. rw (world t) m \<longrightarrow> m = target" "attempted (hist t)" "\<not> committed (hist t)" for x e t
    using that by (auto simp: unsplit_def promotedTo_def onlyWriter_def)
  show ?thesis
    using closed unfolding switchCatchUp_def
    by (auto simp: wp early late onlyWriter_def split: option.splits sum.splits
      intro!: keep_rules call_node(3,4) [OF node] call_keeps [OF gtid [OF old]]
        call_keeps [OF waitGTID [OF node]] commit)
qed

lemma switchExecute_unsplit:
  assumes "untouched cl rw state s" and "map_of (c_clients c) target = Some client"
  shows "wp (switchExecute rt c cx state target client auth task) (\<lambda>r. unsplit cl rw state (snd r)) s"
proof -
  have pre: "\<forall>m. rw (world s) m \<longrightarrow> m = cs_Primary state" "cl (world s) = state" "\<not> attempted (hist s)"
    "\<not> committed (hist s)"
    using assms(1) by (auto simp: untouched_def onlyWriter_def)
  show ?thesis
    using pre unfolding switchExecute_def switchPromote_def
    by (auto simp: wp le_fun_def early onlyWriter_def confirmedReadOnly_def split: option.splits
      intro!: keep_rules call_node switchCatchUp_unsplit [OF _ _ _ _ assms(2)]) metis
qed


lemma unsplit_frame:
  assumes "unsplit cl rw state e t" "rw w = rw (world t)" "cl w = cl (world t)" "\<not> isPromote ev" "\<not> isCommit ev"
  shows "unsplit cl rw state e (t\<lparr>others := p, ctl := v, world := w, hist := hist t @ [ev]\<rparr>)"
    "unsplit cl rw state e (t\<lparr>world := w, hist := hist t @ [ev]\<rparr>)"
  using assms by (auto simp: unsplit_def untouched_def promotedTo_def onlyWriter_def)

lemma switchDryRun_unsplit:
  assumes "untouched cl rw state s"
  shows "wp (switchDryRun rt c cx state target task) (\<lambda>r. unsplit cl rw state (snd r)) s"
  using assms unfolding switchDryRun_def setTask_def
  by (auto simp: wp untouched_def early onlyWriter_def intro!: keep_rules)

lemma switchTask_unsplit:
  assumes "untouched cl rw state s" and "map_of (c_clients c) target = Some client"
  shows "wp (switchTask rt c cx state target client auth task) (\<lambda>r. unsplit cl rw state (snd r)) s"
proof -
  have pre: "\<forall>m. rw (world s) m \<longrightarrow> m = cs_Primary state" "cl (world s) = state" "\<not> attempted (hist s)"
    "\<not> committed (hist s)"
    using assms(1) by (auto simp: untouched_def onlyWriter_def)
  have body: "wp (switchDryRun rt c cx x target task) Q t"
      "wp (switchExecute rt c cx x target client auth task) Q t"
    if "cl (world t) = x" "\<forall>m. rw (world t) m \<longrightarrow> m = cs_Primary x" "\<not> attempted (hist t)" "\<not> committed (hist t)"
      "\<And>r u. unsplit cl rw x (snd r) u \<Longrightarrow> Q r u" for x t Q
    using that
    by (auto intro!: wp_mono [OF switchDryRun_unsplit] wp_mono [OF switchExecute_unsplit [OF _ assms(2)]]
      simp: untouched_def onlyWriter_def)
  show ?thesis
    using pre unfolding switchTask_def setTask_def
    by (auto simp: wp early unsplit_frame onlyWriter_def split: option.splits
      intro!: keep_rules body)
qed

lemma switchLocked_unsplit:
  assumes "untouched cl rw state s" and "map_of (c_clients c) target = Some client"
  shows "wp (switchLocked rt c cx state target client auth automatic)
    (\<lambda>r. unsplit cl rw state (snd r)) s"
proof -
  have pre: "\<forall>m. rw (world s) m \<longrightarrow> m = cs_Primary state" "cl (world s) = state" "\<not> attempted (hist s)"
    "\<not> committed (hist s)"
    using assms(1) by (auto simp: untouched_def onlyWriter_def)
  have task: "wp (switchTask rt c cx x target client auth task) (\<lambda>r. unsplit cl rw x (snd r)) t"
    if "cl (world t) = x" "\<forall>m. rw (world t) m \<longrightarrow> m = cs_Primary x" "\<not> attempted (hist t)" "\<not> committed (hist t)" for x t task
    using that by (intro switchTask_unsplit [OF _ assms(2)]) (simp add: untouched_def onlyWriter_def)
  show ?thesis
    using pre unfolding switchLocked_def
    by (auto simp: wp early onlyWriter_def split: option.splits sum.splits
      intro!: keep_rules call_get call_node(4) [OF assms(2)] task)
qed

lemma call_acquire:
  assumes "\<And>l w'. rw w' = rw (world s) \<Longrightarrow> cl w' = cl (world s) \<Longrightarrow>
      (\<And>cx' rel. l = Inr (cx', rel) \<Longrightarrow> keeps (\<lambda>w. (rw w, cl w)) rel) \<Longrightarrow>
      Q l (s\<lparr>world := w', hist := hist s @ [ev l]\<rparr>)"
  shows "wp (call (s_AcquireSwitchLock (c_store c) cx h ttl a) ev) Q s"
  unfolding wp_call_run
proof (rule wp_run_rule, rule assms)
  fix l w'
  assume run: "run_state (s_AcquireSwitchLock (c_store c) cx h ttl a) (world s) = (l, w')"
  from keepsD [OF acquire run] show "rw w' = rw (world s)" "cl w' = cl (world s)" by simp_all
  show "keeps (\<lambda>w. (rw w, cl w)) rel" if "l = Inr (cx', rel)" for cx' rel
    using release run that by blast
qed

lemma Switch_unsplit:
  assumes "onlyWriter rw (world s) (cs_Primary (cl (world s)))" "\<not> attempted (hist s)"
    "\<not> committed (hist s)"
  shows "wp (Switch rt c cx target automatic) (\<lambda>r. unsplit cl rw (cl (world s)) (snd r)) s"
proof -
  have locked: "wp (switchLocked rt c cx' x n client auth automatic) Q t"
    if "cl (world t) = x" "\<forall>m. rw (world t) m \<longrightarrow> m = cs_Primary x" "\<not> attempted (hist t)" "\<not> committed (hist t)"
      "map_of (c_clients c) n = Some client"
      "\<And>r u. unsplit cl rw x (snd r) u \<Longrightarrow> Q r u" for cx' x n client auth t Q
    using that by (intro wp_mono [OF switchLocked_unsplit]) (auto simp: untouched_def onlyWriter_def)
  have choose: "wp (chooseTarget rt c x) Q t"
    if "\<And>r p v w. rw w = rw (world t) \<Longrightarrow> cl w = cl (world t) \<Longrightarrow> Q r (t\<lparr>others := p, ctl := v, world := w\<rparr>)" for x Q t
    using that unfolding chooseTarget_def by (auto simp: wp intro!: keep_rules)
  have bound: "wp (leaderBoundContext rt cx') Q t"
    if "\<And>r p v w. rw w = rw (world t) \<Longrightarrow> cl w = cl (world t) \<Longrightarrow> Q r (t\<lparr>others := p, ctl := v, world := w\<rparr>)" for cx' Q t
    using that [of "world t"] that unfolding leaderBoundContext_def
    by (auto simp: wp split: option.splits intro!: keep_rules)
  have release: "wp (call rel ev) Q t"
    if "keeps (\<lambda>w. (rw w, cl w)) rel" "\<And>r w'. rw w' = rw (world t) \<Longrightarrow> cl w' = cl (world t) \<Longrightarrow>
      Q r (t\<lparr>world := w', hist := hist t @ [ev r]\<rparr>)" for rel :: "('w, unit) state" and ev Q t
    using that by (rule call_keeps)
  show ?thesis
    using assms unfolding Switch_def switchFrom_def IsLeader_def onlyWriter_def
    by (auto simp: wp early unsplit_frame onlyWriter_def split: option.splits sum.splits prod.splits
      intro!: keep_rules call_get choose bound locked call_acquire release)
qed
end

end
