(* ===== verification/HA_Store_Laws.thy ===== *)
theory HA_Store_Laws
  imports HA_Store
begin

text \<open>
  The contracts of the store. A component that only reads and swaps the cluster state uses
  \<open>epoch_store\<close>; the agent, which only verifies operations, uses \<open>switch_verifier\<close>; the
  controller's switch uses \<open>switch_store\<close>, and \<open>exclusive_store\<close> where the lock is exclusive and
  its release certain. Every contract is an interpretation for \<open>MemoryStore\<close>. For \<open>EtcdStore\<close>
  the contracts hold over any client that behaves as documented, which is a hypothesis:
  \<open>etcd_documented\<close>.
\<close>

section \<open>Contracts\<close>

text \<open>A sequence of compare-and-swap writes, each with the epoch it expects.\<close>

fun runCas ::
  "(ctx \<Rightarrow> u64 \<Rightarrow> ClusterState \<Rightarrow> ('s, error option) state) \<Rightarrow> (ctx \<times> u64 \<times> ClusterState) list \<Rightarrow>
    ('s, error option list) state" where
  "runCas cas [] = State_Monad.return []"
| "runCas cas ((c, e, x) # ws) = do {
     r \<leftarrow> cas c e x;
     rs \<leftarrow> runCas cas ws;
     State_Monad.return (r # rs)
   }"

definition bumps :: "ctx \<times> u64 \<times> ClusterState \<Rightarrow> bool" where
  "bumps w \<longleftrightarrow> (case w of (c, e, x) \<Rightarrow> cs_Epoch x = e + 1)"

lemma bumps_simp [simp]: "bumps (c, e, x) \<longleftrightarrow> cs_Epoch x = e + 1"
  by (simp add: bumps_def)

locale epoch_store =
  fixes get :: "ctx \<Rightarrow> ('s, error + ClusterState) state"
    and cas :: "ctx \<Rightarrow> u64 \<Rightarrow> ClusterState \<Rightarrow> ('s, error option) state"
    and cl :: "'s \<Rightarrow> ClusterState"
  assumes get_ok: "run_state (get c) s = (Inr x, s') \<Longrightarrow> x = cl s \<and> cl s' = cl s"
    and get_err: "run_state (get c) s = (Inl err, s') \<Longrightarrow> cl s' = cl s"
    and cas_ok: "run_state (cas c e x) s = (None, s') \<Longrightarrow> cs_Epoch (cl s) = e \<and> cl s' = x"
    and cas_err: "run_state (cas c e x) s = (Some err, s') \<Longrightarrow>
      cl s' = cl s \<or> cs_Epoch (cl s) = e \<and> cl s' = x"
begin

lemma get_frame: "run_state (get c) s = (r, s') \<Longrightarrow> cl s' = cl s"
  by (cases r) (auto dest: get_ok get_err)

lemma cas_stale:
  assumes "run_state (cas c e x) s = (r, s')" and "cs_Epoch (cl s) \<noteq> e"
  shows "r \<noteq> None \<and> cl s' = cl s"
  using assms by (cases r) (auto dest: cas_ok cas_err)

lemma cas_step:
  assumes "run_state (cas c e x) s = (r, s')" and "cs_Epoch x = e + 1"
  shows "\<exists>k. (k = 0 \<or> k = 1) \<and> cs_Epoch (cl s') = cs_Epoch (cl s) + of_nat k"
proof (cases r)
  case None
  with assms have "cs_Epoch (cl s') = cs_Epoch (cl s) + of_nat 1"
    by (auto dest: cas_ok)
  then show ?thesis by blast
next
  case (Some err)
  with assms have "cl s' = cl s \<or> cs_Epoch (cl s) = e \<and> cl s' = x"
    by (auto dest: cas_err)
  then show ?thesis
  proof
    assume "cl s' = cl s"
    then have "cs_Epoch (cl s') = cs_Epoch (cl s) + of_nat 0" by simp
    then show ?thesis by blast
  next
    assume "cs_Epoch (cl s) = e \<and> cl s' = x"
    with assms(2) have "cs_Epoch (cl s') = cs_Epoch (cl s) + of_nat 1" by simp
    then show ?thesis by blast
  qed
qed

lemma runCas_expected:
  assumes "run_state (runCas cas ws) s = (rs, s')" and "list_all bumps ws"
    and "i < length ws" and "rs ! i = None"
  shows "\<exists>k \<le> i. fst (snd (ws ! i)) = cs_Epoch (cl s) + of_nat k"
  using assms
proof (induction ws arbitrary: s rs i)
  case Nil
  then show ?case by simp
next
  case (Cons w ws)
  obtain c e x where w: "w = (c, e, x)" by (cases w)
  obtain r s1 where r: "run_state (cas c e x) s = (r, s1)" by fastforce
  obtain rs1 where rs1: "run_state (runCas cas ws) s1 = (rs1, s')" and rs: "rs = r # rs1"
    using Cons.prems(1) w r by (auto split: prod.splits)
  have bump: "cs_Epoch x = e + 1" and bumps: "list_all bumps ws"
    using Cons.prems(2) w by auto
  show ?case
  proof (cases i)
    case 0
    with Cons.prems(4) rs r have "cs_Epoch (cl s) = e" by (auto dest: cas_ok)
    with 0 w show ?thesis by auto
  next
    case (Suc j)
    obtain k where k: "k \<le> j" "fst (snd (ws ! j)) = cs_Epoch (cl s1) + of_nat k"
      using Cons.IH [OF rs1 bumps, of j] Cons.prems(3,4) Suc rs by auto
    obtain d where d: "d = 0 \<or> d = 1" "cs_Epoch (cl s1) = cs_Epoch (cl s) + of_nat d"
      using cas_step [OF r bump] by blast
    have "fst (snd ((w # ws) ! i)) = cs_Epoch (cl s) + of_nat (d + k)"
      using k d Suc by (simp add: add.assoc)
    moreover have "d + k \<le> i" using k d Suc by auto
    ultimately show ?thesis by blast
  qed
qed

lemma runCas_commits_once:
  assumes run: "run_state (runCas cas ws) s = (rs, s')" and bumps: "list_all bumps ws"
    and len: "length ws < 2 ^ 64"
    and ij: "i < j" "j < length ws" and ok: "rs ! i = None" "rs ! j = None"
  shows "fst (snd (ws ! i)) \<noteq> fst (snd (ws ! j))"
  using run bumps len ij ok
proof (induction ws arbitrary: s rs i j)
  case Nil
  then show ?case by simp
next
  case (Cons w ws)
  obtain c e x where w: "w = (c, e, x)" by (cases w)
  obtain r s1 where r: "run_state (cas c e x) s = (r, s1)" by fastforce
  obtain rs1 where rs1: "run_state (runCas cas ws) s1 = (rs1, s')" and rs: "rs = r # rs1"
    using Cons.prems(1) w r by (auto split: prod.splits)
  have bump: "cs_Epoch x = e + 1" and bumps: "list_all bumps ws"
    using Cons.prems(2) w by auto
  obtain j' where j': "j = Suc j'" using Cons.prems(4) by (cases j) auto
  show ?case
  proof (cases i)
    case 0
    with Cons.prems(6) rs r have c1: "cs_Epoch (cl s) = e" "cl s1 = x" by (auto dest: cas_ok)
    obtain k where k: "k \<le> j'" "fst (snd (ws ! j')) = cs_Epoch (cl s1) + of_nat k"
      using runCas_expected [OF rs1 bumps, of j'] Cons.prems(5,7) j' rs by auto
    have "fst (snd (ws ! j')) = e + of_nat (Suc k)"
      using k c1 bump by simp
    moreover have "(of_nat (Suc k) :: u64) \<noteq> 0"
      using k(1) Cons.prems(3,5) j' by (intro of_nat_u64_nonzero) auto
    ultimately show ?thesis using 0 j' w by simp
  next
    case (Suc i')
    then show ?thesis
      using Cons.IH [OF rs1 bumps, of i' j'] Cons.prems(3-7) j' rs by auto
  qed
qed

end

locale switch_verifier =
  fixes verify :: "ctx \<Rightarrow> SwitchAuthorization \<Rightarrow> ('s, error option) state"
    and cl :: "'s \<Rightarrow> ClusterState"
    and op :: "'s \<Rightarrow> SwitchAuthorization option"
  assumes verify_ok: "run_state (verify c a) s = (None, s') \<Longrightarrow>
      op s = Some a \<and> (cs_Epoch (cl s) = auth_FromEpoch a \<or> cs_Epoch (cl s) = auth_ToEpoch a)"
    and verify_frame: "run_state (verify c a) s = (r, s') \<Longrightarrow> cl s' = cl s \<and> op s' = op s"
begin

lemma verify_inactive: "op s \<noteq> Some a \<Longrightarrow> fst (run_state (verify c a) s) \<noteq> None"
  using verify_ok [of c a s] by (cases "run_state (verify c a) s") auto

lemma verify_unique:
  assumes "run_state (verify c a) s = (None, s')" and "run_state (verify c' b) s' = (None, s'')"
  shows "a = b"
  using verify_ok [OF assms(1)] verify_frame [OF assms(1)] verify_ok [OF assms(2)] by simp

lemma verify_stale:
  assumes "cs_Epoch (cl s) \<noteq> auth_FromEpoch a" and "cs_Epoch (cl s) \<noteq> auth_ToEpoch a"
  shows "fst (run_state (verify c a) s) \<noteq> None"
  using assms verify_ok [of c a s] by (cases "run_state (verify c a) s") auto

end

locale switch_store = epoch_store get cas cl + switch_verifier verify cl op
  for get :: "ctx \<Rightarrow> ('s, error + ClusterState) state"
    and cas :: "ctx \<Rightarrow> u64 \<Rightarrow> ClusterState \<Rightarrow> ('s, error option) state"
    and verify :: "ctx \<Rightarrow> SwitchAuthorization \<Rightarrow> ('s, error option) state"
    and cl :: "'s \<Rightarrow> ClusterState"
    and op :: "'s \<Rightarrow> SwitchAuthorization option" +
  fixes acq :: "ctx \<Rightarrow> string \<Rightarrow> int \<Rightarrow> SwitchAuthorization \<Rightarrow> ('s, 's lock) state"
  assumes acq_ok: "run_state (acq c h ttl a) s = (Inr (c', rel), s') \<Longrightarrow>
      cl s' = cl s \<and> op s' = Some a"
    and acq_err: "run_state (acq c h ttl a) s = (Inl err, s') \<Longrightarrow> cl s' = cl s"
    and rel_frame: "run_state (acq c h ttl a) s = (Inr (c', rel), s') \<Longrightarrow>
      run_state rel t = (u, t') \<Longrightarrow> cl t' = cl t"
begin

text \<open>While an operation holds the lock, only its own authorization can be verified.\<close>

lemma acq_excludes:
  assumes "run_state (acq c h ttl a) s = (Inr (c', rel), s')" and "b \<noteq> a"
  shows "fst (run_state (verify d b) s') \<noteq> None"
  using acq_ok [OF assms(1)] assms(2) by (intro verify_inactive) simp

end

locale exclusive_store = switch_store get cas verify cl op acq
  for get :: "ctx \<Rightarrow> ('s, error + ClusterState) state"
    and cas :: "ctx \<Rightarrow> u64 \<Rightarrow> ClusterState \<Rightarrow> ('s, error option) state"
    and verify :: "ctx \<Rightarrow> SwitchAuthorization \<Rightarrow> ('s, error option) state"
    and cl :: "'s \<Rightarrow> ClusterState"
    and op :: "'s \<Rightarrow> SwitchAuthorization option"
    and acq :: "ctx \<Rightarrow> string \<Rightarrow> int \<Rightarrow> SwitchAuthorization \<Rightarrow> ('s, 's lock) state" +
  fixes held :: "'s \<Rightarrow> bool"
  assumes acq_free: "run_state (acq c h ttl a) s = (Inr l, s') \<Longrightarrow> \<not> held s \<and> held s'"
    and acq_held: "held s \<Longrightarrow> \<exists>err. run_state (acq c h ttl a) s = (Inl err, s)"
    and acq_live: "\<not> held s \<Longrightarrow> \<exists>l s'. run_state (acq c h ttl a) s = (Inr l, s')"
    and rel_free: "run_state (acq c h ttl a) s = (Inr (c', rel), s') \<Longrightarrow>
      run_state rel t = (u, t') \<Longrightarrow> \<not> held t' \<and> op t' = None"
    and verify_live: "op s = Some a \<Longrightarrow>
      cs_Epoch (cl s) = auth_FromEpoch a \<or> cs_Epoch (cl s) = auth_ToEpoch a \<Longrightarrow>
      run_state (verify c a) s = (None, s)"
begin

text \<open>
  The life of a switch lock: a second holder is refused as long as the lock is held, the released
  operation is refused by every verifier, and the lock can then be taken again.
\<close>

lemma second_refused:
  assumes "run_state (acq c h ttl a) s = (Inr l, s')"
  shows "\<exists>err. run_state (acq c2 h2 ttl2 a2) s' = (Inl err, s')"
  using acq_free [OF assms] acq_held by blast

lemma released_refused:
  assumes "run_state (acq c h ttl a) s = (Inr (c', rel), s')" and "run_state rel t = (u, t')"
  shows "fst (run_state (verify d b) t') \<noteq> None"
  using rel_free [OF assms] by (intro verify_inactive) simp

lemma released_reacquired:
  assumes "run_state (acq c h ttl a) s = (Inr (c', rel), s')" and "run_state rel t = (u, t')"
  shows "\<exists>l t''. run_state (acq c2 h2 ttl2 a2) t' = (Inr l, t'')"
  using rel_free [OF assms] acq_live by blast

lemma acquired_verifies:
  assumes "run_state (acq c h ttl a) s = (Inr (c', rel), s')"
    and "cs_Epoch (cl s) = auth_FromEpoch a"
  shows "run_state (verify d a) s' = (None, s')"
  using acq_ok [OF assms(1)] assms(2) by (intro verify_live) simp_all

end

section \<open>MemoryStore satisfies the contracts\<close>

lemmas memory_defs = Memory_GetCluster_def Memory_PutCluster_def Memory_PutClusterIfEpoch_def
  Memory_AcquireLock_def Memory_AcquireSwitchLock_def Memory_VerifySwitchOperation_def
  Memory_PutTask_def Memory_ListTasks_def Memory_Close_def

interpretation mem: exclusive_store Memory_GetCluster Memory_PutClusterIfEpoch
  Memory_VerifySwitchOperation ms_cluster ms_operation Memory_AcquireSwitchLock ms_locked
  by unfold_locales (auto simp: memory_defs split: if_splits)

section \<open>EtcdStore over a documented etcd\<close>

text \<open>
  \<open>view\<close> reads the keys of an etcd state with their values and modification revisions. \<open>itf\<close> is
  what other clients may do to the keys between the moment a call is made and the moment it takes
  effect; a sequential client is \<open>itf = (=)\<close>. A failed write may or may not have taken effect.
\<close>

type_synonym etcd_view = "string \<rightharpoonup> doc \<times> int"

definition kvsOf :: "string \<Rightarrow> etcd_view \<Rightarrow> KeyValue list" where
  "kvsOf k v = (case v k of
      None \<Rightarrow> []
    | Some (d, r) \<Rightarrow> [\<lparr>kv_Key = k, kv_Value = d, kv_ModRevision = r\<rparr>])"

fun cmpHolds :: "etcd_view \<Rightarrow> Cmp \<Rightarrow> bool" where
  "cmpHolds v (VersionIs k n) \<longleftrightarrow> (n = 0 \<longrightarrow> v k = None)"
| "cmpHolds v (ModRevisionIs k r) \<longleftrightarrow> map_option snd (v k) = Some r"

definition get_documented where
  "get_documented E view itf \<longleftrightarrow> (\<forall>c k e r e'. run_state (etcd_Get E c k) e = (r, e') \<longrightarrow>
     itf (view e) (view e') \<and> (\<forall>kvs. r = Inr kvs \<longrightarrow> kvs = kvsOf k (view e')))"

definition put_documented where
  "put_documented E view itf \<longleftrightarrow>
    (\<forall>c k d l e r e'. run_state (etcd_Put E c k d l) e = (r, e') \<longrightarrow>
      (\<exists>m rev. itf (view e) m \<and>
        (view e' = m(k \<mapsto> (d, rev)) \<or> r \<noteq> None \<and> view e' = m)))"

definition txn_documented where
  "txn_documented E view itf \<longleftrightarrow>
    (\<forall>c cmp k d e r e'. run_state (etcd_TxnPut E c cmp k d) e = (r, e') \<longrightarrow>
      (\<exists>m rev. itf (view e) m \<and>
        (r \<noteq> Inr False \<and> cmpHolds m cmp \<and> view e' = m(k \<mapsto> (d, rev))
         \<or> r \<noteq> Inr True \<and> view e' = m)))"

definition session_documented where
  "session_documented E p view itf \<longleftrightarrow>
    (\<forall>c ttl e r e'. run_state (etcd_NewSession E c ttl) e = (r, e') \<longrightarrow> itf (view e) (view e')) \<and>
    (\<forall>x e u e'. run_state (etcd_CloseSession E x) e = (u, e') \<longrightarrow>
      (\<exists>m. itf (view e) m \<and> view e' (clusterKey p) = m (clusterKey p))) \<and>
    (\<forall>c x k e r e'. run_state (etcd_Lock E c x k) e = (r, e') \<longrightarrow> itf (view e) (view e')) \<and>
    (\<forall>c x k e u e'. run_state (etcd_Unlock E c x k) e = (u, e') \<longrightarrow> itf (view e) (view e'))"

definition delete_documented where
  "delete_documented E view itf \<longleftrightarrow>
    (\<forall>c k e r e'. run_state (etcd_Delete E c k) e = (r, e') \<longrightarrow>
      (\<exists>m. itf (view e) m \<and> (view e' = m(k := None) \<or> r \<noteq> None \<and> view e' = m)))"

definition list_documented where
  "list_documented E view itf \<longleftrightarrow>
    (\<forall>c k e r e'. run_state (etcd_GetTasks E c k) e = (r, e') \<longrightarrow> itf (view e) (view e'))"

definition etcd_documented where
  "etcd_documented E p view itf \<longleftrightarrow> get_documented E view itf \<and> put_documented E view itf \<and>
    txn_documented E view itf \<and> session_documented E p view itf \<and> delete_documented E view itf \<and>
    list_documented E view itf"

text \<open>A revision names one write: two views that agree on a key's revision agree on its value.\<close>

definition revisions :: "(etcd_view \<Rightarrow> etcd_view \<Rightarrow> bool) \<Rightarrow> bool" where
  "revisions itf \<longleftrightarrow> (\<forall>v m k d r d'. itf v m \<longrightarrow> v k = Some (d, r) \<longrightarrow> m k = Some (d', r) \<longrightarrow> d = d')"

definition clusterIn :: "EtcdStore \<Rightarrow> etcd_view \<Rightarrow> ClusterState" where
  "clusterIn p v = (case v (clusterKey p) of
      None \<Rightarrow> zeroClusterState\<lparr>cs_Name := drop 4 (es_prefix p)\<rparr>
    | Some (d, r) \<Rightarrow> (case unmarshalCluster d of Inr c \<Rightarrow> c | Inl _ \<Rightarrow> zeroClusterState))"

definition operationIn :: "EtcdStore \<Rightarrow> etcd_view \<Rightarrow> SwitchAuthorization option" where
  "operationIn p v = (case v (operationKey p) of
      None \<Rightarrow> None
    | Some (d, r) \<Rightarrow> (case unmarshalAuth d of Inr a \<Rightarrow> Some a | Inl _ \<Rightarrow> None))"

lemma keys_distinct [simp]:
  "clusterKey p \<noteq> operationKey p" "operationKey p \<noteq> clusterKey p"
  by (simp_all add: clusterKey_def operationKey_def)

lemma unmarshalCluster_enc [simp]: "unmarshalCluster (Doc (encClusterState x)) = Inr x"
  by (simp add: unmarshalCluster_def cstate.unmarshal_enc)

lemma unmarshalAuth_enc [simp]: "unmarshalAuth (Doc (encSwitchAuthorization x)) = Inr x"
  by (simp add: unmarshalAuth_def auth.unmarshal_enc)

lemma unmarshalTask_enc [simp]: "unmarshalTask (Doc (encSwitchTask x)) = Inr x"
  by (simp add: unmarshalTask_def stask.unmarshal_enc)

lemma clusterIn_put [simp]: "clusterIn p (v(clusterKey p \<mapsto> (Doc (encClusterState x), r))) = x"
  by (simp add: clusterIn_def)

lemma clusterIn_cong: "v (clusterKey p) = w (clusterKey p) \<Longrightarrow> clusterIn p v = clusterIn p w"
  by (simp add: clusterIn_def)

lemma operationIn_put [simp]:
  "operationIn p (v(operationKey p \<mapsto> (Doc (encSwitchAuthorization x), r))) = Some x"
  by (simp add: operationIn_def)

lemma Etcd_GetCluster_value:
  assumes doc: "get_documented E view itf"
    and run: "run_state (Etcd_GetCluster E p c) e = (r, e')"
  shows "itf (view e) (view e') \<and> (\<forall>x. r = Inr x \<longrightarrow> x = clusterIn p (view e'))"
proof -
  obtain g e1 where g: "run_state (etcd_Get E c (clusterKey p)) e = (g, e1)" by fastforce
  with run have e1: "e1 = e'" and r: "r = (case g of
      Inl err \<Rightarrow> Inl err
    | Inr [] \<Rightarrow> Inr (zeroClusterState\<lparr>cs_Name := drop 4 (es_prefix p)\<rparr>)
    | Inr (kv # _) \<Rightarrow> unmarshalCluster (kv_Value kv))"
    by (auto simp: Etcd_GetCluster_def)
  have d: "itf (view e) (view e')" "\<And>kvs. g = Inr kvs \<Longrightarrow> kvs = kvsOf (clusterKey p) (view e')"
    using doc g e1 by (auto simp: get_documented_def)
  from r d(2) have "\<forall>x. r = Inr x \<longrightarrow> x = clusterIn p (view e')"
    by (auto simp: kvsOf_def clusterIn_def split: sum.splits list.splits option.splits prod.splits)
  with d(1) show ?thesis by simp
qed

text \<open>The comparison that \<open>PutClusterIfEpoch\<close> makes holds only where the epoch is the expected one.\<close>

lemma epochCompare_sound:
  assumes cmp: "epochCompare (clusterKey p) e (kvsOf (clusterKey p) v) = Inr cmp"
    and holds: "cmpHolds m cmp" and itf: "itf v m" and revs: "revisions itf"
  shows "cs_Epoch (clusterIn p m) = e"
proof (cases "v (clusterKey p)")
  case None
  with cmp holds show ?thesis
    by (auto simp: epochCompare_def kvsOf_def clusterIn_def zeroClusterState_def split: if_splits)
next
  case (Some dr)
  obtain d r where dr: "dr = (d, r)" by (cases dr)
  from cmp Some dr obtain x where x: "unmarshalCluster d = Inr x" "cs_Epoch x = e"
    and c: "cmp = ModRevisionIs (clusterKey p) r"
    by (auto simp: epochCompare_def kvsOf_def split: sum.splits if_splits)
  from holds c obtain d' where d': "m (clusterKey p) = Some (d', r)"
    by (cases "m (clusterKey p)") auto
  with revs itf Some dr have "d = d'" unfolding revisions_def by metis
  with d' x show ?thesis by (simp add: clusterIn_def)
qed

lemma Etcd_PutClusterIfEpoch_run:
  assumes doc: "get_documented E view itf" "txn_documented E view itf" and revs: "revisions itf"
    and run: "run_state (Etcd_PutClusterIfEpoch E p c e x) s = (r, s')"
  shows "\<exists>m1 m. itf (view s) m1 \<and> (m = m1 \<or> itf m1 m) \<and>
    (cs_Epoch (clusterIn p m) = e \<and>
       (\<exists>rev. view s' = m(clusterKey p \<mapsto> (Doc (encClusterState x), rev)))
     \<or> r \<noteq> None \<and> view s' = m)"
proof -
  obtain g s1 where g: "run_state (etcd_Get E c (clusterKey p)) s = (g, s1)" by fastforce
  have i1: "itf (view s) (view s1)"
    and kvs: "\<And>kvs. g = Inr kvs \<Longrightarrow> kvs = kvsOf (clusterKey p) (view s1)"
    using doc(1) g by (auto simp: get_documented_def)
  show ?thesis
  proof (cases "\<exists>kvs cmp. g = Inr kvs \<and> epochCompare (clusterKey p) e kvs = Inr cmp")
    case False
    with run g have "r \<noteq> None \<and> s' = s1"
      by (auto simp: Etcd_PutClusterIfEpoch_def split: sum.splits)
    with i1 show ?thesis by blast
  next
    case True
    then obtain kvs cmp where gk: "g = Inr kvs" "epochCompare (clusterKey p) e kvs = Inr cmp"
      by blast
    obtain t s2 where
      t: "run_state (etcd_TxnPut E c cmp (clusterKey p) (Doc (encClusterState x))) s1 = (t, s2)"
      by fastforce
    with run g gk have s2: "s' = s2"
      and r: "r = (case t of Inl err \<Rightarrow> Some err
        | Inr ok \<Rightarrow> if \<not> ok then Some ''cluster state changed concurrently'' else None)"
      by (auto simp: Etcd_PutClusterIfEpoch_def)
    from doc(2) t obtain m rev where m: "itf (view s1) m"
      "t \<noteq> Inr False \<and> cmpHolds m cmp \<and>
          view s2 = m(clusterKey p \<mapsto> (Doc (encClusterState x), rev))
       \<or> t \<noteq> Inr True \<and> view s2 = m"
      unfolding txn_documented_def by blast
    from m(2) show ?thesis
    proof
      assume a: "t \<noteq> Inr False \<and> cmpHolds m cmp \<and>
        view s2 = m(clusterKey p \<mapsto> (Doc (encClusterState x), rev))"
      with epochCompare_sound [OF _ _ m(1) revs] gk kvs
      have "cs_Epoch (clusterIn p m) = e" by metis
      with a i1 m(1) s2 show ?thesis by blast
    next
      assume b: "t \<noteq> Inr True \<and> view s2 = m"
      then have "r \<noteq> None" using r by (auto split: sum.splits)
      with b i1 m(1) s2 show ?thesis by blast
    qed
  qed
qed

subsection \<open>A sequential client\<close>

lemma revisions_eq: "revisions (=)"
  by (auto simp: revisions_def)

lemma etcd_epoch_store:
  assumes "etcd_documented E p view (=)"
  shows "epoch_store (Etcd_GetCluster E p) (Etcd_PutClusterIfEpoch E p) (\<lambda>e. clusterIn p (view e))"
proof unfold_locales
  have doc: "get_documented E view (=)" "txn_documented E view (=)"
    using assms by (auto simp: etcd_documented_def)
  note get = Etcd_GetCluster_value [OF doc(1)]
  note cas = Etcd_PutClusterIfEpoch_run [OF doc revisions_eq]
  show "x = clusterIn p (view s) \<and> clusterIn p (view s') = clusterIn p (view s)"
    if "run_state (Etcd_GetCluster E p c) s = (Inr x, s')" for c s x s'
    using get [OF that] by simp
  show "clusterIn p (view s') = clusterIn p (view s)"
    if "run_state (Etcd_GetCluster E p c) s = (Inl err, s')" for c s err s'
    using get [OF that] by simp
  show "cs_Epoch (clusterIn p (view s)) = e \<and> clusterIn p (view s') = x"
    if "run_state (Etcd_PutClusterIfEpoch E p c e x) s = (None, s')" for c e x s s'
    using cas [OF that] by auto
  show "clusterIn p (view s') = clusterIn p (view s) \<or>
      cs_Epoch (clusterIn p (view s)) = e \<and> clusterIn p (view s') = x"
    if "run_state (Etcd_PutClusterIfEpoch E p c e x) s = (Some err, s')" for c e x s err s'
    using cas [OF that] by auto
qed

lemma etcd_switch_verifier:
  assumes "etcd_documented E p view (=)"
  shows "switch_verifier (Etcd_VerifySwitchOperation E p) (\<lambda>e. clusterIn p (view e))
    (\<lambda>e. operationIn p (view e))"
proof -
  have doc: "get_documented E view (=)"
    using assms by (auto simp: etcd_documented_def)
  have key: "view s' = view s \<and> (r = None \<longrightarrow> operationIn p (view s) = Some a \<and>
      (cs_Epoch (clusterIn p (view s)) = auth_FromEpoch a \<or>
       cs_Epoch (clusterIn p (view s)) = auth_ToEpoch a))"
    if run: "run_state (Etcd_VerifySwitchOperation E p c a) s = (r, s')" for c a s r s'
  proof -
    obtain g s1 where g: "run_state (Etcd_GetCluster E p c) s = (g, s1)" by fastforce
    obtain o2 s2 where o2: "run_state (etcd_Get E c (operationKey p)) s1 = (o2, s2)" by fastforce
    have v1: "view s1 = view s" "\<And>x. g = Inr x \<Longrightarrow> x = clusterIn p (view s)"
      using Etcd_GetCluster_value [OF doc g] by auto
    have v2: "view s2 = view s1" "\<And>kvs. o2 = Inr kvs \<Longrightarrow> kvs = kvsOf (operationKey p) (view s2)"
      using doc o2 by (auto simp: get_documented_def)
    show ?thesis
      using run g o2 v1 v2
      by (auto simp: Etcd_VerifySwitchOperation_def kvsOf_def operationIn_def
        split: if_splits sum.splits list.splits option.splits)
  qed
  show ?thesis
    by unfold_locales (use key in auto)
qed

text \<open>Calls that leave the cluster key alone.\<close>

lemma acquireEtcdLock_frame:
  assumes doc: "etcd_documented E p view (=)"
    and run: "run_state (acquireEtcdLock E p c h ttl) s = (r, s')"
  shows "view s' (clusterKey p) = view s (clusterKey p)"
    and "r = Inr (c', rel, x) \<Longrightarrow> view s' = view s \<and>
      (\<forall>t u t'. run_state rel t = (u, t') \<longrightarrow> view t' (clusterKey p) = view t (clusterKey p))"
proof -
  have ses: "session_documented E p view (=)"
    using doc by (auto simp: etcd_documented_def)
  note ses' = ses [unfolded session_documented_def]
  define ttl' where "ttl' = (let t = ttl div 1000000000 in if t < 1 then 1 else t)"
  obtain n s1 where n: "run_state (etcd_NewSession E c ttl') s = (n, s1)" by fastforce
  have v1: "view s1 = view s" using ses' n by auto
  have rel: "view t' (clusterKey p) = view t (clusterKey p)"
    if "run_state (do { etcd_Unlock E Background y (lockKey p); etcd_CloseSession E y }) t = (u, t')"
    for y t u t'
    using that ses' by (auto split: prod.splits)
  show "view s' (clusterKey p) = view s (clusterKey p)"
  proof (cases n)
    case (Inl err)
    with run n v1 show ?thesis by (auto simp: acquireEtcdLock_def ttl'_def)
  next
    case (Inr y)
    obtain l s2 where l: "run_state (etcd_Lock E c y (lockKey p)) s1 = (l, s2)" by fastforce
    have v2: "view s2 = view s1" using ses' l by auto
    obtain s3 where u: "run_state (etcd_CloseSession E y) s2 = ((), s3)"
      by (metis old.unit.exhaust surj_pair)
    have v3: "view s3 (clusterKey p) = view s2 (clusterKey p)" using ses' u by metis
    show ?thesis
      using run n l u Inr v1 v2 v3
      by (auto simp: acquireEtcdLock_def ttl'_def split: option.splits)
  qed
  assume r: "r = Inr (c', rel, x)"
  show "view s' = view s \<and>
      (\<forall>t u t'. run_state rel t = (u, t') \<longrightarrow> view t' (clusterKey p) = view t (clusterKey p))"
  proof (cases n)
    case (Inl err)
    with run n r show ?thesis by (auto simp: acquireEtcdLock_def ttl'_def)
  next
    case (Inr y)
    obtain l s2 where l: "run_state (etcd_Lock E c y (lockKey p)) s1 = (l, s2)" by fastforce
    have v2: "view s2 = view s1" using ses' l by auto
    have s2: "s' = s2" and rl:
      "rel = (do { etcd_Unlock E Background y (lockKey p); etcd_CloseSession E y })"
      using run n l Inr r by (auto simp: acquireEtcdLock_def ttl'_def split: option.splits prod.splits)
    show ?thesis using v1 v2 s2 rel unfolding rl by auto
  qed
qed

text \<open>Publishing the authorization, and the release that withdraws it.\<close>

lemma publish_run:
  assumes put: "put_documented E view (=)"
    and run: "run_state (etcd_Put E d (operationKey p) (Doc (encSwitchAuthorization a)) x) s = (w, s')"
  shows "view s' (clusterKey p) = view s (clusterKey p)" "w = None \<Longrightarrow> operationIn p (view s') = Some a"
proof -
  from put run obtain rev where
    "view s' = (view s)(operationKey p \<mapsto> (Doc (encSwitchAuthorization a), rev)) \<or>
     w \<noteq> None \<and> view s' = view s"
    unfolding put_documented_def by blast
  then show "view s' (clusterKey p) = view s (clusterKey p)"
    "w = None \<Longrightarrow> operationIn p (view s') = Some a" by auto
qed

lemma withdraw_frame:
  assumes del: "delete_documented E view (=)"
    and q: "\<forall>t u t'. run_state q t = (u, t') \<longrightarrow> view t' (clusterKey p) = view t (clusterKey p)"
    and run: "run_state (do { etcd_Delete E Background (operationKey p); q }) t = (u, t')"
  shows "view t' (clusterKey p) = view t (clusterKey p)"
proof -
  obtain y t1 where y: "run_state (etcd_Delete E Background (operationKey p)) t = (y, t1)"
    by fastforce
  with del have "view t1 = (view t)(operationKey p := None) \<or> view t1 = view t"
    unfolding delete_documented_def by blast
  then have "view t1 (clusterKey p) = view t (clusterKey p)" by auto
  with run y q show ?thesis by auto
qed

lemma Etcd_AcquireSwitchLock_run:
  assumes doc: "etcd_documented E p view (=)"
    and run: "run_state (Etcd_AcquireSwitchLock E p c h ttl a) s = (r, s')"
  shows "view s' (clusterKey p) = view s (clusterKey p) \<and>
    (r = Inr (c', rel) \<longrightarrow> operationIn p (view s') = Some a \<and>
      (\<forall>t u t'. run_state rel t = (u, t') \<longrightarrow> view t' (clusterKey p) = view t (clusterKey p)))"
proof -
  have put: "put_documented E view (=)" and del: "delete_documented E view (=)"
    and get: "get_documented E view (=)"
    using doc by (auto simp: etcd_documented_def)
  obtain g s1 where g: "run_state (Etcd_GetCluster E p c) s = (g, s1)" by fastforce
  have v1: "view s1 = view s" using Etcd_GetCluster_value [OF get g] by auto
  obtain l s2 where l: "run_state (acquireEtcdLock E p c h ttl) s1 = (l, s2)" by fastforce
  note f2 = acquireEtcdLock_frame [OF doc l]
  show ?thesis
  proof (cases "\<exists>d q x. l = Inr (d, q, x)")
    case False
    then show ?thesis
      using run g l v1 f2(1)
      by (auto simp: Etcd_AcquireSwitchLock_def split: sum.splits if_splits)
  next
    case True
    then obtain d q x where lq: "l = Inr (d, q, x)" by blast
    obtain w s3 where w: "run_state (etcd_Put E d (operationKey p)
        (Doc (encSwitchAuthorization a)) (Some x)) s2 = (w, s3)" by fastforce
    have q: "\<forall>t u t'. run_state q t = (u, t') \<longrightarrow> view t' (clusterKey p) = view t (clusterKey p)"
      using f2(2) lq by blast
    obtain s4 where s4: "run_state q s3 = ((), s4)" by (metis old.unit.exhaust surj_pair)
    show ?thesis
      using run g l lq w s4 v1 f2(1) publish_run [OF put w] q withdraw_frame [OF del q]
      by (cases w) (auto simp: Etcd_AcquireSwitchLock_def split: sum.splits if_splits prod.splits)
  qed
qed

lemma etcd_switch_store:
  assumes doc: "etcd_documented E p view (=)"
  shows "switch_store (Etcd_GetCluster E p) (Etcd_PutClusterIfEpoch E p)
    (Etcd_VerifySwitchOperation E p) (\<lambda>e. clusterIn p (view e)) (\<lambda>e. operationIn p (view e))
    (Etcd_AcquireSwitchLock E p)"
proof (intro switch_store.intro switch_store_axioms.intro etcd_epoch_store [OF doc]
    etcd_switch_verifier [OF doc])
  fix c h ttl a s c' rel s'
  assume run: "run_state (Etcd_AcquireSwitchLock E p c h ttl a) s = (Inr (c', rel), s')"
  note f = Etcd_AcquireSwitchLock_run [OF doc run]
  show "clusterIn p (view s') = clusterIn p (view s) \<and> operationIn p (view s') = Some a"
    using f by (simp add: clusterIn_def)
  show "clusterIn p (view t') = clusterIn p (view t)" if "run_state rel t = (u, t')" for t u t'
    using f that by (intro clusterIn_cong) blast
next
  fix c h ttl a s err s'
  assume run: "run_state (Etcd_AcquireSwitchLock E p c h ttl a) s = (Inl err, s')"
  show "clusterIn p (view s') = clusterIn p (view s)"
    by (rule clusterIn_cong) (simp add: Etcd_AcquireSwitchLock_run [OF doc run])
qed

section \<open>What the stores promise\<close>

text \<open>
  C9. \<open>PutClusterIfEpoch\<close> of the etcd store is atomic under interference: whatever other clients
  do (\<open>itf\<close>) between its read and its transaction, it either replaces the cluster state of a
  moment at which the stored epoch was the expected one, or reports an error and writes nothing.
\<close>

theorem etcd_cas_atomic:
  assumes "get_documented E view itf" "txn_documented E view itf" "revisions itf"
    and "run_state (Etcd_PutClusterIfEpoch E p c e x) s = (r, s')"
  shows "\<exists>m1 m. itf (view s) m1 \<and> (m = m1 \<or> itf m1 m) \<and>
    (cs_Epoch (clusterIn p m) = e \<and>
       (\<exists>rev. view s' = m(clusterKey p \<mapsto> (Doc (encClusterState x), rev)))
     \<or> r \<noteq> None \<and> view s' = m)"
  by (rule Etcd_PutClusterIfEpoch_run [OF assms])


text \<open>
  The life of a switch lock of \<open>MemoryStore\<close>. While it is held, a second one is refused
  without effect, its own authorization is accepted (at the epoch it starts from) and every other
  one refused; once released, every authorization is refused and the lock can be taken again.
\<close>

theorem memory_lock_life:
  assumes "run_state (Memory_AcquireSwitchLock c h ttl a) s = (Inr (c', release), s')"
  shows "(\<exists>err. run_state (Memory_AcquireSwitchLock c2 h2 ttl2 a2) s' = (Inl err, s')) \<and>
    (cs_Epoch (ms_cluster s) = auth_FromEpoch a \<longrightarrow>
      run_state (Memory_VerifySwitchOperation d a) s' = (None, s')) \<and>
    (b \<noteq> a \<longrightarrow> fst (run_state (Memory_VerifySwitchOperation d b) s') \<noteq> None) \<and>
    (case run_state release s' of (_, t) \<Rightarrow>
      fst (run_state (Memory_VerifySwitchOperation d b) t) \<noteq> None \<and>
      (\<exists>l t'. run_state (Memory_AcquireSwitchLock c2 h2 ttl2 a2) t = (Inr l, t')))"
  using mem.second_refused [OF assms] mem.acquired_verifies [OF assms] mem.acq_excludes [OF assms]
    mem.released_refused [OF assms] mem.released_reacquired [OF assms]
  by (auto split: prod.splits)

text \<open>
  \<open>ListTasks\<close> of \<open>MemoryStore\<close> lists the newest tasks: a prefix of the stored tasks sorted
  by descending start, as long as the limit allows, whatever the order in which Go visits the
  map; nothing is changed.
\<close>

theorem memory_tasks_newest:
  assumes "mset (rng (map snd (ms_tasks s))) = mset (map snd (ms_tasks s))"
  shows "\<exists>listed omitted. run_state (Memory_ListTasks rng c limit) s = (Inr listed, s) \<and>
    mset (listed @ omitted) = mset (map snd (ms_tasks s)) \<and>
    sorted_wrt (\<lambda>x y. st_StartedAt y \<le> st_StartedAt x) (listed @ omitted) \<and>
    (0 < limit \<longrightarrow> length listed = min (nat limit) (length (ms_tasks s))) \<and>
    (limit \<le> 0 \<longrightarrow> omitted = [])"
proof -
  let ?all = "sortTasks (rng (map snd (ms_tasks s)))"
  have perm: "mset ?all = mset (map snd (ms_tasks s))"
    using assms by (simp add: sortTasks_def)
  have sorted: "sorted_wrt (\<lambda>x y. st_StartedAt y \<le> st_StartedAt x) ?all"
    using sorted_sort_key [of "\<lambda>t. - st_StartedAt t" "rng (map snd (ms_tasks s))"]
    by (simp add: sortTasks_def sorted_map)
  have len: "length ?all = length (ms_tasks s)"
    using perm by (metis length_map size_mset)
  show ?thesis
  proof (cases "0 < limit \<and> limit < int (length ?all)")
    case True
    then show ?thesis
      using perm sorted len
      by (intro exI [of _ "take (nat limit) ?all"] exI [of _ "drop (nat limit) ?all"])
        (auto simp: Memory_ListTasks_def Let_def)
  next
    case False
    then show ?thesis
      using perm sorted len
      by (intro exI [of _ ?all] exI [of _ "[]"]) (auto simp: Memory_ListTasks_def Let_def)
  qed
qed

end
