(* ===== verification/HA_Mysql_Laws.thy ===== *)
theory HA_Mysql_Laws
  imports HA_Mysql
begin

text \<open>
  What the agent and the controller rely on in a status (\<open>status_ok\<close>, the contract of the locale
  \<open>mysql_operator\<close>), the effect of the role changes on a server that treats its read-only
  variables as documented (\<open>mysql_documented\<close>), and the text the client builds: a quoted value
  reads back as itself, an address splits into its host and port.
\<close>

section \<open>The contract of a status\<close>

definition status_ok :: "NodeStatus \<Rightarrow> bool" where
  "status_ok s \<longleftrightarrow>
    (ns_Role s = RolePrimary \<longrightarrow> ns_Healthy s \<and> writable s \<and> ns_Replica s = None \<and> ns_Error s = '''') \<and>
    (ns_Role s = RoleReplica \<longrightarrow> ns_Reachable s \<and> \<not> writable s) \<and>
    (ns_Healthy s \<longrightarrow> ns_Role s = RolePrimary \<or>
      ns_Role s = RoleReplica \<and> ns_Error s = '''' \<and>
        (case ns_Replica s of None \<Rightarrow> False | Some r \<Rightarrow> replicating r)) \<and>
    (\<not> ns_Healthy s \<longrightarrow> ns_Role s = RoleUnknown \<or> ns_Role s = RoleReplica) \<and>
    wfNodeStatus s"

locale mysql_operator =
  fixes Status :: "ctx \<Rightarrow> ('d, NodeStatus) state"
  assumes status_contract: "status_ok (fst (run_state (Status c) s))"
begin

lemma wp_Status: "(\<And>x t. status_ok x \<Longrightarrow> Q x t) \<Longrightarrow> wp (Status c) Q s"
  using status_contract [of c s] by (simp add: wp_run)

text \<open>A healthy replica has a known lag: no caller needs a default for it.\<close>

lemma healthy_replica_lag:
  assumes "run_state (Status c) s = (x, t)" and "ns_Healthy x" and "ns_Role x = RoleReplica"
  shows "\<exists>r lag. ns_Replica x = Some r \<and> rs_SecondsBehind r = Some lag \<and> inInt64 lag"
  using status_contract [of c s] assms
  by (auto simp: status_ok_def replicating_def wfNodeStatus_def wfReplicaStatus_def
    split: option.splits)

end

lemma parseReplica_wf: "wfReplicaStatus (parseReplica fs)"
  by (auto simp: parseReplica_def wfReplicaStatus_def Let_def split: option.splits
    dest: ParseInt_range)

lemma readReplica_wf: "readReplica rows = Inr r \<Longrightarrow> wfReplicaStatus r"
  by (auto simp: readReplica_def parseReplica_wf split: if_splits option.splits sum.splits)

lemma wp_replicaStatus:
  assumes "\<And>r t. (\<forall>x. r = Inr x \<longrightarrow> wfReplicaStatus x) \<Longrightarrow> Q r t"
  shows "wp (replicaStatus db c) Q s"
  unfolding replicaStatus_def
  by (auto simp: wp split: sum.splits intro!: wp_call assms) (erule readReplica_wf)+

lemma scanGlobals_frame:
  "scanGlobals s vs = (s', e) \<Longrightarrow>
    ns_Reachable s' = ns_Reachable s \<and> ns_Healthy s' = ns_Healthy s \<and> ns_Role s' = ns_Role s \<and>
    ns_Replica s' = ns_Replica s \<and> ns_Error s' = ns_Error s \<and>
    ns_FailureCount s' = ns_FailureCount s \<and> ns_NodeID s' = ns_NodeID s \<and>
    ns_Address s' = ns_Address s \<and> ns_CheckedAt s' = ns_CheckedAt s"
  by (auto simp: scanGlobals_def Let_def split: list.splits option.splits)

lemma wp_Mysql_Status: "wp (Mysql_Status rt db config c) (\<lambda>x _. status_ok x) s"
  unfolding Mysql_Status_def
  by (auto simp: wp status_ok_def writable_def replicating_def wfNodeStatus_def
      zeroNodeStatus_def inInt64_def
    split: option.splits sum.splits intro!: wp_call wp_replicaStatus dest!: scanGlobals_frame)

interpretation mysql: mysql_operator "Mysql_Status rt db config" for rt db config
  by unfold_locales (use wp_Mysql_Status in \<open>simp add: wp_run\<close>)

section \<open>Building statements\<close>

text \<open>
  How the server reads the rest of a string literal after its opening apostrophe, with backslash
  escapes enabled (the default SQL mode): the value and the text after the closing apostrophe.
\<close>

definition sqlEscape :: "char \<Rightarrow> string" where
  "sqlEscape c = (if c = CHR ''0'' then [CHR 0x00] else if c = CHR ''b'' then [CHR 0x08]
     else if c = CHR ''n'' then [CHR 0x0A] else if c = CHR ''r'' then [CHR 0x0D]
     else if c = CHR ''t'' then [CHR 0x09] else if c = CHR ''Z'' then [CHR 0x1A]
     else if c = CHR 0x25 \<or> c = CHR 0x5F then [backslash, c] else [c])"

fun sqlLiteral :: "string \<Rightarrow> (string \<times> string) option" where
  "sqlLiteral [] = None"
| "sqlLiteral [c] = (if c = apostrophe then Some ([], []) else None)"
| "sqlLiteral (c # d # cs) =
    (if c = backslash then map_option (\<lambda>(v, r). (sqlEscape d @ v, r)) (sqlLiteral cs)
     else if c = apostrophe then
       (if d = apostrophe then map_option (\<lambda>(v, r). (apostrophe # v, r)) (sqlLiteral cs)
        else Some ([], d # cs))
     else map_option (\<lambda>(v, r). (c # v, r)) (sqlLiteral (d # cs)))"

definition quoteSqlChar :: "char \<Rightarrow> string" where
  "quoteSqlChar c = (if c = backslash then [backslash, backslash]
     else if c = apostrophe then [backslash, apostrophe] else [c])"

lemma quoteSQL_chars: "quoteSQL s = concat (map quoteSqlChar s)"
  by (induction s) (auto simp: quoteSQL_def ReplaceAll_def quoteSqlChar_def)

lemma quoteSQL_Nil: "quoteSQL [] = []"
  by (simp add: quoteSQL_chars)

lemma quoteSQL_Cons: "quoteSQL (c # s) = quoteSqlChar c @ quoteSQL s"
  by (simp add: quoteSQL_chars)

lemma sqlLiteral_plain:
  "c \<noteq> backslash \<Longrightarrow> c \<noteq> apostrophe \<Longrightarrow> t \<noteq> [] \<Longrightarrow>
    sqlLiteral (c # t) = map_option (\<lambda>(v, r). (c # v, r)) (sqlLiteral t)"
  by (cases t) simp_all

lemma sqlLiteral_quote:
  assumes "rest = [] \<or> hd rest \<noteq> apostrophe"
  shows "sqlLiteral (quoteSQL s @ apostrophe # rest) = Some (s, rest)"
proof (induction s)
  case Nil
  from assms show ?case by (cases rest) (auto simp: quoteSQL_Nil)
next
  case (Cons c s)
  then show ?case
    by (auto simp: quoteSQL_Cons quoteSqlChar_def sqlLiteral_plain sqlEscape_def)
qed

lemma splitAddress_host_port:
  assumes "CHR '':'' \<notin> set host" and "CHR '':'' \<notin> set port" and "Atoi port = Some n"
  shows "splitAddress (host @ CHR '':'' # port) = (host, n)"
  using assms by (simp add: splitAddress_def Split_append_sep Split_id)

lemma splitAddress_default:
  assumes "CHR '':'' \<notin> set a"
  shows "splitAddress a = (a, 3306)"
  using assms by (simp add: splitAddress_def Split_id)

lemma isDigit_no_colon: "list_all isDigit s \<Longrightarrow> CHR '':'' \<notin> set s"
  by (auto simp: list_all_iff isDigit_def)

lemma showInt_no_colon: "CHR '':'' \<notin> set (showInt i)"
  using isDigit_no_colon [OF showNat_digits] by (simp add: showInt_def)

section \<open>The read-only variables\<close>

text \<open>
  What the MySQL manual says of \<open>read_only\<close> and \<open>super_read_only\<close>, read by \<open>flags\<close>: setting
  \<open>super_read_only\<close> to ON sets \<open>read_only\<close> too, setting \<open>read_only\<close> to OFF clears \<open>super_read_only\<close>
  too, and no other statement changes them. A statement that returned an error may still have
  been executed (the connection may break after it).
\<close>

definition setFlags :: "string \<Rightarrow> bool \<times> bool \<Rightarrow> bool \<times> bool" where
  "setFlags q f = (
     if q = ''SET GLOBAL super_read_only = ON'' then (True, True)
     else if q = ''SET GLOBAL super_read_only = OFF'' then (fst f, False)
     else if q = ''SET GLOBAL read_only = ON'' then (True, snd f)
     else if q = ''SET GLOBAL read_only = OFF'' then (False, False)
     else f)"

definition mysql_documented :: "'d DB \<Rightarrow> ('d \<Rightarrow> bool \<times> bool) \<Rightarrow> bool" where
  "mysql_documented db flags \<longleftrightarrow>
    (\<forall>c q d r d'. run_state (db_Exec db c q) d = (r, d') \<longrightarrow>
      flags d' = setFlags q (flags d) \<or> r \<noteq> None \<and> flags d' = flags d) \<and>
    (\<forall>c d. flags (snd (run_state (db_Ping db c) d)) = flags d) \<and>
    (\<forall>c q d. flags (snd (run_state (db_Query db c q) d)) = flags d) \<and>
    (\<forall>c q a d. flags (snd (run_state (db_QueryRow db c q a) d)) = flags d) \<and>
    (\<forall>c d vs d'. run_state (db_QueryRow db c globalsQuery []) d = (Inr vs, d') \<longrightarrow>
      (\<exists>u. vs = [u, SqlInt (if fst (flags d) then 1 else 0), SqlInt (if snd (flags d) then 1 else 0)]))"

lemma wp_Exec_flags:
  assumes "mysql_documented db flags"
    and "\<And>r d'. flags d' = setFlags q (flags d) \<or> r \<noteq> None \<and> flags d' = flags d \<Longrightarrow> Q r d'"
  shows "wp (db_Exec db c q) Q d"
  using assms unfolding mysql_documented_def wp_def by (auto split: prod.splits)

lemma wp_SetReadOnly:
  assumes doc: "mysql_documented db flags"
    and ok: "\<And>d'. flags d' = (b, b) \<Longrightarrow> Q None d'"
    and err: "\<And>e d'. flags d' = flags d \<or> flags d' = (b \<or> fst (flags d), b) \<or> flags d' = (b, b) \<Longrightarrow>
      Q (Some e) d'"
  shows "wp (SetReadOnly db c b) Q d"
proof -
  have both: "Q r d'" if "flags d' = (b, b)" for r d'
    using that by (cases r) (simp_all add: ok err)
  show ?thesis
    unfolding SetReadOnly_def
    by (cases b) (auto simp: wp setFlags_def both ok err split: option.splits if_splits
      intro!: wp_Exec_flags [OF doc])
qed

lemma wp_execReplica:
  assumes doc: "mysql_documented db flags"
    and q: "q \<in> {''STOP REPLICA'', ''RESET REPLICA ALL''}"
    and all: "\<And>r d'. flags d' = flags d \<Longrightarrow> Q r d'"
  shows "wp (execReplica db c q) Q d"
  using q unfolding execReplica_def
  by (auto simp: wp setFlags_def split: option.splits if_splits
      intro!: wp_Exec_flags [OF doc] all)

lemma wp_Mysql_Promote:
  assumes doc: "mysql_documented db flags"
    and ok: "\<And>d'. flags d' = (False, False) \<Longrightarrow> Q None d'"
    and err: "\<And>e d'. flags d' = flags d \<or> flags d' = (fst (flags d), False) \<or>
      flags d' = (False, False) \<Longrightarrow> Q (Some e) d'"
  shows "wp (Mysql_Promote db c) Q d"
  unfolding Mysql_Promote_def
  by (auto simp: wp split: option.splits
      intro!: wp_execReplica [OF doc] wp_SetReadOnly [OF doc] ok err)

lemma wp_Mysql_Demote:
  assumes doc: "mysql_documented db flags"
    and ok: "\<And>d'. flags d' = (True, True) \<Longrightarrow> Q None d'"
    and err: "\<And>e d'. flags d' = flags d \<or> flags d' = (True, True) \<Longrightarrow> Q (Some e) d'"
  shows "wp (Mysql_Demote db c) Q d"
  unfolding Mysql_Demote_def
  by (rule wp_SetReadOnly [OF doc]) (auto intro: ok err)

lemma setFlags_other [simp]:
  "setFlags (changeSourceQuery h p u w) f = f"
  "setFlags ''START REPLICA'' f = f"
  by (simp_all add: setFlags_def changeSourceQuery_def)

lemma wp_Mysql_ReconfigureReplica:
  assumes doc: "mysql_documented db flags"
    and ok: "\<And>d'. flags d' = (True, True) \<Longrightarrow> Q None d'"
    and err: "\<And>e d'. flags d' = flags d \<or> flags d' = (True, True) \<Longrightarrow> Q (Some e) d'"
  shows "wp (Mysql_ReconfigureReplica db config c source) Q d"
  unfolding Mysql_ReconfigureReplica_def
  by (auto simp: wp split: option.splits prod.splits
      intro!: wp_execReplica [OF doc] wp_Exec_flags [OF doc] wp_SetReadOnly [OF doc] ok err)

text \<open>The clock does not touch the server.\<close>

definition clock_inert :: "'d Runtime \<Rightarrow> ('d \<Rightarrow> 'f) \<Rightarrow> bool" where
  "clock_inert rt f \<longleftrightarrow> (\<forall>d. f (snd (run_state (rt_now rt) d)) = f d)"

lemma wp_QueryRow_flags:
  assumes "mysql_documented db flags"
    and "\<And>err d'. flags d' = flags d \<Longrightarrow> Q (Inl err) d'"
    and "\<And>u d'. flags d' = flags d \<Longrightarrow>
      Q (Inr [u, SqlInt (if fst (flags d) then 1 else 0), SqlInt (if snd (flags d) then 1 else 0)]) d'"
  shows "wp (db_QueryRow db c globalsQuery []) Q d"
proof -
  obtain r d' where run: "run_state (db_QueryRow db c globalsQuery []) d = (r, d')" by fastforce
  moreover have fl: "flags d' = flags d"
    using assms(1) run unfolding mysql_documented_def by (metis snd_conv)
  moreover have "r = Inr vs \<Longrightarrow> \<exists>u. vs =
      [u, SqlInt (if fst (flags d) then 1 else 0), SqlInt (if snd (flags d) then 1 else 0)]" for vs
    using assms(1) run unfolding mysql_documented_def by blast
  ultimately show ?thesis
    using assms(2,3) by (cases r) (auto simp: wp_def)
qed

lemma wp_replicaStatus_flags:
  assumes doc: "mysql_documented db flags" and all: "\<And>r d'. flags d' = flags d \<Longrightarrow> Q r d'"
  shows "wp (replicaStatus db c) Q d"
proof -
  have q: "wp (db_Query db c q) R e" if "\<And>r e'. flags e' = flags e \<Longrightarrow> R r e'" for q R e
    using doc that by (intro wp_frame [where f = flags]) (auto simp: mysql_documented_def)
  show ?thesis
    unfolding replicaStatus_def
    by (auto simp: wp split: sum.splits intro!: q all)
qed

lemma wp_Mysql_Status_flags:
  assumes doc: "mysql_documented db flags" and rt: "clock_inert rt flags"
  shows "wp (Mysql_Status rt db config c)
    (\<lambda>x d'. flags d' = flags d \<and> (ns_Role x = RolePrimary \<longrightarrow> flags d = (False, False)) \<and>
      (confirmedReadOnly x \<longrightarrow> flags d = (True, True))) d"
proof -
  have now: "wp (rt_now rt) Q e" if "\<And>r e'. flags e' = flags e \<Longrightarrow> Q r e'" for Q e
    using rt that by (intro wp_frame [where f = flags]) (auto simp: clock_inert_def)
  have ping: "wp (db_Ping db c) Q e" if "\<And>r e'. flags e' = flags e \<Longrightarrow> Q r e'" for Q e
    using doc that by (intro wp_frame [where f = flags]) (auto simp: mysql_documented_def)
  show ?thesis
    unfolding Mysql_Status_def
    by (auto simp: wp zeroNodeStatus_def confirmedReadOnly_def scanGlobals_def prod_eq_iff
        split: option.splits sum.splits if_splits
        intro!: now ping wp_QueryRow_flags [OF doc] wp_replicaStatus_flags [OF doc])
qed

end
