(* ===== verification/HA_Cluster.thy ===== *)
theory HA_Cluster
  imports HA_Fleet HA_Agent_Laws
begin

text \<open>
  The whole system put together: a controller built by \<open>NewController\<close>, a store, and for each
  node an agent server (\<open>agent_Handler\<close>) over the MySQL client (\<open>mysqlOperator\<close>) of its own
  MySQL server. The parts not under \<open>src/\<close> stay parameters: the store's backend, the MySQL
  servers (\<open>mysql_documented\<close>) and the HTTP transport (\<open>transports\<close>: a request reaches its handler
  at most once; the answer may get lost).

  The world (\<open>plant\<close>) is the backend of the store and the server of each node.
\<close>

section \<open>The plant\<close>

record ('e, 'd) plant =
  pl_store :: 'e
  pl_server :: "string \<Rightarrow> 'd"

definition onStore :: "('e, 'a) state \<Rightarrow> (('e, 'd) plant, 'a) state" where
  "onStore m = zoom pl_store (\<lambda>e w. w\<lparr>pl_store := e\<rparr>) m"

definition onServer :: "string \<Rightarrow> ('d, 'a) state \<Rightarrow> (('e, 'd) plant, 'a) state" where
  "onServer n m = zoom (\<lambda>w. pl_server w n) (\<lambda>d w. w\<lparr>pl_server := (pl_server w)(n := d)\<rparr>) m"

definition onStoreLock :: "('e, 'e lock) state \<Rightarrow> (('e, 'd) plant, ('e, 'd) plant lock) state" where
  "onStoreLock m = do {
     l \<leftarrow> onStore m;
     State_Monad.return (case l of
         Inl err \<Rightarrow> Inl err
       | Inr (c, release) \<Rightarrow> Inr (c, onStore release))
   }"

definition plantStore :: "'e Store \<Rightarrow> ('e, 'd) plant Store" where
  "plantStore S = \<lparr>
     s_GetCluster = \<lambda>c. onStore (s_GetCluster S c),
     s_PutCluster = \<lambda>c x. onStore (s_PutCluster S c x),
     s_PutClusterIfEpoch = \<lambda>c e x. onStore (s_PutClusterIfEpoch S c e x),
     s_AcquireLock = \<lambda>c h ttl. onStoreLock (s_AcquireLock S c h ttl),
     s_AcquireSwitchLock = \<lambda>c h ttl a. onStoreLock (s_AcquireSwitchLock S c h ttl a),
     s_VerifySwitchOperation = \<lambda>c a. onStore (s_VerifySwitchOperation S c a),
     s_PutTask = \<lambda>c t. onStore (s_PutTask S c t),
     s_ListTasks = \<lambda>c k. onStore (s_ListTasks S c k),
     s_Close = onStore (s_Close S)\<rparr>"

definition plantOperator :: "string \<Rightarrow> 'd MySQLOperator \<Rightarrow> ('e, 'd) plant MySQLOperator" where
  "plantOperator n M = \<lparr>
     mo_Status = \<lambda>c. onServer n (mo_Status M c),
     mo_ExecutedGTID = \<lambda>c. onServer n (mo_ExecutedGTID M c),
     mo_WaitForGTID = \<lambda>c g k. onServer n (mo_WaitForGTID M c g k),
     mo_Demote = \<lambda>c. onServer n (mo_Demote M c),
     mo_Promote = \<lambda>c. onServer n (mo_Promote M c),
     mo_ReconfigureReplica = \<lambda>c s. onServer n (mo_ReconfigureReplica M c s),
     mo_Close = onServer n (mo_Close M)\<rparr>"

text \<open>What an installation consists of, besides the controller.\<close>

record ('e, 'd) Site =
  site_render :: "json \<Rightarrow> string"
  site_select :: "(('e, 'd) plant, select) state"
  site_ticks :: nat
  site_clock :: "'d Runtime"
  site_db :: "'d DB"
  site_config :: "string \<Rightarrow> MySQLNodeConfig"
  site_store :: "'e Store"

definition siteAgent :: "('e, 'd) Site \<Rightarrow> string \<Rightarrow> ('e, 'd) plant AgentServer" where
  "siteAgent S n = \<lparr>as_nodeID = n,
     as_db = plantOperator n (mysqlOperator (site_clock S) (site_db S) (site_config S n)),
     as_store = s_VerifySwitchOperation (plantStore (site_store S))\<rparr>"

definition siteHandler ::
  "('e, 'd) Site \<Rightarrow> string \<Rightarrow> string \<Rightarrow> Request \<Rightarrow> (('e, 'd) plant, Response) state" where
  "siteHandler S n = agent_Handler (site_render S) (site_select S) (site_ticks S) (siteAgent S n)"

text \<open>What \<open>net/http\<close> promises of \<open>Client.Do\<close> on a server at \<open>base\<close>.\<close>

definition transports ::
  "'w HttpClient \<Rightarrow> string \<Rightarrow> (string \<Rightarrow> Request \<Rightarrow> ('w, Response) state) \<Rightarrow> bool" where
  "transports hc base h \<longleftrightarrow> (\<forall>req w r w'. run_state (hc_Do hc req) w = (r, w') \<longrightarrow>
     (\<exists>e. r = Inl e) \<and> w' = w \<or>
     (\<exists>path rsp. rq_URL req = base @ path \<and> run_state (h path req) w = (rsp, w') \<and>
       (r = Inr rsp \<or> (\<exists>e. r = Inl e))))"

text \<open>A transport that loses nothing.\<close>

definition directClient ::
  "string \<Rightarrow> (string \<Rightarrow> Request \<Rightarrow> ('w, Response) state) \<Rightarrow> 'w HttpClient" where
  "directClient base h = \<lparr>
     hc_Do = \<lambda>req. if HasPrefix (rq_URL req) base
       then do { rsp \<leftarrow> h (drop (length base) (rq_URL req)) req; State_Monad.return (Inr rsp) }
       else State_Monad.return (Inl ''no such host''),
     hc_CloseIdleConnections = State_Monad.return ()\<rparr>"

lemma directClient_transports: "transports (directClient base h) base h"
  unfolding transports_def directClient_def
  by (auto simp: HasPrefix_iff prefix_def split: prod.splits if_splits)

lemma wp_transport:
  assumes "transports hc base h" "\<And>e. Q (Inl e) w"
    and "\<And>path. rq_URL req = base @ path \<Longrightarrow>
      wp (h path req) (\<lambda>rsp w'. Q (Inr rsp) w' \<and> (\<forall>e. Q (Inl e) w')) w"
  shows "wp (hc_Do hc req) Q w"
proof -
  obtain r w' where run: "run_state (hc_Do hc req) w = (r, w')" by fastforce
  from assms(1) run consider e where "r = Inl e" "w' = w"
    | path rsp where "rq_URL req = base @ path" "run_state (h path req) w = (rsp, w')"
        "r = Inr rsp \<or> (\<exists>e. r = Inl e)"
    unfolding transports_def by blast
  then show ?thesis
  proof cases
    case 1
    with run assms(2) show ?thesis by (simp add: wp_def)
  next
    case 2
    with run assms(3) [OF 2(1)] show ?thesis by (auto simp: wp_def)
  qed
qed

lemma wp_onStore [wp]: "wp (onStore m) Q w = wp m (\<lambda>a e. Q a (w\<lparr>pl_store := e\<rparr>)) (pl_store w)"
  by (simp add: onStore_def wp)

lemma wp_onServer [wp]: "wp (onServer n m) Q w =
    wp m (\<lambda>a d. Q a (w\<lparr>pl_server := (pl_server w)(n := d)\<rparr>)) (pl_server w n)"
  by (simp add: onServer_def wp)

section \<open>What a node's client does to the plant\<close>

text \<open>The stored cluster state and the read-only variables of every node.\<close>

definition observe_plant ::
  "('e \<Rightarrow> ClusterState) \<Rightarrow> ('d \<Rightarrow> bool \<times> bool) \<Rightarrow> ('e, 'd) plant \<Rightarrow> ClusterState \<times> (string \<Rightarrow> bool \<times> bool)"
  where
  "observe_plant cl flags w = (cl (pl_store w), \<lambda>n. flags (pl_server w n))"

lemma wp_verify:
  assumes "switch_verifier (s_VerifySwitchOperation S) cl op"
    and "\<And>r e'. cl e' = cl e \<Longrightarrow> Q r e'"
  shows "wp (s_VerifySwitchOperation S c a) Q e"
proof -
  obtain r e' where run: "run_state (s_VerifySwitchOperation S c a) e = (r, e')" by fastforce
  with switch_verifier.verify_frame [OF assms(1) run] assms(2) show ?thesis by (simp add: wp_def)
qed

lemma wp_QueryRow_keeps:
  assumes "mysql_documented db flags" "\<And>r d'. flags d' = flags d \<Longrightarrow> Q r d'"
  shows "wp (db_QueryRow db c q args) Q d"
  using assms by (intro wp_frame [where f = flags]) (auto simp: mysql_documented_def)

lemma wp_Mysql_gtid:
  assumes "mysql_documented db flags"
  shows "(\<And>r d'. flags d' = flags d \<Longrightarrow> Q r d') \<Longrightarrow> wp (Mysql_ExecutedGTID db c) Q d"
    "(\<And>r d'. flags d' = flags d \<Longrightarrow> R r d') \<Longrightarrow> wp (Mysql_WaitForGTID db c g k) R d"
  unfolding Mysql_ExecutedGTID_def Mysql_WaitForGTID_def
  by (auto simp: wp intro!: wp_QueryRow_keeps [OF assms])

text \<open>The hypotheses about an installation, and about the client of one of its nodes.\<close>

definition site_ok ::
  "('e, 'd) Site \<Rightarrow> ('e \<Rightarrow> ClusterState) \<Rightarrow> ('e \<Rightarrow> SwitchAuthorization option) \<Rightarrow> ('d \<Rightarrow> bool \<times> bool) \<Rightarrow> bool"
  where
  "site_ok S cl op flags \<longleftrightarrow>
    switch_verifier (s_VerifySwitchOperation (site_store S)) cl op \<and>
    mysql_documented (site_db S) flags \<and> clock_inert (site_clock S) flags \<and>
    keeps (observe_plant cl flags) (site_select S)"

definition nodeClient ::
  "('e, 'd) Site \<Rightarrow> AgentNodeConfig \<Rightarrow> ('e, 'd) plant HttpClient \<Rightarrow> bool" where
  "nodeClient S node hc \<longleftrightarrow>
    transports hc (TrimRight (anc_AgentURL node) CHR ''/'') (siteHandler S (anc_ID node))"

text \<open>At most the variables of node \<open>n\<close> change; and if so, the node is closed.\<close>

definition changesOnly ::
  "('e \<Rightarrow> ClusterState) \<Rightarrow> ('d \<Rightarrow> bool \<times> bool) \<Rightarrow> string \<Rightarrow> ('e, 'd) plant \<Rightarrow> ('e, 'd) plant \<Rightarrow> bool" where
  "changesOnly cl flags n w w' \<longleftrightarrow> cl (pl_store w') = cl (pl_store w) \<and>
    (\<forall>m. m \<noteq> n \<longrightarrow> flags (pl_server w' m) = flags (pl_server w m))"

definition closesOnly ::
  "('e \<Rightarrow> ClusterState) \<Rightarrow> ('d \<Rightarrow> bool \<times> bool) \<Rightarrow> string \<Rightarrow> ('e, 'd) plant \<Rightarrow> ('e, 'd) plant \<Rightarrow> bool" where
  "closesOnly cl flags n w w' \<longleftrightarrow> changesOnly cl flags n w w' \<and>
    flags (pl_server w' n) \<in> {flags (pl_server w n), (True, True)}"

lemma changes_refl: "changesOnly cl flags n w w" "closesOnly cl flags n w w"
  by (simp_all add: changesOnly_def closesOnly_def)

lemma changes_observe:
  "observe_plant cl flags v = observe_plant cl flags u \<Longrightarrow> changesOnly cl flags n w u \<Longrightarrow> changesOnly cl flags n w v"
  "observe_plant cl flags v = observe_plant cl flags u \<Longrightarrow> closesOnly cl flags n w u \<Longrightarrow> closesOnly cl flags n w v"
  by (auto simp: closesOnly_def changesOnly_def observe_plant_def fun_eq_iff)

lemma changes_trans:
  "changesOnly cl flags n u v \<Longrightarrow> changesOnly cl flags n w u \<Longrightarrow> changesOnly cl flags n w v"
  "closesOnly cl flags n u v \<Longrightarrow> closesOnly cl flags n w u \<Longrightarrow> closesOnly cl flags n w v"
  by (auto simp: closesOnly_def changesOnly_def)

lemma siteHandler_get:
  assumes "rq_Method r = ''GET''"
  shows "siteHandler S n ''/api/v1/status'' r = agent_status (site_render S) (siteAgent S n) r"
    "siteHandler S n ''/api/v1/gtid'' r = agent_gtid (site_render S) (siteAgent S n) r"
  using assms by (simp_all add: siteHandler_def agent_Handler_def serveMux_def)

lemma siteHandler_post:
  assumes "rq_Method r = ''POST''"
  shows "siteHandler S n ''/api/v1/wait-gtid'' r = agent_waitGTID (site_render S) (siteAgent S n) r"
    "siteHandler S n ''/api/v1/demote'' r = agent_demote (site_render S) (siteAgent S n) r"
    "siteHandler S n ''/api/v1/promote'' r = agent_promote (site_render S) (siteAgent S n) r"
    "siteHandler S n ''/api/v1/replica'' r =
      agent_replica (site_render S) (site_select S) (site_ticks S) (siteAgent S n) r"
  using assms by (simp_all add: siteHandler_def agent_Handler_def serveMux_def)

locale site_node =
  fixes S :: "('e, 'd) Site" and cl :: "'e \<Rightarrow> ClusterState"
    and op :: "'e \<Rightarrow> SwitchAuthorization option" and flags :: "'d \<Rightarrow> bool \<times> bool"
    and node :: AgentNodeConfig and hc :: "('e, 'd) plant HttpClient"
  assumes site: "site_ok S cl op flags" and hc: "nodeClient S node hc"
begin

lemma documented: "mysql_documented (site_db S) flags" "clock_inert (site_clock S) flags"
   "switch_verifier (s_VerifySwitchOperation (site_store S)) cl op"
   "keeps (observe_plant cl flags) (site_select S)"
  using site by (auto simp: site_ok_def)

lemmas transport = wp_transport [OF hc [unfolded nodeClient_def]]

lemma wp_Client_do:
  assumes "rq_URL req = TrimRight (anc_AgentURL node) CHR ''/'' @ path"
    and "\<And>e. Q (Inl e) w"
    and "wp (siteHandler S (anc_ID node) path req) (\<lambda>rsp w'. Q (Inr rsp) w' \<and> (\<forall>e. Q (Inl e) w')) w"
  shows "wp (Client_do \<lparr>ac_node = node, ac_http = hc\<rparr> req) Q w"
proof -
  show ?thesis
    unfolding Client_do_def wp AgentClient.select_convs
  proof (rule transport, goal_cases)
    case (2 path')
    with assms(1) have "path' = path" by simp
    with assms(3) show ?case by (auto elim!: wp_mono split: option.splits)
  qed (simp add: assms(2))
qed

lemma wp_authorize_site:
  assumes "\<And>r w'. observe_plant cl flags w' = observe_plant cl flags w \<Longrightarrow> Q r w'"
  shows "wp (authorize (siteAgent S (anc_ID node)) c a) Q w"
  using assms unfolding authorize_def siteAgent_def plantStore_def
  by (auto simp: wp observe_plant_def intro!: wp_verify [OF documented(3)])

lemma wp_site_status:
  assumes "\<And>x w'. observe_plant cl flags w' = observe_plant cl flags w \<Longrightarrow> status_ok x \<Longrightarrow>
      (confirmedReadOnly x \<Longrightarrow> flags (pl_server w (anc_ID node)) = (True, True)) \<Longrightarrow> Q x w'"
  shows "wp (mo_Status (as_db (siteAgent S (anc_ID node))) c) Q w"
proof -
  have "wp (Mysql_Status (site_clock S) (site_db S) (site_config S (anc_ID node)) c)
    (\<lambda>x d'. status_ok x \<and> flags d' = flags (pl_server w (anc_ID node)) \<and>
      (confirmedReadOnly x \<longrightarrow> flags (pl_server w (anc_ID node)) = (True, True))) (pl_server w (anc_ID node))"
    using wp_Mysql_Status [of "site_clock S" "site_db S" "site_config S (anc_ID node)" c "pl_server w (anc_ID node)"]
      wp_Mysql_Status_flags [OF documented(1,2), of "site_config S (anc_ID node)" c "pl_server w (anc_ID node)"]
    by (simp add: wp_run)
  then show ?thesis
    unfolding siteAgent_def plantOperator_def mysqlOperator_def
    by (auto simp: wp observe_plant_def fun_eq_iff intro!: assms elim!: wp_mono)
qed

lemma wp_site_role:
  "(\<And>r w'. closesOnly cl flags (anc_ID node) w w' \<Longrightarrow> Q r w') \<Longrightarrow>
    wp (mo_Demote (as_db (siteAgent S (anc_ID node))) c) Q w"
  "(\<And>r w'. closesOnly cl flags (anc_ID node) w w' \<Longrightarrow> Q r w') \<Longrightarrow>
    wp (mo_ReconfigureReplica (as_db (siteAgent S (anc_ID node))) c src) Q w"
  "(\<And>r w'. changesOnly cl flags (anc_ID node) w w' \<Longrightarrow> Q r w') \<Longrightarrow>
    wp (mo_Promote (as_db (siteAgent S (anc_ID node))) c) Q w"
  unfolding siteAgent_def plantOperator_def mysqlOperator_def
  by (auto simp: wp closesOnly_def changesOnly_def
    intro!: wp_Mysql_Demote [OF documented(1)] wp_Mysql_Promote [OF documented(1)]
      wp_Mysql_ReconfigureReplica [OF documented(1)])

lemma wp_site_reads:
  shows "(\<And>r w'. observe_plant cl flags w' = observe_plant cl flags w \<Longrightarrow> Q r w') \<Longrightarrow>
      wp (mo_ExecutedGTID (as_db (siteAgent S (anc_ID node))) c) Q w"
    "(\<And>r w'. observe_plant cl flags w' = observe_plant cl flags w \<Longrightarrow> R r w') \<Longrightarrow>
      wp (mo_WaitForGTID (as_db (siteAgent S (anc_ID node))) c g k) R w"
  unfolding siteAgent_def plantOperator_def mysqlOperator_def
  by (auto simp: wp observe_plant_def fun_eq_iff intro!: wp_Mysql_gtid [OF documented(1)])

text \<open>
  What the agent keeps: a condition on the observed variables is kept by everything that only
  reads, one closed under closing the node also by demoting and reconfiguring it, one closed
  under changing the node also by promoting it.
\<close>

lemma site_keeps_reads:
  assumes "\<And>u v. observe_plant cl flags v = observe_plant cl flags u \<Longrightarrow> I u \<Longrightarrow> I v"
  shows "maintains I (authorize (siteAgent S (anc_ID node)) c a)"
    "maintains I (mo_Status (as_db (siteAgent S (anc_ID node))) c)"
    "maintains I (mo_ExecutedGTID (as_db (siteAgent S (anc_ID node))) c)"
    "maintains I (mo_WaitForGTID (as_db (siteAgent S (anc_ID node))) c g k)"
    "maintains I (site_select S)"
  using assms documented(4)
  by (auto simp: keeps_def wp_run intro!: maintainsI wp_authorize_site wp_site_status wp_site_reads)

lemma Client_keeps:
  assumes "maintains I (siteHandler S (anc_ID node) path \<lparr>rq_ctx = cx, rq_Method = m,
      rq_URL = TrimRight (anc_AgentURL node) CHR ''/'' @ path, rq_Body = body\<rparr>)"
  shows "maintains I (Client_do \<lparr>ac_node = node, ac_http = hc\<rparr> \<lparr>rq_ctx = cx, rq_Method = m,
      rq_URL = TrimRight (anc_AgentURL node) CHR ''/'' @ path, rq_Body = body\<rparr>)"
proof (rule maintainsI, rule wp_Client_do)
  fix w
  assume "I w"
  from maintainsD [OF assms this] show "wp (siteHandler S (anc_ID node) path \<lparr>rq_ctx = cx,
      rq_Method = m, rq_URL = TrimRight (anc_AgentURL node) CHR ''/'' @ path, rq_Body = body\<rparr>)
    (\<lambda>rsp w'. I w' \<and> (\<forall>e :: error. I w')) w" by simp
qed simp_all

lemma waitReplica_keeps:
  assumes "\<And>u v. observe_plant cl flags v = observe_plant cl flags u \<Longrightarrow> I u \<Longrightarrow> I v"
  shows "maintains I (waitReplica render (site_select S) k (siteAgent S (anc_ID node)) c)"
proof (induction k)
  case 0
  show ?case
    by (subst waitReplica.simps) (auto intro!: maintains site_keeps_reads [OF assms] split: select.splits)
next
  case (Suc k)
  then show ?case
    by (subst waitReplica.simps) (auto intro!: maintains site_keeps_reads [OF assms] split: select.splits)
qed

lemma node_keeps_reads:
  assumes "\<And>u v. observe_plant cl flags v = observe_plant cl flags u \<Longrightarrow> I u \<Longrightarrow> I v"
  shows "maintains I (Client_ExecutedGTID \<lparr>ac_node = node, ac_http = hc\<rparr> cx)"
    "maintains I (Client_WaitForGTID \<lparr>ac_node = node, ac_http = hc\<rparr> cx a g k)"
  unfolding Client_ExecutedGTID_def Client_WaitForGTID_def Client_get_def Client_post_def
  by (auto simp: siteHandler_get siteHandler_post agent_gtid_def agent_waitGTID_def
    intro!: maintains Client_keeps site_keeps_reads [OF assms])

lemma node_demote:
  "maintains (closesOnly cl flags (anc_ID node) w) (Client_Demote \<lparr>ac_node = node, ac_http = hc\<rparr> cx a)"
proof -
  have "maintains (closesOnly cl flags (anc_ID node) w) (mo_Demote (as_db (siteAgent S (anc_ID node))) c)" for c
    by (auto intro!: maintainsI wp_site_role elim: changes_trans)
  then show ?thesis
    unfolding Client_Demote_def Client_post_def
    by (auto simp: siteHandler_post agent_demote_def
      intro!: maintains Client_keeps site_keeps_reads [OF changes_observe(2)])
qed

lemma node_reconfigure:
  "maintains (closesOnly cl flags (anc_ID node) w)
    (Client_ReconfigureReplica \<lparr>ac_node = node, ac_http = hc\<rparr> cx a src)"
proof -
  have "maintains (closesOnly cl flags (anc_ID node) w)
      (mo_ReconfigureReplica (as_db (siteAgent S (anc_ID node))) c x)" for c x
    by (auto intro!: maintainsI wp_site_role elim: changes_trans)
  then show ?thesis
    unfolding Client_ReconfigureReplica_def Client_post_def
    by (auto simp: siteHandler_post agent_replica_def
      intro!: maintains Client_keeps site_keeps_reads [OF changes_observe(2)]
        waitReplica_keeps [OF changes_observe(2)])
qed

lemma node_promote:
  "maintains (changesOnly cl flags (anc_ID node) w) (Client_Promote \<lparr>ac_node = node, ac_http = hc\<rparr> cx a)"
proof -
  have "maintains (changesOnly cl flags (anc_ID node) w) (mo_Promote (as_db (siteAgent S (anc_ID node))) c)" for c
    by (auto intro!: maintainsI wp_site_role elim: changes_trans)
  then show ?thesis
    unfolding Client_Promote_def Client_post_def
    by (auto simp: siteHandler_post agent_promote_def
      intro!: maintains Client_keeps site_keeps_reads [OF changes_observe(1)])
qed

lemma wp_node_status:
  assumes "keeps (observe_plant cl flags) (rt_now rt)"
  shows "wp (Client_Status rt \<lparr>ac_node = node, ac_http = hc\<rparr> cx) (\<lambda>x w'.
    observe_plant cl flags w' = observe_plant cl flags w \<and>
    (confirmedReadOnly x \<longrightarrow> flags (pl_server w (anc_ID node)) = (True, True))) w"
proof -
  have now: "wp (rt_now rt) Q v" if "\<And>x v'. observe_plant cl flags v' = observe_plant cl flags v \<Longrightarrow> Q x v'" for Q v
    using assms that by (simp add: keeps_def wp_run)
  have zero: "\<not> ns_Reachable zeroNodeStatus"
    by (simp add: zeroNodeStatus_def)
  have read: "wp (Client_do \<lparr>ac_node = node, ac_http = hc\<rparr> \<lparr>rq_ctx = cx', rq_Method = ''GET'',
       rq_URL = TrimRight (anc_AgentURL node) CHR ''/'' @ ''/api/v1/status'', rq_Body = None\<rparr>) Q w"
    if "\<And>e w'. observe_plant cl flags w' = observe_plant cl flags w \<Longrightarrow> Q (Inl e) w'"
     "\<And>x rsp w'. observe_plant cl flags w' = observe_plant cl flags w \<Longrightarrow>
      rsp_Doc rsp = Doc (encNodeStatus x) \<Longrightarrow> wfNodeStatus x \<Longrightarrow>
      (confirmedReadOnly x \<longrightarrow> flags (pl_server w (anc_ID node)) = (True, True)) \<Longrightarrow> Q (Inr rsp) w'" for cx' Q
    by (rule wp_Client_do) (auto simp: wp siteHandler_get agent_status_def writeJSON_def status_ok_def
       intro!: wp_site_status that)
  show ?thesis
    unfolding Client_Status_def Client_get_def
    by (auto simp: wp nstatus.unmarshal_enc confirmedReadOnly_def zero split: sum.splits intro!: read now)
qed

end

section \<open>The fleet of a controller\<close>

lemma NewClient_Inr: "NewClient tls http node ca cert key = Inr client \<Longrightarrow>
    client = \<lparr>ac_node = node, ac_http = http\<rparr>"
  by (auto simp: NewClient_def split: if_splits sum.splits option.splits)

lemma addNodes_Inr:
  assumes "addNodes rt tls http cfg c nodes = Inr c'"
  shows "c_store c' = c_store c \<and> c_router c' = c_router c \<and> c_fencer c' = c_fencer c \<and>
    c_alerts c' = c_alerts c \<and> c_cfg c' = c_cfg c \<and>
    (\<forall>n nd. map_of (c_clients c') n = Some nd \<longrightarrow> map_of (c_clients c) n = Some nd \<or>
      (\<exists>node \<in> set nodes. anc_ID node = n \<and>
        nd = clientNode rt \<lparr>ac_node = node, ac_http = http node\<rparr>))"
  using assms
proof (induction nodes arbitrary: c)
  case (Cons node nodes)
  from Cons.prems obtain client where new: "NewClient tls (http node) node (cfg_AgentCAFile cfg)
      (cfg_AgentCertFile cfg) (cfg_AgentKeyFile cfg) = Inr client"
    by (auto split: if_splits sum.splits)
  from Cons.prems new have "addNodes rt tls http cfg
      (c\<lparr>c_clients := AList.update (anc_ID node) (clientNode rt client) (c_clients c),
         c_configs := AList.update (anc_ID node) node (c_configs c)\<rparr>) nodes = Inr c'"
    by (auto split: if_splits)
  from Cons.IH [OF this] NewClient_Inr [OF new] show ?case
    by (auto simp: update_conv' split: if_splits)
qed simp

lemma NewController_Inr:
  assumes "NewController rt tls http post cfg store = Inr c"
  shows "c_store c = store" "c_router c = NoopSetPrimary" "c_fencer c = NoopFence"
    "c_alerts c = \<lparr>am_URL = cfg_AlertWebhookURL cfg, am_Post = post\<rparr>" "c_cfg c = cfg"
    "map_of (c_clients c) n = Some nd \<Longrightarrow> \<exists>node \<in> set (cfg_Nodes cfg). anc_ID node = n \<and>
        nd = clientNode rt \<lparr>ac_node = node, ac_http = http node\<rparr>"
  using assms by (auto simp: NewController_def split: if_splits dest!: addNodes_Inr)

text \<open>A lock that leaves the cluster state alone, and so does its release.\<close>

definition plainLock :: "('e \<Rightarrow> ClusterState) \<Rightarrow> ('e, 'e lock) state \<Rightarrow> bool" where
  "plainLock cl m \<longleftrightarrow> keeps cl m \<and>
    (\<forall>e d rel e'. run_state m e = (Inr (d, rel), e') \<longrightarrow> keeps cl rel)"

definition store_ok ::
  "'e Store \<Rightarrow> ('e \<Rightarrow> ClusterState) \<Rightarrow> ('e \<Rightarrow> SwitchAuthorization option) \<Rightarrow> bool" where
  "store_ok S cl op \<longleftrightarrow>
    switch_store (s_GetCluster S) (s_PutClusterIfEpoch S) (s_VerifySwitchOperation S) cl op
      (s_AcquireSwitchLock S) \<and>
    (\<forall>c x e r e'. run_state (s_PutCluster S c x) e = (r, e') \<longrightarrow> cl e' = x \<or> r \<noteq> None \<and> cl e' = cl e) \<and>
    (\<forall>c h ttl. plainLock cl (s_AcquireLock S c h ttl)) \<and>
    (\<forall>c t. keeps cl (s_PutTask S c t)) \<and> (\<forall>c k. keeps cl (s_ListTasks S c k))"

text \<open>The nodes of the controller that accept writes: \<open>read_only\<close> is off.\<close>

definition acceptsWrites ::
  "('d \<Rightarrow> bool \<times> bool) \<Rightarrow> string set \<Rightarrow> ('e, 'd) plant \<Rightarrow> string \<Rightarrow> bool" where
  "acceptsWrites flags ids w n \<longleftrightarrow> n \<in> ids \<and> \<not> fst (flags (pl_server w n))"

definition environment_ok ::
  "'w Runtime \<Rightarrow> (ctx \<Rightarrow> string \<Rightarrow> json \<Rightarrow> ('w, error + int) state) \<Rightarrow> ('w \<Rightarrow> 'a) \<Rightarrow> bool" where
  "environment_ok rt post f \<longleftrightarrow> keeps f (rt_now rt) \<and> (\<forall>c. keeps f (rt_ctxErr rt c)) \<and>
    (\<forall>ks. keeps f (rt_range rt ks)) \<and> (\<forall>c u j. keeps f (post c u j))"

lemma observe_accepts:
  assumes "observe_plant cl flags v = observe_plant cl flags u"
  shows "acceptsWrites flags ids v = acceptsWrites flags ids u \<and> cl (pl_store v) = cl (pl_store u)"
proof -
  have "flags (pl_server v n) = flags (pl_server u n)" for n
    using assms by (auto simp: observe_plant_def dest: fun_cong)
  with assms show ?thesis by (simp add: observe_plant_def acceptsWrites_def fun_eq_iff)
qed

lemma keeps_observe:
  "keeps (observe_plant cl flags) m \<Longrightarrow>
    keeps (\<lambda>w. (acceptsWrites flags ids w, cl (pl_store w))) m"
  unfolding keeps_def by (metis observe_accepts)

lemma keeps_onStore: "keeps cl m \<Longrightarrow> keeps (observe_plant cl flags) (onStore m)"
  unfolding keeps_def observe_plant_def onStore_def by (auto split: prod.splits) (metis snd_conv)


text \<open>The store of the plant.\<close>

locale plant_store =
  fixes S :: "'e Store" and cl :: "'e \<Rightarrow> ClusterState" and op :: "'e \<Rightarrow> SwitchAuthorization option"
    and flags :: "'d \<Rightarrow> bool \<times> bool" and ids :: "string set"
  assumes ok: "store_ok S cl op"
begin

lemma switch: "switch_store (s_GetCluster S) (s_PutClusterIfEpoch S) (s_VerifySwitchOperation S) cl op
    (s_AcquireSwitchLock S)"
  using ok by (simp add: store_ok_def)

lemmas epoch = switch_store.axioms(1) [OF switch]

lemma plant_get:
  fixes w :: "('e, 'd) plant"
  assumes "run_state (s_GetCluster (plantStore S) cx) w = (r, w')"
  shows "acceptsWrites flags ids w' = acceptsWrites flags ids w \<and> cl (pl_store w') = cl (pl_store w) \<and>
    (\<forall>x. r = Inr x \<longrightarrow> x = cl (pl_store w))"
proof -
  obtain e where run: "run_state (s_GetCluster S cx) (pl_store w) = (r, e)"
    and w': "w' = w\<lparr>pl_store := e\<rparr>"
    using assms by (auto simp: plantStore_def onStore_def split: prod.splits)
  from epoch_store.get_frame [OF epoch run] w' have "cl (pl_store w') = cl (pl_store w)" by simp
  moreover have "x = cl (pl_store w)" if "r = Inr x" for x
    using epoch_store.get_ok [OF epoch, of cx "pl_store w" x e] run that by simp
  ultimately show ?thesis using w' by (simp add: acceptsWrites_def fun_eq_iff)
qed

lemma plant_cas:
  fixes w :: "('e, 'd) plant"
  assumes "run_state (s_PutClusterIfEpoch (plantStore S) cx ep x) w = (q, w')"
  shows "acceptsWrites flags ids w' = acceptsWrites flags ids w \<and>
    (cl (pl_store w') = x \<or> q \<noteq> None \<and> cl (pl_store w') = cl (pl_store w))"
proof -
  obtain e where run: "run_state (s_PutClusterIfEpoch S cx ep x) (pl_store w) = (q, e)"
    and w': "w' = w\<lparr>pl_store := e\<rparr>"
    using assms by (auto simp: plantStore_def onStore_def split: prod.splits)
  have "cl e = x \<or> q \<noteq> None \<and> cl e = cl (pl_store w)"
    using epoch_store.cas_ok [OF epoch, of cx ep x "pl_store w" e]
      epoch_store.cas_err [OF epoch, of cx ep x "pl_store w" _ e] run by (cases q) auto
  with w' show ?thesis by (simp add: acceptsWrites_def fun_eq_iff)
qed

lemma acquire_frame:
  assumes "run_state (s_AcquireSwitchLock S cx h ttl a) e = (l, e')"
  shows "cl e' = cl e"
proof (cases l)
  case (Inl err)
  with switch_store.acq_err [OF switch] assms show ?thesis by blast
next
  case (Inr y)
  with switch_store.acq_ok [OF switch, of cx h ttl a e "fst y" "snd y" e'] assms show ?thesis by simp
qed

lemma plant_acquire:
  "keeps (observe_plant cl flags) (s_AcquireSwitchLock (plantStore S :: ('e, 'd) plant Store) cx h ttl a)"
proof -
  have "keeps cl (s_AcquireSwitchLock S cx h ttl a)"
    unfolding keeps_def using acquire_frame by (metis prod.collapse)
  then show ?thesis
    by (auto simp: plantStore_def onStoreLock_def intro!: keeps_bind keeps_return keeps_onStore)
qed

lemma plant_release:
  assumes "run_state (s_AcquireSwitchLock (plantStore S :: ('e, 'd) plant Store) cx h ttl a) w =
    (Inr (cx', rel), w')"
  shows "keeps (observe_plant cl flags) rel"
proof -
  from assms obtain r e where run: "run_state (s_AcquireSwitchLock S cx h ttl a) (pl_store w) = (Inr (cx', r), e)"
    and rel: "rel = onStore r"
    by (auto simp: plantStore_def onStoreLock_def onStore_def split: prod.splits sum.splits)
  have "keeps cl r"
    unfolding keeps_def using switch_store.rel_frame [OF switch run] by (metis prod.collapse)
  then show ?thesis unfolding rel by (rule keeps_onStore)
qed

lemma plant_tasks:
  "keeps (observe_plant cl flags) (s_PutTask (plantStore S :: ('e, 'd) plant Store) cx t)"
  "keeps (observe_plant cl flags) (s_ListTasks (plantStore S :: ('e, 'd) plant Store) cx k)"
  using ok by (auto simp: plantStore_def store_ok_def intro: keeps_onStore)

lemma plant_put:
  fixes w :: "('e, 'd) plant"
  assumes "run_state (s_PutCluster (plantStore S) cx x) w = (q, w')"
  shows "acceptsWrites flags ids w' = acceptsWrites flags ids w \<and>
    (cl (pl_store w') = x \<or> q \<noteq> None \<and> cl (pl_store w') = cl (pl_store w))"
proof -
  obtain e where run: "run_state (s_PutCluster S cx x) (pl_store w) = (q, e)"
    and w': "w' = w\<lparr>pl_store := e\<rparr>"
    using assms by (auto simp: plantStore_def onStore_def split: prod.splits)
  with ok show ?thesis unfolding store_ok_def by (simp add: acceptsWrites_def fun_eq_iff)
qed

lemma plant_lock:
  "keeps (observe_plant cl flags) (s_AcquireLock (plantStore S :: ('e, 'd) plant Store) cx h ttl)"
proof -
  have "keeps cl (s_AcquireLock S cx h ttl)" using ok by (simp add: store_ok_def plainLock_def)
  then show ?thesis
    by (auto simp: plantStore_def onStoreLock_def intro!: keeps_bind keeps_return keeps_onStore)
qed

lemma plant_unlock:
  assumes "run_state (s_AcquireLock (plantStore S :: ('e, 'd) plant Store) cx h ttl) w = (Inr (cx', rel), w')"
  shows "keeps (observe_plant cl flags) rel"
proof -
  from assms obtain r e where run: "run_state (s_AcquireLock S cx h ttl) (pl_store w) = (Inr (cx', r), e)"
    and rel: "rel = onStore r"
    by (auto simp: plantStore_def onStoreLock_def onStore_def split: prod.splits sum.splits)
  with ok have "keeps cl r" unfolding store_ok_def plainLock_def by blast
  then show ?thesis unfolding rel by (rule keeps_onStore)
qed

end

section \<open>An installation\<close>

text \<open>
  A controller that \<open>NewController\<close> accepted, on a store and servers that behave as documented,
  undisturbed by others.
\<close>

locale installation =
  fixes S :: "('e, 'd) Site" and cl :: "'e \<Rightarrow> ClusterState" and op :: "'e \<Rightarrow> SwitchAuthorization option"
    and flags :: "'d \<Rightarrow> bool \<times> bool" and rt :: "('e, 'd) plant Runtime" and tls :: Tls
    and http :: "AgentNodeConfig \<Rightarrow> ('e, 'd) plant HttpClient"
    and post :: "ctx \<Rightarrow> string \<Rightarrow> json \<Rightarrow> (('e, 'd) plant, error + int) state"
    and cfg :: Config and c :: "('e, 'd) plant Controller"
  assumes new: "NewController rt tls http post cfg (plantStore (site_store S)) = Inr c"
    and site: "site_ok S cl op flags" and store: "store_ok (site_store S) cl op"
    and nodes: "node \<in> set (cfg_Nodes cfg) \<Longrightarrow> nodeClient S node (http node)"
    and env: "environment_ok rt post (observe_plant cl flags)"
begin

lemmas built = NewController_Inr [OF new]

lemma plant: "plant_store (site_store S) cl op"
  by (simp add: plant_store_def store)

lemma quiet: "keeps (observe_plant cl flags) (rt_now rt)" "keeps (observe_plant cl flags) (rt_ctxErr rt cx)"
    "keeps (observe_plant cl flags) (rt_range rt ks)" "keeps (observe_plant cl flags) (post cx u j)"
  using env by (auto simp: environment_ok_def)

lemma node_client:
  assumes "map_of (c_clients c) n = Some nd"
  obtains node where "anc_ID node = n" "site_node S cl op flags node (http node)"
    "nd = clientNode rt \<lparr>ac_node = node, ac_http = http node\<rparr>"
  using built(6) [OF assms] nodes site by (auto simp: site_node_def)

lemma node_run: "maintains J m \<Longrightarrow> J w \<Longrightarrow> run_state m w = (r, w') \<Longrightarrow> J w'"
  using maintains_run by (metis snd_conv)

lemma closed:
  assumes "closesOnly cl flags n w w'"
  shows "cl (pl_store w') = cl (pl_store w) \<and> acceptsWrites flags ids w' \<le> acceptsWrites flags ids w"
  using assms by (auto simp: closesOnly_def changesOnly_def acceptsWrites_def le_fun_def)
    (metis fst_conv)+

lemma status_true:
  assumes nd: "map_of (c_clients c) n = Some nd" and run: "run_state (n_Status nd cx) w = (st, w')"
  shows "acceptsWrites flags ids w' = acceptsWrites flags ids w \<and> cl (pl_store w') = cl (pl_store w) \<and>
    (confirmedReadOnly st \<longrightarrow> \<not> acceptsWrites flags ids w n)"
proof -
  obtain node where n: "anc_ID node = n" "site_node S cl op flags node (http node)"
    "nd = clientNode rt \<lparr>ac_node = node, ac_http = http node\<rparr>"
    using node_client [OF nd] .
  from site_node.wp_node_status [OF n(2) quiet(1), of cx w] run n
  have "observe_plant cl flags w' = observe_plant cl flags w"
    "confirmedReadOnly st \<longrightarrow> flags (pl_server w n) = (True, True)"
    by (auto simp: wp_def clientNode_def)
  then show ?thesis
    using observe_accepts [of cl flags w' w] by (auto simp: acceptsWrites_def)
qed

lemma demote_closes:
  assumes nd: "map_of (c_clients c) n = Some nd" and run: "run_state (n_Demote nd cx a) w = (q, w')"
  shows "cl (pl_store w') = cl (pl_store w) \<and> acceptsWrites flags ids w' \<le> acceptsWrites flags ids w"
proof -
  obtain node where n: "site_node S cl op flags node (http node)"
    "nd = clientNode rt \<lparr>ac_node = node, ac_http = http node\<rparr>"
    using node_client [OF nd] .
  from node_run [OF site_node.node_demote [OF n(1), of w cx a] changes_refl(2)] run n(2)
  show ?thesis by (intro closed) (simp add: clientNode_def)
qed

lemma reconfigure_closes:
  assumes nd: "map_of (c_clients c) n = Some nd"
    and run: "run_state (n_ReconfigureReplica nd cx a src) w = (q, w')"
  shows "cl (pl_store w') = cl (pl_store w) \<and> acceptsWrites flags ids w' \<le> acceptsWrites flags ids w"
proof -
  obtain node where n: "site_node S cl op flags node (http node)"
    "nd = clientNode rt \<lparr>ac_node = node, ac_http = http node\<rparr>"
    using node_client [OF nd] .
  from node_run [OF site_node.node_reconfigure [OF n(1), of w cx a src] changes_refl(2)] run n(2)
  show ?thesis by (intro closed) (simp add: clientNode_def)
qed

lemma promote_own:
  assumes nd: "map_of (c_clients c) n = Some nd" and run: "run_state (n_Promote nd cx a) w = (q, w')"
  shows "cl (pl_store w') = cl (pl_store w) \<and>
    (\<forall>m. acceptsWrites flags ids w' m \<longrightarrow> m = n \<or> acceptsWrites flags ids w m)"
proof -
  obtain node where n: "anc_ID node = n" "site_node S cl op flags node (http node)"
    "nd = clientNode rt \<lparr>ac_node = node, ac_http = http node\<rparr>"
    using node_client [OF nd] .
  from node_run [OF site_node.node_promote [OF n(2), of w cx a] changes_refl(1)] run n
  have "changesOnly cl flags n w w'" by (simp add: clientNode_def)
  then show ?thesis by (auto simp: changesOnly_def acceptsWrites_def)
qed

lemma reads_keep:
  assumes nd: "map_of (c_clients c) n = Some nd"
  shows "keeps (observe_plant cl flags) (n_ExecutedGTID nd cx)"
    "keeps (observe_plant cl flags) (n_WaitForGTID nd cx a g k)"
proof -
  obtain node where n: "site_node S cl op flags node (http node)"
    "nd = clientNode rt \<lparr>ac_node = node, ac_http = http node\<rparr>"
    using node_client [OF nd] .
  show "keeps (observe_plant cl flags) (n_ExecutedGTID nd cx)"
    "keeps (observe_plant cl flags) (n_WaitForGTID nd cx a g k)"
    unfolding n(2) clientNode_def Node.select_convs
    by (rule keeps_maintains, rule site_node.node_keeps_reads [OF n(1)], simp)+
qed

end

sublocale installation \<subseteq> fl: fleet rt c "\<lambda>w. cl (pl_store w)"
  "acceptsWrites flags (set (map fst (c_clients c)))"
proof
  fix cx w r w'
  assume "run_state (s_GetCluster (c_store c) cx) w = (r, w')"
  then show "acceptsWrites flags (set (map fst (c_clients c))) w' =
      acceptsWrites flags (set (map fst (c_clients c))) w \<and> cl (pl_store w') = cl (pl_store w) \<and>
      (\<forall>x. r = Inr x \<longrightarrow> x = cl (pl_store w))"
    unfolding built by (rule plant_store.plant_get [OF plant])
next
  fix cx ep x w q w'
  assume "run_state (s_PutClusterIfEpoch (c_store c) cx ep x) w = (q, w')"
  then show "acceptsWrites flags (set (map fst (c_clients c))) w' =
      acceptsWrites flags (set (map fst (c_clients c))) w \<and>
      (cl (pl_store w') = x \<or> q \<noteq> None \<and> cl (pl_store w') = cl (pl_store w))"
    unfolding built by (rule plant_store.plant_cas [OF plant])
qed (auto simp: built NoopFence_def NoopSetPrimary_def
    dest: status_true demote_closes reconfigure_closes promote_own
    intro!: keeps_observe keeps_return quiet reads_keep plant_store.plant_acquire [OF plant]
      plant_store.plant_release [OF plant] plant_store.plant_tasks [OF plant])

context installation
begin

lemmas switch_unsplit = fl.Switch_unsplit

end

section \<open>The etcd store and the agents of an installation\<close>

lemma keeps_etcd_task:
  assumes "put_documented E view (=)"
  shows "keeps (\<lambda>e. clusterIn p (view e)) (Etcd_PutTask E p c t)"
  unfolding keeps_def
proof
  fix e
  obtain r e' where run: "run_state (Etcd_PutTask E p c t) e = (r, e')" by fastforce
  then have put: "run_state (etcd_Put E c (tasksKey p @ st_ID t) (Doc (encSwitchTask t)) None) e = (r, e')"
    by (simp add: Etcd_PutTask_def)
  have ne: "clusterKey p \<noteq> tasksKey p @ st_ID t"
    by (simp add: clusterKey_def tasksKey_def)
  from assms put obtain m rev where "view e = m"
    "view e' = m(tasksKey p @ st_ID t \<mapsto> (Doc (encSwitchTask t), rev)) \<or> view e' = m"
    unfolding put_documented_def by metis
  then have "view e' (clusterKey p) = view e (clusterKey p)"
    using ne by auto
  then show "clusterIn p (view (snd (run_state (Etcd_PutTask E p c t) e))) = clusterIn p (view e)"
    unfolding run snd_conv by (rule clusterIn_cong)
qed

lemma Etcd_PutCluster_run:
  assumes "put_documented E view (=)" and "run_state (Etcd_PutCluster E p c x) e = (r, e')"
  shows "clusterIn p (view e') = x \<or> r \<noteq> None \<and> clusterIn p (view e') = clusterIn p (view e)"
proof -
  from assms obtain rev where "view e' = (view e)(clusterKey p \<mapsto> (Doc (encClusterState x), rev)) \<or>
      r \<noteq> None \<and> view e' = view e"
    unfolding put_documented_def Etcd_PutCluster_def by blast
  then show ?thesis by auto
qed

lemma etcd_plainLock:
  assumes doc: "etcd_documented E p view (=)"
  shows "plainLock (\<lambda>e. clusterIn p (view e)) (Etcd_AcquireLock E p c h ttl)"
proof -
  have "clusterIn p (view e') = clusterIn p (view e) \<and>
      (\<forall>d rel. l = Inr (d, rel) \<longrightarrow> keeps (\<lambda>e. clusterIn p (view e)) rel)"
    if run: "run_state (Etcd_AcquireLock E p c h ttl) e = (l, e')" for e l e'
  proof -
    obtain k where k: "run_state (acquireEtcdLock E p c h ttl) e = (k, e')"
      and l: "l = (case k of Inl err \<Rightarrow> Inl err | Inr (lockCtx, release, session) \<Rightarrow> Inr (lockCtx, release))"
      using run by (auto simp: Etcd_AcquireLock_def split: prod.splits)
    note f = acquireEtcdLock_frame [OF doc k]
    have "keeps (\<lambda>e. clusterIn p (view e)) rel" if "l = Inr (d, rel)" for d rel
    proof -
      from l that obtain x where "k = Inr (d, rel, x)" by (auto split: sum.splits prod.splits)
      from f(2) [OF this] show ?thesis
        unfolding keeps_def by (metis clusterIn_cong surjective_pairing)
    qed
    moreover have "clusterIn p (view e') = clusterIn p (view e)" using f(1) by (rule clusterIn_cong)
    ultimately show ?thesis by blast
  qed
  then show ?thesis unfolding plainLock_def keeps_def by (metis surjective_pairing)
qed

lemma keeps_etcd_list:
  assumes "list_documented E view (=)"
  shows "keeps (\<lambda>e. clusterIn p (view e)) (Etcd_ListTasks E p c k)"
  using assms unfolding keeps_def list_documented_def Etcd_ListTasks_def
  by (auto split: prod.splits)

lemma etcd_store_ok:
  assumes "etcd_documented E p view (=)"
  shows "store_ok (etcdStore E p) (\<lambda>e. clusterIn p (view e)) (\<lambda>e. operationIn p (view e))"
proof -
  have put: "put_documented E view (=)" and list: "list_documented E view (=)"
    using assms by (auto simp: etcd_documented_def)
  show ?thesis
    unfolding store_ok_def etcdStore_def Store.select_convs
    by (intro conjI allI impI etcd_switch_store [OF assms] etcd_plainLock [OF assms]
      keeps_etcd_task [OF put] keeps_etcd_list [OF list] Etcd_PutCluster_run [OF put])
qed

text \<open>The agent of a node changes the node's read-only variables only for the active operation.\<close>

lemma observe_flags: "observe_plant cl flags v = observe_plant cl flags u \<Longrightarrow>
    flags (pl_server v n) = flags (pl_server u n)"
  by (auto simp: observe_plant_def dest: fun_cong)

sublocale site_node \<subseteq> agent: fenced_agent "siteAgent S (anc_ID node)" "\<lambda>w. cl (pl_store w)"
  "\<lambda>w. op (pl_store w)" "\<lambda>w. flags (pl_server w (anc_ID node))" "site_select S"
proof
  fix c a w w' r
  have verify: "as_store (siteAgent S (anc_ID node)) c a = onStore (s_VerifySwitchOperation (site_store S) c a)"
    by (simp add: siteAgent_def plantStore_def)
  show "flags (pl_server (snd (run_state (as_store (siteAgent S (anc_ID node)) c a) w)) (anc_ID node)) =
      flags (pl_server w (anc_ID node))"
    unfolding verify by (simp add: onStore_def split: prod.splits)
  show "op (pl_store w) = Some a \<and> (cs_Epoch (cl (pl_store w)) = auth_FromEpoch a \<or>
      cs_Epoch (cl (pl_store w)) = auth_ToEpoch a)"
    if "run_state (as_store (siteAgent S (anc_ID node)) c a) w = (None, w')"
    using that switch_verifier.verify_ok [OF documented(3), of c a "pl_store w"]
    unfolding verify by (auto simp: onStore_def split: prod.splits)
  show "cl (pl_store w') = cl (pl_store w) \<and> op (pl_store w') = op (pl_store w)"
    if "run_state (as_store (siteAgent S (anc_ID node)) c a) w = (r, w')"
    using that switch_verifier.verify_frame [OF documented(3), of c a "pl_store w"]
    unfolding verify by (auto simp: onStore_def split: prod.splits)
next
  fix w
  have keep: "flags (pl_server (snd (run_state m w)) (anc_ID node)) = flags (pl_server w (anc_ID node))"
    if "\<And>I. (\<And>u v. observe_plant cl flags v = observe_plant cl flags u \<Longrightarrow> I u \<Longrightarrow> I v) \<Longrightarrow> maintains I m"
    for m :: "(('e, 'd) plant, 'x) state"
    by (rule maintains_run [OF that, of "\<lambda>u. flags (pl_server u (anc_ID node)) = flags (pl_server w (anc_ID node))"])
      (drule observe_flags [where n = "anc_ID node"], simp_all)
  show "flags (pl_server (snd (run_state (mo_Status (as_db (siteAgent S (anc_ID node))) c) w)) (anc_ID node)) =
      flags (pl_server w (anc_ID node))" for c
    by (rule keep) (rule site_keeps_reads)
  show "flags (pl_server (snd (run_state (mo_ExecutedGTID (as_db (siteAgent S (anc_ID node))) c) w)) (anc_ID node)) =
      flags (pl_server w (anc_ID node))" for c
    by (rule keep) (rule site_keeps_reads)
  show "flags (pl_server (snd (run_state (mo_WaitForGTID (as_db (siteAgent S (anc_ID node))) c g k) w)) (anc_ID node)) =
      flags (pl_server w (anc_ID node))" for c g k
    by (rule keep) (rule site_keeps_reads)
  show "flags (pl_server (snd (run_state (site_select S) w)) (anc_ID node)) =
      flags (pl_server w (anc_ID node))"
    by (rule keep) (rule site_keeps_reads)
qed

context site_node
begin

lemmas agent_fenced = agent.handler_fenced

end

section \<open>Calls have their effect\<close>

context site_node
begin

lemma wp_site_role_ok:
  "(\<And>r w'. r = None \<longrightarrow> flags (pl_server w' (anc_ID node)) = (True, True) \<Longrightarrow> Q r w') \<Longrightarrow>
    wp (mo_Demote (as_db (siteAgent S (anc_ID node))) c) Q w"
  "(\<And>r w'. r = None \<longrightarrow> flags (pl_server w' (anc_ID node)) = (True, True) \<Longrightarrow> Q r w') \<Longrightarrow>
    wp (mo_ReconfigureReplica (as_db (siteAgent S (anc_ID node))) c src) Q w"
  "(\<And>r w'. r = None \<longrightarrow> flags (pl_server w' (anc_ID node)) = (False, False) \<Longrightarrow> Q r w') \<Longrightarrow>
    wp (mo_Promote (as_db (siteAgent S (anc_ID node))) c) Q w"
  unfolding siteAgent_def plantOperator_def mysqlOperator_def
  by (auto simp: wp intro!: wp_Mysql_Demote [OF documented(1)] wp_Mysql_Promote [OF documented(1)]
      wp_Mysql_ReconfigureReplica [OF documented(1)])

lemma wp_waitReplica_flags:
  "(\<And>rsp w'. flags (pl_server w' (anc_ID node)) = flags (pl_server w (anc_ID node)) \<Longrightarrow> Q rsp w') \<Longrightarrow>
    wp (waitReplica render (site_select S) k (siteAgent S (anc_ID node)) c) Q w"
  by (rule wp_maintains [OF waitReplica_keeps [where
      I = "\<lambda>u. flags (pl_server u (anc_ID node)) = flags (pl_server w (anc_ID node))"]])
    (auto dest: observe_flags [where n = "anc_ID node"])

text \<open>The client takes only a 2xx answer for a success.\<close>

lemma wp_Client_do_ok:
  assumes "rq_URL req = TrimRight (anc_AgentURL node) CHR ''/'' @ path"
    and "\<And>e. Q (Inl e) w"
    and "wp (siteHandler S (anc_ID node) path req) (\<lambda>rsp w'.
      (200 \<le> rsp_Code rsp \<and> rsp_Code rsp < 300 \<longrightarrow> Q (Inr rsp) w') \<and> (\<forall>e. Q (Inl e) w')) w"
  shows "wp (Client_do \<lparr>ac_node = node, ac_http = hc\<rparr> req) Q w"
  unfolding Client_do_def wp AgentClient.select_convs
proof (rule transport, goal_cases)
  case (2 path')
  with assms(1) have "path' = path" by simp
  with assms(3) show ?case by (auto elim!: wp_mono split: option.splits)
qed (simp add: assms(2))

lemmas role_rules = wp_Client_do_ok agent.wp_authorize wp_site_role_ok agent.wp_reads wp_waitReplica_flags

text \<open>A call of the controller that succeeded was for the active operation and had its effect.\<close>

lemma client_demote: "wp (Client_Demote \<lparr>ac_node = node, ac_http = hc\<rparr> cx a) (\<lambda>r w'. r = None \<longrightarrow>
    flags (pl_server w' (anc_ID node)) = (True, True) \<and>
    activeOperation (\<lambda>w. cl (pl_store w)) (\<lambda>w. op (pl_store w)) w a) w"
  unfolding Client_Demote_def Client_post_def
  by (auto simp: wp siteHandler_post agent_demote_def writeError_def writeJSON_def
    split: option.splits intro!: role_rules)

lemma client_promote: "wp (Client_Promote \<lparr>ac_node = node, ac_http = hc\<rparr> cx a) (\<lambda>r w'. r = None \<longrightarrow>
    flags (pl_server w' (anc_ID node)) = (False, False) \<and>
    activeOperation (\<lambda>w. cl (pl_store w)) (\<lambda>w. op (pl_store w)) w a) w"
  unfolding Client_Promote_def Client_post_def
  by (auto simp: wp siteHandler_post agent_promote_def writeError_def writeJSON_def
    split: option.splits intro!: role_rules)

lemma client_reconfigure: "wp (Client_ReconfigureReplica \<lparr>ac_node = node, ac_http = hc\<rparr> cx a src) (\<lambda>r w'. r = None \<longrightarrow>
    flags (pl_server w' (anc_ID node)) = (True, True) \<and>
    activeOperation (\<lambda>w. cl (pl_store w)) (\<lambda>w. op (pl_store w)) w a) w"
  unfolding Client_ReconfigureReplica_def Client_post_def
  by (auto simp: wp siteHandler_post agent_replica_def writeError_def writeJSON_def
    split: option.splits intro!: role_rules)

end

context installation
begin

lemma call_effects:
  assumes "map_of (c_clients c) n = Some nd"
  shows "wp (n_Demote nd cx a) (\<lambda>r w'. r = None \<longrightarrow> flags (pl_server w' n) = (True, True) \<and>
      activeOperation (\<lambda>w. cl (pl_store w)) (\<lambda>w. op (pl_store w)) w a) w"
    "wp (n_Promote nd cx a) (\<lambda>r w'. r = None \<longrightarrow> flags (pl_server w' n) = (False, False) \<and>
      activeOperation (\<lambda>w. cl (pl_store w)) (\<lambda>w. op (pl_store w)) w a) w"
    "wp (n_ReconfigureReplica nd cx a src) (\<lambda>r w'. r = None \<longrightarrow> flags (pl_server w' n) = (True, True) \<and>
      activeOperation (\<lambda>w. cl (pl_store w)) (\<lambda>w. op (pl_store w)) w a) w"
proof -
  obtain node where n: "anc_ID node = n" "site_node S cl op flags node (http node)"
    "nd = clientNode rt \<lparr>ac_node = node, ac_http = http node\<rparr>"
    using node_client [OF assms] .
  note effects = site_node.client_demote [OF n(2)] site_node.client_promote [OF n(2)]
    site_node.client_reconfigure [OF n(2)]
  show "wp (n_Demote nd cx a) (\<lambda>r w'. r = None \<longrightarrow> flags (pl_server w' n) = (True, True) \<and>
      activeOperation (\<lambda>w. cl (pl_store w)) (\<lambda>w. op (pl_store w)) w a) w"
    "wp (n_Promote nd cx a) (\<lambda>r w'. r = None \<longrightarrow> flags (pl_server w' n) = (False, False) \<and>
      activeOperation (\<lambda>w. cl (pl_store w)) (\<lambda>w. op (pl_store w)) w a) w"
    "wp (n_ReconfigureReplica nd cx a src) (\<lambda>r w'. r = None \<longrightarrow> flags (pl_server w' n) = (True, True) \<and>
      activeOperation (\<lambda>w. cl (pl_store w)) (\<lambda>w. op (pl_store w)) w a) w"
    unfolding n(3) clientNode_def Node.select_convs n(1) [symmetric] by (rule effects)+
qed

end

end
