(* ===== verification/HA_Reference.thy ===== *)
theory HA_Reference
  imports HA_Cluster
begin

text \<open>
  A concrete installation: three nodes \<open>a\<close>, \<open>b\<close> and \<open>c\<close> with a small executable MySQL server
  each, \<open>MemoryStore\<close>, and a transport that loses nothing. It shows that the hypotheses about the
  parts outside \<open>src/\<close> can hold together, and it runs.
\<close>

section \<open>A MySQL server\<close>

record RefServer =
  ref_flags :: "bool \<times> bool"
  ref_gtid :: string
  ref_channel :: bool
  ref_running :: bool

definition refRow :: "RefServer \<Rightarrow> Rows" where
  "refRow d = \<lparr>rows_Next = ref_channel d, rows_Err = None,
     rows_Columns = Inr [''Replica_IO_Running'', ''Replica_SQL_Running'', ''Seconds_Behind_Source''],
     rows_Scan = Inr [SqlBytes (if ref_running d then ''Yes'' else ''No''),
       SqlBytes (if ref_running d then ''Yes'' else ''No''), SqlInt 0]\<rparr>"

definition refExec :: "string \<Rightarrow> RefServer \<Rightarrow> RefServer" where
  "refExec q d =
    (let d = d\<lparr>ref_flags := setFlags q (ref_flags d)\<rparr> in
     if q = ''STOP REPLICA'' then d\<lparr>ref_running := False\<rparr>
     else if q = ''RESET REPLICA ALL'' then d\<lparr>ref_channel := False\<rparr>
     else if q = ''START REPLICA'' then d\<lparr>ref_running := True\<rparr>
     else if HasPrefix q ''CHANGE REPLICATION SOURCE TO'' then d\<lparr>ref_channel := True\<rparr>
     else d)"

definition refDB :: "RefServer DB" where
  "refDB = \<lparr>
     db_Ping = \<lambda>c. State_Monad.return None,
     db_QueryRow = \<lambda>c q args. gets (\<lambda>d.
       if q = globalsQuery then Inr [SqlBytes ''uuid'', SqlInt (if fst (ref_flags d) then 1 else 0),
         SqlInt (if snd (ref_flags d) then 1 else 0)]
       else if q = ''SELECT @@GLOBAL.gtid_executed'' then Inr [SqlBytes (ref_gtid d)]
       else if q = ''SELECT WAIT_FOR_EXECUTED_GTID_SET(?, ?)'' then Inr [SqlInt 0]
       else Inl ''You have an error in your SQL syntax''),
     db_Query = \<lambda>c q. gets (\<lambda>d. Inr (refRow d)),
     db_Exec = \<lambda>c q. do { modify (refExec q); State_Monad.return None },
     db_Close = State_Monad.return None\<rparr>"

lemma refDB_documented: "mysql_documented refDB ref_flags"
  by (auto simp: mysql_documented_def refDB_def refExec_def Let_def split: if_splits)

section \<open>Three nodes\<close>

definition refClock :: "'w Runtime" where
  "refClock = \<lparr>rt_now = State_Monad.return 1700000000000000000,
     rt_ctxErr = \<lambda>c. State_Monad.return None, rt_range = \<lambda>ks. State_Monad.return ks\<rparr>"

lemma refClock_ok: "runtime_ok refClock" "clock_inert refClock f"
  by (simp_all add: refClock_def runtime_ok_def clock_inert_def)

definition refNode :: "string \<Rightarrow> AgentNodeConfig" where
  "refNode n = \<lparr>anc_ID = n, anc_Address = n @ '':3306'', anc_AgentURL = ''https://'' @ n\<rparr>"

definition refSite :: "MemoryStore Store \<Rightarrow> (MemoryStore, RefServer) Site" where
  "refSite store = \<lparr>site_render = \<lambda>_. '''', site_select = State_Monad.return Deadline, site_ticks = 3,
     site_clock = refClock, site_db = refDB,
     site_config = \<lambda>n. \<lparr>mnc_ID = n, mnc_Address = n @ '':3306'', mnc_DSN = ''dsn'',
       mnc_ReplicationUser = ''repl'', mnc_ReplicationPass = ''secret''\<rparr>,
     site_store = store\<rparr>"

definition refHttp ::
  "MemoryStore Store \<Rightarrow> AgentNodeConfig \<Rightarrow> (MemoryStore, RefServer) plant HttpClient" where
  "refHttp store node = directClient (TrimRight (anc_AgentURL node) CHR ''/'')
     (siteHandler (refSite store) (anc_ID node))"

definition refConfig :: Config where
  "refConfig = \<lparr>cfg_HTTPAddr = '':8080'', cfg_ClusterName = ''mysql-ha'', cfg_ControllerID = ''ctl'',
     cfg_EtcdEndpoints = [], cfg_Nodes = [refNode ''a'', refNode ''b'', refNode ''c''],
     cfg_AgentCAFile = ''ca'', cfg_AgentCertFile = ''crt'', cfg_AgentKeyFile = ''key'',
     cfg_AgentsFile = '''', cfg_ProbeInterval = 5000000000, cfg_FailureThreshold = 3,
     cfg_AlertWebhookURL = '''', cfg_ExecuteActions = True, cfg_AutoFailoverExecute = True,
     cfg_RequireEtcd = True, cfg_MaxReplicaLagSeconds = 30\<rparr>"

definition refTls :: Tls where
  "refTls = \<lparr>tls_ReadFile = \<lambda>f. Inr ''pem'', tls_AppendCertsFromPEM = \<lambda>p. True,
     tls_LoadX509KeyPair = \<lambda>c k. None\<rparr>"

definition refPost :: "ctx \<Rightarrow> string \<Rightarrow> json \<Rightarrow> ('w, error + int) state" where
  "refPost c u j = State_Monad.return (Inr 200)"

definition refController :: "MemoryStore Store \<Rightarrow> (MemoryStore, RefServer) plant Controller" where
  "refController store =
     (case NewController refClock refTls (refHttp store) refPost refConfig (plantStore store) of
        Inr c \<Rightarrow> c
      | Inl _ \<Rightarrow> \<lparr>c_cfg = refConfig, c_clients = [], c_configs = [], c_store = plantStore store,
          c_alerts = \<lparr>am_URL = '''', am_Post = refPost\<rparr>, c_router = NoopSetPrimary,
          c_fencer = NoopFence\<rparr>)"

lemma refController_new:
  "NewController refClock refTls (refHttp store) refPost refConfig (plantStore store) =
    Inr (refController store)"
  unfolding refController_def
  by (simp add: NewController_def refConfig_def refNode_def NewClient_def refTls_def HasPrefix_def)

section \<open>It is an installation\<close>

lemma memory_store_ok: "store_ok (memoryStore rng) ms_cluster ms_operation"
  using mem.switch_store_axioms
  by (auto simp: store_ok_def plainLock_def memoryStore_def keeps_def memory_defs Let_def split: if_splits)

interpretation ref: installation "refSite (memoryStore rng)" ms_cluster ms_operation ref_flags
  refClock refTls "refHttp (memoryStore rng)" refPost refConfig "refController (memoryStore rng)"
  for rng
proof
  show "NewController refClock refTls (refHttp (memoryStore rng)) refPost refConfig
      (plantStore (site_store (refSite (memoryStore rng)))) = Inr (refController (memoryStore rng))"
    by (simp add: refController_new refSite_def)
  have "switch_verifier (s_VerifySwitchOperation (memoryStore rng)) ms_cluster ms_operation"
    using mem.switch_verifier_axioms by (simp add: memoryStore_def)
  then show "site_ok (refSite (memoryStore rng)) ms_cluster ms_operation ref_flags"
    by (simp add: site_ok_def refSite_def refDB_documented refClock_ok keeps_return)
  show "store_ok (site_store (refSite (memoryStore rng))) ms_cluster ms_operation"
    by (simp add: refSite_def memory_store_ok)
  show "nodeClient (refSite (memoryStore rng)) node (refHttp (memoryStore rng) node)" for node
    by (simp add: nodeClient_def refHttp_def directClient_transports)
  show "environment_ok refClock refPost (observe_plant ms_cluster ref_flags)"
    by (simp add: environment_ok_def refClock_def refPost_def keeps_return)
qed

interpretation memory_plant: plant_store "memoryStore rng" ms_cluster ms_operation flags ids
  for rng flags ids
  by unfold_locales (rule memory_store_ok)

interpretation ref_node: site_node "refSite (memoryStore rng)" ms_cluster ms_operation ref_flags
  "refNode n" "refHttp (memoryStore rng) (refNode n)" for rng n
  by unfold_locales (use ref.site in \<open>simp_all add: nodeClient_def refHttp_def directClient_transports\<close>)

section \<open>A starting point\<close>

text \<open>\<open>a\<close> is the recorded primary and accepts writes; \<open>b\<close> and \<open>c\<close> replicate from it. The controller leads.\<close>

definition refPrimary :: RefServer where
  "refPrimary = \<lparr>ref_flags = (False, False), ref_gtid = ''g:1-9'', ref_channel = False, ref_running = False\<rparr>"

definition refReplica :: RefServer where
  "refReplica = \<lparr>ref_flags = (True, True), ref_gtid = ''g:1-9'', ref_channel = True, ref_running = True\<rparr>"

definition refWorld :: "(MemoryStore, RefServer) plant" where
  "refWorld = \<lparr>pl_store = (NewMemoryStore ''mysql-ha'')\<lparr>ms_cluster :=
       zeroClusterState\<lparr>cs_Name := ''mysql-ha'', cs_Primary := ''a'', cs_Epoch := 7\<rparr>\<rparr>,
     pl_server = \<lambda>n. if n = ''a'' then refPrimary else refReplica\<rparr>"

definition refStart :: "(MemoryStore, RefServer) plant sys" where
  "refStart = \<lparr>ctl = initialCtl\<lparr>v_leader := True, v_leaderCtx := Some Background\<rparr>,
     others = (\<lambda>_ v. v), world = refWorld, hist = []\<rparr>"

definition refClient :: "MemoryStore Store \<Rightarrow> string \<Rightarrow> (MemoryStore, RefServer) plant AgentClient" where
  "refClient store n = \<lparr>ac_node = refNode n, ac_http = refHttp store (refNode n)\<rparr>"

lemma refController_simps:
  "c_cfg (refController store) = refConfig"
  "c_store (refController store) = plantStore store"
  "c_alerts (refController store) = \<lparr>am_URL = '''', am_Post = refPost\<rparr>"
  "c_router (refController store) = NoopSetPrimary"
  "c_fencer (refController store) = NoopFence"
  "c_clients (refController store) = [(''a'', clientNode refClock (refClient store ''a'')),
     (''b'', clientNode refClock (refClient store ''b'')), (''c'', clientNode refClock (refClient store ''c''))]"
  "c_configs (refController store) = [(''a'', refNode ''a''), (''b'', refNode ''b''), (''c'', refNode ''c'')]"
  unfolding refController_def refClient_def
  by (simp_all add: NewController_def refConfig_def refNode_def NewClient_def refTls_def HasPrefix_def)

lemma refNode_ID [simp]: "anc_ID (refNode n) = n"
  by (simp add: refNode_def)

lemma run_refClient_do:
  "run_state (Client_do (refClient store n) \<lparr>rq_ctx = cx, rq_Method = m,
      rq_URL = TrimRight (anc_AgentURL (refNode n)) CHR ''/'' @ path, rq_Body = body\<rparr>) w =
   (case run_state (siteHandler (refSite store) n path \<lparr>rq_ctx = cx, rq_Method = m,
      rq_URL = TrimRight (anc_AgentURL (refNode n)) CHR ''/'' @ path, rq_Body = body\<rparr>) w of
     (response, w') \<Rightarrow> (if rsp_Code response < 200 \<or> rsp_Code response \<ge> 300
           then Inl (''agent '' @ n @ '' returned HTTP '' @
             showInt (rsp_Code response) @ '': '' @ TrimSpace (rsp_Text response))
           else (case rsp_ReadErr response of Some err \<Rightarrow> Inl err | None \<Rightarrow> Inr response), w'))"
  by (simp add: Client_do_def refClient_def refHttp_def directClient_def HasPrefix_iff split: prod.splits)

lemma refSite_simps: "site_render (refSite store) = (\<lambda>_. '''')"
  "site_select (refSite store) = State_Monad.return Deadline" "site_ticks (refSite store) = 3"
  "siteAgent (refSite store) n = \<lparr>as_nodeID = n,
     as_db = plantOperator n (mysqlOperator refClock refDB (site_config (refSite store) n)),
     as_store = s_VerifySwitchOperation (plantStore store)\<rparr>"
  by (simp_all add: refSite_def siteAgent_def)

lemma refClient_node [simp]: "ac_node (refClient store n) = refNode n"
  by (simp add: refClient_def)

lemma run_on [simp]: "run_state (onStore m) w = (case run_state m (pl_store w) of (a, e) \<Rightarrow> (a, w\<lparr>pl_store := e\<rparr>))"
  "run_state (onServer n m') w = (case run_state m' (pl_server w n) of (b, d) \<Rightarrow> (b, w\<lparr>pl_server := (pl_server w)(n := d)\<rparr>))"
  by (simp_all add: onStore_def onServer_def)

lemma run_ref_exec: "run_state (db_Exec refDB c q) d = (None, refExec q d)"
  by (simp add: refDB_def)

lemma refExec_simps:
  "refExec ''STOP REPLICA'' d = d\<lparr>ref_running := False\<rparr>"
  "refExec ''RESET REPLICA ALL'' d = d\<lparr>ref_channel := False\<rparr>"
  "refExec ''START REPLICA'' d = d\<lparr>ref_running := True\<rparr>"
  "refExec (changeSourceQuery h p u v) d = d\<lparr>ref_channel := True\<rparr>"
  by (simp_all add: refExec_def setFlags_def changeSourceQuery_def HasPrefix_def)

lemma run_ref_set: "run_state (SetReadOnly refDB c b) d = (None, d\<lparr>ref_flags := (b, b)\<rparr>)"
  by (cases b) (simp_all add: SetReadOnly_def Let_def run_ref_exec refExec_def setFlags_def HasPrefix_def)

lemma run_ref_roles:
  "run_state (Mysql_Demote refDB c) d = (None, d\<lparr>ref_flags := (True, True)\<rparr>)"
  "run_state (Mysql_Promote refDB c) d =
    (None, d\<lparr>ref_flags := (False, False), ref_channel := False, ref_running := False\<rparr>)"
  "mnc_ReplicationUser cfg \<noteq> '''' \<Longrightarrow> mnc_ReplicationPass cfg \<noteq> '''' \<Longrightarrow>
    run_state (Mysql_ReconfigureReplica refDB cfg c src) d =
      (None, d\<lparr>ref_flags := (True, True), ref_channel := True, ref_running := True\<rparr>)"
  by (simp_all add: Mysql_Demote_def Mysql_Promote_def Mysql_ReconfigureReplica_def execReplica_def
    run_ref_exec run_ref_set refExec_simps split: prod.splits)

definition refStatus :: "MySQLNodeConfig \<Rightarrow> RefServer \<Rightarrow> NodeStatus" where
  "refStatus cfg d = (let st = zeroNodeStatus\<lparr>ns_NodeID := mnc_ID cfg, ns_Address := mnc_Address cfg,
       ns_CheckedAt := 1700000000000000000, ns_Reachable := True, ns_ServerUUID := ''uuid'',
       ns_ReadOnly := fst (ref_flags d), ns_SuperReadOnly := snd (ref_flags d)\<rparr> in
     if ref_flags d = (False, False) then st\<lparr>ns_Role := RolePrimary, ns_Healthy := True\<rparr>
     else if ref_channel d then st\<lparr>ns_Role := RoleReplica, ns_Healthy := ref_running d,
       ns_Replica := Some (zeroReplicaStatus\<lparr>rs_IOThreadRunning := ref_running d,
         rs_SQLThreadRunning := ref_running d, rs_SecondsBehind := Some 0\<rparr>)\<rparr>
     else st\<lparr>ns_Role := RoleReplica, ns_Error := ''replica status is empty''\<rparr>)"

lemma showInt_zero: "showInt 0 = ''0''"
  by code_simp

lemma refNode_Address: "anc_Address (refNode n) = n @ '':3306''"
  by (simp add: refNode_def)

lemma run_ref_replica: "run_state (replicaStatus refDB c) d = ((if ref_channel d
    then Inr (zeroReplicaStatus\<lparr>rs_IOThreadRunning := ref_running d,
         rs_SQLThreadRunning := ref_running d, rs_SecondsBehind := Some 0\<rparr>)
    else Inl ''replica status is empty''), d)"
  by (simp add: replicaStatus_def refDB_def readReplica_def refRow_def parseReplica_def fieldOf_def
    zeroReplicaStatus_def Let_def ParseInt_showInt [of 0, unfolded showInt_zero] showInt_zero inInt64_def)

lemma run_ref_ping: "run_state (db_Ping refDB c) d = (None, d)"
  "run_state (db_QueryRow refDB c globalsQuery []) d = (Inr [SqlBytes ''uuid'',
    SqlInt (if fst (ref_flags d) then 1 else 0), SqlInt (if snd (ref_flags d) then 1 else 0)], d)"
  by (simp_all add: refDB_def)

lemma run_ref_status: "run_state (Mysql_Status refClock refDB cfg c) d = (refStatus cfg d, d)"
  by (cases "ref_flags d") (auto simp: Mysql_Status_def refStatus_def run_ref_replica Let_def refClock_def scanGlobals_def
    zeroNodeStatus_def RoleUnknown_def zeroReplicaStatus_def run_ref_ping)

lemma run_ref_gtid: "run_state (Mysql_ExecutedGTID refDB c) d = (Inr (ref_gtid d), d)"
   "g \<noteq> '''' \<Longrightarrow> run_state (Mysql_WaitForGTID refDB c g k) d = (None, d)"
  by (simp_all add: Mysql_ExecutedGTID_def Mysql_WaitForGTID_def refDB_def globalsQuery_def)

text \<open>The controller's calls on a node of the reference installation.\<close>

lemma refConfig_node: "site_config (refSite store) n = \<lparr>mnc_ID = n, mnc_Address = n @ '':3306'', mnc_DSN = ''dsn'',
       mnc_ReplicationUser = ''repl'', mnc_ReplicationPass = ''secret''\<rparr>"
  by (simp add: refSite_def)

definition refVerifies :: "MemoryStore Store \<Rightarrow> SwitchAuthorization \<Rightarrow> MemoryStore \<Rightarrow> bool" where
  "refVerifies store a e \<longleftrightarrow> auth_OperationID a \<noteq> '''' \<and>
    (\<forall>c. run_state (s_VerifySwitchOperation store c a) e = (None, e))"

lemma run_ref_authorize:
  "refVerifies store a (pl_store w) \<Longrightarrow>
    run_state (authorize (siteAgent (refSite store) n) c a) w = (None, w)"
  by (simp add: authorize_def refVerifies_def refSite_simps plantStore_def)

lemma run_ref_db:
  "run_state (mo_Demote (as_db (siteAgent (refSite store) n)) c) w =
    (None, w\<lparr>pl_server := (pl_server w)(n := (pl_server w n)\<lparr>ref_flags := (True, True)\<rparr>)\<rparr>)"
  "run_state (mo_Promote (as_db (siteAgent (refSite store) n)) c) w =
    (None, w\<lparr>pl_server := (pl_server w)(n := (pl_server w n)\<lparr>ref_flags := (False, False),
      ref_channel := False, ref_running := False\<rparr>)\<rparr>)"
  "run_state (mo_ReconfigureReplica (as_db (siteAgent (refSite store) n)) c src) w =
    (None, w\<lparr>pl_server := (pl_server w)(n := (pl_server w n)\<lparr>ref_flags := (True, True),
      ref_channel := True, ref_running := True\<rparr>)\<rparr>)"
  "run_state (mo_Status (as_db (siteAgent (refSite store) n)) c) w =
    (refStatus (site_config (refSite store) n) (pl_server w n), w)"
  "run_state (mo_ExecutedGTID (as_db (siteAgent (refSite store) n)) c) w =
    (Inr (ref_gtid (pl_server w n)), w)"
  "g \<noteq> '''' \<Longrightarrow> run_state (mo_WaitForGTID (as_db (siteAgent (refSite store) n)) c g k) w = (None, w)"
  by (simp_all add: refSite_simps plantOperator_def mysqlOperator_def run_ref_roles run_ref_status
    run_ref_gtid refConfig_node)

lemma refStatus_wf: "wfNodeStatus (refStatus cfg d)"
  by (auto simp: refStatus_def wfNodeStatus_def wfReplicaStatus_def zeroNodeStatus_def
    zeroReplicaStatus_def Let_def inInt64_def)

lemma run_ref_node:
  "run_state (n_Status (clientNode refClock (refClient store n)) cx) w =
    ((refStatus (site_config (refSite store) n) (pl_server w n))\<lparr>ns_NodeID := n, ns_Address := n @ '':3306''\<rparr>, w)"
  "refVerifies store a (pl_store w) \<Longrightarrow>
    run_state (n_Demote (clientNode refClock (refClient store n)) cx a) w =
      (None, w\<lparr>pl_server := (pl_server w)(n := (pl_server w n)\<lparr>ref_flags := (True, True)\<rparr>)\<rparr>)"
  by (simp_all add: clientNode_def Client_Status_def Client_get_def Client_Demote_def Client_post_def
     run_refClient_do siteHandler_get siteHandler_post agent_status_def agent_demote_def run_ref_db
     run_ref_authorize writeJSON_def nstatus.unmarshal_enc refStatus_wf refNode_ID refNode_Address)

lemma run_ref_promote:
  "refVerifies store a (pl_store w) \<Longrightarrow> snd (ref_flags (pl_server w n)) \<Longrightarrow> ref_channel (pl_server w n) \<Longrightarrow>
    ref_running (pl_server w n) \<Longrightarrow>
    run_state (n_Promote (clientNode refClock (refClient store n)) cx a) w =
      (None, w\<lparr>pl_server := (pl_server w)(n := (pl_server w n)\<lparr>ref_flags := (False, False),
        ref_channel := False, ref_running := False\<rparr>)\<rparr>)"
  by (cases "ref_flags (pl_server w n)") (simp_all add: clientNode_def Client_Promote_def Client_post_def
     run_refClient_do siteHandler_post agent_promote_def run_ref_db
     run_ref_authorize writeJSON_def caughtUp_def refStatus_def Let_def zeroNodeStatus_def zeroReplicaStatus_def)

lemma siteAgent_nodeID: "as_nodeID (siteAgent S n) = n"
  by (simp add: siteAgent_def)

lemma decGTID_enc: "unmarshal decGTID '''' (Doc (JObj [(''gtid'', JStr g)])) = Inr g"
  by (simp add: unmarshal_def decGTID_def decStruct_def field_def lookupField_def decMembers.simps)

lemma run_ref_reconfigure:
  "refVerifies store a (pl_store w) \<Longrightarrow> anc_ID src \<noteq> '''' \<Longrightarrow> anc_ID src \<noteq> n \<Longrightarrow> anc_Address src \<noteq> '''' \<Longrightarrow>
    run_state (n_ReconfigureReplica (clientNode refClock (refClient store n)) cx a src) w =
      (None, w\<lparr>pl_server := (pl_server w)(n := (pl_server w n)\<lparr>ref_flags := (True, True),
        ref_channel := True, ref_running := True\<rparr>)\<rparr>)"
  by (simp_all add: clientNode_def Client_ReconfigureReplica_def Client_post_def
     run_refClient_do siteHandler_post agent_replica_def run_ref_db waitReplica.simps [of _ _ 3] refSite_simps(1-3)
     siteAgent_nodeID run_ref_authorize writeJSON_def replicating_node_def refStatus_def Let_def zeroNodeStatus_def zeroReplicaStatus_def)

lemma run_ref_gtids:
  "run_state (n_ExecutedGTID (clientNode refClock (refClient store n)) cx) w = (Inr (ref_gtid (pl_server w n)), w)"
  "refVerifies store a (pl_store w) \<Longrightarrow> TrimSpace g \<noteq> '''' \<Longrightarrow> g \<noteq> '''' \<Longrightarrow>
    run_state (n_WaitForGTID (clientNode refClock (refClient store n)) cx a g 30) w = (None, w)"
  by (auto simp add: clientNode_def inInt64_def decGTID_enc Client_ExecutedGTID_def Client_WaitForGTID_def Client_post_def Client_get_def
     run_refClient_do siteHandler_post siteHandler_get agent_waitGTID_def agent_gtid_def run_ref_db
     run_ref_authorize writeJSON_def)

section \<open>Runs\<close>

lemma run_stmt:
  "run_state (call m ev) s = (case run_state m (world s) of
      (a, w) \<Rightarrow> (a, s\<lparr>world := w, hist := hist s @ [ev a]\<rparr>))"
  "run_state (ask m') s = (case run_state m' (world s) of (b, w) \<Rightarrow> (b, s\<lparr>world := w\<rparr>))"
  "run_state (record_event e) s = ((), s\<lparr>hist := hist s @ [e]\<rparr>)"
  "run_state (field_of f) s = (f (ctl s), s)"
  "run_state (assign g) s = ((), s\<lparr>ctl := g (ctl s)\<rparr>)"
  "run_state acquire s = ((), s\<lparr>others := \<lambda>n. others s (Suc n), ctl := others s 0 (ctl s)\<rparr>)"
  by (simp_all add: call_def ask_def record_event_def field_of_def assign_def acquire_def)

lemma run_ref_alert: "run_state (sendAlert (refController store) cx a b d) s =
    ((), s\<lparr>hist := hist s @ [EvAlert a b d]\<rparr>)"
  by (simp add: sendAlert_def Alert_Send_def refController_simps run_stmt split: if_splits)

text \<open>The store during an outage in which writing the cluster state times out.\<close>

definition downStore :: "(SwitchTask list \<Rightarrow> SwitchTask list) \<Rightarrow> MemoryStore Store" where
  "downStore rng = (memoryStore rng)\<lparr>s_PutClusterIfEpoch := \<lambda>c e x. State_Monad.return (Some ''etcd timeout'')\<rparr>"

lemma refVerifies_memory:
  "refVerifies (memoryStore rng) a e \<longleftrightarrow> auth_OperationID a \<noteq> '''' \<and> ms_operation e = Some a \<and>
     (cs_Epoch (ms_cluster e) = auth_FromEpoch a \<or> cs_Epoch (ms_cluster e) = auth_ToEpoch a)"
  by (auto simp: refVerifies_def memoryStore_def Memory_VerifySwitchOperation_def split: if_splits)
  
lemma refVerifies_down: "refVerifies (downStore rng) = refVerifies (memoryStore rng)"
  by (intro ext) (simp add: refVerifies_def downStore_def)

lemma refWorld_simps: "pl_store refWorld = (NewMemoryStore ''mysql-ha'')\<lparr>ms_cluster :=
       zeroClusterState\<lparr>cs_Name := ''mysql-ha'', cs_Primary := ''a'', cs_Epoch := 7\<rparr>\<rparr>"
  "pl_server refWorld ''a'' = refPrimary" "n \<noteq> ''a'' \<Longrightarrow> pl_server refWorld n = refReplica"
  by (simp_all add: refWorld_def)

lemma run_refClock: "run_state (rt_now refClock) w = (1700000000000000000, w)"
  "run_state (rt_ctxErr refClock cx) w = (None, w)" "run_state (rt_range refClock ks) w = (ks, w)"
  by (simp_all add: refClock_def)

lemma plantStore_simps:
  "s_GetCluster (plantStore S) cx = onStore (s_GetCluster S cx)"
  "s_PutClusterIfEpoch (plantStore S) cx e x = onStore (s_PutClusterIfEpoch S cx e x)"
  "s_AcquireSwitchLock (plantStore S) cx h t a = onStoreLock (s_AcquireSwitchLock S cx h t a)"
  "s_PutTask (plantStore S) cx k = onStore (s_PutTask S cx k)"
  by (simp_all add: plantStore_def)

lemmas run_switch = Switch_def IsLeader_def leaderBoundContext_def switchFrom_def switchLocked_def
  switchTask_def switchExecute_def switchPromote_def switchCatchUp_def switchCommit_def setTask_def orFinish_def
  finishTask_def run_stmt run_refClock run_ref_alert run_ref_node run_ref_promote run_ref_reconfigure
  run_ref_gtids refController_simps plantStore_simps NoopFence_def NoopSetPrimary_def onStoreLock_def

lemma memoryStore_simps:
  "s_GetCluster (memoryStore rng) = Memory_GetCluster"
  "s_AcquireSwitchLock (memoryStore rng) = Memory_AcquireSwitchLock"
  "s_PutClusterIfEpoch (memoryStore rng) = Memory_PutClusterIfEpoch"
  "s_PutTask (memoryStore rng) = Memory_PutTask"
  "s_GetCluster (downStore rng) = Memory_GetCluster"
  "s_AcquireSwitchLock (downStore rng) = Memory_AcquireSwitchLock"
  "s_PutClusterIfEpoch (downStore rng) c e x = State_Monad.return (Some ''etcd timeout'')"
  "s_PutTask (downStore rng) = Memory_PutTask"
  by (simp_all add: memoryStore_def downStore_def)

lemmas run_memory = memoryStore_simps Memory_GetCluster_def Memory_AcquireSwitchLock_def
  Memory_AcquireLock_def Memory_PutTask_def Memory_PutClusterIfEpoch_def refVerifies_memory refVerifies_down

lemmas run_data = refStart_def initialCtl_def refWorld_simps NewMemoryStore_def zeroClusterState_def
   refStatus_def refPrimary_def refReplica_def Let_def zeroNodeStatus_def zeroReplicaStatus_def 
   candidateEligible_def dryRunOf_def lagWithin_def refConfig_def zeroSwitchTask_def

lemma TrimSpace_gtid: "TrimSpace ''g:1-9'' = ''g:1-9''"
  by code_simp

end
