(* ===== verification/HA_Store_Equiv.thy ===== *)
theory HA_Store_Equiv
  imports HA_Store_Laws
begin

text \<open>
  The two stores compared. A client of a store makes calls, outside of a switch or under a switch
  lock that it was granted for the epoch it read, as \<open>Controller.Switch\<close> does. As long as etcd is
  reachable and nobody else uses it, such a client cannot tell \<open>EtcdStore\<close> from \<open>MemoryStore\<close>:
  every call is answered alike. Left out is \<open>ListTasks\<close>, where the two differ: by the start of the
  task in one, by its last modification in the other. The text of a refused verification is not
  compared, since the stores make its checks in different orders.
\<close>

section \<open>Clients\<close>

datatype storeCall =
    CallGetCluster
  | CallPutCluster ClusterState
  | CallPutClusterIfEpoch u64 ClusterState
  | CallVerify SwitchAuthorization
  | CallPutTask SwitchTask

datatype storeReply =
    Cluster "error + ClusterState"
  | Written "error option"
  | Verified bool
  | Refused error

fun storeAnswer :: "'s Store \<Rightarrow> ctx \<Rightarrow> storeCall \<Rightarrow> ('s, storeReply) state" where
  "storeAnswer st c CallGetCluster = do { r \<leftarrow> s_GetCluster st c; State_Monad.return (Cluster r) }"
| "storeAnswer st c (CallPutCluster x) = do {
     r \<leftarrow> s_PutCluster st c x; State_Monad.return (Written r) }"
| "storeAnswer st c (CallPutClusterIfEpoch e x) = do {
     r \<leftarrow> s_PutClusterIfEpoch st c e x; State_Monad.return (Written r) }"
| "storeAnswer st c (CallVerify a) = do {
     r \<leftarrow> s_VerifySwitchOperation st c a; State_Monad.return (Verified (r = None)) }"
| "storeAnswer st c (CallPutTask t) = do {
     r \<leftarrow> s_PutTask st c t; State_Monad.return (Written r) }"

fun storeAnswers :: "'s Store \<Rightarrow> ctx \<Rightarrow> storeCall list \<Rightarrow> ('s, storeReply list) state" where
  "storeAnswers st c [] = State_Monad.return []"
| "storeAnswers st c (x # xs) = do {
     r \<leftarrow> storeAnswer st c x;
     rs \<leftarrow> storeAnswers st c xs;
     State_Monad.return (r # rs)
   }"

text \<open>Calls under the lock of the operation \<open>nid\<close>.\<close>

definition lockedAnswers ::
  "'s Store \<Rightarrow> ctx \<Rightarrow> string \<Rightarrow> storeCall list \<Rightarrow> ('s, storeReply list) state" where
  "lockedAnswers st c nid calls = do {
     g \<leftarrow> s_GetCluster st c;
     (case g of
        Inl err \<Rightarrow> State_Monad.return [Refused err]
      | Inr state \<Rightarrow> do {
          l \<leftarrow> s_AcquireSwitchLock st c nid 30000000000
            \<lparr>auth_OperationID = nid, auth_FromEpoch = cs_Epoch state, auth_ToEpoch = cs_Epoch state + 1\<rparr>;
          (case l of
             Inl err \<Rightarrow> State_Monad.return [Refused err]
           | Inr (lockCtx, release) \<Rightarrow> do {
               rs \<leftarrow> storeAnswers st lockCtx calls;
               release;
               State_Monad.return rs
             })
        })
   }"

datatype visit = Plain "storeCall list" | Switching string "storeCall list"

fun visits :: "'s Store \<Rightarrow> ctx \<Rightarrow> visit list \<Rightarrow> ('s, storeReply list list) state" where
  "visits st c [] = State_Monad.return []"
| "visits st c (Plain calls # vs) = do {
     r \<leftarrow> storeAnswers st c calls;
     rs \<leftarrow> visits st c vs;
     State_Monad.return (r # rs)
   }"
| "visits st c (Switching nid calls # vs) = do {
     r \<leftarrow> lockedAnswers st c nid calls;
     rs \<leftarrow> visits st c vs;
     State_Monad.return (r # rs)
   }"

fun named :: "visit \<Rightarrow> bool" where
  "named (Plain calls) \<longleftrightarrow> True"
| "named (Switching nid calls) \<longleftrightarrow> nid \<noteq> ''''"

section \<open>A reachable etcd\<close>

text \<open>
  \<open>etcd_documented\<close> allows every call to fail and says nothing about when a transaction succeeds.
  Here calls do not fail, a transaction succeeds if and only if its comparison holds, the mutex is
  free, and closing a session removes at most keys that were leased to it.
\<close>

locale reachable_etcd =
  fixes E :: "'e Etcd" and p :: EtcdStore and view :: "'e \<Rightarrow> etcd_view"
  assumes get: "wp (etcd_Get E c k) (\<lambda>r e'. r = Inr (kvsOf k (view e)) \<and> view e' = view e) e"
    and put: "wp (etcd_Put E c k d l)
      (\<lambda>r e'. r = None \<and> (\<exists>rev. view e' = (view e)(k \<mapsto> (d, rev)))) e"
    and txn: "wp (etcd_TxnPut E c cmp k d) (\<lambda>r e'. r = Inr (cmpHolds (view e) cmp) \<and>
      (if cmpHolds (view e) cmp then \<exists>rev. view e' = (view e)(k \<mapsto> (d, rev)) else view e' = view e)) e"
    and delete: "wp (etcd_Delete E c k) (\<lambda>_ e'. view e' = (view e)(k := None)) e"
    and session: "wp (etcd_NewSession E c ttl) (\<lambda>r e'. (\<exists>x. r = Inr x) \<and> view e' = view e) e"
    and lock: "wp (etcd_Lock E c x k) (\<lambda>r e'. r = None \<and> view e' = view e) e"
    and unlock: "wp (etcd_Unlock E c x k) (\<lambda>_ e'. view e' = view e) e"
    and close: "wp (etcd_CloseSession E x) (\<lambda>_ e'. view e' (clusterKey p) = view e (clusterKey p) \<and>
      (view e (operationKey p) = None \<longrightarrow> view e' (operationKey p) = None)) e"

text \<open>
  The keys of the cluster hold what the fields of \<open>MemoryStore\<close> hold; \<open>b\<close> is whether the lock is
  held.
\<close>

definition agree :: "EtcdStore \<Rightarrow> bool \<Rightarrow> etcd_view \<Rightarrow> MemoryStore \<Rightarrow> bool" where
  "agree p b v m \<longleftrightarrow> ms_locked m = b \<and>
    (case v (clusterKey p) of
       None \<Rightarrow> ms_cluster m = zeroClusterState\<lparr>cs_Name := drop 4 (es_prefix p)\<rparr>
     | Some (d, r) \<Rightarrow> unmarshalCluster d = Inr (ms_cluster m)) \<and>
    (case v (operationKey p) of
       None \<Rightarrow> \<not> b \<and> ms_operation m = None
     | Some (d, r) \<Rightarrow> b \<and> (\<exists>a. unmarshalAuth d = Inr a \<and> ms_operation m = Some a \<and>
         auth_OperationID a \<noteq> '''' \<and> auth_ToEpoch a = auth_FromEpoch a + 1))"

text \<open>Two statements that take related states to related states and return the same.\<close>

definition matches ::
  "('s \<Rightarrow> 't \<Rightarrow> bool) \<Rightarrow> ('s \<Rightarrow> 't \<Rightarrow> bool) \<Rightarrow> ('s, 'a) state \<Rightarrow> ('t, 'a) state \<Rightarrow> bool" where
  "matches R S m n \<longleftrightarrow> (\<forall>s t. R s t \<longrightarrow> wp m (\<lambda>a s'. wp n (\<lambda>b t'. a = b \<and> S s' t') t) s)"

lemma matchesI:
  "(\<And>s t. R s t \<Longrightarrow> wp m (\<lambda>a s'. wp n (\<lambda>b t'. a = b \<and> S s' t') t) s) \<Longrightarrow> matches R S m n"
  by (simp add: matches_def)

lemma matchesD: "matches R S m n \<Longrightarrow> R s t \<Longrightarrow> wp m (\<lambda>a s'. wp n (\<lambda>b t'. a = b \<and> S s' t') t) s"
  by (simp add: matches_def)

lemma matches_run: "matches R S m n \<Longrightarrow> R s t \<Longrightarrow> fst (run_state m s) = fst (run_state n t)"
  by (simp add: matches_def wp_run)

lemma matches_return: "matches R R (State_Monad.return x) (State_Monad.return x)"
  by (simp add: matches_def wp)

lemma matches_bind:
  "matches R S m n \<Longrightarrow> (\<And>a. matches S T (f a) (g a)) \<Longrightarrow>
    matches R T (State_Monad.bind m f) (State_Monad.bind n g)"
  by (simp add: matches_def wp_run split_beta)

context reachable_etcd
begin

definition same :: "bool \<Rightarrow> 'e \<Rightarrow> MemoryStore \<Rightarrow> bool" where
  "same b e m \<longleftrightarrow> agree p b (view e) m"

lemma get_matches: "matches (same b) (same b) (Etcd_GetCluster E p c) (Memory_GetCluster c')"
  unfolding matches_def Etcd_GetCluster_def Memory_GetCluster_def
  by (auto simp: wp intro!: wp_mono [OF get])
    (auto simp: same_def agree_def kvsOf_def split: option.splits prod.splits)

lemma put_matches: "matches (same b) (same b) (Etcd_PutCluster E p c x) (Memory_PutCluster c' x)"
  unfolding matches_def Etcd_PutCluster_def Memory_PutCluster_def
  by (auto simp: wp same_def agree_def intro!: wp_mono [OF put] split: option.splits)

lemma cas_matches:
  "matches (same b) (same b) (Etcd_PutClusterIfEpoch E p c n x) (Memory_PutClusterIfEpoch c' n x)"
  unfolding matches_def Etcd_PutClusterIfEpoch_def Memory_PutClusterIfEpoch_def
  by (auto simp: wp epochCompare_def kvsOf_def same_def agree_def zeroClusterState_def split: option.splits
    intro!: wp_mono [OF get] wp_mono [OF txn])

lemma verify_matches:
  "matches (same b) (same b)
    (do { r \<leftarrow> Etcd_VerifySwitchOperation E p c a; State_Monad.return (Verified (r = None)) })
    (do { r \<leftarrow> Memory_VerifySwitchOperation c' a; State_Monad.return (Verified (r = None)) })"
  unfolding matches_def Etcd_VerifySwitchOperation_def Etcd_GetCluster_def Memory_VerifySwitchOperation_def
  by (auto simp: wp kvsOf_def same_def agree_def split: option.splits intro!: wp_mono [OF get])

lemma task_matches: "matches (same b) (same b) (Etcd_PutTask E p c t) (Memory_PutTask c' t)"
  unfolding matches_def Etcd_PutTask_def Memory_PutTask_def
  by (auto simp: wp same_def agree_def tasksKey_def clusterKey_def operationKey_def intro!: wp_mono [OF put]
    split: option.splits)

lemma answer_matches:
  "matches (same b) (same b) (storeAnswer (etcdStore E p) c x) (storeAnswer (memoryStore rng) c' x)"
  by (cases x) (auto simp: etcdStore_def memoryStore_def
    intro!: matches_bind matches_return get_matches put_matches cas_matches verify_matches task_matches)

lemma answers_match:
  "matches (same b) (same b) (storeAnswers (etcdStore E p) c xs) (storeAnswers (memoryStore rng) c' xs)"
  by (induction xs) (auto intro!: matches_bind matches_return answer_matches)

text \<open>The lock: both stores grant it, and what the release leaves behind agrees again.\<close>

lemma release_matches:
  "matches (same True) (same False)
    (do { etcd_Delete E c (operationKey p); do { etcd_Unlock E d x k; etcd_CloseSession E x } })
    (do { modify (\<lambda>s. s\<lparr>ms_operation := None\<rparr>); modify (\<lambda>s. s\<lparr>ms_locked := False\<rparr>) })"
  unfolding matches_def
  by (auto simp: wp same_def agree_def split: option.splits
    intro!: wp_mono [OF delete] wp_mono [OF unlock] wp_mono [OF close])

lemma acquire_granted:
  assumes "same False e m" and "auth_OperationID a \<noteq> ''''"
    and "auth_FromEpoch a = cs_Epoch (ms_cluster m)" "auth_ToEpoch a = auth_FromEpoch a + 1"
  shows "wp (Etcd_AcquireSwitchLock E p c h ttl a) (\<lambda>l e'. \<exists>x.
    l = Inr (Locked c, do { etcd_Delete E Background (operationKey p);
      do { etcd_Unlock E Background x (lockKey p); etcd_CloseSession E x } }) \<and>
    same True e' (m\<lparr>ms_locked := True, ms_operation := Some a\<rparr>)) e"
  using assms unfolding Etcd_AcquireSwitchLock_def Etcd_GetCluster_def acquireEtcdLock_def
  by (auto simp: wp kvsOf_def same_def agree_def zeroClusterState_def split: option.splits
    intro!: wp_mono [OF get] wp_mono [OF session] wp_mono [OF lock] wp_mono [OF put])
    (rule exI, rule refl)+

lemma get_same:
  "same b e m \<Longrightarrow> wp (Etcd_GetCluster E p c) (\<lambda>r e'. r = Inr (ms_cluster m) \<and> same b e' m) e"
  using get_matches [of b c] by (auto simp: matches_def Memory_GetCluster_def wp)

lemma etcd_lockedAnswers:
  assumes same: "same False e m" and nid: "nid \<noteq> ''''"
    and rest: "\<And>x e'. same True e' (m\<lparr>ms_locked := True, ms_operation := Some \<lparr>auth_OperationID = nid,
        auth_FromEpoch = cs_Epoch (ms_cluster m), auth_ToEpoch = cs_Epoch (ms_cluster m) + 1\<rparr>\<rparr>) \<Longrightarrow>
      wp (do { rs \<leftarrow> storeAnswers (etcdStore E p) (Locked c) calls;
        do { etcd_Delete E Background (operationKey p);
          do { etcd_Unlock E Background x (lockKey p); etcd_CloseSession E x } };
        State_Monad.return rs }) Q e'"
  shows "wp (lockedAnswers (etcdStore E p) c nid calls) Q e"
proof -
  have ops: "s_GetCluster (etcdStore E p) = Etcd_GetCluster E p"
    "s_AcquireSwitchLock (etcdStore E p) = Etcd_AcquireSwitchLock E p"
    by (simp_all add: etcdStore_def)
  show ?thesis
    unfolding lockedAnswers_def ops wp_bind [of "Etcd_GetCluster E p c"]
  proof (rule wp_mono [OF get_same [OF same]], goal_cases)
    case (1 g e1)
    then have e1: "same False e1 m" and g: "g = Inr (ms_cluster m)" by auto
    show ?case
      unfolding g sum.case wp_bind [of "Etcd_AcquireSwitchLock E p c nid 30000000000 a" for a]
    proof (rule wp_mono [OF acquire_granted [OF e1]], goal_cases)
      case (4 l e2)
      then show ?case by (elim exE conjE) (simp only: sum.case prod.case rest)
    qed (use nid in simp_all)
  qed
qed

lemma lockedAnswers_matches:
  assumes nid: "nid \<noteq> ''''"
  shows "matches (same False) (same False) (lockedAnswers (etcdStore E p) c nid calls)
    (lockedAnswers (memoryStore rng) c' nid calls)"
proof (rule matchesI)
  fix e m
  assume same: "same False e m"
  have mem: "wp (lockedAnswers (memoryStore rng) c' nid calls) Q m =
    wp (do { rs \<leftarrow> storeAnswers (memoryStore rng) c' calls;
      do { modify (\<lambda>s. s\<lparr>ms_operation := None\<rparr>); modify (\<lambda>s. s\<lparr>ms_locked := False\<rparr>) };
      State_Monad.return rs }) Q (m\<lparr>ms_locked := True, ms_operation := Some \<lparr>auth_OperationID = nid,
        auth_FromEpoch = cs_Epoch (ms_cluster m), auth_ToEpoch = cs_Epoch (ms_cluster m) + 1\<rparr>\<rparr>)" for Q
    using same by (simp add: lockedAnswers_def memoryStore_def Memory_GetCluster_def
      Memory_AcquireSwitchLock_def Memory_AcquireLock_def same_def agree_def wp)
  have locked: "matches (same True) (same False)
    (do { rs \<leftarrow> storeAnswers (etcdStore E p) (Locked c) calls;
      do { etcd_Delete E Background (operationKey p);
        do { etcd_Unlock E Background x (lockKey p); etcd_CloseSession E x } };
      State_Monad.return rs })
    (do { rs \<leftarrow> storeAnswers (memoryStore rng) c' calls;
      do { modify (\<lambda>s. s\<lparr>ms_operation := None\<rparr>); modify (\<lambda>s. s\<lparr>ms_locked := False\<rparr>) };
      State_Monad.return rs })" for x
    by (rule matches_bind [OF answers_match matches_bind [OF release_matches matches_return]])
  show "wp (lockedAnswers (etcdStore E p) c nid calls) (\<lambda>a e'.
    wp (lockedAnswers (memoryStore rng) c' nid calls) (\<lambda>b m'. a = b \<and> same False e' m') m) e"
    unfolding mem by (rule etcd_lockedAnswers [OF same nid]) (rule matchesD [OF locked])
qed

lemma visits_match:
  "list_all named vs \<Longrightarrow> matches (same False) (same False) (visits (etcdStore E p) c vs)
    (visits (memoryStore rng) c' vs)"
  by (induction "etcdStore E p" c vs rule: visits.induct)
    (auto intro!: matches_bind matches_return answers_match lockedAnswers_matches)

end

section \<open>The stores are interchangeable\<close>

text \<open>
  C14. The two stores are interchangeable. A new \<open>EtcdStore\<close> over an etcd that is reachable and used
  by nobody else, and a new \<open>MemoryStore\<close> of the same cluster, answer every sequence of reads,
  writes, compare-and-swap writes, verifications and stored tasks alike, also under switch locks
  taken and released in between, as long as operations have names.
\<close>

theorem stores_interchangeable:
  assumes "reachable_etcd E p view" and "es_prefix p = ''/ha/'' @ name"
    and "view e (clusterKey p) = None" "view e (operationKey p) = None" and "list_all named vs"
  shows "fst (run_state (visits (etcdStore E p) c vs) e) =
    fst (run_state (visits (memoryStore rng) c vs) (NewMemoryStore name))"
  by (rule matches_run [OF reachable_etcd.visits_match [OF assms(1,5)]])
    (simp add: reachable_etcd.same_def [OF assms(1)] agree_def assms NewMemoryStore_def)

end
