(* ===== verification/HA_RefEtcd.thy ===== *)
theory HA_RefEtcd
  imports HA_Cluster HA_Store_Equiv
begin

text \<open>
  A small executable etcd: keys with their values and modification revisions, and a counter of
  sessions. It shows that what the development assumes of etcd (\<open>etcd_documented\<close>,
  \<open>reachable_etcd\<close>) can hold.
\<close>

record RefEtcd =
  re_keys :: "(string \<times> doc \<times> int) list"
  re_rev :: int
  re_sessions :: nat

definition re_view :: "RefEtcd \<Rightarrow> etcd_view" where
  "re_view e = map_of (re_keys e)"

definition re_put :: "string \<Rightarrow> doc \<Rightarrow> RefEtcd \<Rightarrow> RefEtcd" where
  "re_put k d e = e\<lparr>re_keys := AList.update k (d, re_rev e + 1) (re_keys e), re_rev := re_rev e + 1\<rparr>"

definition refEtcd :: "RefEtcd Etcd" where
  "refEtcd = \<lparr>
     etcd_Get = \<lambda>c k. gets (\<lambda>e. Inr (kvsOf k (re_view e))),
     etcd_GetTasks = \<lambda>c k. gets (\<lambda>e. Inr (rev (sort_key kv_ModRevision
       (concat (map (\<lambda>x. if HasPrefix (fst x) k then kvsOf (fst x) (re_view e) else []) (re_keys e)))))),
     etcd_Put = \<lambda>c k d l. do { modify (re_put k d); State_Monad.return None },
     etcd_Delete = \<lambda>c k. do {
       modify (\<lambda>e. e\<lparr>re_keys := AList.delete k (re_keys e)\<rparr>); State_Monad.return None },
     etcd_TxnPut = \<lambda>c cmp k d. do {
       ok \<leftarrow> gets (\<lambda>e. cmpHolds (re_view e) cmp);
       modify (\<lambda>e. if ok then re_put k d e else e);
       State_Monad.return (Inr ok) },
     etcd_NewSession = \<lambda>c ttl. do {
       n \<leftarrow> gets re_sessions;
       modify (\<lambda>e. e\<lparr>re_sessions := Suc n\<rparr>);
       State_Monad.return (Inr n) },
     etcd_CloseSession = \<lambda>x. State_Monad.return (),
     etcd_Lock = \<lambda>c x k. State_Monad.return None,
     etcd_Unlock = \<lambda>c x k. State_Monad.return (),
     etcd_Status = \<lambda>c n. State_Monad.return None,
     etcd_Close = State_Monad.return None\<rparr>"

lemma re_view_simps [simp]:
  "re_view (re_put k d e) = (re_view e)(k \<mapsto> (d, re_rev e + 1))"
  "re_view (e\<lparr>re_keys := AList.delete k (re_keys e)\<rparr>) = (re_view e)(k := None)"
  "re_view (e\<lparr>re_sessions := n\<rparr>) = re_view e"
  by (auto simp: re_view_def re_put_def update_conv' delete_conv')

lemma refEtcd_documented: "etcd_documented refEtcd p re_view (=)"
proof -
  have "get_documented refEtcd re_view (=)"
    by (auto simp: get_documented_def refEtcd_def)
  moreover have "put_documented refEtcd re_view (=)"
    by (auto simp: put_documented_def refEtcd_def)
  moreover have "txn_documented refEtcd re_view (=)"
    by (auto simp: txn_documented_def refEtcd_def)
  moreover have "session_documented refEtcd p re_view (=)"
    by (auto simp: session_documented_def refEtcd_def)
  moreover have "delete_documented refEtcd re_view (=)"
    by (auto simp: delete_documented_def refEtcd_def)
  moreover have "list_documented refEtcd re_view (=)"
    by (auto simp: list_documented_def refEtcd_def)
  ultimately show ?thesis by (simp add: etcd_documented_def)
qed

definition refPrefix :: EtcdStore where
  "refPrefix = \<lparr>es_prefix = ''/ha/mysql-ha''\<rparr>"

lemmas ref_etcd_store = etcd_switch_store [OF refEtcd_documented]

interpretation ref_etcd: switch_store "Etcd_GetCluster refEtcd p" "Etcd_PutClusterIfEpoch refEtcd p"
  "Etcd_VerifySwitchOperation refEtcd p" "\<lambda>e. clusterIn p (re_view e)" "\<lambda>e. operationIn p (re_view e)"
  "Etcd_AcquireSwitchLock refEtcd p" for p
  by (rule ref_etcd_store)

interpretation reachable: reachable_etcd refEtcd p re_view for p
  by unfold_locales (auto simp: refEtcd_def wp)

end
