(* ===== verification/HA_Probe.thy ===== *)
theory HA_Probe
  imports HA_Switch
begin

text \<open>
  The leader's loop of \<open>internal/ha/controller.go\<close>: \<open>probe\<close>, \<open>tryAutomaticFailover\<close>,
  \<open>runAsLeader\<close>, and the read-only \<open>Status\<close> and \<open>Tasks\<close>.

  \<open>probeAll\<close> is the loop over the agents, run with the controller's mutex held; it returns the
  alerts to be sent after the mutex is released. \<open>FailureCount\<close> is a Go \<open>int\<close>: one failed probe
  per \<open>ProbeInterval\<close> does not reach \<open>2\<^sup>6\<^sup>3\<close>, so it is an \<open>int\<close> here. \<open>runAsLeader\<close> takes the
  number of ticks the loop serves before the leadership context ends.
\<close>

section \<open>Probing one node\<close>

definition lookupStatus :: "(string, NodeStatus) gomap \<Rightarrow> string \<Rightarrow> NodeStatus" where
  "lookupStatus m nid = (case map_of m nid of None \<Rightarrow> zeroNodeStatus | Some st \<Rightarrow> st)"

definition alerted :: "ctl \<Rightarrow> string \<Rightarrow> bool" where
  "alerted v nid \<longleftrightarrow> (case map_of (v_alertedNodes v) nid of None \<Rightarrow> False | Some b \<Rightarrow> b)"

definition countFailure :: "NodeStatus \<Rightarrow> NodeStatus \<Rightarrow> NodeStatus" where
  "countFailure previous status = status\<lparr>ns_FailureCount :=
     (if ns_Healthy status then 0 else ns_FailureCount previous + 1)\<rparr>"

text \<open>The assignments of the loop body and the alert it appends.\<close>

definition observe ::
  "Config \<Rightarrow> string \<Rightarrow> NodeStatus \<Rightarrow> ctl \<Rightarrow> AlertEvent list \<times> ctl" where
  "observe cfg nid status v =
    (let status = countFailure (lookupStatus (v_statuses v) nid) status;
         v = v\<lparr>v_statuses := AList.update nid status (v_statuses v)\<rparr> in
     if ns_FailureCount status \<ge> cfg_FailureThreshold cfg \<and> \<not> alerted v nid
     then (case failureAlert status of (severity, title, message) \<Rightarrow>
       ([\<lparr>ae_NodeID = nid, ae_Severity = severity, ae_Title = title, ae_Message = message,
          ae_Resolved = False, ae_CreatedAt = ns_CheckedAt status\<rparr>],
        v\<lparr>v_alertedNodes := AList.update nid True (v_alertedNodes v)\<rparr>))
     else if ns_Healthy status \<and> alerted v nid
     then ([\<lparr>ae_NodeID = nid, ae_Severity = ''info'', ae_Title = ''MySQL node recovered'',
          ae_Message = ''health checks passed'', ae_Resolved = True,
          ae_CreatedAt = ns_CheckedAt status\<rparr>],
        v\<lparr>v_alertedNodes := AList.delete nid (v_alertedNodes v)\<rparr>)
     else ([], v))"

definition probeNode ::
  "'w Controller \<Rightarrow> ctx \<Rightarrow> string \<Rightarrow> 'w Node \<Rightarrow> ('w sys, AlertEvent list) state" where
  "probeNode c cx nid client = do {
     status \<leftarrow> call (n_Status client cx) (EvStatus nid);
     record_event (EvProbe nid (ns_Healthy status));
     events \<leftarrow> field_of (\<lambda>v. fst (observe (c_cfg c) nid status v));
     assign (\<lambda>v. snd (observe (c_cfg c) nid status v));
     State_Monad.return events
   }"

fun probeAll ::
  "'w Controller \<Rightarrow> ctx \<Rightarrow> string list \<Rightarrow> ('w sys, AlertEvent list) state" where
  "probeAll c cx [] = State_Monad.return []"
| "probeAll c cx (nid # ids) = (case map_of (c_clients c) nid of
      None \<Rightarrow> probeAll c cx ids
    | Some client \<Rightarrow> do {
        es \<leftarrow> probeNode c cx nid client;
        rest \<leftarrow> probeAll c cx ids;
        State_Monad.return (es @ rest)
      })"

definition alertText :: "AlertEvent \<Rightarrow> string" where
  "alertText e = ''node='' @ ae_NodeID e @ '' resolved='' @ showBool (ae_Resolved e) @ '' '' @
     ae_Message e"

fun sendAlerts :: "'w Controller \<Rightarrow> ctx \<Rightarrow> AlertEvent list \<Rightarrow> ('w sys, unit) state" where
  "sendAlerts c cx [] = State_Monad.return ()"
| "sendAlerts c cx (e # es) = do {
     sendAlert c cx (ae_Severity e) (ae_Title e) (alertText e);
     sendAlerts c cx es
   }"

section \<open>Automatic failover\<close>

definition isTripping :: "('w sys, bool) state" where
  "isTripping = do { acquire; field_of v_tripping }"

definition failoverTarget ::
  "'w Runtime \<Rightarrow> 'w Controller \<Rightarrow> string \<Rightarrow> ('w sys, error + string) state" where
  "failoverTarget rt c primary =
     (if cfg_AutoFailoverExecute (c_cfg c) then chooseTarget rt c primary
      else chooseDryRunTarget rt primary)"

definition tryAutomaticFailover ::
  "'w Runtime \<Rightarrow> 'w Controller \<Rightarrow> ctx \<Rightarrow> string \<Rightarrow> ('w sys, unit) state" where
  "tryAutomaticFailover rt c cx primary = do {
     acquire;
     statuses \<leftarrow> field_of v_statuses;
     tripping \<leftarrow> isTripping;
     (case map_of statuses primary of
        None \<Rightarrow> State_Monad.return ()
      | Some status \<Rightarrow>
          if ns_Healthy status \<or> ns_FailureCount status < cfg_FailureThreshold (c_cfg c) \<or> tripping
          then (if ns_Healthy status
                then do { acquire; assign (\<lambda>v. v\<lparr>v_lastDryRunPrimary := ''''\<rparr>) }
                else State_Monad.return ())
          else do {
            acquire;
            reported \<leftarrow> field_of v_lastDryRunPrimary;
            if \<not> cfg_AutoFailoverExecute (c_cfg c) \<and> reported = primary
            then State_Monad.return ()
            else do {
              t \<leftarrow> failoverTarget rt c primary;
              (case t of
                 Inl err \<Rightarrow> State_Monad.return ()
               | Inr target \<Rightarrow> do {
                   r \<leftarrow> Switch rt c cx target True;
                   State_Monad.return ()
                 })
            }
          })
   }"

section \<open>The leader's loop\<close>

definition adoptPrimary ::
  "'w Runtime \<Rightarrow> 'w Controller \<Rightarrow> ctx \<Rightarrow> ClusterState \<Rightarrow> ('w sys, ClusterState) state" where
  "adoptPrimary rt c cx state =
     (if cs_Primary state = '''' then do {
        p \<leftarrow> detectPrimary rt;
        now \<leftarrow> ask (rt_now rt);
        let state = state\<lparr>cs_Primary := p, cs_UpdatedAt := now\<rparr>;
        call (s_PutCluster (c_store c) cx state) (EvPutCluster state);
        State_Monad.return state
      }
      else State_Monad.return state)"

definition probe :: "'w Runtime \<Rightarrow> 'w Controller \<Rightarrow> ctx \<Rightarrow> ('w sys, unit) state" where
  "probe rt c cx = do {
     acquire;
     ids \<leftarrow> ask (rt_range rt (map fst (c_clients c)));
     alertEvents \<leftarrow> probeAll c cx ids;
     sendAlerts c cx alertEvents;
     r \<leftarrow> call (s_GetCluster (c_store c) cx) EvGet;
     (case r of
        Inl err \<Rightarrow> State_Monad.return ()
      | Inr state \<Rightarrow> do {
          state \<leftarrow> adoptPrimary rt c cx state;
          if cs_AutoFailover state \<and> cs_Primary state \<noteq> ''''
          then tryAutomaticFailover rt c cx (cs_Primary state)
          else State_Monad.return ()
        })
   }"

primrec probeTicks :: "'w Runtime \<Rightarrow> 'w Controller \<Rightarrow> ctx \<Rightarrow> nat \<Rightarrow> ('w sys, unit) state" where
  "probeTicks rt c cx 0 = State_Monad.return ()"
| "probeTicks rt c cx (Suc n) = do { probe rt c cx; probeTicks rt c cx n }"

definition runAsLeader ::
  "'w Runtime \<Rightarrow> 'w Controller \<Rightarrow> ctx \<Rightarrow> nat \<Rightarrow> ('w sys, unit) state" where
  "runAsLeader rt c cx ticks = do {
     acquire;
     assign (\<lambda>v. v\<lparr>v_leader := True\<rparr>);
     acquire;
     assign (\<lambda>v. v\<lparr>v_leaderCtx := Some cx\<rparr>);
     probe rt c cx;
     probeTicks rt c cx ticks;
     acquire;
     assign (\<lambda>v. v\<lparr>v_leaderCtx := None\<rparr>);
     acquire;
     assign (\<lambda>v. v\<lparr>v_leader := False\<rparr>)
   }"

section \<open>Reading\<close>

text \<open>The state comes with the error: where \<open>GetCluster\<close> fails it is the zero value.\<close>

definition Status :: "'w Controller \<Rightarrow>
    ('w sys, ClusterState \<times> (string, NodeStatus) gomap \<times> SwitchTask option \<times> error option) state"
  where
  "Status c = do {
     r \<leftarrow> call (s_GetCluster (c_store c) Background) EvGet;
     acquire;
     statuses \<leftarrow> field_of v_statuses;
     lastTask \<leftarrow> field_of v_lastTask;
     State_Monad.return (case r of Inl _ \<Rightarrow> zeroClusterState | Inr state \<Rightarrow> state,
       statuses, lastTask, errOf r)
   }"

definition Tasks ::
  "'w Controller \<Rightarrow> ctx \<Rightarrow> int \<Rightarrow> ('w sys, error + SwitchTask list) state" where
  "Tasks c cx limit = ask (s_ListTasks (c_store c) cx limit)"

end
