(* ===== verification/HA_Probe_Laws.thy ===== *)
theory HA_Probe_Laws
  imports HA_Probe HA_Switch_Laws
begin

text \<open>
  What the leader's loop does: the alerts of a node alternate between failure and recovery, a
  switch is attempted only for a primary that failed often enough, and everything the loop ever
  does follows the failover protocol.
\<close>

section \<open>Observing one node\<close>

text \<open>A node's answers, probe after probe.\<close>

fun observeAll :: "Config \<Rightarrow> string \<Rightarrow> NodeStatus list \<Rightarrow> ctl \<Rightarrow> AlertEvent list \<times> ctl" where
  "observeAll cfg nid [] v = ([], v)"
| "observeAll cfg nid (st # sts) v = (case observe cfg nid st v of
      (es, v') \<Rightarrow> (case observeAll cfg nid sts v' of (fs, v'') \<Rightarrow> (es @ fs, v'')))"

lemma observeAll_append:
  "observeAll cfg nid (xs @ ys) v = (case observeAll cfg nid xs v of
      (es, v') \<Rightarrow> (case observeAll cfg nid ys v' of (fs, v'') \<Rightarrow> (es @ fs, v'')))"
  by (induction xs arbitrary: v) (auto split: prod.splits)

lemma lookupStatus_update [simp]:
  "lookupStatus (AList.update k st m) n = (if n = k then st else lookupStatus m n)"
  by (simp add: lookupStatus_def update_conv')

lemma alerted_update [simp]:
  "alerted (v\<lparr>v_alertedNodes := AList.update k b m\<rparr>) n =
    (if n = k then b else alerted (v\<lparr>v_alertedNodes := m\<rparr>) n)"
  by (simp add: alerted_def update_conv')

lemma alerted_delete [simp]:
  "alerted (v\<lparr>v_alertedNodes := AList.delete k m\<rparr>) n =
    (n \<noteq> k \<and> alerted (v\<lparr>v_alertedNodes := m\<rparr>) n)"
  by (auto simp: alerted_def delete_conv')

lemma alerted_other [simp]:
  "alerted (v\<lparr>v_statuses := m\<rparr>) n = alerted v n"
  "alerted (v\<lparr>v_statuses := m, v_alertedNodes := v_alertedNodes v\<rparr>) n = alerted v n"
  by (simp_all add: alerted_def)

lemma failureAlert_cases:
  obtains severity title message where "failureAlert st = (severity, title, message)"
  by (cases "failureAlert st") auto

text \<open>The state one observation leaves: the failure count, the alert flag, and the alert sent.\<close>

lemma observe_lookup:
  "lookupStatus (v_statuses (snd (observe cfg nid st v))) n =
    (if n = nid then countFailure (lookupStatus (v_statuses v) nid) st
     else lookupStatus (v_statuses v) n)"
  by (auto simp: observe_def Let_def split: prod.splits)

lemma observe_alerted:
  "alerted (snd (observe cfg nid st v)) n =
    (if n \<noteq> nid then alerted v n
     else if alerted v nid then \<not> ns_Healthy st
     else cfg_FailureThreshold cfg \<le>
       ns_FailureCount (countFailure (lookupStatus (v_statuses v) nid) st))"
  by (auto simp: observe_def Let_def countFailure_def split: prod.splits)

lemma observe_events:
  "map ae_Resolved (fst (observe cfg nid st v)) =
    (if alerted (snd (observe cfg nid st v)) nid = alerted v nid then [] else [alerted v nid])"
  by (auto simp: observe_def Let_def countFailure_def split: prod.splits)

text \<open>Alerts and recoveries take turns.\<close>

fun alternates :: "bool \<Rightarrow> bool list \<Rightarrow> bool" where
  "alternates b [] = True"
| "alternates b (x # xs) \<longleftrightarrow> x = b \<and> alternates (\<not> b) xs"

lemma alternates_append:
  "alternates b (xs @ ys) \<longleftrightarrow> alternates b xs \<and> alternates (if even (length xs) then b else \<not> b) ys"
  by (induction b xs rule: alternates.induct) auto

text \<open>
  C21. The alerts of a node take turns: whatever it answers, probe after probe, the alerts sent for
  it alternate between failure and recovery, starting with a recovery exactly if the node was
  already reported. No failure is reported twice, no recovery without a failure.
\<close>

lemma observeAll_alternates:
  "alternates (alerted v nid) (map ae_Resolved (fst (observeAll cfg nid sts v)))"
proof (induction sts arbitrary: v)
  case (Cons st sts)
  let ?v = "snd (observe cfg nid st v)"
  have "alternates (alerted ?v nid) (map ae_Resolved (fst (observeAll cfg nid sts ?v)))"
    by (rule Cons.IH)
  then have "alternates (alerted v nid) (map ae_Resolved (fst (observe cfg nid st v)) @
      map ae_Resolved (fst (observeAll cfg nid sts ?v)))"
    unfolding alternates_append observe_events by auto
  then show ?case by (simp add: case_prod_beta)
qed simp

text \<open>The trailing run of failed probes.\<close>

definition failing :: "NodeStatus list \<Rightarrow> nat" where
  "failing sts = length (takeWhile (\<lambda>st. \<not> ns_Healthy st) (rev sts))"

lemma failing_snoc [simp]: "failing (sts @ [st]) = (if ns_Healthy st then 0 else Suc (failing sts))"
  by (simp add: failing_def)

text \<open>
  C20. A node's failure count is the length of its trailing run of failed probes, and the node is
  reported exactly as long as that run reaches the threshold.
\<close>

lemma observeAll_failing:
  assumes "0 < cfg_FailureThreshold cfg"
  shows "ns_FailureCount (lookupStatus (v_statuses (snd (observeAll cfg nid sts initialCtl))) nid)
      = int (failing sts) \<and>
    (alerted (snd (observeAll cfg nid sts initialCtl)) nid \<longleftrightarrow>
      cfg_FailureThreshold cfg \<le> int (failing sts))"
proof (induction sts rule: rev_induct)
  case Nil
  then show ?case
    using assms by (simp add: initialCtl_def lookupStatus_def alerted_def failing_def zeroNodeStatus_def)
next
  case (snoc st sts)
  then show ?case
    using assms
    by (auto simp: observeAll_append case_prod_beta observe_lookup observe_alerted countFailure_def)
qed

section \<open>Automatic failover\<close>

definition failedPrimary :: "Config \<Rightarrow> ctl \<Rightarrow> string \<Rightarrow> bool" where
  "failedPrimary cfg v primary \<longleftrightarrow> (case map_of (v_statuses v) primary of
      None \<Rightarrow> False
    | Some st \<Rightarrow> \<not> ns_Healthy st \<and> cfg_FailureThreshold cfg \<le> ns_FailureCount st)"

text \<open>
  Automatic failover does nothing to the world, and calls nobody, unless the primary is known,
  unhealthy and has failed as many probes in a row as the threshold says, no switch is under way,
  and, when only reporting, this primary was not reported yet.
\<close>

lemma tryAutomaticFailover_idle:
  assumes "alone s" and "\<not> failedPrimary (c_cfg c) (ctl s) primary \<or> v_tripping (ctl s) \<or>
    \<not> cfg_AutoFailoverExecute (c_cfg c) \<and> v_lastDryRunPrimary (ctl s) = primary"
  shows "wp (tryAutomaticFailover rt c cx primary) (\<lambda>_ t. world t = world s \<and> hist t = hist s) s"
  using assms unfolding tryAutomaticFailover_def isTripping_def failedPrimary_def
  by (auto simp: wp split: option.splits)

section \<open>Invariants of the leader's loop\<close>

text \<open>The events the loop adds itself, outside of a switch.\<close>

fun loopEvent :: "event \<Rightarrow> bool" where
  "loopEvent (EvStatus _ _) = True"
| "loopEvent (EvProbe _ _) = True"
| "loopEvent (EvAlert _ _ _) = True"
| "loopEvent (EvGet _) = True"
| "loopEvent (EvPutCluster _ _) = True"
| "loopEvent _ = False"

text \<open>
  What an invariant needs: the automatic switch keeps it, and so do the events of the loop and
  assignments to the fields of the controller other than those of leadership.
\<close>

locale loop_invariant =
  fixes rt :: "'w Runtime" and c :: "'w Controller" and cx :: ctx and I :: "'w sys \<Rightarrow> bool"
  assumes switch: "maintains I (Switch rt c cx target True)"
    and event: "I s \<Longrightarrow> loopEvent e \<Longrightarrow> I (s\<lparr>world := w, hist := hist s @ [e]\<rparr>)"
    and inert: "I s \<Longrightarrow> I (s\<lparr>world := w\<rparr>)"
    and other: "maintains I acquire"
    and fields: "I s \<Longrightarrow> v_leader v = v_leader (ctl s) \<Longrightarrow> v_leaderCtx v = v_leaderCtx (ctl s) \<Longrightarrow>
      I (s\<lparr>ctl := v\<rparr>)"
begin

lemma record_loop: "loopEvent e \<Longrightarrow> maintains I (record_event e)"
  using event [of s e "world s" for s] by (auto simp: wp intro!: maintainsI)

lemma assign_loop:
  "(\<And>v. v_leader (f v) = v_leader v) \<Longrightarrow> (\<And>v. v_leaderCtx (f v) = v_leaderCtx v) \<Longrightarrow>
    maintains I (assign f)"
  by (auto simp: wp intro!: maintainsI fields)

lemma alert_loop: "maintains I (sendAlert c' cx' x y z)"
  by (auto intro!: maintainsI wp_call event)

lemma choose_loop:
  "maintains I (chooseTarget rt c p)" "maintains I (chooseDryRunTarget rt p)"
  "maintains I (detectPrimary rt)"
  unfolding chooseTarget_def chooseDryRunTarget_def detectPrimary_def
  by (auto intro!: maintains other inert)

lemmas loop_rules = maintains other record_loop assign_loop alert_loop choose_loop

lemma tryAutomaticFailover_loop: "maintains I (tryAutomaticFailover rt c cx primary)"
  unfolding tryAutomaticFailover_def isTripping_def failoverTarget_def
  by (intro loop_rules switch) (simp_all add: inert event)

lemma observe_leader:
  "v_leader (snd (observe cfg nid st v)) = v_leader v"
  "v_leaderCtx (snd (observe cfg nid st v)) = v_leaderCtx v"
  by (auto simp: observe_def Let_def split: prod.splits)

lemma probeAll_loop: "maintains I (probeAll c cx ids)"
proof (induction ids)
  case (Cons nid ids)
  then show ?case
    by (auto simp: probeNode_def observe_leader intro!: loop_rules event)
qed (simp add: maintains)

lemma sendAlerts_loop: "maintains I (sendAlerts c cx es)"
  by (induction es) (auto intro!: loop_rules)

lemma probe_loop: "maintains I (probe rt c cx)"
  unfolding probe_def adoptPrimary_def
  by (auto intro!: loop_rules probeAll_loop sendAlerts_loop tryAutomaticFailover_loop event inert)

lemma probeTicks_loop: "maintains I (probeTicks rt c cx n)"
  by (induction n) (auto intro!: loop_rules probe_loop)

end

text \<open>An invariant that does not speak of leadership holds of a whole term of leadership.\<close>

locale term_invariant = loop_invariant +
  assumes any_fields: "I s \<Longrightarrow> I (s\<lparr>ctl := v\<rparr>)"
begin

lemma runAsLeader_term: "maintains I (runAsLeader rt c cx ticks)"
proof -
  have "maintains I (assign f)" for f
    by (auto simp: wp intro!: maintainsI any_fields)
  then show ?thesis
    unfolding runAsLeader_def by (auto intro!: maintains_bind other probe_loop probeTicks_loop)
qed

end

text \<open>First: the history is legal and no switch is under way.\<close>

interpretation protocol: term_invariant rt c cx "\<lambda>s. follows p (hist s) = Some Idle"
  for rt :: "'w Runtime" and c :: "'w Controller" and cx p
proof unfold_locales
  show "maintains (\<lambda>s :: 'w sys. follows p (hist s) = Some Idle) (Switch rt c cx target True)" for target
    by (rule maintainsI, rule Switch_follows)
  show "follows p (hist (s\<lparr>world := w, hist := hist s @ [e]\<rparr>)) = Some Idle"
    if "follows p (hist s) = Some Idle" "loopEvent e" for s :: "'w sys" and e w
    using that by (cases e) (simp_all add: stay_def)
qed (simp_all add: maintains_acquire)

text \<open>Second: without \<open>HA_AUTO_FAILOVER_EXECUTE\<close> the loop only watches, reports and adopts.\<close>

definition intervening :: "event \<Rightarrow> bool" where
  "intervening e \<longleftrightarrow> acting e \<and> \<not> loopEvent e"

lemma filter_intervening:
  "filter acting es = filter acting fs \<Longrightarrow> filter intervening es = filter intervening fs"
proof -
  have "filter intervening xs = filter (\<lambda>e. \<not> loopEvent e) (filter acting xs)" for xs
    by (simp add: intervening_def [abs_def])
  then show "filter acting es = filter acting fs \<Longrightarrow> ?thesis" by metis
qed

definition onlyReports :: "Config \<Rightarrow> event list \<Rightarrow> 'w sys \<Rightarrow> bool" where
  "onlyReports cfg es s \<longleftrightarrow> cfg_AutoFailoverExecute cfg \<or> filter intervening (hist s) = es"

interpretation reports: term_invariant rt c cx "onlyReports (c_cfg c) es"
  for rt :: "'w Runtime" and c :: "'w Controller" and cx es
proof unfold_locales
  show "maintains (onlyReports (c_cfg c) es) (Switch rt c cx target True)" for target
  proof (rule maintainsI)
    fix s :: "'w sys"
    assume *: "onlyReports (c_cfg c) es s"
    show "wp (Switch rt c cx target True) (\<lambda>_. onlyReports (c_cfg c) es) s"
    proof (cases "cfg_AutoFailoverExecute (c_cfg c)")
      case True
      then show ?thesis by (simp add: onlyReports_def wp_any)
    next
      case False
      then have "dryRunOf (c_cfg c) True" by (simp add: dryRunOf_def)
      from Switch_dry [OF this] show ?thesis
        by (rule wp_mono) (use * in \<open>auto simp: onlyReports_def dest: filter_intervening\<close>)
    qed
  qed
  show "onlyReports (c_cfg c) es (s\<lparr>world := w, hist := hist s @ [e]\<rparr>)"
    if "onlyReports (c_cfg c) es s" "loopEvent e" for s :: "'w sys" and e w
    using that by (simp add: onlyReports_def intervening_def)
qed (auto simp: onlyReports_def intro!: maintains_acquire)

text \<open>
  Third: leadership itself is not touched by anything the loop does, as long as no other goroutine
  touches it.
\<close>

definition leading :: "bool \<Rightarrow> ctx option \<Rightarrow> 'w sys \<Rightarrow> bool" where
  "leading b l s \<longleftrightarrow> leadershipKept s \<and> v_leader (ctl s) = b \<and> v_leaderCtx (ctl s) = l"

lemma leading_update [simp]:
  "leading b l (s\<lparr>world := w\<rparr>) = leading b l s" "leading b l (s\<lparr>hist := h\<rparr>) = leading b l s"
  by (simp_all add: leading_def)

lemma leading_fields:
  "leading b l s \<Longrightarrow> v_leader v = v_leader (ctl s) \<Longrightarrow> v_leaderCtx v = v_leaderCtx (ctl s) \<Longrightarrow>
    leading b l (s\<lparr>ctl := v\<rparr>)"
  by (simp add: leading_def)

lemma leading_acquire: "maintains (leading b l) acquire"
  by (auto simp: wp_acquire_run leading_def leadershipKept_def intro!: maintainsI)

lemma leading_assign:
  "(\<And>v. v_leader (f v) = v_leader v) \<Longrightarrow> (\<And>v. v_leaderCtx (f v) = v_leaderCtx v) \<Longrightarrow>
    maintains (leading b l) (assign f)"
  by (auto simp: wp intro!: maintainsI leading_fields)

lemma leading_call:
  "maintains (leading b l) (call m ev)" "maintains (leading b l) (ask m')"
  "maintains (leading b l) (record_event e)" "maintains (leading b l) (sendAlert c cx x y z)"
  by (auto simp: wp intro!: maintainsI wp_call)

lemmas leading_rules = leading_call leading_acquire leading_assign maintains_field_of maintains_bind
  maintains_return maintains_if maintains_case_sum maintains_case_option maintains_case_prod maintains_let

lemma leading_reconfigureAll: "maintains (leading b l) (reconfigureAll c cx auth target ids)"
  by (induction ids) (auto intro!: leading_rules)

lemma leading_finishTask: "maintains (leading b l) (finishTask rt c task err)"
  unfolding finishTask_def setTask_def by (intro leading_rules) simp_all

lemma leading_orFinish:
  "maintains (leading b l) m \<Longrightarrow> maintains (leading b l) rest \<Longrightarrow>
    maintains (leading b l) (orFinish rt c task m wrap rest)"
  unfolding orFinish_def by (intro leading_rules leading_finishTask)

lemma leading_switchExecute: "maintains (leading b l) (switchExecute rt c cx state target client auth task)"
  unfolding switchExecute_def switchPromote_def switchCatchUp_def switchCommit_def setTask_def
  by (intro leading_rules leading_orFinish leading_finishTask leading_reconfigureAll) simp_all

lemma leading_switchTask: "maintains (leading b l) (switchTask rt c cx state target client auth task)"
  unfolding switchTask_def switchDryRun_def setTask_def
  by (intro leading_rules leading_switchExecute) simp_all

lemma leading_Switch: "maintains (leading b l) (Switch rt c cx target automatic)"
  unfolding Switch_def switchFrom_def switchLocked_def IsLeader_def leaderBoundContext_def chooseTarget_def
  by (intro leading_rules leading_switchTask)

interpretation leadership: loop_invariant rt c cx "leading b l"
  for rt :: "'w Runtime" and c :: "'w Controller" and cx b l
  by unfold_locales (simp_all add: leading_Switch leading_acquire leading_fields)

end
