(* ===== verification/HA_Election.thy ===== *)
theory HA_Election
  imports HA_Probe_Laws
begin

text \<open>
  Leader election: \<open>Controller.Run\<close> and \<open>RunLeaderElection\<close> of the two stores.

  The election of etcd's \<open>concurrency\<close> package is a parameter (\<open>Election\<close>). The loop of
  \<open>EtcdStore.RunLeaderElection\<close> runs until its context ends, so it takes a bound on its turns:
  \<open>None\<close> is "still running". Every theorem holds for every bound. The context handed to the
  leader is cancelled with the session: \<open>Locked\<close>.
\<close>

section \<open>The elections\<close>

record 'e Election =
  el_Campaign :: "ctx \<Rightarrow> session \<Rightarrow> string \<Rightarrow> string \<Rightarrow> ('e, error option) state"
  el_Resign :: "ctx \<Rightarrow> session \<Rightarrow> string \<Rightarrow> ('e, unit) state"

definition leaderKey :: "EtcdStore \<Rightarrow> string" where
  "leaderKey p = es_prefix p @ ''/leader''"

definition Memory_RunLeaderElection ::
  "'w Runtime \<Rightarrow> ctx \<Rightarrow> string \<Rightarrow> (ctx \<Rightarrow> ('w sys, unit) state) \<Rightarrow> ('w sys, error option) state" where
  "Memory_RunLeaderElection rt c nid onLeader = do {
     onLeader c;
     ask (rt_ctxErr rt c)
   }"

text \<open>The error a failed attempt returns, if the context has ended; otherwise sleep and retry.\<close>

definition retryUnlessDone ::
  "'w Runtime \<Rightarrow> ctx \<Rightarrow> ('w sys, error option option) state \<Rightarrow> ('w sys, error option option) state" where
  "retryUnlessDone rt c again = do {
     err \<leftarrow> ask (rt_ctxErr rt c);
     if err \<noteq> None then do {
       e \<leftarrow> ask (rt_ctxErr rt c);
       State_Monad.return (Some e)
     }
     else again
   }"

primrec Etcd_RunLeaderElection ::
  "'w Runtime \<Rightarrow> 'w Etcd \<Rightarrow> 'w Election \<Rightarrow> EtcdStore \<Rightarrow> ctx \<Rightarrow> string \<Rightarrow>
    (ctx \<Rightarrow> ('w sys, unit) state) \<Rightarrow> nat \<Rightarrow> ('w sys, error option option) state" where
  "Etcd_RunLeaderElection rt E el p c nid onLeader 0 = State_Monad.return None"
| "Etcd_RunLeaderElection rt E el p c nid onLeader (Suc n) = retryUnlessDone rt c (do {
     r \<leftarrow> ask (etcd_NewSession E c 10);
     (case r of
        Inl err \<Rightarrow> retryUnlessDone rt c (Etcd_RunLeaderElection rt E el p c nid onLeader n)
      | Inr session \<Rightarrow> do {
          k \<leftarrow> call (el_Campaign el c session (leaderKey p) nid) (EvCampaign nid);
          (case k of
             Some err \<Rightarrow> do {
               ask (etcd_CloseSession E session);
               retryUnlessDone rt c (Etcd_RunLeaderElection rt E el p c nid onLeader n)
             }
           | None \<Rightarrow> do {
               onLeader (Locked c);
               call (el_Resign el Background session (leaderKey p)) (\<lambda>_. EvResign);
               ask (etcd_CloseSession E session);
               Etcd_RunLeaderElection rt E el p c nid onLeader n
             })
        })
   })"

text \<open>
  \<open>Controller.Run\<close> over the two stores. \<open>terms\<close> is the number of ticks each term of leadership
  serves.
\<close>

definition Run_Memory ::
  "'w Runtime \<Rightarrow> 'w Controller \<Rightarrow> ctx \<Rightarrow> nat \<Rightarrow> ('w sys, error option) state" where
  "Run_Memory rt c cx ticks = Memory_RunLeaderElection rt cx (cfg_ControllerID (c_cfg c))
     (\<lambda>leaderCtx. runAsLeader rt c leaderCtx ticks)"

definition Run_Etcd ::
  "'w Runtime \<Rightarrow> 'w Etcd \<Rightarrow> 'w Election \<Rightarrow> EtcdStore \<Rightarrow> 'w Controller \<Rightarrow> ctx \<Rightarrow> nat \<Rightarrow> nat \<Rightarrow>
    ('w sys, error option option) state" where
  "Run_Etcd rt E el p c cx ticks turns =
     Etcd_RunLeaderElection rt E el p cx (cfg_ControllerID (c_cfg c))
       (\<lambda>leaderCtx. runAsLeader rt c leaderCtx ticks) turns"

section \<open>Invariants of a controller's life\<close>

lemma retryUnlessDone_maintains [maintains]:
  assumes "\<And>s w. I s \<Longrightarrow> I (s\<lparr>world := w\<rparr>)" "maintains I again"
  shows "maintains I (retryUnlessDone rt c again)"
  unfolding retryUnlessDone_def by (intro maintains assms)

text \<open>
  An election calls \<open>onLeader\<close> any number of times, between a won campaign and a resignation: it
  keeps what \<open>onLeader\<close> and the events of an election keep.
\<close>

locale election_invariant =
  fixes I :: "'w sys \<Rightarrow> bool" and onLeader :: "ctx \<Rightarrow> ('w sys, unit) state"
  assumes lead: "maintains I (onLeader cx)"
    and quiet: "I s \<Longrightarrow> I (s\<lparr>world := w\<rparr>)"
    and campaign: "I s \<Longrightarrow> I (s\<lparr>world := w, hist := hist s @ [EvCampaign nid r]\<rparr>)"
    and resign: "I s \<Longrightarrow> I (s\<lparr>world := w, hist := hist s @ [EvResign]\<rparr>)"
begin

lemma memory_election: "maintains I (Memory_RunLeaderElection rt cx nid onLeader)"
  unfolding Memory_RunLeaderElection_def by (intro maintains lead quiet)

lemma etcd_election: "maintains I (Etcd_RunLeaderElection rt E el p cx nid onLeader n)"
proof (induction n)
  case (Suc n)
  then show ?case
    by (auto intro!: maintains lead quiet campaign resign)
qed (simp add: maintains)

end

interpretation protocol_election: election_invariant
  "\<lambda>s. follows q (hist s) = Some Idle" "\<lambda>leaderCtx. runAsLeader rt c leaderCtx ticks"
  for rt :: "'w Runtime" and c :: "'w Controller" and ticks q
  by unfold_locales (auto intro: protocol.runAsLeader_term)

interpretation reports_election: election_invariant
  "onlyReports (c_cfg c) es" "\<lambda>leaderCtx. runAsLeader rt c leaderCtx ticks"
  for rt :: "'w Runtime" and c :: "'w Controller" and ticks es
  by unfold_locales
    (auto simp: onlyReports_def intervening_def intro: reports.runAsLeader_term)

text \<open>Between two terms a controller is not a leader, and then it calls nobody.\<close>

definition called :: "'w sys \<Rightarrow> 'w \<times> event list" where
  "called s = (world s, hist s)"

lemma wp_acquire_leading:
  assumes "leading b l s" and "\<And>t. leading b l t \<Longrightarrow> called t = called s \<Longrightarrow> Q () t"
  shows "wp acquire Q s"
  using assms unfolding wp_acquire_run
  by (auto simp: leading_def leadershipKept_def called_def)

lemma refuses:
  assumes "leading False None s"
  shows "wp (Switch rt c cx target automatic) (\<lambda>r t. fst r = None \<and> snd r \<noteq> None \<and> called t = called s) s"
    "wp (SetAutoFailover rt c cx enabled) (\<lambda>r t. r \<noteq> None \<and> called t = called s) s"
  unfolding Switch_def SetAutoFailover_def IsLeader_def
  by (auto simp: wp intro!: wp_acquire_leading [OF assms]) (simp_all add: leading_def)

lemma leading_set:
  "leading b l s \<Longrightarrow> leading b' l (s\<lparr>ctl := (ctl s)\<lparr>v_leader := b'\<rparr>\<rparr>)"
  "leading b l s \<Longrightarrow> leading b l' (s\<lparr>ctl := (ctl s)\<lparr>v_leaderCtx := l'\<rparr>\<rparr>)"
  by (simp_all add: leading_def)

lemma runAsLeader_steps_down:
  assumes "leading b l s"
  shows "wp (runAsLeader rt c cx ticks) (\<lambda>_. leading False None) s"
  unfolding runAsLeader_def wp
  by (rule wp_acquire_leading [OF assms], rule wp_acquire_leading [OF leading_set(1)], assumption,
    rule wp_maintains [OF leadership.probe_loop leading_set(2)], assumption,
    rule wp_maintains [OF leadership.probeTicks_loop], assumption,
    rule wp_acquire_leading, assumption, rule wp_acquire_leading [OF leading_set(2)], assumption,
    rule leading_set(1), assumption)

interpretation term_election: election_invariant
  "leading False None" "\<lambda>leaderCtx. runAsLeader rt c leaderCtx ticks"
  for rt :: "'w Runtime" and c :: "'w Controller" and ticks
  by unfold_locales (auto intro!: maintainsI runAsLeader_steps_down)

section \<open>An election ends with its context\<close>

text \<open>
  \<open>left\<close> is the time left until the deadline of a context. What is assumed is what the package
  \<open>context\<close> documents, that a context past its deadline has an error and keeps it, and that time
  only runs forward, by at least one unit while a session is asked for. The number of turns the
  loop then makes is at most the time that was left.
\<close>

locale election_deadline =
  fixes rt :: "'w Runtime" and E :: "'w Etcd" and el :: "'w Election" and cx :: ctx
    and left :: "'w \<Rightarrow> nat" and onLeader :: "ctx \<Rightarrow> ('w sys, unit) state"
  assumes checked: "wp (rt_ctxErr rt cx) (\<lambda>e w'. left w' \<le> left w \<and> (left w = 0 \<longrightarrow> e \<noteq> None) \<and>
      (e \<noteq> None \<longrightarrow> wp (rt_ctxErr rt cx) (\<lambda>e' _. e' \<noteq> None) w')) w"
    and session: "wp (etcd_NewSession E cx ttl) (\<lambda>_ w'. left w' \<le> left w - 1) w"
    and campaign: "wp (el_Campaign el cx x k nid) (\<lambda>_ w'. left w' \<le> left w) w"
    and resign: "wp (el_Resign el Background x k) (\<lambda>_ w'. left w' \<le> left w) w"
    and close: "wp (etcd_CloseSession E x) (\<lambda>_ w'. left w' \<le> left w) w"
    and lead: "wp (onLeader l) (\<lambda>_ t. left (world t) \<le> left (world s)) s"
begin

lemma retry_returns:
  assumes "\<And>t. 0 < left (world s) \<Longrightarrow> left (world t) \<le> left (world s) \<Longrightarrow>
      wp again (\<lambda>r _. \<exists>err. r = Some (Some err)) t"
  shows "wp (retryUnlessDone rt cx again) (\<lambda>r _. \<exists>err. r = Some (Some err)) s"
  unfolding retryUnlessDone_def wp wp_ask_run
  by (rule wp_mono [OF checked]) (auto intro: assms elim: wp_mono)

lemma election_returns:
  "left (world s) < n \<Longrightarrow>
    wp (Etcd_RunLeaderElection rt E el p cx nid onLeader n) (\<lambda>r _. \<exists>err. r = Some (Some err)) s"
proof (induction n arbitrary: s)
  case (Suc n)
  have again: "wp (Etcd_RunLeaderElection rt E el p cx nid onLeader n) (\<lambda>r _. \<exists>err. r = Some (Some err)) t"
    if "left (world t) \<le> left (world s) - 1" "0 < left (world s)" for t
    using Suc that by auto
  then have retry: "wp (retryUnlessDone rt cx (Etcd_RunLeaderElection rt E el p cx nid onLeader n))
      (\<lambda>r _. \<exists>err. r = Some (Some err)) t"
    if "left (world t) \<le> left (world s) - 1" "0 < left (world s)" for t
    by (rule retry_returns) (use that in auto)
  show ?case
    unfolding Etcd_RunLeaderElection.simps
  proof (rule retry_returns, goal_cases)
    case (1 t)
    then show ?case
      by (auto simp: wp wp_ask_run wp_call_run split: sum.splits option.splits
        intro!: wp_mono [OF session] wp_mono [OF campaign] wp_mono [OF close] wp_mono [OF lead]
          wp_mono [OF resign] retry again)
  qed
qed simp
end

end
