(* ===== verification/HA_Api.thy ===== *)
theory HA_Api
  imports HA_Probe
begin

text \<open>
  \<open>internal/api/server.go\<close>: the controller's HTTP interface. The handlers run over the
  controller's \<open>sys\<close>. \<open>encoding/json\<close> writes the members of a map sorted by key, which the
  bodies spell out; a nil pointer is \<open>null\<close>. \<open>/metrics\<close> is the Prometheus client's handler, a
  parameter. A request served by \<open>net/http\<close> always has a body to read: no body (\<open>None\<close>) reads
  as an empty one.
\<close>

definition api_writeJSON :: "(json \<Rightarrow> string) \<Rightarrow> int \<Rightarrow> json \<Rightarrow> Response" where
  "api_writeJSON render status value =
     \<lparr>rsp_Code = status, rsp_Doc = Doc value, rsp_Text = render value, rsp_ReadErr = None\<rparr>"

definition api_writeError :: "(json \<Rightarrow> string) \<Rightarrow> error \<Rightarrow> Response" where
  "api_writeError render err = api_writeJSON render 500 (JObj [(''error'', JStr err)])"

definition encTaskPtr :: "SwitchTask option \<Rightarrow> json" where
  "encTaskPtr t = (case t of None \<Rightarrow> JNull | Some task \<Rightarrow> encSwitchTask task)"

definition encStatuses :: "(string, NodeStatus) gomap \<Rightarrow> json" where
  "encStatuses m = JObj (map (\<lambda>k. (k, encNodeStatus (lookupStatus m k))) (sort (map fst m)))"

definition api_health :: "(json \<Rightarrow> string) \<Rightarrow> Request \<Rightarrow> ('w sys, Response) state" where
  "api_health render r =
     State_Monad.return (api_writeJSON render 200 (JObj [(''status'', JStr ''ok'')]))"

definition api_status ::
  "(json \<Rightarrow> string) \<Rightarrow> 'w Controller \<Rightarrow> Request \<Rightarrow> ('w sys, Response) state" where
  "api_status render c r = do {
     (state, statuses, task, err) \<leftarrow> Status c;
     (case err of
        Some e \<Rightarrow> State_Monad.return (api_writeError render e)
      | None \<Rightarrow> do {
          leader \<leftarrow> IsLeader;
          State_Monad.return (api_writeJSON render 200 (JObj
            [(''cluster'', encClusterState state), (''is_leader'', JBool leader),
             (''last_task'', encTaskPtr task), (''nodes'', encStatuses statuses)]))
        })
   }"

definition api_tasks ::
  "(json \<Rightarrow> string) \<Rightarrow> 'w Controller \<Rightarrow> Request \<Rightarrow> ('w sys, Response) state" where
  "api_tasks render c r = do {
     t \<leftarrow> Tasks c (rq_ctx r) 50;
     State_Monad.return (case t of
         Inl err \<Rightarrow> api_writeError render err
       | Inr tasks \<Rightarrow> api_writeJSON render 200 (JArr (map encSwitchTask tasks)))
   }"

text \<open>The anonymous request structs of \<open>switchover\<close> and \<open>autoFailover\<close>.\<close>

definition decTarget :: "string \<Rightarrow> json \<Rightarrow> error + string" where
  "decTarget = decStruct False ''struct'' [field ''target'' decString (\<lambda>x. x) (\<lambda>v _. v)]"

definition decEnabled :: "bool \<Rightarrow> json \<Rightarrow> error + bool" where
  "decEnabled = decStruct False ''struct'' [field ''enabled'' decBool (\<lambda>x. x) (\<lambda>v _. v)]"

definition api_switchover ::
  "(json \<Rightarrow> string) \<Rightarrow> 'w Runtime \<Rightarrow> 'w Controller \<Rightarrow> Request \<Rightarrow> ('w sys, Response) state" where
  "api_switchover render rt c r =
     (case (case rq_Body r of None \<Rightarrow> Inl ''EOF'' | Some d \<Rightarrow> unmarshal decTarget '''' d) of
        Inl _ \<Rightarrow> State_Monad.return
          (api_writeJSON render 400 (JObj [(''error'', JStr ''invalid JSON request'')]))
      | Inr target \<Rightarrow>
          if target = ''''
          then State_Monad.return
            (api_writeJSON render 400 (JObj [(''error'', JStr ''target is required'')]))
          else do {
            (task, err) \<leftarrow> Switch rt c (rq_ctx r) target False;
            State_Monad.return (case err of
                Some e \<Rightarrow> api_writeJSON render 409
                  (JObj [(''error'', JStr e), (''task'', encTaskPtr task)])
              | None \<Rightarrow> api_writeJSON render 202 (encTaskPtr task))
          })"

definition api_autoFailover ::
  "(json \<Rightarrow> string) \<Rightarrow> 'w Runtime \<Rightarrow> 'w Controller \<Rightarrow> Request \<Rightarrow> ('w sys, Response) state" where
  "api_autoFailover render rt c r =
     (case (case rq_Body r of None \<Rightarrow> Inl ''EOF'' | Some d \<Rightarrow> unmarshal decEnabled False d) of
        Inl err \<Rightarrow> State_Monad.return (api_writeError render err)
      | Inr enabled \<Rightarrow> do {
          e \<leftarrow> SetAutoFailover rt c (rq_ctx r) enabled;
          State_Monad.return (case e of
              Some err \<Rightarrow> api_writeError render err
            | None \<Rightarrow> api_writeJSON render 200 (JObj [(''enabled'', JBool enabled)]))
        })"

definition api_Handler ::
  "(json \<Rightarrow> string) \<Rightarrow> (Request \<Rightarrow> ('w sys, Response) state) \<Rightarrow> 'w Runtime \<Rightarrow> 'w Controller \<Rightarrow>
    string \<Rightarrow> Request \<Rightarrow> ('w sys, Response) state" where
  "api_Handler render metrics rt c = serveMux
     [(''GET'', ''/healthz'', api_health render),
      (''GET'', ''/api/v1/status'', api_status render c),
      (''GET'', ''/api/v1/tasks'', api_tasks render c),
      (''POST'', ''/api/v1/switchover'', api_switchover render rt c),
      (''POST'', ''/api/v1/auto-failover'', api_autoFailover render rt c),
      ('''', ''/metrics'', metrics)]"

section \<open>A read changes nothing\<close>

text \<open>Only other goroutines wrote fields, and only the cluster state was read.\<close>

definition onlyReads :: "'w sys \<Rightarrow> 'w sys \<Rightarrow> bool" where
  "onlyReads s t \<longleftrightarrow> othersOnly s t \<and>
    (\<exists>es. hist t = hist s @ es \<and> list_all (\<lambda>e. case e of EvGet _ \<Rightarrow> True | _ \<Rightarrow> False) es)"

lemma onlyReads_refl: "onlyReads s s"
  by (simp add: onlyReads_def othersOnly_refl)

lemma onlyReads_rules:
  "maintains (onlyReads s) acquire" "maintains (onlyReads s) (call m EvGet)"
  "maintains (onlyReads s) (ask m')"
  by (auto simp: onlyReads_def wp_acquire_run intro!: maintainsI wp_call_any wp_ask_any othersOnly_next)

lemma handlers_read:
  "maintains (onlyReads s) (api_health render r)" "maintains (onlyReads s) (api_status render c r)"
  "maintains (onlyReads s) (api_tasks render c r)"
  unfolding api_health_def api_status_def api_tasks_def Status_def Tasks_def IsLeader_def
  by (auto intro!: onlyReads_rules maintains_bind maintains_return maintains_field_of
    maintains_case_option maintains_case_prod)

end
