(* ===== verification/HA_Service.thy ===== *)
theory HA_Service
  imports HA_Election HA_Api
begin

text \<open>
  A goroutine of a running controller: the operations it calls, in any order, over fields that the
  other goroutines (the leader's loop, the election, other requests) change whenever this one does
  not hold the mutex, and over a world that changes behind its collaborators (other controllers,
  agents, an operator at the MySQL prompt). A step is one operation, or whatever the others do
  before the next.
\<close>

inductive serve :: "'w Runtime \<Rightarrow> 'w Controller \<Rightarrow> 'w sys \<Rightarrow> 'w sys \<Rightarrow> bool"
  for rt c where
  environment: "serve rt c s (s\<lparr>others := p, ctl := v, world := w\<rparr>)"
| leads: "serve rt c s (snd (run_state (runAsLeader rt c cx ticks) s))"
| tick: "serve rt c s (snd (run_state (probe rt c cx) s))"
| request: "serve rt c s
    (snd (run_state (api_Handler render (\<lambda>r. ask (metrics r)) rt c path r) s))"

abbreviation serves :: "'w Runtime \<Rightarrow> 'w Controller \<Rightarrow> 'w sys \<Rightarrow> 'w sys \<Rightarrow> bool" where
  "serves rt c \<equiv> (serve rt c)\<^sup>*\<^sup>*"

lemma serveMux_maintains:
  assumes "\<And>m p h. (m, p, h) \<in> set routes \<Longrightarrow> maintains I (h r)"
  shows "maintains I (serveMux routes path r)"
  using assms by (auto intro!: maintainsI wp_serveMux dest: maintainsD)

text \<open>What an invariant of all the controller's operations needs.\<close>

locale service_invariant = loop_invariant rt c cx I
  for rt :: "'w Runtime" and c :: "'w Controller" and cx :: ctx and I :: "'w sys \<Rightarrow> bool" +
  assumes manual: "maintains I (Switch rt c cx' target False)"
    and toggle: "maintains I (SetAutoFailover rt c cx' enabled)"
begin

lemma handler_service: "maintains I (api_Handler render (\<lambda>r. ask (metrics r)) rt c path r)"
  unfolding api_Handler_def
proof (rule serveMux_maintains)
  fix m p h
  assume "(m, p, h) \<in> set
    [(''GET'', ''/healthz'', api_health render),
     (''GET'', ''/api/v1/status'', api_status render c),
     (''GET'', ''/api/v1/tasks'', api_tasks render c),
     (''POST'', ''/api/v1/switchover'', api_switchover render rt c),
     (''POST'', ''/api/v1/auto-failover'', api_autoFailover render rt c),
     ('''', ''/metrics'', \<lambda>r. ask (metrics r))]"
  then show "maintains I (h r)"
    by (auto simp: api_health_def api_status_def api_tasks_def api_switchover_def
        api_autoFailover_def Status_def Tasks_def IsLeader_def
      intro!: maintains other manual toggle inert event)
qed

end

interpretation protocol_service: service_invariant rt c cx "\<lambda>s. follows p (hist s) = Some Idle"
  for rt :: "'w Runtime" and c :: "'w Controller" and cx p
  by unfold_locales (auto intro!: maintainsI Switch_follows SetAutoFailover_follows)

lemma serve_follows:
  assumes "serves rt c s t" "follows p (hist s) = Some Idle"
  shows "follows p (hist t) = Some Idle"
  using assms
proof (induction rule: rtranclp_induct)
  case (step t u)
  then have "follows p (hist t) = Some Idle" by simp
  with step.hyps(2) show ?case
    by cases (auto intro: maintains_run [OF protocol_service.handler_service]
      maintains_run [OF protocol.probe_loop] maintains_run [OF protocol.runAsLeader_term])
qed simp

end
