(* ===== verification/HA_Operation.thy ===== *)
theory HA_Operation
  imports HA_Cluster HA_Service
begin

text \<open>
  The whole service of a controller over a fleet: requests, probes with their automatic failovers,
  and changes of leadership, one after another. As long as every promotion that was attempted was
  also recorded, at most the recorded primary accepts writes.
\<close>

section \<open>One writer\<close>

text \<open>At most the recorded primary is open.\<close>

definition recorded :: "('w \<Rightarrow> ClusterState) \<Rightarrow> ('w \<Rightarrow> string \<Rightarrow> bool) \<Rightarrow> 'w sys \<Rightarrow> bool" where
  "recorded cl rw s \<longleftrightarrow> onlyWriter rw (world s) (cs_Primary (cl (world s)))"

text \<open>Nothing was promoted, or a cluster state was stored.\<close>

definition accounted :: "event list \<Rightarrow> bool" where
  "accounted h \<longleftrightarrow> (attempted h \<longrightarrow> committed h)"

text \<open>
  A step of the service without interference in the world: an operation, with a history of its own,
  or what other goroutines do to the fields, changes of leadership among it.
\<close>

inductive operate :: "'w Runtime \<Rightarrow> 'w Controller \<Rightarrow> ('w \<Rightarrow> 'a) \<Rightarrow> 'w sys \<Rightarrow> 'w sys \<Rightarrow> bool"
  for rt c f where
  fields: "operate rt c f s (s\<lparr>others := p, ctl := v\<rparr>)"
| tick: "t = snd (run_state (probe rt c cx) (s\<lparr>hist := []\<rparr>)) \<Longrightarrow> accounted (hist t) \<Longrightarrow>
    operate rt c f s t"
| request: "t = snd (run_state (api_Handler render (\<lambda>r. ask (metrics r)) rt c path r) (s\<lparr>hist := []\<rparr>)) \<Longrightarrow>
    (\<And>r. keeps f (metrics r)) \<Longrightarrow> accounted (hist t) \<Longrightarrow> operate rt c f s t"

section \<open>What the controller relies on\<close>

locale operated_fleet = fleet rt c cl rw
  for rt :: "'w Runtime" and c :: "'w Controller"
    and cl :: "'w \<Rightarrow> ClusterState" and rw :: "'w \<Rightarrow> string \<Rightarrow> bool" +
  assumes put: "run_state (s_PutCluster (c_store c) cx x) w = (q, w') \<Longrightarrow>
      rw w' = rw w \<and> (cl w' = x \<or> q \<noteq> None \<and> cl w' = cl w)"
    and lock: "keeps (\<lambda>w. (rw w, cl w)) (s_AcquireLock (c_store c) cx h ttl)"
    and unlock: "run_state (s_AcquireLock (c_store c) cx h ttl) w = (Inr (cx', rel), w') \<Longrightarrow>
      keeps (\<lambda>w. (rw w, cl w)) rel"
    and tasks: "keeps (\<lambda>w. (rw w, cl w)) (s_ListTasks (c_store c) cx k)"
    and unnamed: "\<not> rw w ''''"
begin

text \<open>At most the recorded primary is open, and nothing was promoted or stored yet.\<close>

definition calm :: "'w sys \<Rightarrow> bool" where
  "calm s \<longleftrightarrow> recorded cl rw s \<and> \<not> attempted (hist s) \<and> \<not> committed (hist s)"

definition answered :: "'w sys \<Rightarrow> bool" where
  "answered s \<longleftrightarrow> (accounted (hist s) \<longrightarrow> recorded cl rw s)"

lemma calm_answered: "calm s \<Longrightarrow> answered s"
  by (simp add: calm_def answered_def)

lemma calm_frame:
  "calm s \<Longrightarrow> rw w = rw (world s) \<Longrightarrow> cs_Primary (cl w) = cs_Primary (cl (world s)) \<Longrightarrow>
    calm (s\<lparr>world := w\<rparr>)"
  "calm s \<Longrightarrow> rw w = rw (world s) \<Longrightarrow> cs_Primary (cl w) = cs_Primary (cl (world s)) \<Longrightarrow>
    \<not> isPromote e \<Longrightarrow> \<not> isCommit e \<Longrightarrow> calm (s\<lparr>world := w, hist := hist s @ [e]\<rparr>)"
  "calm s \<Longrightarrow> calm (s\<lparr>ctl := v\<rparr>)"
  "calm s \<Longrightarrow> calm (s\<lparr>others := p, ctl := v\<rparr>)"
  "calm s \<Longrightarrow> \<not> isPromote e \<Longrightarrow> \<not> isCommit e \<Longrightarrow> calm (s\<lparr>hist := hist s @ [e]\<rparr>)"
  by (simp_all add: calm_def recorded_def onlyWriter_def)

lemma calm_call:
  "keeps (\<lambda>w. (rw w, cl w)) m \<Longrightarrow> (\<And>a. \<not> isPromote (ev a)) \<Longrightarrow> (\<And>a. \<not> isCommit (ev a)) \<Longrightarrow>
    maintains calm (call m ev)"
  by (auto intro!: maintainsI call_keeps calm_frame)

lemma calm_ask: "keeps (\<lambda>w. (rw w, cl w)) m \<Longrightarrow> maintains calm (ask m)"
  by (auto intro!: maintainsI ask_keeps calm_frame)

lemma calm_assign: "maintains calm (assign f)"
  by (auto simp: wp intro!: maintainsI calm_frame)

lemma calm_acquire: "maintains calm acquire"
  by (auto intro!: maintains_acquire calm_frame)

lemma calm_record: "\<not> isPromote e \<Longrightarrow> \<not> isCommit e \<Longrightarrow> maintains calm (record_event e)"
  by (auto simp: wp intro!: maintainsI calm_frame)

lemma calm_alert: "maintains calm (sendAlert c cx x y z)"
  unfolding sendAlert_def by (intro maintains calm_call send_keeps) simp_all

lemma calm_get: "maintains calm (call (s_GetCluster (c_store c) cx) EvGet)"
  by (auto intro!: maintainsI call_get calm_frame)

lemma calm_status: "map_of (c_clients c) n = Some node \<Longrightarrow> maintains calm (call (n_Status node cx) (EvStatus n))"
  by (auto intro!: maintainsI call_node(4) calm_frame)

lemmas calm_rules = maintains calm_ask [OF runtime(1)] calm_ask [OF runtime(2)]
  calm_ask [OF runtime(3)] calm_ask [OF tasks] calm_acquire calm_assign calm_record calm_alert calm_get calm_status

section \<open>The operations\<close>

lemma calm_leaderBoundContext: "maintains calm (leaderBoundContext rt cx)"
  unfolding leaderBoundContext_def by (auto intro!: calm_rules)

lemma calm_choose:
  "maintains calm (chooseTarget rt c p)" "maintains calm (chooseDryRunTarget rt p)"
  "maintains calm (detectPrimary rt)"
  unfolding chooseTarget_def chooseDryRunTarget_def detectPrimary_def by (auto intro!: calm_rules)

lemma calm_probeAll: "maintains calm (probeAll c cx ids)"
proof (induction ids)
  case (Cons n ids)
  then show ?case
    by (cases "map_of (c_clients c) n") (auto simp: probeNode_def intro!: calm_rules)
qed (simp add: maintains)

lemma calm_sendAlerts: "maintains calm (sendAlerts c cx es)"
  by (induction es) (auto intro!: calm_rules)

text \<open>An operation that ends a calm state in one where the record is right, if it was accounted for.\<close>

definition answers :: "('w sys, 'a) state \<Rightarrow> bool" where
  "answers m \<longleftrightarrow> (\<forall>s. calm s \<longrightarrow> wp m (\<lambda>_. answered) s)"

lemma calm_answers: "maintains calm m \<Longrightarrow> answers m"
  unfolding answers_def maintains_def by (blast intro: wp_mono calm_answered)

lemma answers_bind:
  "maintains calm m \<Longrightarrow> (\<And>a. answers (f a)) \<Longrightarrow> answers (State_Monad.bind m f)"
  unfolding answers_def maintains_def wp_bind by (blast intro: wp_mono)

lemma answers_return: "answers m \<Longrightarrow> answers (do { r \<leftarrow> m; State_Monad.return (g r) })"
  unfolding answers_def by (auto simp: wp elim: wp_mono)

lemma Switch_answers: "answers (Switch rt c cx target automatic)"
  unfolding answers_def
proof (intro allI impI)
  fix s
  assume "calm s"
  then have "wp (Switch rt c cx target automatic) (\<lambda>r. unsplit cl rw (cl (world s)) (snd r)) s"
    by (intro Switch_unsplit) (simp_all add: calm_def recorded_def)
  then show "wp (Switch rt c cx target automatic) (\<lambda>_. answered) s"
    by (rule wp_mono)
      (auto simp: unsplit_def untouched_def promotedTo_def answered_def accounted_def recorded_def)
qed

lemma answers_unlock:
  assumes "keeps (\<lambda>w. (rw w, cl w)) rel" and "answered s"
  shows "wp (call rel (\<lambda>_. EvRelease)) (\<lambda>_. answered) s"
  using assms
  by (auto intro!: call_keeps simp: answered_def accounted_def recorded_def onlyWriter_def)

lemma call_lock:
  assumes "\<And>l w'. rw w' = rw (world s) \<Longrightarrow> cl w' = cl (world s) \<Longrightarrow>
      (\<And>cx' rel. l = Inr (cx', rel) \<Longrightarrow> keeps (\<lambda>w. (rw w, cl w)) rel) \<Longrightarrow>
      Q l (s\<lparr>world := w', hist := hist s @ [ev l]\<rparr>)"
  shows "wp (call (s_AcquireLock (c_store c) cx h ttl) ev) Q s"
  unfolding wp_call_run
proof (rule wp_run_rule, rule assms)
  fix l w'
  assume run: "run_state (s_AcquireLock (c_store c) cx h ttl) (world s) = (l, w')"
  from keepsD [OF lock run] show "rw w' = rw (world s)" "cl w' = cl (world s)" by simp_all
  show "keeps (\<lambda>w. (rw w, cl w)) rel" if "l = Inr (cx', rel)" for cx' rel
    using unlock run that by blast
qed

text \<open>Storing a state that names the recorded primary.\<close>

lemma toggled:
  assumes "calm s" and "cs_Primary x = cs_Primary (cl (world s))"
  shows "wp (call (s_PutClusterIfEpoch (c_store c) cx e x) (EvCas e x)) (\<lambda>_. answered) s"
  using assms
  by (auto intro!: call_cas simp: calm_def answered_def recorded_def onlyWriter_def)

lemma SetAutoFailover_answers: "answers (SetAutoFailover rt c cx enabled)"
  unfolding answers_def
proof (intro allI impI)
  fix s
  assume "calm s"
  then show "wp (SetAutoFailover rt c cx enabled) (\<lambda>_. answered) s"
    unfolding SetAutoFailover_def IsLeader_def
    by (auto simp: wp calm_answered calm_frame split: option.splits sum.splits
      intro!: wp_maintains [OF calm_acquire] wp_maintains [OF calm_leaderBoundContext] call_lock call_get ask_keeps [OF runtime(1)]
        wp_mono [OF toggled] answers_unlock)
      (simp_all add: calm_def answered_def recorded_def onlyWriter_def)
qed

lemma Switch_then: "answers (do { r \<leftarrow> Switch rt c cx target automatic; State_Monad.return (g r) })"
  by (rule answers_return [OF Switch_answers])

lemma answers_if: "answers m \<Longrightarrow> answers n \<Longrightarrow> answers (if b then m else n)"
  by simp

lemma answers_case_option:
  "answers m \<Longrightarrow> (\<And>x. answers (f x)) \<Longrightarrow> answers (case r of None \<Rightarrow> m | Some x \<Rightarrow> f x)"
  by (simp split: option.splits)

lemma answers_case_sum:
  "(\<And>e. answers (g e)) \<Longrightarrow> (\<And>x. answers (f x)) \<Longrightarrow> answers (case r of Inl e \<Rightarrow> g e | Inr x \<Rightarrow> f x)"
  by (simp split: sum.splits)

lemma answers_plain: "answers (State_Monad.return x)" "answers (assign f)"
  by (intro calm_answers calm_rules)+

lemmas answers_rules = Switch_then answers_plain answers_if answers_case_option answers_case_sum
  answers_bind

lemma tryAutomaticFailover_answers: "answers (tryAutomaticFailover rt c cx primary)"
  unfolding tryAutomaticFailover_def isTripping_def failoverTarget_def
  by (intro answers_rules maintains_if maintains_bind calm_choose calm_acquire maintains_field_of)

text \<open>Where no primary is recorded no node is open, so any may be adopted.\<close>

lemma calm_adopt:
  assumes "calm s" and "cs_Primary (cl (world s)) = ''''"
  shows "wp (call (s_PutCluster (c_store c) cx x) (EvPutCluster x)) (\<lambda>_. calm) s"
proof -
  have none: "\<not> rw (world s) m" for m
    using assms unnamed [of "world s"] by (auto simp: calm_def recorded_def onlyWriter_def)
  show ?thesis
    unfolding wp_call_run
  proof (rule wp_run_rule)
    fix q w'
    assume "run_state (s_PutCluster (c_store c) cx x) (world s) = (q, w')"
    from put [OF this] none assms(1) show "calm (s\<lparr>world := w', hist := hist s @ [EvPutCluster x q]\<rparr>)"
      by (auto simp: calm_def recorded_def onlyWriter_def)
  qed
qed

lemma wp_detectPrimary_keeps:
  assumes "\<And>r p v w. rw w = rw (world t) \<Longrightarrow> cl w = cl (world t) \<Longrightarrow>
      Q r (t\<lparr>others := p, ctl := v, world := w\<rparr>)"
  shows "wp (detectPrimary rt) Q t"
  using assms unfolding detectPrimary_def by (auto simp: wp intro!: keep_rules)

lemma answersD: "answers m \<Longrightarrow> calm s \<Longrightarrow> wp m (\<lambda>_. answered) s"
  by (simp add: answers_def)

lemma probe_answers: "answers (probe rt c cx)"
  unfolding answers_def
proof (intro allI impI)
  fix s
  assume "calm s"
  then show "wp (probe rt c cx) (\<lambda>_. answered) s"
    unfolding probe_def adoptPrimary_def
    by (auto simp: wp calm_answered calm_frame split: sum.splits
      intro!: wp_maintains [OF calm_acquire] ask_keeps [OF runtime(3)] ask_keeps [OF runtime(1)]
        wp_maintains [OF calm_probeAll]
        wp_maintains [OF calm_sendAlerts] call_get wp_detectPrimary_keeps wp_mono [OF calm_adopt]
        answersD [OF tryAutomaticFailover_answers])
qed

lemma handlers_answer:
  "answers (api_health render r)" "answers (api_status render c r)" "answers (api_tasks render c r)"
  "answers (api_switchover render rt c r)" "answers (api_autoFailover render rt c r)"
proof -
  show "answers (api_health render r)" "answers (api_status render c r)" "answers (api_tasks render c r)"
    unfolding api_health_def api_status_def api_tasks_def Status_def Tasks_def IsLeader_def
    by (auto intro!: calm_answers calm_rules)
  show "answers (api_switchover render rt c r)"
    unfolding api_switchover_def case_prod_beta by (intro answers_rules)
  show "answers (api_autoFailover render rt c r)"
    unfolding api_autoFailover_def
    by (intro answers_case_sum answers_plain answers_return SetAutoFailover_answers)
qed

lemma handler_answers:
  assumes "\<And>r. keeps (\<lambda>w. (rw w, cl w)) (metrics r)"
  shows "answers (api_Handler render (\<lambda>r. ask (metrics r)) rt c path r)"
  unfolding answers_def api_Handler_def
proof (intro allI impI, rule wp_serveMux, goal_cases)
  case (1 s m p h)
  then have "answers (h r)"
    using calm_answers [OF calm_ask [OF assms]] by (auto intro: handlers_answer)
  with 1(1) show ?case by (simp add: answers_def)
qed (simp add: calm_answered)

lemma operate_recorded:
  assumes "operate rt c (\<lambda>w. (rw w, cl w)) s t" and "recorded cl rw s"
  shows "recorded cl rw t"
  using assms(1)
proof cases
  case (tick cx)
  have "calm (s\<lparr>hist := []\<rparr>)" using assms(2) by (simp add: calm_def recorded_def)
  from answersD [OF probe_answers this] tick show ?thesis by (simp add: wp_run answered_def)
next
  case (request render metrics path r)
  have "calm (s\<lparr>hist := []\<rparr>)" using assms(2) by (simp add: calm_def recorded_def)
  from answersD [OF handler_answers this] request show ?thesis by (simp add: wp_run answered_def)
qed (use assms(2) in \<open>simp_all add: recorded_def\<close>)

lemma operates_recorded:
  "(operate rt c (\<lambda>w. (rw w, cl w)))\<^sup>*\<^sup>* s t \<Longrightarrow> recorded cl rw s \<Longrightarrow> recorded cl rw t"
  by (induction rule: rtranclp_induct) (auto intro: operate_recorded)

end

section \<open>An installation is operated\<close>

lemma addNodes_named:
  assumes "addNodes rt tls http cfg c nodes = Inr c'" and "'''' \<notin> set (map fst (c_clients c))"
  shows "'''' \<notin> set (map fst (c_clients c'))"
  using assms
proof (induction nodes arbitrary: c)
  case (Cons node nodes)
  from Cons.prems obtain client where nid: "anc_ID node \<noteq> ''''" and rest: "addNodes rt tls http cfg
      (c\<lparr>c_clients := AList.update (anc_ID node) (clientNode rt client) (c_clients c),
         c_configs := AList.update (anc_ID node) node (c_configs c)\<rparr>) nodes = Inr c'"
    by (auto split: if_splits sum.splits)
  show ?case
    by (rule Cons.IH [OF rest]) (use nid Cons.prems(2) in \<open>simp add: update_keys\<close>)
qed simp

sublocale installation \<subseteq> op: operated_fleet rt c "\<lambda>w. cl (pl_store w)"
  "acceptsWrites flags (set (map fst (c_clients c)))"
proof
  fix cx x w q w'
  assume "run_state (s_PutCluster (c_store c) cx x) w = (q, w')"
  then show "acceptsWrites flags (set (map fst (c_clients c))) w' =
      acceptsWrites flags (set (map fst (c_clients c))) w \<and>
      (cl (pl_store w') = x \<or> q \<noteq> None \<and> cl (pl_store w') = cl (pl_store w))"
    unfolding built by (rule plant_store.plant_put [OF plant])
next
  show "\<not> acceptsWrites flags (set (map fst (c_clients c))) w ''''" for w
  proof -
    have "'''' \<notin> set (map fst (c_clients c))"
      by (rule addNodes_named) (use new in \<open>auto simp: NewController_def split: if_splits\<close>)
    then show ?thesis unfolding acceptsWrites_def by blast
  qed
qed (auto simp: built intro!: keeps_observe plant_store.plant_lock [OF plant]
      plant_store.plant_unlock [OF plant] plant_store.plant_tasks [OF plant])

context installation
begin

lemmas one_writer = op.operates_recorded

lemmas operated = op.operated_fleet_axioms

end

end
