(* ===== verification/HA_Runs.thy ===== *)
theory HA_Runs
  imports HA_Reference HA_RefEtcd HA_Operation
begin

text \<open>
  Runs of the reference installation, computed in the logic: an operator's request over the
  controller's HTTP interface that switches from \<open>a\<close> to \<open>b\<close>, and the same while the store cannot
  write.
\<close>

section \<open>A switchover by request\<close>

definition refRequest :: "string \<Rightarrow> Request" where
  "refRequest target = \<lparr>rq_ctx = Background, rq_Method = ''POST'', rq_URL = ''/api/v1/switchover'',
     rq_Body = Some (Doc (JObj [(''target'', JStr target)]))\<rparr>"

definition refMetrics :: "Request \<Rightarrow> ('w, Response) state" where
  "refMetrics r = State_Monad.return
     \<lparr>rsp_Code = 200, rsp_Doc = Malformed, rsp_Text = '''', rsp_ReadErr = None\<rparr>"

definition refServed :: "MemoryStore Store \<Rightarrow> (MemoryStore, RefServer) plant sys" where
  "refServed store = snd (run_state (api_Handler (\<lambda>_. '''') (\<lambda>r. ask (refMetrics r))
     refClock (refController store) ''/api/v1/switchover'' (refRequest ''b'')) refStart)"

definition refAuth :: SwitchAuthorization where
  "refAuth = \<lparr>auth_OperationID = ''switch-'' @ showInt 1700000000000000000,
     auth_FromEpoch = 7, auth_ToEpoch = 8\<rparr>"

lemma refServed_served: "serves refClock (refController store) refStart (refServed store)"
  unfolding refServed_def by (intro r_into_rtranclp serve.request)

lemma decTarget_enc: "unmarshal decTarget '''' (Doc (JObj [(''target'', JStr g)])) = Inr g"
  by (simp add: unmarshal_def decTarget_def decStruct_def field_def lookupField_def decMembers.simps)

lemma refServed_run: "refServed store =
    snd (run_state (Switch refClock (refController store) Background ''b'' False) refStart)"
  unfolding refServed_def api_Handler_def serveMux_def api_switchover_def
  by (simp add: refRequest_def decTarget_enc split: prod.splits)

lemma refStart_hist: "hist refStart = []"
  by (simp add: refStart_def)

lemma refStart_alone: "alone refStart"
  by (simp add: refStart_def alone_def)

lemma refStart_writer:
  "onlyWriter (acceptsWrites ref_flags (set (map fst (c_clients (refController store))))) (world refStart)
    (cs_Primary (ms_cluster (pl_store (world refStart))))"
  by (simp add: onlyWriter_def acceptsWrites_def refStart_def refWorld_def refReplica_def
    refController_simps NewMemoryStore_def zeroClusterState_def)

text \<open>The reference installation is an operated fleet.\<close>

interpretation ref_operated: operated_fleet refClock "refController (memoryStore rng)"
  "\<lambda>w. ms_cluster (pl_store w)"
  "acceptsWrites ref_flags (set (map fst (c_clients (refController (memoryStore rng)))))" for rng
  by (rule installation.operated [OF ref.installation_axioms])

lemma refServed_outcome:
  "EvPromote ''b'' refAuth None \<in> set (hist (refServed (memoryStore rng)))"
  "cs_Primary (ms_cluster (pl_store (world (refServed (memoryStore rng))))) = ''b''"
  "cs_Epoch (ms_cluster (pl_store (world (refServed (memoryStore rng))))) = 8"
  "ref_flags (pl_server (world (refServed (memoryStore rng))) ''b'') = (False, False)"
  "ref_flags (pl_server (world (refServed (memoryStore rng))) ''a'') = (True, True)"
  "committed (hist (refServed (memoryStore rng)))"
  unfolding refServed_run
  by (simp_all add: run_switch run_memory run_data TrimSpace_gtid refNode_Address refAuth_def)

section \<open>Stores that fail or are shared\<close>

text \<open>
  A store that refuses tasks; and a store in which another client turns automatic failover on
  after the controller has read the cluster state and before it is granted the lock.
\<close>

definition fullStore :: "(SwitchTask list \<Rightarrow> SwitchTask list) \<Rightarrow> MemoryStore Store" where
  "fullStore rng = (memoryStore rng)\<lparr>s_PutTask := \<lambda>c t. State_Monad.return (Some ''database space exceeded'')\<rparr>"

definition sharedStore :: "(SwitchTask list \<Rightarrow> SwitchTask list) \<Rightarrow> MemoryStore Store" where
  "sharedStore rng = (memoryStore rng)\<lparr>s_AcquireSwitchLock := \<lambda>c h t a. do {
     modify (\<lambda>s. s\<lparr>ms_cluster := (ms_cluster s)\<lparr>cs_AutoFailover := True\<rparr>\<rparr>);
     Memory_AcquireSwitchLock c h t a
   }\<rparr>"

lemma fullStore_simps:
  "s_GetCluster (fullStore rng) = Memory_GetCluster"
  "s_AcquireSwitchLock (fullStore rng) = Memory_AcquireSwitchLock"
  "s_PutTask (fullStore rng) c t = State_Monad.return (Some ''database space exceeded'')"
  by (simp_all add: fullStore_def memoryStore_def)

lemma sharedStore_simps:
  "s_GetCluster (sharedStore rng) = Memory_GetCluster"
  "s_AcquireSwitchLock (sharedStore rng) c h t a = do {
     modify (\<lambda>s. s\<lparr>ms_cluster := (ms_cluster s)\<lparr>cs_AutoFailover := True\<rparr>\<rparr>);
     Memory_AcquireSwitchLock c h t a
   }"
  "s_PutClusterIfEpoch (sharedStore rng) = Memory_PutClusterIfEpoch"
  "s_PutTask (sharedStore rng) = Memory_PutTask"
  "refVerifies (sharedStore rng) = refVerifies (memoryStore rng)"
  by (intro ext | simp add: sharedStore_def memoryStore_def refVerifies_def)+

lemma full_outcome:
  "fst (run_state (Switch refClock (refController (fullStore rng)) Background ''b'' False) refStart) =
    (None, Some ''database space exceeded'')"
  "v_tripping (ctl (snd (run_state (Switch refClock (refController (fullStore rng)) Background ''b'' False) refStart)))"
  "alone (snd (run_state (Switch refClock (refController (fullStore rng)) Background ''b'' False) refStart))"
  by (simp_all add: alone_def run_switch run_memory fullStore_simps run_data TrimSpace_gtid refNode_Address)

lemma shared_outcome:
  "snd (fst (run_state (Switch refClock (refController (sharedStore rng)) Background ''b'' False) refStart)) = None"
  "\<not> cs_AutoFailover (ms_cluster (pl_store (world
    (snd (run_state (Switch refClock (refController (sharedStore rng)) Background ''b'' False) refStart)))))"
  by (simp_all add: run_switch run_memory sharedStore_simps run_data TrimSpace_gtid refNode_Address)

text \<open>Two switches in a row on a store that cannot write the cluster state.\<close>

lemma down_outcome:
  "run_state (do {
      r \<leftarrow> Switch refClock (refController (downStore rng)) Background ''b'' False;
      r' \<leftarrow> Switch refClock (refController (downStore rng)) Background ''c'' False;
      State_Monad.return (snd r, snd r')
    }) refStart = ((x, y), t) \<Longrightarrow>
    x = Some ''persist cluster state: etcd timeout'' \<and> y = Some ''persist cluster state: etcd timeout'' \<and>
    cs_Primary (ms_cluster (pl_store (world t))) = ''a'' \<and>
    ref_flags (pl_server (world t) ''b'') = (False, False) \<and>
    ref_flags (pl_server (world t) ''c'') = (False, False)"
  by (simp add: run_switch run_memory run_data TrimSpace_gtid refNode_Address) auto

section \<open>Elections\<close>

text \<open>An etcd that grants sessions, and an election that the only candidate wins.\<close>

definition refSessions :: "'w Etcd" where
  "refSessions = \<lparr>
     etcd_Get = \<lambda>c k. State_Monad.return (Inl ''unavailable''),
     etcd_GetTasks = \<lambda>c k. State_Monad.return (Inl ''unavailable''),
     etcd_Put = \<lambda>c k d l. State_Monad.return (Some ''unavailable''),
     etcd_Delete = \<lambda>c k. State_Monad.return (Some ''unavailable''),
     etcd_TxnPut = \<lambda>c cmp k d. State_Monad.return (Inl ''unavailable''),
     etcd_NewSession = \<lambda>c ttl. State_Monad.return (Inr 0),
     etcd_CloseSession = \<lambda>x. State_Monad.return (),
     etcd_Lock = \<lambda>c x k. State_Monad.return None,
     etcd_Unlock = \<lambda>c x k. State_Monad.return (),
     etcd_Status = \<lambda>c n. State_Monad.return None,
     etcd_Close = State_Monad.return None\<rparr>"

definition refElection :: "'w Election" where
  "refElection = \<lparr>el_Campaign = \<lambda>c x k n. State_Monad.return None,
     el_Resign = \<lambda>c x k. State_Monad.return ()\<rparr>"

text \<open>
  A controller whose context has a deadline and which is cut off: the world is the time left, each
  session asked for takes a unit of it, and neither the agents nor the keys in etcd are reached.
\<close>

definition deadlineClock :: "nat Runtime" where
  "deadlineClock = refClock\<lparr>rt_ctxErr := \<lambda>c. gets (\<lambda>w.
     if w = 0 then Some ''context deadline exceeded'' else None)\<rparr>"

definition deadlineEtcd :: "nat Etcd" where
  "deadlineEtcd = refSessions\<lparr>etcd_NewSession := \<lambda>c ttl. do {
     modify (\<lambda>w. w - 1);
     State_Monad.return (Inr 0)
   }\<rparr>"

definition unreachable :: "'w HttpClient" where
  "unreachable = \<lparr>hc_Do = \<lambda>r. State_Monad.return (Inl ''connection refused''),
     hc_CloseIdleConnections = State_Monad.return ()\<rparr>"

definition isolated :: "nat Controller" where
  "isolated = projr (NewController deadlineClock refTls (\<lambda>_. unreachable) refPost refConfig
     (etcdStore deadlineEtcd refPrefix))"

lemma isolated_simps:
  "c_store isolated = etcdStore deadlineEtcd refPrefix"
  "am_URL (c_alerts isolated) = ''''"
  "map_of (c_clients isolated) n = Some nd \<Longrightarrow> wp (n_Status nd cx) (\<lambda>_ w'. w' = w) w"
  by (auto simp: isolated_def NewController_def refConfig_def refNode_def NewClient_def refTls_def
    HasPrefix_def clientNode_def Client_Status_def Client_get_def Client_do_def unreachable_def wp
    deadlineClock_def refClock_def split: if_splits)

lemma isolated_probeAll: "wp (probeAll isolated cx ids) (\<lambda>_ t. world t = world s) s"
proof (induction ids arbitrary: s)
  case (Cons n ids)
  then show ?case
    by (auto simp: probeNode_def wp wp_call_run split: option.splits
      intro!: wp_mono [OF isolated_simps(3)] wp_mono [OF Cons])
qed (simp add: wp)

lemma isolated_sendAlerts: "wp (sendAlerts isolated cx es) (\<lambda>_ t. world t = world s) s"
proof (induction es arbitrary: s)
  case (Cons e es)
  show ?case
    by (auto simp: sendAlert_def Alert_Send_def isolated_simps wp wp_call_run intro: wp_mono [OF Cons])
qed (simp add: wp)

lemma isolated_probe: "wp (probe deadlineClock isolated cx) (\<lambda>_ t. world t = world s) s"
  unfolding probe_def
  by (auto simp: wp wp_acquire_run wp_call_run wp_ask_run isolated_simps deadlineClock_def refClock_def
    etcdStore_def Etcd_GetCluster_def deadlineEtcd_def refSessions_def
    intro!: wp_mono [OF isolated_probeAll] wp_mono [OF isolated_sendAlerts])

lemma isolated_probeTicks: "wp (probeTicks deadlineClock isolated cx n) (\<lambda>_ t. world t = world s) s"
proof (induction n arbitrary: s)
  case (Suc n)
  show ?case by (auto simp: wp intro!: wp_mono [OF isolated_probe] wp_mono [OF Suc])
qed (simp add: wp)

interpretation isolated: election_deadline deadlineClock deadlineEtcd refElection cx "\<lambda>w. w"
  "\<lambda>l. runAsLeader deadlineClock isolated l ticks" for cx ticks
proof
  show "wp (runAsLeader deadlineClock isolated l ticks) (\<lambda>_ t. world t \<le> world s) s" for l s
    unfolding runAsLeader_def
    by (auto simp: wp wp_acquire_run intro!: wp_mono [OF isolated_probe] wp_mono [OF isolated_probeTicks])
qed (auto simp: deadlineClock_def deadlineEtcd_def refSessions_def refElection_def wp)

end
