(* ===== verification/HA_Peers.thy ===== *)
theory HA_Peers
  imports HA_Service
begin

text \<open>
  Several controllers on one cluster, and several goroutines in each. Each goroutine is a run of its
  own over fields that the others of its controller write and a world that contains the other
  controllers; what is observed of all together is one history of calls, each with the goroutine
  that made it, interleaved call by call. They share nothing but those fields and the switch lock
  of the store: that the lock is granted to one at a time is what etcd's mutex promises its holders while
  their sessions live, and the only assumption (\<open>exclusiveLocks\<close>).
\<close>

section \<open>Interleaved histories\<close>

type_synonym joint = "(nat \<times> event) list"

definition project :: "nat \<Rightarrow> joint \<Rightarrow> event list" where
  "project i G = map snd (filter (\<lambda>x. fst x = i) G)"

lemma project_simps [simp]:
  "project i [] = []"
  "project i ((j, e) # G) = (if j = i then e # project i G else project i G)"
  "project i (G @ H) = project i G @ project i H"
  by (auto simp: project_def)

lemma project_single [simp]: "project i (map (Pair j) h) = (if j = i then h else [])"
  by (induction h) auto

lemma project_split:
  assumes "project i G = es @ e # fs"
  shows "\<exists>pre post. G = pre @ (i, e) # post \<and> project i pre = es \<and> project i post = fs"
  using assms
proof (induction G arbitrary: es)
  case (Cons x G)
  obtain j d where x: "x = (j, d)" by (cases x)
  show ?case
  proof (cases "j = i \<and> es = []")
    case True
    with Cons.prems x show ?thesis by (intro exI [of _ "[]"] exI [of _ G]) simp
  next
    case False
    define es' where "es' = (if j = i then tl es else es)"
    with False Cons.prems x have "project i G = es' @ e # fs" and es: "es = (if j = i then d # es' else es')"
      by (cases es; auto split: if_splits)+
    from Cons.IH [OF this(1)] obtain pre post where
      "G = pre @ (i, e) # post" "project i pre = es'" "project i post = fs" by blast
    with x es show ?thesis by (intro exI [of _ "x # pre"] exI [of _ post]) simp
  qed
qed simp

text \<open>A lock was granted and not given back.\<close>

definition holdsLock :: "event list \<Rightarrow> bool" where
  "holdsLock h \<longleftrightarrow> (\<exists>pre a mid. h = pre @ EvLock a None # mid \<and> EvRelease \<notin> set mid)"

definition exclusiveLocks :: "joint \<Rightarrow> bool" where
  "exclusiveLocks G \<longleftrightarrow> (\<forall>pre i a post. G = pre @ (i, EvLock a None) # post \<longrightarrow>
     (\<forall>j. \<not> holdsLock (project j pre)))"

text \<open>The calls that move the role of the primary.\<close>

fun critical :: "event \<Rightarrow> bool" where
  "critical (EvFence _ _) = True"
| "critical (EvDemote _ _ _) = True"
| "critical (EvPromote _ _ _) = True"
| "critical (EvCas _ _ _) = True"
| "critical (EvRoute _ _) = True"
| "critical (EvReconfigure _ _ _ _) = True"
| "critical _ = False"

lemma holdsLock_snoc:
  "holdsLock (h @ [e]) \<longleftrightarrow> (\<exists>a. e = EvLock a None) \<or> holdsLock h \<and> e \<noteq> EvRelease"
  unfolding holdsLock_def
proof (intro iffI, goal_cases)
  case 1
  then obtain pre a mid where m: "h @ [e] = pre @ EvLock a None # mid" "EvRelease \<notin> set mid" by blast
  then show ?case by (cases mid rule: rev_cases) auto
next
  case 2
  then show ?case
    by (elim disjE exE conjE) (fastforce, metis append_assoc append_Cons set_append Un_iff list.set(1,2) insert_iff empty_iff)
qed

lemma holdsLock_Nil [simp]: "\<not> holdsLock []"
  by (simp add: holdsLock_def)

text \<open>The machine is in a phase other than idle if and only if a lock is held.\<close>

lemma follows_holds: "follows Idle h = Some p \<Longrightarrow> holdsLock h \<longleftrightarrow> p \<noteq> Idle"
proof (induction h arbitrary: p rule: rev_induct)
  case (snoc e h)
  then obtain q where q: "follows Idle h = Some q" "advance q e = Some p"
    by (auto split: option.splits)
  with snoc.IH have "holdsLock h \<longleftrightarrow> q \<noteq> Idle" by blast
  with q(2) show ?case
    unfolding holdsLock_snoc
    by (cases q; cases e) (auto simp: underLock_def stay_def split: if_splits option.splits sum.splits)
qed simp

lemma advance_critical: "advance p e = Some q \<Longrightarrow> critical e \<Longrightarrow> p \<noteq> Idle"
  by (cases e) (auto simp: stay_def)

section \<open>One switch at a time\<close>

lemma one_holder:
  assumes "exclusiveLocks G" and "holdsLock (project i G)" and "holdsLock (project j G)"
  shows "i = j"
  using assms
proof (induction G rule: rev_induct)
  case (snoc x G)
  obtain k e where x: "x = (k, e)" by (cases x)
  have excl: "exclusiveLocks G"
    using snoc.prems(1) unfolding exclusiveLocks_def by (metis append_Cons append_assoc)
  show ?case
  proof (cases "\<exists>a. e = EvLock a None")
    case True
    with snoc.prems(1) x have "\<not> holdsLock (project m G)" for m
      unfolding exclusiveLocks_def by blast
    with snoc.prems(2,3) x show ?thesis by (auto split: if_splits)
  next
    case False
    with snoc.prems(2,3) x have "holdsLock (project i G)" "holdsLock (project j G)"
      by (auto simp: holdsLock_snoc split: if_splits)
    with snoc.IH excl show ?thesis by blast
  qed
qed simp

lemma exclusive_prefix: "exclusiveLocks (G @ H) \<Longrightarrow> exclusiveLocks G"
  unfolding exclusiveLocks_def by (metis append_Cons append_assoc)

text \<open>Every controller keeps to the protocol, possibly in the middle of an operation.\<close>

definition disciplined :: "joint \<Rightarrow> bool" where
  "disciplined G \<longleftrightarrow> (\<forall>i. \<exists>p. follows Idle (project i G) = Some p)"

lemma disciplined_prefix:
  assumes "disciplined (G @ H)"
  shows "disciplined G"
  unfolding disciplined_def
proof
  fix i
  from assms obtain p where "follows Idle (project i G @ project i H) = Some p"
    unfolding disciplined_def project_simps by blast
  then show "\<exists>p. follows Idle (project i G) = Some p" by (blast dest: follows_prefix)
qed

lemma critical_holds:
  assumes "disciplined (pre @ (i, e) # post)" and "critical e"
  shows "holdsLock (project i pre)"
proof -
  have "disciplined (pre @ [(i, e)])"
    by (rule disciplined_prefix [of _ post]) (simp add: assms(1))
  then obtain p where "follows Idle (project i pre @ [e]) = Some p"
    unfolding disciplined_def by (metis project_simps append_Nil2)
  then obtain q where q: "follows Idle (project i pre) = Some q" "advance q e = Some p"
    by (auto split: option.splits)
  with advance_critical [OF q(2) assms(2)] follows_holds [OF q(1)] show ?thesis by simp
qed

lemma critical_alone:
  assumes "disciplined (pre @ (i, e) # post)" "exclusiveLocks (pre @ (i, e) # post)" "critical e"
    and "holdsLock (project j pre)"
  shows "j = i"
  by (rule one_holder [OF exclusive_prefix [OF assms(2)] assms(4) critical_holds [OF assms(1,3)]])

text \<open>
  Before each promotion the controller was granted the lock, demoted another node, saw it
  read-only, read its transactions and saw the target catch up with them; and since the lock was
  granted no other controller fenced, demoted, promoted, recorded, routed or reconfigured anything.
\<close>

definition promotionsUndisturbed :: "joint \<Rightarrow> bool" where
  "promotionsUndisturbed G \<longleftrightarrow>
    (\<forall>pre i target a r post. G = pre @ (i, EvPromote target a r) # post \<longrightarrow>
      (\<exists>before since old st g k. pre = before @ (i, EvLock (Some a) None) # since \<and>
        EvRelease \<notin> set (project i since) \<and> target \<noteq> old \<and> confirmedReadOnly st \<and>
        subseq [EvDemote old a None, EvStatus old st, EvGTID old (Inr g), EvWaitGTID target a g k None]
          (project i since) \<and>
        (\<forall>(j, e) \<in> set since. critical e \<longrightarrow> j = i)))"

lemma subseq_split: "subseq (x # xs) ys \<Longrightarrow> \<exists>us vs. ys = us @ x # vs \<and> subseq xs vs"
  by (blast dest: list_emb_ConsD)

lemma peers_undisturbed:
  assumes disc: "disciplined G" and excl: "exclusiveLocks G"
  shows "promotionsUndisturbed G"
  unfolding promotionsUndisturbed_def
proof (intro allI impI)
  fix pre i target a r post
  assume G: "G = pre @ (i, EvPromote target a r) # post"
  from disc obtain q where "follows Idle (project i G) = Some q" by (auto simp: disciplined_def)
  then have "follows Idle (project i pre @ EvPromote target a r # project i post) = Some q"
    by (simp add: G)
  from follows_promote [OF this] obtain P M old g ts where M: "project i pre = P @ M"
      "EvRelease \<notin> set M" "subseq ts M" "evidence (CaughtUp a old g target) ts"
    unfolding milestones_def by blast
  then obtain st k where old: "target \<noteq> old" "confirmedReadOnly st"
    and ts: "subseq [EvLock (Some a) None, EvDemote old a None, EvStatus old st, EvGTID old (Inr g),
      EvWaitGTID target a g k None] M"
    unfolding evidence_CaughtUp by blast
  from subseq_split [OF ts] obtain us vs where vs: "M = us @ EvLock (Some a) None # vs"
    "subseq [EvDemote old a None, EvStatus old st, EvGTID old (Inr g), EvWaitGTID target a g k None] vs"
    by blast
  from M(1) vs(1) have "project i pre = (P @ us) @ EvLock (Some a) None # vs" by simp
  from project_split [OF this] obtain before since where
    s: "pre = before @ (i, EvLock (Some a) None) # since" "project i since = vs" by blast
  have alone: "j = i" if e: "(j, e) \<in> set since" "critical e" for j e
  proof -
    from e(1) obtain s1 s2 where since: "since = s1 @ (j, e) # s2" by (auto simp: in_set_conv_decomp)
    have "EvRelease \<notin> set (project i s1)"
      using M(2) vs(1) s(2) since by auto
    then have "holdsLock (project i (before @ (i, EvLock (Some a) None) # s1))"
      unfolding holdsLock_def by auto
    moreover have "G = (before @ (i, EvLock (Some a) None) # s1) @ (j, e) # s2 @ (i, EvPromote target a r) # post"
      using G s(1) since by simp
    ultimately show ?thesis using critical_alone disc excl e(2) by metis
  qed
  show "\<exists>before since old st g k. pre = before @ (i, EvLock (Some a) None) # since \<and>
      EvRelease \<notin> set (project i since) \<and> target \<noteq> old \<and> confirmedReadOnly st \<and>
      subseq [EvDemote old a None, EvStatus old st, EvGTID old (Inr g), EvWaitGTID target a g k None]
        (project i since) \<and>
      (\<forall>(j, e) \<in> set since. critical e \<longrightarrow> j = i)"
    using s M(2) vs old alone by (intro exI [of _ before] exI [of _ since]) auto
qed

section \<open>Runs of several controllers\<close>

text \<open>
  \<open>G\<close> is what can be observed at some moment of controllers that run side by side: the calls of
  each are the beginning of a run of its own.
\<close>

definition observed :: "(nat \<Rightarrow> 'w Runtime) \<Rightarrow> (nat \<Rightarrow> 'w Controller) \<Rightarrow> joint \<Rightarrow> bool" where
  "observed rts cs G \<longleftrightarrow> (\<forall>i. \<exists>s t rest. serves (rts i) (cs i) s t \<and> hist s = [] \<and>
     hist t = project i G @ rest)"

lemma observed_disciplined: "observed rts cs G \<Longrightarrow> disciplined G"
  unfolding observed_def disciplined_def
proof
  fix i
  assume "\<forall>i. \<exists>s t rest. serves (rts i) (cs i) s t \<and> hist s = [] \<and> hist t = project i G @ rest"
  then obtain s t rest where run: "serves (rts i) (cs i) s t" "hist s = []" "hist t = project i G @ rest"
    by blast
  with serve_follows [OF run(1), of Idle] have "follows Idle (project i G @ rest) = Some Idle" by simp
  then show "\<exists>p. follows Idle (project i G) = Some p" by (blast dest: follows_prefix)
qed

text \<open>Controllers that take turns get the lock one at a time.\<close>

lemma exclusive_snoc:
  assumes "exclusiveLocks G" and "\<And>a. e = EvLock a None \<Longrightarrow> \<forall>j. \<not> holdsLock (project j G)"
  shows "exclusiveLocks (G @ [(i, e)])"
  using assms unfolding exclusiveLocks_def
  by (auto simp: append_eq_append_conv2 append_eq_Cons_conv Cons_eq_append_conv)

lemma exclusive_turn:
  assumes "exclusiveLocks G" and "\<And>j. j \<noteq> i \<Longrightarrow> \<not> holdsLock (project j G)"
    and "follows Idle (project i G @ h) = Some p"
  shows "exclusiveLocks (G @ map (Pair i) h)"
  using assms(3)
proof (induction h arbitrary: p rule: rev_induct)
  case (snoc e h)
  then obtain q where q: "follows Idle (project i G @ h) = Some q" "advance q e = Some p"
    by (auto simp: append_assoc [symmetric] split: option.splits simp del: append_assoc)
  have "\<not> holdsLock (project j (G @ map (Pair i) h))" if "e = EvLock a None" for a j
    using assms(2) follows_holds [OF q(1)] advance_lock q(2) that by (cases "j = i") auto
  with exclusive_snoc [OF snoc.IH [OF q(1)], of e i] show ?case by auto
qed (use assms(1) in simp)

end
