(* ===== verification/HA_Config.thy ===== *)
theory HA_Config
  imports HA_Controller
begin

text \<open>
  \<open>internal/config/config.go\<close>: the settings of the controller and of the agent, read from the
  environment. The environment (\<open>getenv\<close>), the host name, the file system and the parser of JSON
  texts are arguments. \<open>time.ParseDuration\<close> is written out; where Go computes the fraction of a
  unit in \<open>float64\<close>, it is computed exactly here, rounded down.
\<close>

section \<open>\<open>time.ParseDuration\<close>\<close>

definition splitWhile :: "(char \<Rightarrow> bool) \<Rightarrow> string \<Rightarrow> string \<times> string" where
  "splitWhile P s = (takeWhile P s, dropWhile P s)"

text \<open>\<open>leadingInt\<close>: the leading digits, refused above \<open>2\<^sup>6\<^sup>3\<close>.\<close>

fun leadingInt :: "int \<Rightarrow> string \<Rightarrow> int option" where
  "leadingInt x [] = Some x"
| "leadingInt x (ch # s) =
    (if x > 2 ^ 63 div 10 then None
     else let y = x * 10 + int (digitVal ch) in if y > 2 ^ 63 then None else leadingInt y s)"

text \<open>\<open>leadingFraction\<close>: the digits after the point, as far as they fit, and their scale.\<close>

fun leadingFraction :: "int \<Rightarrow> int \<Rightarrow> string \<Rightarrow> int \<times> int" where
  "leadingFraction x scale [] = (x, scale)"
| "leadingFraction x scale (ch # s) =
    (if x > (2 ^ 63 - 1) div 10 then (x, scale)
     else let y = x * 10 + int (digitVal ch) in
       if y > 2 ^ 63 then (x, scale) else leadingFraction y (scale * 10) s)"

definition unitMap :: "string \<Rightarrow> int option" where
  "unitMap u = map_of
     [(''ns'', 1), (''us'', 1000), ([CHR 0xC2, CHR 0xB5, CHR ''s''], 1000),
      ([CHR 0xCE, CHR 0xBC, CHR ''s''], 1000), (''ms'', 1000000), (''s'', 1000000000),
      (''m'', 60000000000), (''h'', 3600000000000)] u"

definition isNumeral :: "char \<Rightarrow> bool" where
  "isNumeral ch \<longleftrightarrow> ch = CHR ''.'' \<or> isDigit ch"

text \<open>One number with its unit: its nanoseconds and the rest of the text.\<close>

definition durationItem :: "string \<Rightarrow> (int \<times> string) option" where
  "durationItem s = (case splitWhile isDigit s of (ds, s1) \<Rightarrow>
    (case leadingInt 0 ds of
       None \<Rightarrow> None
     | Some v \<Rightarrow>
         (let (fs, s2) = (if s1 \<noteq> [] \<and> hd s1 = CHR ''.'' then splitWhile isDigit (tl s1) else ([], s1));
              (f, scale) = leadingFraction 0 1 fs;
              (u, s3) = splitWhile (\<lambda>ch. \<not> isNumeral ch) s2 in
          if ds = [] \<and> fs = [] \<or> u = [] then None
          else (case unitMap u of
              None \<Rightarrow> None
            | Some unit \<Rightarrow>
                if v > 2 ^ 63 div unit then None
                else let n = v * unit + f * unit div scale in
                  if n > 2 ^ 63 then None else Some (n, s3)))))"

lemma durationItem_shorter: "durationItem s = Some (n, s') \<Longrightarrow> length s' < length s"
proof -
  have dw: "length (dropWhile P xs) \<le> length xs" for P and xs :: string
    by (simp add: length_dropWhile_le)
  have tk: "takeWhile P xs \<noteq> [] \<Longrightarrow> length (dropWhile P xs) < length xs" for P and xs :: string
    by (cases xs) (auto simp: le_imp_less_Suc length_dropWhile_le split: if_splits)
  have tl: "xs \<noteq> [] \<Longrightarrow> length (dropWhile P (tl xs)) < length xs" for P and xs :: string
    by (cases xs) (auto simp: le_imp_less_Suc length_dropWhile_le)
  assume "durationItem s = Some (n, s')"
  then show ?thesis
    using dw [of isDigit s] tk [of "\<lambda>ch. \<not> isNumeral ch" "dropWhile isDigit s"]
      tk [of "\<lambda>ch. \<not> isNumeral ch" "dropWhile isDigit (tl (dropWhile isDigit s))"]
      tl [of "dropWhile isDigit s" isDigit]
    by (auto simp: durationItem_def splitWhile_def Let_def split: option.splits if_splits prod.splits)
qed

function durationItems :: "int \<Rightarrow> string \<Rightarrow> int option" where
  "durationItems d s =
    (if s = [] then Some d
     else if \<not> isNumeral (hd s) then None
     else (case durationItem s of
         None \<Rightarrow> None
       | Some (n, s') \<Rightarrow> if d + n > 2 ^ 63 then None else durationItems (d + n) s'))"
  by pat_completeness auto
termination
  by (relation "measure (\<lambda>(d, s). length s)") (auto dest: durationItem_shorter)

declare durationItems.simps [simp del]

text \<open>Where Go returns an error, \<open>None\<close>: the callers here only ask whether there is one.\<close>

definition ParseDuration :: "string \<Rightarrow> int option" where
  "ParseDuration s =
    (let neg = (s \<noteq> [] \<and> hd s = CHR ''-'');
         s = (if s \<noteq> [] \<and> (hd s = CHR ''-'' \<or> hd s = CHR ''+'') then tl s else s) in
     if s = ''0'' then Some 0
     else if s = [] then None
     else (case durationItems 0 s of
         None \<Rightarrow> None
       | Some d \<Rightarrow>
           if neg then Some (- d) else if d > 2 ^ 63 - 1 then None else Some d))"

section \<open>Reading the environment\<close>

type_synonym environ = "string \<Rightarrow> string"

definition env :: "environ \<Rightarrow> string \<Rightarrow> string \<Rightarrow> string" where
  "env getenv key fallback = (if getenv key \<noteq> '''' then getenv key else fallback)"

definition config_split :: "string \<Rightarrow> string list" where
  "config_split value = filter (\<lambda>item. item \<noteq> '''') (map TrimSpace (Split value CHR '',''))"

definition duration :: "environ \<Rightarrow> string \<Rightarrow> int \<Rightarrow> int" where
  "duration getenv key fallback =
    (if getenv key \<noteq> ''''
     then (case ParseDuration (getenv key) of Some parsed \<Rightarrow> parsed | None \<Rightarrow> fallback)
     else fallback)"

definition integer :: "environ \<Rightarrow> string \<Rightarrow> int \<Rightarrow> int" where
  "integer getenv key fallback = (case Atoi (getenv key) of
      Some value \<Rightarrow> if value > 0 then value else fallback
    | None \<Rightarrow> fallback)"

definition int64Value :: "environ \<Rightarrow> string \<Rightarrow> int \<Rightarrow> int" where
  "int64Value getenv key fallback = (case ParseInt (getenv key) of
      Some value \<Rightarrow> if value \<ge> 0 then value else fallback
    | None \<Rightarrow> fallback)"

definition boolean :: "environ \<Rightarrow> string \<Rightarrow> bool \<Rightarrow> bool" where
  "boolean getenv key fallback = (case ParseBool (getenv key) of
      Some value \<Rightarrow> value
    | None \<Rightarrow> fallback)"

definition hostname :: "error + string \<Rightarrow> string" where
  "hostname osHostname = (case osHostname of
      Inr value \<Rightarrow> if value \<noteq> '''' then value else ''ha-controller''
    | Inl _ \<Rightarrow> ''ha-controller'')"

section \<open>The controller's settings\<close>

text \<open>\<open>json.Unmarshal\<close> into a slice: \<open>null\<close> is the nil slice, each element starts from zero.\<close>

fun decAll :: "('r \<Rightarrow> json \<Rightarrow> error + 'r) \<Rightarrow> 'r \<Rightarrow> json list \<Rightarrow> error + 'r list" where
  "decAll dec z [] = Inr []"
| "decAll dec z (j # js) = (case dec z j of
      Inl err \<Rightarrow> Inl err
    | Inr x \<Rightarrow> (case decAll dec z js of Inl err \<Rightarrow> Inl err | Inr xs \<Rightarrow> Inr (x # xs)))"

definition decNodes :: "AgentNodeConfig list \<Rightarrow> json \<Rightarrow> error + AgentNodeConfig list" where
  "decNodes old j = (case j of
      JNull \<Rightarrow> Inr []
    | JArr js \<Rightarrow> decAll (decAgentNodeConfig False) zeroAgentNodeConfig js
    | _ \<Rightarrow> Inl (typeError j ''[]model.AgentNodeConfig''))"

definition Load ::
  "environ \<Rightarrow> error + string \<Rightarrow> (string \<Rightarrow> error + string) \<Rightarrow> (string \<Rightarrow> doc) \<Rightarrow> error + Config" where
  "Load getenv osHostname readFile parse =
    (let c = \<lparr>
       cfg_HTTPAddr = env getenv ''HA_HTTP_ADDR'' '':8080'',
       cfg_ClusterName = env getenv ''HA_CLUSTER_NAME'' ''mysql-ha'',
       cfg_ControllerID = env getenv ''HA_CONTROLLER_ID'' (hostname osHostname),
       cfg_EtcdEndpoints = config_split (env getenv ''HA_ETCD_ENDPOINTS'' ''http://127.0.0.1:2379''),
       cfg_Nodes = [],
       cfg_AgentCAFile = env getenv ''HA_AGENT_CA_FILE'' ''/etc/ha/pki/ca.crt'',
       cfg_AgentCertFile = env getenv ''HA_AGENT_CERT_FILE'' ''/etc/ha/pki/controller.crt'',
       cfg_AgentKeyFile = env getenv ''HA_AGENT_KEY_FILE'' ''/etc/ha/pki/controller.key'',
       cfg_AgentsFile = getenv ''HA_AGENTS_FILE'',
       cfg_ProbeInterval = duration getenv ''HA_PROBE_INTERVAL'' 5000000000,
       cfg_FailureThreshold = integer getenv ''HA_FAILURE_THRESHOLD'' 3,
       cfg_AlertWebhookURL = getenv ''HA_ALERT_WEBHOOK_URL'',
       cfg_ExecuteActions = boolean getenv ''HA_EXECUTE_ACTIONS'' True,
       cfg_AutoFailoverExecute = boolean getenv ''HA_AUTO_FAILOVER_EXECUTE'' False,
       cfg_RequireEtcd = boolean getenv ''HA_REQUIRE_ETCD'' False,
       cfg_MaxReplicaLagSeconds = int64Value getenv ''HA_MAX_REPLICA_LAG_SECONDS'' 30\<rparr>;
     raw = (if cfg_AgentsFile c \<noteq> ''''
       then (case readFile (cfg_AgentsFile c) of
           Inl err \<Rightarrow> Inl (''read HA_AGENTS_FILE: '' @ err)
         | Inr text \<Rightarrow> Inr text)
       else Inr (getenv ''HA_AGENTS_JSON'')) in
     (case raw of
        Inl err \<Rightarrow> Inl err
      | Inr text \<Rightarrow>
          if text = '''' then Inr c
          else (case unmarshal decNodes [] (parse text) of
              Inl err \<Rightarrow> Inl err
            | Inr nodes \<Rightarrow> Inr (c\<lparr>cfg_Nodes := nodes\<rparr>))))"

section \<open>The agent's settings\<close>

record AgentConfig =
  agc_HTTPAddr :: string
  agc_NodeID :: string
  agc_NodeAddress :: string
  agc_MySQLDSN :: string
  agc_ReplicationUser :: string
  agc_ReplicationPass :: string
  agc_AgentCAFile :: string
  agc_AgentCertFile :: string
  agc_AgentKeyFile :: string
  agc_EtcdEndpoints :: "string list"
  agc_ClusterName :: string

definition LoadAgent :: "environ \<Rightarrow> error + AgentConfig" where
  "LoadAgent getenv =
    (let c = \<lparr>
       agc_HTTPAddr = env getenv ''HA_AGENT_HTTP_ADDR'' '':9443'',
       agc_NodeID = getenv ''HA_NODE_ID'',
       agc_NodeAddress = getenv ''HA_NODE_ADDRESS'',
       agc_MySQLDSN = getenv ''HA_MYSQL_DSN'',
       agc_ReplicationUser = getenv ''HA_REPLICATION_USER'',
       agc_ReplicationPass = getenv ''HA_REPLICATION_PASSWORD'',
       agc_AgentCAFile = env getenv ''HA_AGENT_CA_FILE'' ''/etc/ha/pki/ca.crt'',
       agc_AgentCertFile = env getenv ''HA_AGENT_CERT_FILE'' ''/etc/ha/pki/agent.crt'',
       agc_AgentKeyFile = env getenv ''HA_AGENT_KEY_FILE'' ''/etc/ha/pki/agent.key'',
       agc_EtcdEndpoints = config_split (env getenv ''HA_ETCD_ENDPOINTS'' ''http://127.0.0.1:2379''),
       agc_ClusterName = env getenv ''HA_CLUSTER_NAME'' ''mysql-ha''\<rparr> in
     if agc_NodeID c = '''' \<or> agc_NodeAddress c = '''' \<or> agc_MySQLDSN c = '''' \<or>
        agc_ReplicationUser c = '''' \<or> agc_ReplicationPass c = ''''
     then Inl (''HA_NODE_ID, HA_NODE_ADDRESS, HA_MYSQL_DSN, HA_REPLICATION_USER and '' @
       ''HA_REPLICATION_PASSWORD are required'')
     else Inr c)"

end
