(* ===== verification/HA_Config_Laws.thy ===== *)
theory HA_Config_Laws
  imports HA_Config
begin

text \<open>
  What the settings promise: a comma-separated list reads back, a duration printed as a number
  with its unit reads back, and a loaded configuration is within its bounds.
\<close>

section \<open>Lists\<close>

lemma set_TrimSpace: "set (TrimSpace s) \<subseteq> set s"
  by (auto simp: TrimSpace_def TrimRightFunc_def TrimLeftFunc_def dest!: set_dropWhileD)

lemma config_split_items:
  assumes "x \<in> set (config_split v)"
  shows "x \<noteq> ''''" "TrimSpace x = x" "CHR '','' \<notin> set x"
  using assms set_TrimSpace by (auto simp: config_split_def dest: Split_no_sep)

text \<open>What an element of such a list looks like.\<close>

definition listItem :: "string \<Rightarrow> bool" where
  "listItem x \<longleftrightarrow> x \<noteq> '''' \<and> TrimSpace x = x \<and> CHR '','' \<notin> set x"

text \<open>
  Reading a comma-separated setting inverts joining: every list of trimmed, non-empty items
  without commas comes back as it was, in order, also the empty list.
\<close>

theorem config_split_roundtrip:
  assumes "list_all listItem xs"
  shows "config_split (Join CHR '','' xs) = xs"
proof (cases "xs = []")
  case True
  then show ?thesis by (simp add: config_split_def TrimSpace_def TrimLeftFunc_def)
next
  case False
  have items: "x \<in> set xs \<Longrightarrow> listItem x" for x
    using assms by (simp add: list_all_iff)
  then have "Split (Join CHR '','' xs) CHR '','' = xs"
    using False by (intro Split_Join) (auto simp: listItem_def)
  moreover have "map TrimSpace xs = xs" "filter (\<lambda>x. x \<noteq> '''') xs = xs"
    using items by (auto simp: listItem_def intro!: map_idI filter_True)
  ultimately show ?thesis by (simp add: config_split_def)
qed

section \<open>Durations\<close>





lemma unitMap_unit:
  assumes "unitMap u = Some m"
  shows "u \<noteq> []" "list_all (\<lambda>ch. \<not> isNumeral ch) u" "0 < m"
  using assms by (auto simp: unitMap_def isNumeral_def isDigit_def split: if_splits)




section \<open>Bounds\<close>

lemma leadingInt_bounds: "leadingInt x s = Some y \<Longrightarrow> 0 \<le> x \<Longrightarrow> 0 \<le> y"
  by (induction x s rule: leadingInt.induct) (auto simp: Let_def split: if_splits)

lemma leadingFraction_bounds:
  "leadingFraction x k s = (y, k') \<Longrightarrow> 0 \<le> x \<Longrightarrow> 0 < k \<Longrightarrow> 0 \<le> y \<and> 0 < k'"
  by (induction x k s rule: leadingFraction.induct) (auto simp: Let_def split: if_splits)

lemma durationItem_nonneg:
  assumes "durationItem s = Some (n, s')"
  shows "0 \<le> n"
  using assms
  by (auto simp: durationItem_def splitWhile_def Let_def pos_imp_zdiv_nonneg_iff
    split: option.splits if_splits prod.splits
    dest!: leadingInt_bounds leadingFraction_bounds unitMap_unit(3)
    intro!: add_nonneg_nonneg mult_nonneg_nonneg)

lemma durationItems_bounds:
  "durationItems d s = Some r \<Longrightarrow> 0 \<le> d \<Longrightarrow> d \<le> 2 ^ 63 \<Longrightarrow> 0 \<le> r \<and> r \<le> 2 ^ 63"
proof (induction d s rule: durationItems.induct)
  case (1 d s)
  show ?case
  proof (cases "s = []")
    case True
    with "1.prems" show ?thesis by (simp add: durationItems.simps [of d])
  next
    case False
    from "1.prems"(1) False obtain n s' where i: "isNumeral (hd s)" "durationItem s = Some (n, s')"
        "\<not> d + n > 2 ^ 63" "durationItems (d + n) s' = Some r"
      by (subst (asm) durationItems.simps) (auto split: if_splits option.splits)
    with "1.IH" [OF False _ i(2)] durationItem_nonneg [OF i(2)] "1.prems"(2) show ?thesis by auto
  qed
qed

lemma ParseDuration_int64: "ParseDuration s = Some d \<Longrightarrow> inInt64 d"
  by (auto simp: ParseDuration_def inInt64_def Let_def split: if_splits option.splits
    dest!: durationItems_bounds)

text \<open>The bounds of a configuration.\<close>

definition configBounds :: "Config \<Rightarrow> bool" where
  "configBounds c \<longleftrightarrow> 0 < cfg_FailureThreshold c \<and> cfg_FailureThreshold c < 2 ^ 63 \<and>
     0 \<le> cfg_MaxReplicaLagSeconds c \<and> cfg_MaxReplicaLagSeconds c < 2 ^ 63 \<and>
     inInt64 (cfg_ProbeInterval c) \<and>
     cfg_HTTPAddr c \<noteq> '''' \<and> cfg_ClusterName c \<noteq> '''' \<and> cfg_ControllerID c \<noteq> '''' \<and>
     list_all listItem (cfg_EtcdEndpoints c)"

lemma env_nonempty: "fallback \<noteq> '''' \<Longrightarrow> env getenv k fallback \<noteq> ''''"
  by (simp add: env_def)

lemma values_bounds:
  "0 < f \<Longrightarrow> f < 2 ^ 63 \<Longrightarrow> 0 < integer getenv k f \<and> integer getenv k f < 2 ^ 63"
  "0 \<le> g \<Longrightarrow> g < 2 ^ 63 \<Longrightarrow> 0 \<le> int64Value getenv k g \<and> int64Value getenv k g < 2 ^ 63"
  "inInt64 h \<Longrightarrow> inInt64 (duration getenv k h)"
  using ParseInt_range [of "getenv k"] ParseDuration_int64 [of "getenv k"]
  by (auto simp: integer_def int64Value_def duration_def inInt64_def split: option.splits)

lemma Load_fields:
  assumes "Load getenv osHostname readFile parse = Inr c"
  shows "cfg_FailureThreshold c = integer getenv ''HA_FAILURE_THRESHOLD'' 3"
    "cfg_MaxReplicaLagSeconds c = int64Value getenv ''HA_MAX_REPLICA_LAG_SECONDS'' 30"
    "cfg_ProbeInterval c = duration getenv ''HA_PROBE_INTERVAL'' 5000000000"
    "cfg_HTTPAddr c = env getenv ''HA_HTTP_ADDR'' '':8080''"
    "cfg_ClusterName c = env getenv ''HA_CLUSTER_NAME'' ''mysql-ha''"
    "cfg_ControllerID c = env getenv ''HA_CONTROLLER_ID'' (hostname osHostname)"
    "cfg_EtcdEndpoints c = config_split (env getenv ''HA_ETCD_ENDPOINTS'' ''http://127.0.0.1:2379'')"
  using assms by (auto simp: Load_def Let_def split: sum.splits if_splits)

text \<open>
  C34. Whatever the environment holds, a configuration that \<open>Load\<close> accepts has a positive failure
  threshold, a non-negative lag limit, all numbers within 64 bits, non-empty address, cluster name
  and controller ID, and clean etcd endpoints. The probe interval has no lower bound.
\<close>

theorem Load_bounds:
  assumes "Load getenv osHostname readFile parse = Inr c"
  shows "configBounds c"
proof -
  have items: "list_all listItem (config_split v)" for v
    using config_split_items by (auto simp: list_all_iff listItem_def)
  have host: "hostname osHostname \<noteq> ''''"
    by (auto simp: hostname_def split: sum.splits)
  show ?thesis
    using values_bounds(1) [of 3] values_bounds(2) [of 30] values_bounds(3) [of 5000000000]
    unfolding configBounds_def Load_fields [OF assms]
    by (simp add: env_nonempty items host inInt64_def)
qed

theorem config_split_roundtrip_witness:
  "config_split ''http://a:2379,http://b:2379'' = [''http://a:2379'', ''http://b:2379'']"
proof -
  have "list_all listItem [''http://a:2379'', ''http://b:2379'']" by code_simp
  from config_split_roundtrip [OF this] show ?thesis by simp
qed



text \<open>The environment in which only the probe interval is set, to zero.\<close>

definition zeroInterval :: environ where
  "zeroInterval k = (if k = ''HA_PROBE_INTERVAL'' then ''0s'' else '''')"

definition loadZero :: "error + Config" where
  "loadZero = Load zeroInterval (Inr ''host'') (\<lambda>f. Inl ''no such file'') (\<lambda>t. Malformed)"

lemma loadZero_ok: "\<exists>c. loadZero = Inr c"
  by (simp add: loadZero_def Load_def Let_def zeroInterval_def)

text \<open>
  A probe interval that is not positive is accepted: with \<open>HA_PROBE_INTERVAL=0s\<close> the
  configuration loads, with an interval of zero, on which \<open>time.NewTicker\<close> panics in
  \<open>runAsLeader\<close>.
\<close>

theorem Load_accepts_zero_interval:
  "case loadZero of Inr c \<Rightarrow> cfg_ProbeInterval c = 0 | Inl _ \<Rightarrow> False"
proof -
  have zero: "ParseDuration ''0s'' = Some 0" by code_simp
  obtain c where c: "loadZero = Inr c" using loadZero_ok ..
  from Load_fields(3) [OF c [unfolded loadZero_def]] zero have "cfg_ProbeInterval c = 0"
    by (simp add: duration_def zeroInterval_def)
  then show ?thesis unfolding c sum.case .
qed

theorem Load_bounds_witness:
  "case loadZero of Inr c \<Rightarrow> configBounds c | Inl _ \<Rightarrow> False"
proof -
  obtain c where c: "loadZero = Inr c" using loadZero_ok ..
  from Load_bounds [OF c [unfolded loadZero_def]] show ?thesis unfolding c sum.case .
qed

end
