(* ===== verification/HA_Main.thy ===== *)
theory HA_Main
  imports HA_Config_Laws HA_Election
begin

text \<open>
  The two programs: what \<open>cmd/controller\<close> and \<open>cmd/mysql-agent\<close> decide before they serve. A
  failed step is the message that is logged before \<open>os.Exit(1)\<close>. Serving itself is
  \<open>HA_Service\<close> and \<open>HA_Agent\<close>; signals and the HTTP listener are not modelled.
\<close>

section \<open>HTTP servers\<close>

text \<open>
  The settings of \<open>http.Server\<close> and \<open>tls.Config\<close> the programs make; a certificate pool is the list
  of PEM texts it was given, a certificate the pair of files it was loaded from. An absent timeout
  is 0, none.
\<close>

datatype clientAuth = NoClientCert | RequestClientCert | RequireAnyClientCert
  | VerifyClientCertIfGiven | RequireAndVerifyClientCert


record TlsConfig =
  tc_MinVersion :: int
  tc_Certificates :: "(string \<times> string) list"
  tc_ClientAuth :: clientAuth
  tc_ClientCAs :: "string list"

record HttpServer =
  hs_Addr :: string
  hs_TLSConfig :: "TlsConfig option"
  hs_ReadHeaderTimeout :: int
  hs_ReadTimeout :: int
  hs_WriteTimeout :: int
  hs_IdleTimeout :: int

definition plainServer :: "string \<Rightarrow> HttpServer" where
  "plainServer addr = \<lparr>hs_Addr = addr, hs_TLSConfig = None, hs_ReadHeaderTimeout = 0,
     hs_ReadTimeout = 0, hs_WriteTimeout = 0, hs_IdleTimeout = 0\<rparr>"

section \<open>The controller\<close>

datatype stateStore = EtcdState EtcdStore | MemoryState MemoryStore

text \<open>The store after \<open>NewEtcdStore\<close> returned.\<close>

definition selectStore :: "Config \<Rightarrow> error + EtcdStore \<Rightarrow> error + stateStore" where
  "selectStore cfg r = (case r of
      Inr p \<Rightarrow> Inr (EtcdState p)
    | Inl err \<Rightarrow>
        if cfg_RequireEtcd cfg
        then Inl (''Etcd is required; refusing to start without quorum: '' @ err)
        else Inr (MemoryState (NewMemoryStore (cfg_ClusterName cfg))))"

text \<open>
  \<open>main\<close> up to the controller: \<open>load\<close> is what \<open>config.Load\<close> returned and \<open>store\<close> the interface
  value of the selected store.
\<close>

definition controllerMain ::
  "'w Runtime \<Rightarrow> Tls \<Rightarrow> (AgentNodeConfig \<Rightarrow> 'w HttpClient) \<Rightarrow>
    (ctx \<Rightarrow> string \<Rightarrow> json \<Rightarrow> ('w, error + int) state) \<Rightarrow> (stateStore \<Rightarrow> 'w Store) \<Rightarrow>
    'e Etcd \<Rightarrow> (string list \<Rightarrow> ('e, error option) state) \<Rightarrow> error + Config \<Rightarrow>
    ('e, error + stateStore \<times> 'w Controller \<times> HttpServer) state" where
  "controllerMain rt tls http post store E new load = (case load of
      Inl err \<Rightarrow> State_Monad.return (Inl (''load config: '' @ err))
    | Inr cfg \<Rightarrow> do {
        r \<leftarrow> NewEtcdStore E new (cfg_EtcdEndpoints cfg) (cfg_ClusterName cfg);
        State_Monad.return (case selectStore cfg r of
            Inl err \<Rightarrow> Inl err
          | Inr st \<Rightarrow> (case NewController rt tls http post cfg (store st) of
                Inl err \<Rightarrow> Inl (''create controller: '' @ err)
              | Inr c \<Rightarrow> Inr (st, c, plainServer (cfg_HTTPAddr cfg))))
      })"

text \<open>
  C29. With \<open>HA_REQUIRE_ETCD\<close> a controller never runs on memory: it starts only on an etcd store,
  which holds the keys of its cluster, as the controller of the configuration that was loaded, on
  the address of that configuration.
\<close>

theorem controllerMain_requires_etcd:
  assumes "cfg_RequireEtcd cfg"
  shows "wp (controllerMain rt tls http post store E new (Inr cfg)) (\<lambda>r _. case r of
      Inl _ \<Rightarrow> True
    | Inr (st, c, server) \<Rightarrow> st = EtcdState \<lparr>es_prefix = ''/ha/'' @ cfg_ClusterName cfg\<rparr> \<and>
        NewController rt tls http post cfg (store st) = Inr c \<and> hs_Addr server = cfg_HTTPAddr cfg) e"
proof -
  have new: "wp (NewEtcdStore E new endpoints name)
      (\<lambda>r _. r = Inr p \<longrightarrow> p = \<lparr>es_prefix = ''/ha/'' @ name\<rparr>) e" for endpoints name p
    unfolding NewEtcdStore_def
    by (auto simp: wp split: option.splits intro!: wp_any [where m = "new endpoints"]
      wp_any [where m = "tryEndpoints E endpoints None"] wp_any [where m = "etcd_Close E"])
  obtain r e' where run: "run_state (NewEtcdStore E new (cfg_EtcdEndpoints cfg) (cfg_ClusterName cfg)) e = (r, e')"
    by fastforce
  have "r = Inr p \<Longrightarrow> p = \<lparr>es_prefix = ''/ha/'' @ cfg_ClusterName cfg\<rparr>" for p
    using new [of "cfg_EtcdEndpoints cfg" "cfg_ClusterName cfg" p] run by (simp add: wp_def)
  then show ?thesis
    using assms run by (auto simp: wp_def controllerMain_def selectStore_def plainServer_def split: sum.splits)
qed

section \<open>The agent\<close>







end
