(* ===== verification/HA_Process.thy ===== *)
theory HA_Process
  imports HA_Main
begin

text \<open>
  The end of the programs: how \<open>main\<close> of \<open>cmd/controller\<close>, \<open>cmd/mysql-agent\<close> and
  \<open>cmd/alert-receiver\<close> serve, are signalled and exit. A process is a state machine whose steps are
  those of its goroutines: \<open>main\<close> inside \<open>ListenAndServe\<close>, the goroutine that waits for the signal
  and calls \<open>Shutdown\<close>, the goroutines of requests, and \<open>Run\<close> of the controller. Of \<open>net/http\<close> it
  uses what the package documents: \<open>ListenAndServe\<close> returns a non-nil error, \<open>ErrServerClosed\<close> as
  soon as \<open>Shutdown\<close> is called; \<open>Shutdown\<close> closes the listener and then waits for requests under
  way. \<open>os.Exit\<close> does not run deferred calls, and returning from \<open>main\<close> ends all goroutines.
\<close>

section \<open>After ListenAndServe\<close>

definition ErrServerClosed :: error where
  "ErrServerClosed = ''http: Server closed''"

text \<open>The deferred calls, last first; \<open>stop\<close> of the signal context has no effect on the world.\<close>

definition controllerDefers :: "'w Runtime \<Rightarrow> 'w Controller \<Rightarrow> ('w, unit) state" where
  "controllerDefers rt c = do {
     Controller_Close rt c;
     State_Monad.return ()
   }"

definition agentDefers :: "('w, error option) state \<Rightarrow> ('w, error option) state \<Rightarrow> ('w, unit) state" where
  "agentDefers storeClose dbClose = do {
     storeClose;
     dbClose;
     State_Monad.return ()
   }"

section \<open>Processes\<close>

datatype mainPhase = Listening | Returning | Exited int

datatype watcher = Watching | Draining | Drained | Absent

record 'w process =
  pr_world :: 'w
  pr_done :: bool
  pr_open :: bool
  pr_inflight :: nat
  pr_watcher :: watcher
  pr_bounded :: bool
  pr_running :: bool
  pr_main :: mainPhase

text \<open>
  The context is done, the listener is open, requests are under way, the goroutine that waits for
  the signal, whether its \<open>Shutdown\<close> has a deadline, whether \<open>Run\<close> goes on, and \<open>main\<close>.
\<close>

definition controllerProcess :: "'w \<Rightarrow> 'w process" where
  "controllerProcess w = \<lparr>pr_world = w, pr_done = False, pr_open = True, pr_inflight = 0,
     pr_watcher = Watching, pr_bounded = False, pr_running = True, pr_main = Listening\<rparr>"

definition agentProcess :: "'w \<Rightarrow> 'w process" where
  "agentProcess w = (controllerProcess w)\<lparr>pr_running := False, pr_bounded := True\<rparr>"

definition receiverServer :: "string \<Rightarrow> HttpServer" where
  "receiverServer addr = (plainServer addr)\<lparr>hs_ReadHeaderTimeout := 3000000000\<rparr>"

definition receiverProcess :: "'w \<Rightarrow> 'w process" where
  "receiverProcess w = (controllerProcess w)\<lparr>pr_running := False, pr_watcher := Absent\<rparr>"

text \<open>What \<open>main\<close> does with the error of \<open>ListenAndServe\<close>.\<close>

definition afterListen :: "error \<Rightarrow> mainPhase" where
  "afterListen err = (if err \<noteq> ErrServerClosed then Exited 1 else Returning)"

fun alive :: "mainPhase \<Rightarrow> bool" where
  "alive (Exited _) = False"
| "alive _ = True"

inductive pstep :: "('w, unit) state \<Rightarrow> 'w process \<Rightarrow> 'w process \<Rightarrow> bool" for defers where
  signal: "alive (pr_main p) \<Longrightarrow> pstep defers p (p\<lparr>pr_done := True\<rparr>)"
| accept: "alive (pr_main p) \<Longrightarrow> pr_open p \<Longrightarrow> pstep defers p (p\<lparr>pr_inflight := Suc (pr_inflight p)\<rparr>)"
| work: "alive (pr_main p) \<Longrightarrow> 0 < pr_inflight p \<or> pr_running p \<Longrightarrow> pstep defers p (p\<lparr>pr_world := w\<rparr>)"
| finish: "alive (pr_main p) \<Longrightarrow> pr_inflight p = Suc n \<Longrightarrow> pstep defers p (p\<lparr>pr_inflight := n\<rparr>)"
| runEnds: "alive (pr_main p) \<Longrightarrow> pr_running p \<Longrightarrow> pr_done p \<Longrightarrow> pstep defers p (p\<lparr>pr_running := False\<rparr>)"
| shutdown: "alive (pr_main p) \<Longrightarrow> pr_watcher p = Watching \<Longrightarrow> pr_done p \<Longrightarrow>
    pstep defers p (p\<lparr>pr_open := False, pr_watcher := Draining\<rparr>)"
| drained: "alive (pr_main p) \<Longrightarrow> pr_watcher p = Draining \<Longrightarrow> pr_inflight p = 0 \<Longrightarrow>
    pstep defers p (p\<lparr>pr_watcher := Drained\<rparr>)"
| expired: "alive (pr_main p) \<Longrightarrow> pr_watcher p = Draining \<Longrightarrow> pr_bounded p \<Longrightarrow>
    pstep defers p (p\<lparr>pr_watcher := Drained\<rparr>)"
| listenFails: "pr_main p = Listening \<Longrightarrow> err \<noteq> ErrServerClosed \<Longrightarrow>
    pstep defers p (p\<lparr>pr_main := afterListen err\<rparr>)"
| listenClosed: "pr_main p = Listening \<Longrightarrow> \<not> pr_open p \<Longrightarrow>
    pstep defers p (p\<lparr>pr_main := afterListen ErrServerClosed\<rparr>)"
| return: "pr_main p = Returning \<Longrightarrow>
    pstep defers p (p\<lparr>pr_main := Exited 0, pr_world := snd (run_state defers (pr_world p))\<rparr>)"

text \<open>What holds of a process at every moment.\<close>

definition orderly :: "('w, unit) state \<Rightarrow> 'w process \<Rightarrow> bool" where
  "orderly defers p \<longleftrightarrow>
    (\<not> pr_open p \<longrightarrow> pr_done p) \<and>
    (pr_watcher p \<in> {Draining, Drained} \<longleftrightarrow> \<not> pr_open p) \<and>
    (pr_main p = Returning \<longrightarrow> \<not> pr_open p) \<and>
    (\<forall>k. pr_main p = Exited k \<longrightarrow> k = 1 \<or>
      k = 0 \<and> \<not> pr_open p \<and> (\<exists>w. pr_world p = snd (run_state defers w)))"

lemma orderly_step: "pstep defers p q \<Longrightarrow> orderly defers p \<Longrightarrow> orderly defers q"
  by (induction rule: pstep.induct) (auto simp: orderly_def afterListen_def)

lemma orderly_runs: "(pstep defers)\<^sup>*\<^sup>* p q \<Longrightarrow> orderly defers p \<Longrightarrow> orderly defers q"
  by (induction rule: rtranclp_induct) (auto intro: orderly_step)

lemma orderly_start:
  "orderly defers (controllerProcess w)" "orderly defers (agentProcess w)" "orderly defers (receiverProcess w)"
  by (simp_all add: orderly_def controllerProcess_def agentProcess_def receiverProcess_def)


text \<open>The alert receiver is not told of signals: it never exits with 0.\<close>

lemma receiver_exits:
  assumes "(pstep defers)\<^sup>*\<^sup>* (receiverProcess w) q" and "pr_main q = Exited k"
  shows "k = 1"
proof -
  have "pr_watcher q = Absent \<and> pr_open q"
    using assms(1)
  proof (induction rule: rtranclp_induct)
    case (step p q)
    from step.hyps(2) step.IH show ?case by cases auto
  qed (simp add: receiverProcess_def controllerProcess_def)
  with orderly_runs [OF assms(1) orderly_start(3)] assms(2) show ?thesis by (auto simp: orderly_def)
qed

text \<open>A run that ends while a request and \<open>Run\<close> are under way.\<close>

definition cutOffAt :: "('w, unit) state \<Rightarrow> 'w \<Rightarrow> 'w process" where
  "cutOffAt defers w = \<lparr>pr_world = snd (run_state defers w), pr_done = True, pr_open = False,
     pr_inflight = 1, pr_watcher = Draining, pr_bounded = False, pr_running = True, pr_main = Exited 0\<rparr>"

lemma cutOff_run: "(pstep defers)\<^sup>*\<^sup>* (controllerProcess w) (cutOffAt defers w)"
proof -
  let ?p0 = "controllerProcess w"
  let ?p1 = "?p0\<lparr>pr_inflight := Suc (pr_inflight ?p0)\<rparr>"
  let ?p2 = "?p1\<lparr>pr_done := True\<rparr>"
  let ?p3 = "?p2\<lparr>pr_open := False, pr_watcher := Draining\<rparr>"
  let ?p4 = "?p3\<lparr>pr_main := afterListen ErrServerClosed\<rparr>"
  have s1: "pstep defers ?p0 ?p1" by (rule pstep.accept) (simp_all add: controllerProcess_def)
  have s2: "pstep defers ?p1 ?p2" by (rule pstep.signal) (simp add: controllerProcess_def)
  have s3: "pstep defers ?p2 ?p3" by (rule pstep.shutdown) (simp_all add: controllerProcess_def)
  have s4: "pstep defers ?p3 ?p4" by (rule pstep.listenClosed) (simp_all add: controllerProcess_def)
  have s5: "pstep defers ?p4 (cutOffAt defers w)"
    using pstep.return [of ?p4 defers] by (simp add: controllerProcess_def afterListen_def cutOffAt_def)
  note later = converse_rtranclp_into_rtranclp [of "pstep defers"]
  show ?thesis
    by (rule later [OF s1 later [OF s2 later [OF s3 later [OF s4 r_into_rtranclp [of "pstep defers", OF s5]]]]])
qed


text \<open>
  C40. A controller can exit in the middle of a switch: asked to stop while a request is under way, it
  can exit with 0, its store closed, before the request is answered and before \<open>Run\<close> has resigned,
  since \<open>main\<close> returns as soon as the listener closes and waits neither for \<open>Shutdown\<close> nor for \<open>Run\<close>.
\<close>

theorem exit_cuts_requests:
  "\<exists>q. (pstep (controllerDefers rt c))\<^sup>*\<^sup>* (controllerProcess w) q \<and> pr_main q = Exited 0 \<and>
    pr_world q = snd (run_state (controllerDefers rt c) w) \<and> pr_inflight q = 1 \<and> pr_running q"
  by (intro exI [of _ "cutOffAt (controllerDefers rt c) w"] conjI cutOff_run) (simp_all add: cutOffAt_def)

end
