(* ===== verification/HA_Migrate.thy ===== *)
theory HA_Migrate
  imports HA_Config_Laws
begin

text \<open>
  \<open>cmd/state-migrate\<close>: copies the cluster state and the task history from one etcd to another
  that has none, and reads them back. A step that fails logs a message and exits: \<open>Inl\<close> or
  \<open>Some\<close> of the message.
\<close>


text \<open>The calls on the destination: \<open>Get\<close> with \<open>WithPrefix\<close>, and \<open>Put\<close>. Values are raw text.\<close>

type_synonym rawKV = "string \<times> string"

record 'e Destination =
  dst_GetPrefix :: "string \<Rightarrow> ('e, error + rawKV list) state"
  dst_Put :: "string \<Rightarrow> string \<Rightarrow> ('e, error option) state"

definition migrate_split :: "string \<Rightarrow> error + string list" where
  "migrate_split value =
    (let result = filter (\<lambda>x. x \<noteq> '''') (map TrimSpace (Split value CHR '','')) in
     if result = [] then Inl ''migration endpoints are required'' else Inr result)"

definition migrated :: "string \<Rightarrow> string \<Rightarrow> bool" where
  "migrated base key \<longleftrightarrow> key = base @ ''/cluster'' \<or> HasPrefix key (base @ ''/tasks/'')"

fun writeKeys :: "'e Destination \<Rightarrow> rawKV list \<Rightarrow> ('e, error option) state" where
  "writeKeys D [] = State_Monad.return None"
| "writeKeys D (kv # kvs) = do {
     r \<leftarrow> dst_Put D (fst kv) (snd kv);
     (case r of
        Some err \<Rightarrow> State_Monad.return (Some (''write destination key '' @ fst kv @ '': '' @ err))
      | None \<Rightarrow> writeKeys D kvs)
   }"

text \<open>\<open>actual[key] != value\<close>: a missing key reads as the empty text.\<close>

definition verified :: "rawKV list \<Rightarrow> rawKV \<Rightarrow> bool" where
  "verified actual kv \<longleftrightarrow> (case map_of (rev actual) (fst kv) of
      None \<Rightarrow> snd kv = '''' | Some v \<Rightarrow> v = snd kv)"

text \<open>From the keys read at the source to the verification; the number of migrated keys.\<close>

definition migrate ::
  "'e Destination \<Rightarrow> string \<Rightarrow> error + rawKV list \<Rightarrow> ('e, error + nat) state" where
  "migrate D base source = (case source of
      Inl err \<Rightarrow> State_Monad.return (Inl (''read source: '' @ err))
    | Inr kvs \<Rightarrow>
        let selected = filter (\<lambda>kv. migrated base (fst kv)) kvs in
        if selected = [] then State_Monad.return (Inl ''source has no cluster state or task history'')
        else do {
          d \<leftarrow> dst_GetPrefix D (base @ ''/'');
          (case d of
             Inl err \<Rightarrow> State_Monad.return (Inl (''read destination: '' @ err))
           | Inr present \<Rightarrow> (case find (\<lambda>kv. migrated base (fst kv)) present of
               Some kv \<Rightarrow> State_Monad.return (Inl (''destination already contains HA state at '' @ fst kv))
             | None \<Rightarrow>
                 if \<not> list_ex (\<lambda>kv. fst kv = base @ ''/cluster'') selected
                 then State_Monad.return (Inl ''source cluster state key is missing'')
                 else do {
                   w \<leftarrow> writeKeys D selected;
                   (case w of
                      Some err \<Rightarrow> State_Monad.return (Inl err)
                    | None \<Rightarrow> do {
                        v \<leftarrow> dst_GetPrefix D (base @ ''/'');
                        State_Monad.return (case v of
                            Inl err \<Rightarrow> Inl (''verify destination: '' @ err)
                          | Inr actual \<Rightarrow> (case find (\<lambda>kv. \<not> verified actual kv) selected of
                                Some kv \<Rightarrow> Inl (''destination verification failed at '' @ fst kv)
                              | None \<Rightarrow> Inr (length selected)))
                      })
                 }))
        })"

text \<open>
  \<open>main\<close>: \<open>newSource\<close> and \<open>newDestination\<close> are \<open>clientv3.New\<close>; the source client is only asked for
  the keys with a prefix.
\<close>

definition migrateMain ::
  "environ \<Rightarrow> (string list \<Rightarrow> error + (string \<Rightarrow> error + rawKV list)) \<Rightarrow>
    (string list \<Rightarrow> error + 'e Destination) \<Rightarrow> ('e, error + nat) state" where
  "migrateMain getenv newSource newDestination =
    (let name = env getenv ''HA_CLUSTER_NAME'' ''mysql-ha''; base = ''/ha/'' @ name in
     case migrate_split (getenv ''HA_MIGRATE_SOURCE_ENDPOINTS'') of
       Inl err \<Rightarrow> State_Monad.return (Inl err)
     | Inr from \<Rightarrow> (case newSource from of
         Inl err \<Rightarrow> State_Monad.return (Inl err)
       | Inr source \<Rightarrow> (case migrate_split (getenv ''HA_MIGRATE_DEST_ENDPOINTS'') of
           Inl err \<Rightarrow> State_Monad.return (Inl err)
         | Inr to \<Rightarrow> (case newDestination to of
             Inl err \<Rightarrow> State_Monad.return (Inl err)
           | Inr D \<Rightarrow> migrate D base (source (base @ ''/''))))))"

text \<open>
  What etcd documents of the destination, seen by \<open>view\<close>: a read returns every key with the
  prefix once with its value and changes nothing, a write changes its own key.
\<close>

definition destination_documented :: "'e Destination \<Rightarrow> ('e \<Rightarrow> string \<Rightarrow> string option) \<Rightarrow> bool" where
  "destination_documented D view \<longleftrightarrow>
    (\<forall>p e r e'. run_state (dst_GetPrefix D p) e = (r, e') \<longrightarrow> view e' = view e \<and>
      (\<forall>kvs. r = Inr kvs \<longrightarrow> distinct (map fst kvs) \<and>
        (\<forall>k v. (k, v) \<in> set kvs \<longleftrightarrow> HasPrefix k p \<and> view e k = Some v))) \<and>
    (\<forall>k v e r e'. run_state (dst_Put D k v) e = (r, e') \<longrightarrow>
      view e' = (view e)(k \<mapsto> v) \<or> r \<noteq> None \<and> view e' = view e)"

definition writeAll :: "rawKV list \<Rightarrow> (string \<rightharpoonup> string) \<Rightarrow> string \<rightharpoonup> string" where
  "writeAll kvs m = fold (\<lambda>kv m. m(fst kv \<mapsto> snd kv)) kvs m"

lemma writeAll_simps [simp]:
  "writeAll [] m = m" "writeAll (kv # kvs) m = writeAll kvs (m(fst kv \<mapsto> snd kv))"
  by (simp_all add: writeAll_def)

lemma writeAll_other: "k \<notin> fst ` set kvs \<Longrightarrow> writeAll kvs m k = m k"
  by (induction kvs arbitrary: m) auto

lemma writeAll_key:
  "distinct (map fst kvs) \<Longrightarrow> (k, v) \<in> set kvs \<Longrightarrow> writeAll kvs m k = Some v"
proof (induction kvs arbitrary: m)
  case (Cons kv kvs)
  show ?case
  proof (cases "(k, v) = kv")
    case True
    with Cons.prems(1) have "k \<notin> set (map fst kvs)" by (metis distinct.simps(2) fst_conv list.map(2))
    then show ?thesis using True [symmetric] by (simp add: writeAll_other)
  next
    case False
    with Cons show ?thesis by simp
  qed
qed simp

lemma wp_writeKeys:
  assumes doc: "destination_documented D view"
    and ok: "\<And>e'. view e' = writeAll kvs (view e) \<Longrightarrow> Q None e'"
    and err: "\<And>msg e'. (\<forall>k. k \<notin> fst ` set kvs \<longrightarrow> view e' k = view e k) \<Longrightarrow> Q (Some msg) e'"
  shows "wp (writeKeys D kvs) Q e"
  using ok err
proof (induction kvs arbitrary: e)
  case Nil
  then show ?case by (simp add: wp)
next
  case (Cons kv kvs)
  obtain r e1 where put: "run_state (dst_Put D (fst kv) (snd kv)) e = (r, e1)" by fastforce
  have v: "view e1 = (view e)(fst kv \<mapsto> snd kv) \<or> r \<noteq> None \<and> view e1 = view e"
    using conjunct2 [OF doc [unfolded destination_documented_def]] put by metis
  show ?case
  proof (cases r)
    case (Some msg)
    with v have "\<forall>k. k \<notin> fst ` set (kv # kvs) \<longrightarrow> view e1 k = view e k" by auto
    from Cons.prems(2) [OF this] put Some show ?thesis by (simp add: wp_def)
  next
    case None
    with v have v1: "view e1 = (view e)(fst kv \<mapsto> snd kv)" by simp
    have "wp (writeKeys D kvs) Q e1"
    proof (rule Cons.IH)
      show "Q None e'" if "view e' = writeAll kvs (view e1)" for e'
        using that v1 by (intro Cons.prems(1)) simp
      show "Q (Some msg) e'" if "\<forall>k. k \<notin> fst ` set kvs \<longrightarrow> view e' k = view e1 k" for msg e'
        using that v1 by (intro Cons.prems(2)) simp
    qed
    with put None show ?thesis by (simp add: wp_def)
  qed
qed

lemma migrated_prefix: "migrated base k \<Longrightarrow> HasPrefix k (base @ ''/'')"
  by (auto simp: migrated_def HasPrefix_iff prefix_def)

lemma wp_GetPrefix:
  assumes doc: "destination_documented D view"
    and err: "\<And>msg e'. view e' = view e \<Longrightarrow> Q (Inl msg) e'"
    and ok: "\<And>kvs e'. view e' = view e \<Longrightarrow> distinct (map fst kvs) \<Longrightarrow>
      (\<And>k v. (k, v) \<in> set kvs \<longleftrightarrow> HasPrefix k p \<and> view e k = Some v) \<Longrightarrow> Q (Inr kvs) e'"
  shows "wp (dst_GetPrefix D p) Q e"
proof -
  obtain r e' where run: "run_state (dst_GetPrefix D p) e = (r, e')" by fastforce
  note d = conjunct1 [OF doc [unfolded destination_documented_def], rule_format, OF run]
  show ?thesis
  proof (cases r)
    case (Inl msg)
    with run err d show ?thesis by (simp add: wp_def)
  next
    case (Inr kvs)
    have "Q (Inr kvs) e'" by (rule ok) (use d Inr in auto)
    with run Inr show ?thesis by (simp add: wp_def)
  qed
qed

text \<open>
  C31. A migration is faithful. Keys that are not cluster state or tasks are never touched. A
  destination that already holds such keys is refused and left as it was. After a success the
  destination, which held none, holds exactly the source's, the cluster state among them, with
  their values.
\<close>

theorem migrate_faithful:
  assumes doc: "destination_documented D view" and kvs: "distinct (map fst kvs)"
  shows "wp (migrate D base (Inr kvs)) (\<lambda>r e'.
    (\<forall>k. \<not> migrated base k \<longrightarrow> view e' k = view e k) \<and>
    (case r of
       Inl _ \<Rightarrow> (\<exists>k. migrated base k \<and> view e k \<noteq> None) \<longrightarrow> view e' = view e
     | Inr n \<Rightarrow> map_of kvs (base @ ''/cluster'') \<noteq> None \<and>
         (\<forall>k. migrated base k \<longrightarrow> view e k = None \<and> view e' k = map_of kvs k))) e"
proof -
  define selected where "selected = filter (\<lambda>kv. migrated base (fst kv)) kvs"
  have dist: "distinct (map fst selected)"
    using kvs by (simp add: selected_def distinct_map_filter)
  have outside: "k \<notin> fst ` set selected" if "\<not> migrated base k" for k
    using that by (auto simp: selected_def)
  then have other: "writeAll selected m k = m k" if "\<not> migrated base k" for m k
    using that by (intro writeAll_other)
  have own: "writeAll selected m k = map_of kvs k" if "migrated base k" "m k = None" for m k
  proof (cases "map_of kvs k")
    case None
    then have "k \<notin> fst ` set selected" by (auto simp: selected_def map_of_eq_None_iff)
    with None that show ?thesis by (simp add: writeAll_other)
  next
    case (Some v)
    then have "(k, v) \<in> set selected" using that by (auto simp: selected_def dest: map_of_SomeD)
    with Some dist show ?thesis by (simp add: writeAll_key)
  qed
  have read: "wp (dst_GetPrefix D (base @ ''/'')) Q d"
    if err: "\<And>msg d'. view d' = view d \<Longrightarrow> Q (Inl msg) d'"
      and ok: "\<And>present d'. view d' = view d \<Longrightarrow>
        find (\<lambda>kv. migrated base (fst kv)) present = None \<longrightarrow> (\<forall>k. migrated base k \<longrightarrow> view d k = None) \<Longrightarrow>
        Q (Inr present) d'" for Q d
  proof (rule wp_GetPrefix [OF doc])
    show "Q (Inl msg) d'" if "view d' = view d" for msg d' using that by (rule err)
  next
    fix present d'
    assume d': "view d' = view d"
      and all: "\<And>k v. (k, v) \<in> set present \<longleftrightarrow> HasPrefix k (base @ ''/'') \<and> view d k = Some v"
    have "view d k = None" if "find (\<lambda>kv. migrated base (fst kv)) present = None" "migrated base k" for k
      using that all migrated_prefix [of base k] by (cases "view d k") (fastforce simp: find_None_iff)+
    with d' show "Q (Inr present) d'" by (intro ok) blast+
  qed
  have cluster: "map_of kvs (base @ ''/cluster'') \<noteq> None"
    if "list_ex (\<lambda>kv. fst kv = base @ ''/cluster'') selected"
    using that by (auto simp: selected_def list_ex_iff map_of_eq_None_iff intro: rev_image_eqI)
  show ?thesis
    unfolding migrate_def Let_def sum.case selected_def [symmetric]
    by (auto simp: wp outside other own cluster split: sum.splits option.splits
      intro!: read wp_writeKeys [OF doc])
qed

section \<open>A destination in memory\<close>

definition refDestination :: "(string \<times> string) list Destination" where
  "refDestination = \<lparr>
     dst_GetPrefix = \<lambda>p. gets (\<lambda>e. Inr (filter (\<lambda>kv. HasPrefix (fst kv) p) (AList.clearjunk e))),
     dst_Put = \<lambda>k v. do { modify (AList.update k v); State_Monad.return None }\<rparr>"

lemma refDestination_documented: "destination_documented refDestination map_of"
proof -
  have "(k, v) \<in> set (AList.clearjunk e) \<longleftrightarrow> map_of e k = Some v" for k v and e :: "(string \<times> string) list"
    using map_of_eq_Some_iff [OF distinct_clearjunk] by (metis map_of_clearjunk)
  moreover have "distinct (map fst (filter P (AList.clearjunk e)))" for P and e :: "(string \<times> string) list"
    by (intro distinct_map_filter distinct_clearjunk)
  ultimately show ?thesis
    by (auto simp: destination_documented_def refDestination_def update_conv')
qed

theorem migrate_faithful_witness:
  "wp (migrate refDestination ''/ha/x'' (Inr [(''/ha/x/cluster'', ''{}''), (''/ha/x/leader'', ''c''), (''/ha/x/tasks/1'', ''{}'')]))
    (\<lambda>r e. \<not> isl r \<and> map_of e ''/ha/x/cluster'' = Some ''{}'' \<and> map_of e ''/ha/x/leader'' = None) []"
proof -
  have "wp (migrate refDestination ''/ha/x'' (Inr [(''/ha/x/cluster'', ''{}''), (''/ha/x/leader'', ''c''), (''/ha/x/tasks/1'', ''{}'')]))
      (\<lambda>r _. \<not> isl r) []"
    by code_simp
  moreover have "migrated ''/ha/x'' ''/ha/x/cluster''" "\<not> migrated ''/ha/x'' ''/ha/x/leader''"
    by (simp_all add: migrated_def HasPrefix_def)
  moreover note migrate_faithful [OF refDestination_documented, where base = "''/ha/x''" and e = "[]"
    and kvs = "[(''/ha/x/cluster'', ''{}''), (''/ha/x/leader'', ''c''), (''/ha/x/tasks/1'', ''{}'')]"]
  ultimately show ?thesis by (auto simp: wp_def split: prod.splits sum.splits)
qed

end
