(* ===== verification/Go_Library.thy ===== *)
theory Go_Library
  imports Go_Strings
begin

text \<open>
  What the tools use of Go's \<open>path/filepath\<close>, \<open>net\<close> and \<open>time\<close>: cleaned paths, parsed addresses, and
  dates a number of years later. The lemmas: names that differ give paths that differ, a parsed
  address has sixteen bytes and its text no separator, the year of a day contains the day, and a
  date some years later is later.
\<close>

section \<open>Paths\<close>

definition cleanStep :: "bool \<Rightarrow> string list \<Rightarrow> string \<Rightarrow> string list" where
  "cleanStep rooted acc item =
    (if item = '''' \<or> item = ''.'' then acc
     else if item = ''..'' then
       (if acc \<noteq> [] \<and> last acc \<noteq> ''..'' then butlast acc
        else if rooted then acc else acc @ [item])
     else acc @ [item])"

definition cleanItems :: "bool \<Rightarrow> string \<Rightarrow> string list" where
  "cleanItems rooted path = foldl (cleanStep rooted) [] (Split path CHR ''/'')"

text \<open>\<open>filepath.Clean\<close> and \<open>filepath.Join\<close> of two items.\<close>

definition Clean :: "string \<Rightarrow> string" where
  "Clean path =
    (let rooted = HasPrefix path ''/''; items = cleanItems rooted path in
     if rooted then CHR ''/'' # Join CHR ''/'' items
     else if items = [] then ''.'' else Join CHR ''/'' items)"

definition JoinPath :: "string \<Rightarrow> string \<Rightarrow> string" where
  "JoinPath dir file =
    (if dir = '''' then (if file = '''' then '''' else Clean file)
     else if file = '''' then Clean dir else Clean (dir @ ''/'' @ file))"

text \<open>A name that is one item of a path.\<close>

definition plainName :: "string \<Rightarrow> bool" where
  "plainName name \<longleftrightarrow> CHR ''/'' \<notin> set name \<and> name \<notin> {'''', ''.'', ''..''}"

lemma Split_append: "Split (s @ c # t) c = Split s c @ Split t c"
  by (induction s) (auto split: list.splits)

lemma cleanItems_join:
  "plainName f \<Longrightarrow> cleanItems rooted (dir @ ''/'' @ f) = cleanItems rooted dir @ [f]"
  by (simp add: cleanItems_def Split_append Split_id plainName_def cleanStep_def)

lemma set_cleanItems: "set (cleanItems rooted path) \<subseteq> set (Split path CHR ''/'')"
proof -
  have "set (foldl (cleanStep rooted) acc items) \<subseteq> set acc \<union> set items" for acc items
  proof (induction items arbitrary: acc)
    case (Cons x items)
    have "set (cleanStep rooted acc x) \<subseteq> set acc \<union> {x}"
      by (auto simp: cleanStep_def dest: in_set_butlastD)
    with Cons [of "cleanStep rooted acc x"] show ?case by auto
  qed simp
  from this [of "[]"] show ?thesis by (simp add: cleanItems_def)
qed

lemma cleanItems_no_sep: "item \<in> set (cleanItems rooted path) \<Longrightarrow> CHR ''/'' \<notin> set item"
  using set_cleanItems by (metis Split_no_sep subsetD)

lemma JoinPath_inj:
  assumes "plainName f" "plainName g" "JoinPath dir f = JoinPath dir g"
  shows "f = g"
proof -
  have clean: "Clean (dir @ ''/'' @ h) = (if HasPrefix dir ''/'' then [CHR ''/''] else []) @
      Join CHR ''/'' (cleanItems (HasPrefix dir ''/'') dir @ [h])" if "plainName h" "dir \<noteq> ''''" for h
  proof -
    have "HasPrefix (dir @ ''/'' @ h) ''/'' = HasPrefix dir ''/''"
      using that by (cases dir) (simp_all add: HasPrefix_def)
    then show ?thesis by (simp only: Clean_def Let_def cleanItems_join [OF that(1)]) simp
  qed
  have bare: "Clean h = h" if "plainName h" for h
    using that by (cases h)
      (auto simp: Clean_def HasPrefix_def plainName_def cleanItems_def Split_id cleanStep_def)
  have "Split (Join CHR ''/'' (cleanItems b dir @ [h])) CHR ''/'' = cleanItems b dir @ [h]"
    if "plainName h" for b h
    using that by (intro Split_Join) (auto simp: plainName_def dest: cleanItems_no_sep)
  note split = this
  show ?thesis
  proof (cases "dir = ''''")
    case True
    with assms bare show ?thesis by (simp add: JoinPath_def plainName_def)
  next
    case False
    with assms clean have "Join CHR ''/'' (cleanItems (HasPrefix dir ''/'') dir @ [f]) =
        Join CHR ''/'' (cleanItems (HasPrefix dir ''/'') dir @ [g])"
      by (simp add: JoinPath_def plainName_def)
    with split [OF assms(1)] split [OF assms(2)] show ?thesis by (metis last_snoc)
  qed
qed

section \<open>IP addresses\<close>

text \<open>
  \<open>net.ParseIP\<close>: the sixteen bytes of an address in dotted decimal or IPv6 form. An IPv6 zone is
  refused.
\<close>

definition ipv4Field :: "string \<Rightarrow> nat option" where
  "ipv4Field s =
    (if s \<noteq> '''' \<and> list_all isDigit s \<and> (length s = 1 \<or> hd s \<noteq> CHR ''0'') \<and> digitsVal s \<le> 255
     then Some (digitsVal s) else None)"

definition parseIPv4 :: "string \<Rightarrow> nat list option" where
  "parseIPv4 s =
    (let fields = map ipv4Field (Split s CHR ''.'') in
     if length fields = 4 \<and> None \<notin> set fields then Some (map the fields) else None)"

definition hexVal :: "char \<Rightarrow> nat option" where
  "hexVal c =
    (let n = of_char c in
     if 48 \<le> n \<and> n \<le> 57 then Some (n - 48)
     else if 97 \<le> n \<and> n \<le> 102 then Some (n - 87)
     else if 65 \<le> n \<and> n \<le> 70 then Some (n - 55)
     else None)"

definition hexDigits :: "string \<Rightarrow> string" where
  "hexDigits = takeWhile (\<lambda>c. hexVal c \<noteq> None)"

definition hexNumber :: "string \<Rightarrow> nat" where
  "hexNumber = foldl (\<lambda>n c. 16 * n + the (hexVal c)) 0"

text \<open>
  The loop over the groups: the number of groups there is room for, the bytes so far, the place of
  the \<open>::\<close> and the rest of the text.
\<close>

fun ipv6Groups ::
  "nat \<Rightarrow> nat list \<Rightarrow> nat option \<Rightarrow> string \<Rightarrow> (nat list \<times> nat option \<times> string) option" where
  "ipv6Groups 0 ip ellipsis s = Some (ip, ellipsis, s)"
| "ipv6Groups (Suc n) ip ellipsis s =
    (let h = hexDigits s; rest = drop (length h) s; v = hexNumber h;
         next = ip @ [v div 256, v mod 256] in
     if h = '''' \<or> length h > 4 then None
     else if HasPrefix rest ''.'' then
       (if ellipsis = None \<and> length ip \<noteq> 12 \<or> length ip + 4 > 16 then None
        else map_option (\<lambda>v4. (ip @ v4, ellipsis, '''')) (parseIPv4 s))
     else if rest = '''' then Some (next, ellipsis, '''')
     else if \<not> HasPrefix rest '':'' \<or> length rest = 1 then None
     else if HasPrefix rest ''::'' then
       (if ellipsis \<noteq> None then None
        else if length rest = 2 then Some (next, Some (length next), '''')
        else ipv6Groups n next (Some (length next)) (drop 2 rest))
     else ipv6Groups n next ellipsis (drop 1 rest))"

definition parseIPv6 :: "string \<Rightarrow> nat list option" where
  "parseIPv6 s =
    (let open = HasPrefix s ''::''; rest = (if open then drop 2 s else s) in
     if CHR 0x25 \<in> set s then None
     else if open \<and> rest = '''' then Some (replicate 16 0)
     else (case ipv6Groups 8 [] (if open then Some 0 else None) rest of
         None \<Rightarrow> None
       | Some (ip, ellipsis, rest) \<Rightarrow>
           if rest \<noteq> '''' then None
           else if length ip < 16 then
             map_option (\<lambda>e. take e ip @ replicate (16 - length ip) 0 @ drop e ip) ellipsis
           else if ellipsis \<noteq> None then None else Some ip))"

definition ParseIP :: "string \<Rightarrow> nat list option" where
  "ParseIP s = (case find (\<lambda>c. c \<in> {CHR ''.'', CHR '':'', CHR 0x25}) s of
      None \<Rightarrow> None
    | Some c \<Rightarrow>
        if c = CHR ''.'' then map_option (\<lambda>v4. replicate 10 0 @ [255, 255] @ v4) (parseIPv4 s)
        else if c = CHR '':'' then parseIPv6 s
        else None)"

definition ipChar :: "char \<Rightarrow> bool" where
  "ipChar c \<longleftrightarrow> hexVal c \<noteq> None \<or> c = CHR ''.'' \<or> c = CHR '':''"

lemma isDigit_hexVal: "isDigit c \<Longrightarrow> hexVal c \<noteq> None"
  by (simp add: isDigit_def hexVal_def Let_def)

lemma set_Split: "c \<in> set s \<Longrightarrow> c = sep \<or> (\<exists>p \<in> set (Split s sep). c \<in> set p)"
  by (induction s) (auto split: list.splits)

lemma parseIPv4_chars: "parseIPv4 s = Some ip \<Longrightarrow> length ip = 4 \<and> list_all ipChar s"
proof -
  assume p: "parseIPv4 s = Some ip"
  then have "isDigit c" if "x \<in> set (Split s CHR ''.'')" "c \<in> set x" for x c
    using that by (auto simp: parseIPv4_def Let_def list_all_iff image_iff ipv4Field_def
      split: if_splits)
  then have "ipChar c" if "c \<in> set s" for c
    using set_Split [OF that, of "CHR ''.''"] isDigit_hexVal unfolding ipChar_def by blast
  with p show ?thesis by (auto simp: parseIPv4_def Let_def list_all_iff split: if_splits)
qed

lemma hexDigits_split: "s = hexDigits s @ drop (length (hexDigits s)) s"
  by (simp add: hexDigits_def flip: dropWhile_eq_drop)

lemma hexDigits_chars: "list_all ipChar (hexDigits s)"
  by (auto simp: hexDigits_def list_all_iff ipChar_def dest: set_takeWhileD)

lemma ipv6Groups_chars:
  "ipv6Groups n ip ellipsis s = Some (ip', ellipsis', rest) \<Longrightarrow> rest = '''' \<Longrightarrow> list_all ipChar s"
proof (induction n ip ellipsis s rule: ipv6Groups.induct)
  case (2 n ip ellipsis s)
  let ?rest = "drop (length (hexDigits s)) s"
  show ?case
  proof (cases "HasPrefix ?rest ''.''")
    case True
    with "2.prems" show ?thesis by (auto simp: Let_def split: if_splits dest: parseIPv4_chars)
  next
    case False
    have colon: "list_all ipChar r" if "HasPrefix r '':''" "list_all ipChar (drop 1 r)" for r
      using that by (cases r) (auto simp: HasPrefix_def ipChar_def)
    have colons: "list_all ipChar r" if "HasPrefix r ''::''" "list_all ipChar (drop 2 r)" for r
      using that by (cases r rule: remdups_adj.cases) (auto simp: HasPrefix_def ipChar_def)
    from False "2.prems" "2.IH" have "list_all ipChar ?rest"
      by (auto simp: Let_def split: if_splits intro: colon colons)
    then show ?thesis by (subst hexDigits_split) (simp add: hexDigits_chars)
  qed
qed simp

definition placed :: "nat option \<Rightarrow> nat list \<Rightarrow> bool" where
  "placed ellipsis ip \<longleftrightarrow> (case ellipsis of None \<Rightarrow> True | Some e \<Rightarrow> e \<le> length ip)"

lemma placed_append: "placed ellipsis ip \<Longrightarrow> placed ellipsis (ip @ xs)"
  by (auto simp: placed_def split: option.splits)

lemma ipv6Groups_length:
  "ipv6Groups n ip ellipsis s = Some (ip', ellipsis', rest) \<Longrightarrow> length ip + 2 * n \<le> 16 \<Longrightarrow>
    placed ellipsis ip \<Longrightarrow> length ip' \<le> 16 \<and> placed ellipsis' ip'"
proof (induction n arbitrary: ip ellipsis s)
  case (Suc n)
  define h where "h = hexDigits s"
  define r where "r = drop (length h) s"
  define new where "new = ip @ [hexNumber h div 256, hexNumber h mod 256]"
  note step = Suc.prems(1) [unfolded ipv6Groups.simps Let_def, folded h_def, folded r_def new_def]
  have new: "length new + 2 * n \<le> 16" "placed ellipsis new" "placed (Some (length new)) new"
    using Suc.prems(2, 3) by (auto simp: new_def intro: placed_append) (simp add: placed_def)
  have v4: "parseIPv4 t = Some v4 \<Longrightarrow> length v4 = 4" for t v4 by (simp add: parseIPv4_chars)
  show ?case
    using step Suc.IH [OF _ new(1, 2)] Suc.IH [OF _ new(1, 3)] new Suc.prems(3)
    by (auto split: if_splits dest: v4 intro: placed_append)
qed simp

lemma ParseIP_ok: "ParseIP s = Some ip \<Longrightarrow> length ip = 16 \<and> list_all ipChar s"
proof -
  assume p: "ParseIP s = Some ip"
  consider v4 where "parseIPv4 s = Some v4" "ip = replicate 10 0 @ [255, 255] @ v4" | "parseIPv6 s = Some ip"
    using p by (auto simp: ParseIP_def split: option.splits if_splits)
  then show ?thesis
  proof cases
    case 1
    then show ?thesis by (auto dest: parseIPv4_chars)
  next
    case 2
    have colons: "list_all ipChar s" if "HasPrefix s ''::''" "list_all ipChar (drop 2 s)"
      using that by (cases s rule: remdups_adj.cases) (auto simp: HasPrefix_def ipChar_def)
    from 2 have "list_all ipChar s"
      by (auto simp: parseIPv6_def Let_def split: if_splits option.splits prod.splits
        dest!: ipv6Groups_chars intro: colons)
    moreover from 2 have "length ip = 16"
      by (auto simp: parseIPv6_def Let_def split: if_splits option.splits prod.splits
        simp: placed_def dest!: ipv6Groups_length)
    ultimately show ?thesis by simp
  qed
qed

section \<open>The calendar\<close>

text \<open>\<open>Time.AddDate (n, 0, 0)\<close> in UTC: the same month and day in another year, where 29 February
  of a year that has none is 1 March.\<close>

definition leapDay :: "int \<Rightarrow> int" where
  "leapDay y = (if y mod 4 = 0 \<and> y mod 100 \<noteq> 0 \<or> y mod 400 = 0 then 1 else 0)"

definition leapsBefore :: "int \<Rightarrow> int" where
  "leapsBefore y = (y - 1) div 4 - (y - 1) div 100 + (y - 1) div 400"

text \<open>The day a year begins with, counted from 1 January 1970, and the year of a day.\<close>

definition yearStart :: "int \<Rightarrow> int" where
  "yearStart y = 365 * (y - 1970) + leapsBefore y - leapsBefore 1970"

definition yearOf :: "int \<Rightarrow> int" where
  "yearOf d =
    (let y = 1970 + 400 * d div 146097 in
     if d < yearStart y then y - 1 else if yearStart (y + 1) \<le> d then y + 1 else y)"

definition AddYears :: "int \<Rightarrow> gotime \<Rightarrow> gotime" where
  "AddYears n t =
    (let day = 86400000000000; d = t div day; y = yearOf d; k = d - yearStart y;
         k' = (if k < 59 + leapDay y then k else k - leapDay y + leapDay (y + n)) in
     (yearStart (y + n) + k') * day + t mod day)"

lemma div_rest: "0 < (k :: int) \<Longrightarrow> \<exists>r. x = k * (x div k) + r \<and> 0 \<le> r \<and> r < k"
  by (intro exI [of _ "x mod k"]) simp

lemma leapsBefore_bounds:
  "97 * (y - 1) - 699 \<le> 400 * leapsBefore y \<and> 400 * leapsBefore y \<le> 97 * (y - 1) + 396"
proof -
  have bounds: "97 * x - 699 \<le> 400 * (a - b + c) \<and> 400 * (a - b + c) \<le> 97 * x + 396"
    if "\<exists>r. x = 4 * a + r \<and> 0 \<le> r \<and> r < 4" "\<exists>r. x = 100 * b + r \<and> 0 \<le> r \<and> r < 100"
      "\<exists>r. x = 400 * c + r \<and> 0 \<le> r \<and> r < 400" for x a b c :: int
    using that by clarsimp
  show ?thesis unfolding leapsBefore_def by (intro bounds div_rest) simp_all
qed

lemma yearStart_Suc: "yearStart (y + 1) = yearStart y + 365 + leapDay y"
proof -
  have pred: "y div k = (y - 1) div k + (if y mod k = 0 then 1 else 0)" if "0 < k" for k
  proof (cases "y mod k = 0")
    case True
    with that have "(y - 1) div k = y div k - 1"
      by (intro int_div_pos_eq [where r = "k - 1"]) (auto simp: algebra_simps)
    with True show ?thesis by simp
  next
    case False
    with that have "(y - 1) div k = y div k"
      using pos_mod_sign [OF that, of y] pos_mod_bound [OF that, of y]
      by (intro int_div_pos_eq [where r = "y mod k - 1"]) (auto simp: algebra_simps)
    with False show ?thesis by simp
  qed
  have "y mod 100 = 0 \<Longrightarrow> y mod 4 = 0" "y mod 400 = 0 \<Longrightarrow> y mod 100 = 0"
    unfolding mod_eq_0_iff_dvd by (erule dvd_trans [rotated], simp)+
  moreover have "leapsBefore (y + 1) = y div 4 - y div 100 + y div 400"
    by (simp only: leapsBefore_def add_diff_cancel_right')
  then have "leapsBefore (y + 1) = leapsBefore y + (if y mod 4 = 0 then 1 else 0) -
      (if y mod 100 = 0 then 1 else 0) + (if y mod 400 = 0 then 1 else 0)"
    unfolding leapsBefore_def [of y] by (subst (asm) (1 2 3) pred) auto
  ultimately show ?thesis by (simp only: yearStart_def leapDay_def) (simp split: if_splits)
qed

lemma yearOf: "yearStart (yearOf d) \<le> d" "d < yearStart (yearOf d + 1)"
proof -
  define y where "y = 1970 + 400 * d div 146097"
  have start: "146097 * (k - 1970) - 506 \<le> 400 * yearStart k"
    "400 * yearStart k \<le> 146097 * (k - 1970) + 589" for k
    using leapsBefore_bounds [of k] by (auto simp: yearStart_def leapsBefore_def [of 1970])
  have "146097 * (y - 1970) \<le> 400 * d" "400 * d < 146097 * (y - 1969)"
    using div_rest [of 146097 "400 * d"] y_def by (auto simp: algebra_simps)
  then show "yearStart (yearOf d) \<le> d" "d < yearStart (yearOf d + 1)"
    using start [of "y - 1"] start [of "y + 2"] unfolding yearOf_def y_def [symmetric] Let_def
    by (auto simp: algebra_simps)
qed

lemma yearStart_add: "0 \<le> n \<Longrightarrow> yearStart y + 365 * n \<le> yearStart (y + n)"
proof (induction n rule: int_ge_induct)
  case (step n)
  then show ?case using yearStart_Suc [of "y + n"] by (simp add: leapDay_def add.assoc split: if_splits)
qed simp

lemma AddYears_later:
  assumes "0 < n"
  shows "t < AddYears n t"
proof -
  define d where "d = t div 86400000000000"
  define y where "y = yearOf d"
  obtain k where k: "AddYears n t = (yearStart (y + n) + k) * 86400000000000 + t mod 86400000000000"
      "d - yearStart y - 1 \<le> k"
    by (simp add: AddYears_def Let_def d_def y_def leapDay_def)
  have "d < yearStart (y + n) + k" using k(2) yearStart_add [of n y] assms by linarith
  then have "d * 86400000000000 < (yearStart (y + n) + k) * 86400000000000" by simp
  then have "d * 86400000000000 + t mod 86400000000000 < AddYears n t" unfolding k(1) by simp
  then show ?thesis unfolding d_def div_mult_mod_eq .
qed

end
