(* ===== verification/HA_Pki.thy ===== *)
theory HA_Pki
  imports Go_Library
begin

text \<open>
  \<open>cmd/pki-gen\<close>: the tool that makes the certificate authority, a server certificate for each
  agent and a client certificate for each controller. A call of \<open>fail\<close> is \<open>Inl\<close> of its message.

  \<open>net.ParseIP\<close>, \<open>filepath.Join\<close> and \<open>Time.AddDate\<close> are in \<open>Go_Library\<close>. The random source, the file
  system and the encoders of \<open>crypto/x509\<close> are the operations of the record \<open>Pki\<close>; what they
  document is \<open>pki_documented\<close>, seen through the contents of the files and through what a
  certificate or a key in DER form says. The theorems say what the files hold when the tool
  succeeds; a reference environment in memory shows that the hypotheses can hold.
\<close>

section \<open>The tool\<close>

datatype keyUsage = CertSign | CRLSign | DigitalSignature | KeyEncipherment

datatype extKeyUsage = ServerAuth | ClientAuth

text \<open>The fields of \<open>x509.Certificate\<close> that the templates set.\<close>

record Certificate =
  x_SerialNumber :: int
  x_CommonName :: string
  x_NotBefore :: gotime
  x_NotAfter :: gotime
  x_IsCA :: bool
  x_BasicConstraintsValid :: bool
  x_KeyUsage :: "keyUsage list"
  x_ExtKeyUsage :: "extKeyUsage list"
  x_IPAddresses :: "nat list list"
  x_DNSNames :: "string list"

text \<open>
  A private key is an opaque number; a block of a PEM file is its type and its bytes, which are of
  a type of their own (\<open>'d\<close>): nothing depends on the DER encoding.
\<close>

type_synonym privateKey = nat

datatype 'd pemBlock = Pem string 'd

record ('w, 'd) Pki =
  pk_Now :: "('w, gotime) state"
  pk_RandInt :: "int \<Rightarrow> ('w, error + int) state"
  pk_GenerateKey :: "('w, error + privateKey) state"
  pk_CreateCertificate ::
    "Certificate \<Rightarrow> Certificate \<Rightarrow> privateKey \<Rightarrow> privateKey \<Rightarrow> ('w, error + 'd) state"
  pk_ParseCertificate :: "'d \<Rightarrow> error + Certificate"
  pk_MarshalPKCS8 :: "privateKey \<Rightarrow> error + 'd"
  pk_MkdirAll :: "string \<Rightarrow> nat \<Rightarrow> ('w, error + unit) state"
  pk_WriteFile :: "string \<Rightarrow> 'd pemBlock \<Rightarrow> nat \<Rightarrow> ('w, error + unit) state"

text \<open>\<open>if err != nil { return err }\<close>, then the rest.\<close>

definition orReturn ::
  "('w, error + 'a) state \<Rightarrow> ('a \<Rightarrow> ('w, error + 'b) state) \<Rightarrow> ('w, error + 'b) state" where
  "orReturn m f = do {
     r \<leftarrow> m;
     (case r of Inl err \<Rightarrow> State_Monad.return (Inl err) | Inr x \<Rightarrow> f x)
   }"

definition serial :: "('w, 'd) Pki \<Rightarrow> ('w, error + int) state" where
  "serial P = pk_RandInt P (2 ^ 128)"

definition pki_split :: "string \<Rightarrow> string list" where
  "pki_split value = filter (\<lambda>item. item \<noteq> '''') (map TrimSpace (Split value CHR '',''))"

definition dnsChar :: "char \<Rightarrow> bool" where
  "dnsChar c \<longleftrightarrow>
    (let n = (of_char c :: nat) in
     97 \<le> n \<and> n \<le> 122 \<or> 65 \<le> n \<and> n \<le> 90 \<or> 48 \<le> n \<and> n \<le> 57 \<or> c = CHR ''-'' \<or> c = CHR ''.'')"

definition validDNSName :: "string \<Rightarrow> bool" where
  "validDNSName value \<longleftrightarrow>
    (if value = '''' \<or> Contains value ''..'' then False else list_all dnsChar value)"

definition write_file :: "('w, 'd) Pki \<Rightarrow> string \<Rightarrow> 'd pemBlock \<Rightarrow> nat \<Rightarrow> ('w, error + unit) state" where
  "write_file P path data mode = pk_WriteFile P path data mode"

definition writeKey :: "('w, 'd) Pki \<Rightarrow> string \<Rightarrow> privateKey \<Rightarrow> ('w, error + unit) state" where
  "writeKey P path key = (case pk_MarshalPKCS8 P key of
      Inl err \<Rightarrow> State_Monad.return (Inl err)
    | Inr der \<Rightarrow> pk_WriteFile P path (Pem ''PRIVATE KEY'' der) 384)"

definition leafTemplate ::
  "int \<Rightarrow> gotime \<Rightarrow> string \<Rightarrow> nat list list \<Rightarrow> string list \<Rightarrow> extKeyUsage \<Rightarrow> Certificate" where
  "leafTemplate n now name ips dnsNames usage = \<lparr>x_SerialNumber = n, x_CommonName = name,
     x_NotBefore = now - 60000000000, x_NotAfter = AddYears 2 now,
     x_IsCA = False, x_BasicConstraintsValid = False,
     x_KeyUsage = [DigitalSignature, KeyEncipherment], x_ExtKeyUsage = [usage],
     x_IPAddresses = ips, x_DNSNames = dnsNames\<rparr>"

definition leaf ::
  "('w, 'd) Pki \<Rightarrow> string \<Rightarrow> Certificate \<Rightarrow> privateKey \<Rightarrow> string \<Rightarrow> nat list list \<Rightarrow> string list \<Rightarrow> extKeyUsage \<Rightarrow>
    ('w, error + unit) state" where
  "leaf P out ca caKey name ips dnsNames usage =
     orReturn (pk_GenerateKey P) (\<lambda>key. do {
       now \<leftarrow> pk_Now P;
       orReturn (serial P) (\<lambda>n.
       orReturn (pk_CreateCertificate P (leafTemplate n now name ips dnsNames usage) ca key caKey) (\<lambda>der.
       orReturn (pk_WriteFile P (JoinPath out (name @ ''.crt'')) (Pem ''CERTIFICATE'' der) 420) (\<lambda>_.
       writeKey P (JoinPath out (name @ ''.key'')) key)))
     })"

definition agentFile :: "string \<Rightarrow> string" where
  "agentFile rawIP =
    ''agent-'' @ map (\<lambda>c. if c = CHR ''.'' \<or> c = CHR '':'' then CHR ''-'' else c) rawIP"

text \<open>The subject alternative names of an agent's certificate.\<close>

definition agentNames :: "string \<Rightarrow> error + nat list list \<times> string list" where
  "agentNames rawIP = (case ParseIP rawIP of
      Some ip \<Rightarrow> Inr ([ip], [])
    | None \<Rightarrow>
        if validDNSName rawIP then Inr ([], [rawIP])
        else Inl (''invalid agent IP or DNS name: '' @ rawIP))"

fun agentLeaves ::
  "('w, 'd) Pki \<Rightarrow> string \<Rightarrow> Certificate \<Rightarrow> privateKey \<Rightarrow> string list \<Rightarrow> ('w, error + unit) state" where
  "agentLeaves P out ca caKey [] = State_Monad.return (Inr ())"
| "agentLeaves P out ca caKey (rawIP # agents) = (case agentNames rawIP of
      Inl err \<Rightarrow> State_Monad.return (Inl err)
    | Inr (ips, dnsNames) \<Rightarrow>
        orReturn (leaf P out ca caKey (agentFile rawIP) ips dnsNames ServerAuth)
          (\<lambda>_. agentLeaves P out ca caKey agents))"

fun controllerLeaves ::
  "('w, 'd) Pki \<Rightarrow> string \<Rightarrow> Certificate \<Rightarrow> privateKey \<Rightarrow> string list \<Rightarrow> ('w, error + unit) state" where
  "controllerLeaves P out ca caKey [] = State_Monad.return (Inr ())"
| "controllerLeaves P out ca caKey (cid # ids) =
    (if CHR ''/'' \<in> set cid \<or> CHR 0x5C \<in> set cid
     then State_Monad.return (Inl ''controller ID may not contain path separators'')
     else orReturn (leaf P out ca caKey cid [] [] ClientAuth)
       (\<lambda>_. controllerLeaves P out ca caKey ids))"

definition caTemplate :: "int \<Rightarrow> gotime \<Rightarrow> Certificate" where
  "caTemplate n now = \<lparr>x_SerialNumber = n, x_CommonName = ''mysql-ha-agent-ca'',
     x_NotBefore = now - 60000000000, x_NotAfter = AddYears 5 now,
     x_IsCA = True, x_BasicConstraintsValid = True,
     x_KeyUsage = [CertSign, CRLSign, DigitalSignature], x_ExtKeyUsage = [],
     x_IPAddresses = [], x_DNSNames = []\<rparr>"

text \<open>The end of \<open>main\<close>: the two loops and the line that is printed.\<close>

definition pkiLeaves ::
  "('w, 'd) Pki \<Rightarrow> string \<Rightarrow> Certificate \<Rightarrow> privateKey \<Rightarrow> string list \<Rightarrow> string list \<Rightarrow>
    ('w, error + string) state" where
  "pkiLeaves P out ca caKey agentIPs controllerIDs =
     orReturn (agentLeaves P out ca caKey agentIPs) (\<lambda>_.
     orReturn (controllerLeaves P out ca caKey controllerIDs) (\<lambda>_.
     State_Monad.return (Inr (''generated CA and '' @ showNat (length agentIPs) @
       '' agent server plus '' @ showNat (length controllerIDs) @
       '' controller client certificates in '' @ out @ [char_of (10 :: nat)]))))"

text \<open>
  \<open>main\<close>, given the values of the three flags. The error of the first \<open>GenerateKey\<close> is dropped, so
  a failure is a nil key, whose use panics; the error of writing \<open>ca.key\<close> is dropped too.
\<close>

definition pkiMain :: "('w, 'd) Pki \<Rightarrow> string \<Rightarrow> string \<Rightarrow> string \<Rightarrow> ('w, error + string) state" where
  "pkiMain P out agents controllers =
    (let agentIPs = pki_split agents; controllerIDs = pki_split controllers in
     if out = '''' then State_Monad.return (Inl ''-out is required'')
     else if agentIPs = [] \<or> controllerIDs = []
     then State_Monad.return (Inl ''-agents and -controllers are required'')
     else orReturn (pk_MkdirAll P out 448) (\<lambda>_. do {
       k \<leftarrow> pk_GenerateKey P;
       now \<leftarrow> pk_Now P;
       orReturn (serial P) (\<lambda>n. (case k of
           Inl _ \<Rightarrow> State_Monad.return
             (Inl ''runtime error: invalid memory address or nil pointer dereference'')
         | Inr caKey \<Rightarrow>
             orReturn (pk_CreateCertificate P (caTemplate n now) (caTemplate n now) caKey caKey) (\<lambda>caDER.
             (case pk_ParseCertificate P caDER of
                Inl err \<Rightarrow> State_Monad.return (Inl err)
              | Inr caCert \<Rightarrow>
                  orReturn (write_file P (JoinPath out ''ca.crt'') (Pem ''CERTIFICATE'' caDER) 420) (\<lambda>_. do {
                    _ \<leftarrow> writeKey P (JoinPath out ''ca.key'') caKey;
                    pkiLeaves P out caCert caKey agentIPs controllerIDs
                  })))))
     }))"

section \<open>What the environment documents\<close>

definition keepsFiles :: "('w \<Rightarrow> 'f) \<Rightarrow> ('w, 'a) state \<Rightarrow> bool" where
  "keepsFiles files m \<longleftrightarrow> (\<forall>s. files (snd (run_state m s)) = files s)"

text \<open>
  The files are seen through \<open>files\<close>, a path's block and permissions. Only \<open>WriteFile\<close> changes
  them, only at its path, and where it succeeds the block is there, with the given permissions if
  the file is new. \<open>issued\<close> reads from a certificate its fields, its public key and the key it was
  signed with, \<open>keyOf\<close> the key from its PKCS 8 form.
\<close>

definition pki_documented ::
  "('w, 'd) Pki \<Rightarrow> ('w \<Rightarrow> string \<rightharpoonup> 'd pemBlock \<times> nat) \<Rightarrow>
    ('d \<rightharpoonup> Certificate \<times> privateKey \<times> privateKey) \<Rightarrow> ('d \<rightharpoonup> privateKey) \<Rightarrow> bool" where
  "pki_documented P files issued keyOf \<longleftrightarrow>
    keepsFiles files (pk_Now P) \<and> (\<forall>n. keepsFiles files (pk_RandInt P n)) \<and>
    keepsFiles files (pk_GenerateKey P) \<and> (\<forall>p m. keepsFiles files (pk_MkdirAll P p m)) \<and>
    (\<forall>t ca pub key. keepsFiles files (pk_CreateCertificate P t ca pub key)) \<and>
    (\<forall>t ca pub key s der. fst (run_state (pk_CreateCertificate P t ca pub key) s) = Inr der \<longrightarrow>
      issued der = Some (t, pub, key)) \<and>
    (\<forall>key der. pk_MarshalPKCS8 P key = Inr der \<longrightarrow> keyOf der = Some key) \<and>
    (\<forall>p b m s. \<forall>q. q \<noteq> p \<longrightarrow> files (snd (run_state (pk_WriteFile P p b m) s)) q = files s q) \<and>
    (\<forall>p b m s. fst (run_state (pk_WriteFile P p b m) s) = Inr () \<longrightarrow>
      files (snd (run_state (pk_WriteFile P p b m) s)) p =
        Some (b, case files s p of None \<Rightarrow> m | Some (_, m') \<Rightarrow> m'))"

lemma wp_orReturn [wp]:
  "wp (orReturn m f) Q s =
    wp m (\<lambda>r t. case r of Inl err \<Rightarrow> Q (Inl err) t | Inr x \<Rightarrow> wp (f x) Q t) s"
  by (auto simp: orReturn_def wp_def split: prod.splits sum.splits)

lemma wp_keepsFiles:
  "keepsFiles files m \<Longrightarrow> (\<And>r t. files t = files s \<Longrightarrow> Q r t) \<Longrightarrow> wp m Q s"
  by (rule wp_frame [where f = files]) (simp_all add: keepsFiles_def)

lemma wp_WriteFile:
  assumes "pki_documented P files issued keyOf"
    and "\<And>r t. (\<forall>q. q \<noteq> p \<longrightarrow> files t q = files s q) \<Longrightarrow>
      (r = Inr () \<longrightarrow> files t p = Some (b, case files s p of None \<Rightarrow> m | Some (_, m') \<Rightarrow> m')) \<Longrightarrow> Q r t"
  shows "wp (pk_WriteFile P p b m) Q s"
  unfolding wp_run by (rule assms(2)) (use assms(1) in \<open>auto simp: pki_documented_def\<close>)

lemma wp_CreateCertificate:
  assumes "pki_documented P files issued keyOf"
    and "\<And>r u. files u = files s \<Longrightarrow> (\<And>der. r = Inr der \<Longrightarrow> issued der = Some (t, pub, key)) \<Longrightarrow> Q r u"
  shows "wp (pk_CreateCertificate P t ca pub key) Q s"
  unfolding wp_run by (rule assms(2)) (use assms(1) in \<open>auto simp: pki_documented_def keepsFiles_def\<close>)

lemma wp_pki:
  assumes "pki_documented P files issued keyOf"
  shows "(\<And>r t. files t = files s \<Longrightarrow> Q1 r t) \<Longrightarrow> wp (pk_Now P) Q1 s"
    and "(\<And>r t. files t = files s \<Longrightarrow> Q2 r t) \<Longrightarrow> wp (serial P) Q2 s"
    and "(\<And>r t. files t = files s \<Longrightarrow> Q3 r t) \<Longrightarrow> wp (pk_GenerateKey P) Q3 s"
    and "(\<And>r t. files t = files s \<Longrightarrow> Q4 r t) \<Longrightarrow> wp (pk_MkdirAll P p m) Q4 s"
  by (rule wp_keepsFiles [of files], use assms in \<open>simp add: pki_documented_def serial_def\<close>, blast)+

section \<open>The files of a certificate\<close>

definition leafPaths :: "string \<Rightarrow> string \<Rightarrow> string set" where
  "leafPaths out name = {JoinPath out (name @ ''.crt''), JoinPath out (name @ ''.key'')}"

text \<open>
  A certificate and its private key in the files of a name: the certificate has the key's public
  half, was signed with \<open>caKey\<close>, and has the fields \<open>ok\<close> asks for.
\<close>

definition certified ::
  "('d \<rightharpoonup> Certificate \<times> privateKey \<times> privateKey) \<Rightarrow> ('d \<rightharpoonup> privateKey) \<Rightarrow> string \<Rightarrow> privateKey \<Rightarrow>
    string \<Rightarrow> (Certificate \<Rightarrow> bool) \<Rightarrow> (string \<rightharpoonup> 'd pemBlock \<times> nat) \<Rightarrow> bool" where
  "certified issued keyOf out caKey name ok fs \<longleftrightarrow> (\<exists>der kd key t m m'.
     fs (JoinPath out (name @ ''.crt'')) = Some (Pem ''CERTIFICATE'' der, m) \<and>
     fs (JoinPath out (name @ ''.key'')) = Some (Pem ''PRIVATE KEY'' kd, m') \<and>
     issued der = Some (t, key, caKey) \<and> keyOf kd = Some key \<and> ok t)"

definition leafOk :: "string \<Rightarrow> nat list list \<Rightarrow> string list \<Rightarrow> extKeyUsage \<Rightarrow> Certificate \<Rightarrow> bool" where
  "leafOk name ips dnsNames usage t \<longleftrightarrow> x_CommonName t = name \<and> \<not> x_IsCA t \<and>
     x_ExtKeyUsage t = [usage] \<and> x_IPAddresses t = ips \<and> x_DNSNames t = dnsNames \<and>
     x_NotBefore t < x_NotAfter t"

lemma JoinPath_files:
  assumes "CHR ''/'' \<notin> set n" "CHR ''/'' \<notin> set n'" "e \<in> {''.crt'', ''.key''}" "e' \<in> {''.crt'', ''.key''}"
  shows "JoinPath out (n @ e) = JoinPath out (n' @ e') \<longleftrightarrow> n = n' \<and> e = e'"
proof
  have plain: "plainName (x @ f)" if "CHR ''/'' \<notin> set x" "f \<in> {''.crt'', ''.key''}" for x f
    using that by (auto simp: plainName_def append_eq_Cons_conv)
  assume "JoinPath out (n @ e) = JoinPath out (n' @ e')"
  from JoinPath_inj [OF plain plain this] assms show "n = n' \<and> e = e'" by auto
qed simp

lemma certified_cong:
  "certified issued keyOf out caKey name ok fs \<Longrightarrow> \<forall>q \<in> leafPaths out name. fs' q = fs q \<Longrightarrow>
    certified issued keyOf out caKey name ok fs'"
  by (auto simp: certified_def leafPaths_def)

lemma leafPaths_disjoint:
  "CHR ''/'' \<notin> set n \<Longrightarrow> CHR ''/'' \<notin> set n' \<Longrightarrow> n \<noteq> n' \<Longrightarrow> leafPaths out n \<inter> leafPaths out n' = {}"
  by (auto simp: leafPaths_def JoinPath_files)

lemma wp_writeKey:
  assumes doc: "pki_documented P files issued keyOf"
    and Q: "\<And>r t. (\<forall>q. q \<noteq> path \<longrightarrow> files t q = files s q) \<Longrightarrow>
      (r = Inr () \<longrightarrow> (\<exists>kd m. files t path = Some (Pem ''PRIVATE KEY'' kd, m) \<and> keyOf kd = Some key)) \<Longrightarrow> Q r t"
  shows "wp (writeKey P path key) Q s"
proof (cases "pk_MarshalPKCS8 P key")
  case (Inl err)
  with Q [of s "Inl err"] show ?thesis by (simp add: writeKey_def wp)
next
  case (Inr kd)
  with doc have "keyOf kd = Some key" by (simp add: pki_documented_def)
  with Inr show ?thesis by (auto simp: writeKey_def intro!: wp_WriteFile [OF doc] Q)
qed

lemma wp_leaf:
  assumes doc: "pki_documented P files issued keyOf" and name: "CHR ''/'' \<notin> set name"
    and Q: "\<And>r t. (\<forall>q. q \<notin> leafPaths out name \<longrightarrow> files t q = files s q) \<Longrightarrow>
      (r = Inr () \<longrightarrow> certified issued keyOf out caKey name (leafOk name ips dnsNames usage) (files t)) \<Longrightarrow> Q r t"
  shows "wp (leaf P out ca caKey name ips dnsNames usage) Q s"
proof -
  have ok: "leafOk name ips dnsNames usage (leafTemplate n now name ips dnsNames usage)" for n now
    using AddYears_later [of 2 now] by (simp add: leafOk_def leafTemplate_def)
  have paths: "JoinPath out (name @ ''.crt'') \<noteq> JoinPath out (name @ ''.key'')"
    using name by (simp add: JoinPath_files)
  show ?thesis
    unfolding leaf_def
    by (auto simp: wp split: sum.splits intro!: wp_pki [OF doc] wp_CreateCertificate [OF doc]
        wp_WriteFile [OF doc] wp_writeKey [OF doc];
      rule Q; auto simp: leafPaths_def certified_def ok paths)
qed

section \<open>All certificates\<close>

lemma ipChar_no_slash: "ipChar c \<Longrightarrow> c \<noteq> CHR ''/''" and dnsChar_no_slash: "dnsChar c \<Longrightarrow> c \<noteq> CHR ''/''"
  by (auto simp: ipChar_def hexVal_def dnsChar_def)

lemma agentFile_no_slash: "agentNames rawIP = Inr names \<Longrightarrow> CHR ''/'' \<notin> set (agentFile rawIP)"
proof -
  assume "agentNames rawIP = Inr names"
  then have "CHR ''/'' \<notin> set rawIP"
    using ParseIP_ok [of rawIP] ipChar_no_slash dnsChar_no_slash
    by (fastforce simp: agentNames_def validDNSName_def list_all_iff split: option.splits if_splits)
  then show ?thesis by (auto simp: agentFile_def)
qed

text \<open>
  The two loops over names: \<open>names x\<close> are the alternative names of \<open>x\<close>, or the reason to fail, and
  \<open>name x\<close> is its file.
\<close>

definition leafFor ::
  "('a \<Rightarrow> error + nat list list \<times> string list) \<Rightarrow> ('a \<Rightarrow> string) \<Rightarrow> extKeyUsage \<Rightarrow> 'a \<Rightarrow> Certificate \<Rightarrow> bool" where
  "leafFor names name usage x t \<longleftrightarrow> (case names x of
      Inl _ \<Rightarrow> False
    | Inr (ips, dnsNames) \<Rightarrow> leafOk (name x) ips dnsNames usage t)"

text \<open>Only files of the given names differ.\<close>

definition touchesOnly :: "string \<Rightarrow> string set \<Rightarrow> (string \<Rightarrow> 'f) \<Rightarrow> (string \<Rightarrow> 'f) \<Rightarrow> bool" where
  "touchesOnly out N fs fs' \<longleftrightarrow> (\<forall>q. (\<forall>n \<in> N. q \<notin> leafPaths out n) \<longrightarrow> fs' q = fs q)"

lemma touchesOnly_refl: "touchesOnly out N fs fs"
  by (simp add: touchesOnly_def)

lemma touchesOnly_trans:
  "touchesOnly out M fs fs' \<Longrightarrow> touchesOnly out N fs' fs'' \<Longrightarrow> M \<union> N \<subseteq> L \<Longrightarrow> touchesOnly out L fs fs''"
  by (auto simp: touchesOnly_def subset_iff)

lemma touchesOnly_file:
  "\<forall>q. q \<noteq> p \<longrightarrow> fs' q = fs q \<Longrightarrow> p \<in> leafPaths out n \<Longrightarrow> touchesOnly out {n} fs fs'"
  by (auto simp: touchesOnly_def)

lemma touchesOnly_other:
  assumes "touchesOnly out N fs fs'" and "CHR ''/'' \<notin> set n" "\<forall>m \<in> N. CHR ''/'' \<notin> set m" "n \<notin> N"
    and "q \<in> leafPaths out n"
  shows "fs' q = fs q"
  using assms leafPaths_disjoint [of n _ out] unfolding touchesOnly_def by blast

lemma certified_kept:
  "certified issued keyOf out caKey n ok fs \<Longrightarrow> touchesOnly out N fs fs' \<Longrightarrow> CHR ''/'' \<notin> set n \<Longrightarrow>
    \<forall>m \<in> N. CHR ''/'' \<notin> set m \<Longrightarrow> n \<notin> N \<Longrightarrow> certified issued keyOf out caKey n ok fs'"
  by (auto intro: certified_cong touchesOnly_other)

lemma wp_leaves:
  assumes doc: "pki_documented P files issued keyOf"
    and nil: "F [] = State_Monad.return (Inr ())"
    and cons: "\<And>x xs. F (x # xs) = (case names x of
        Inl err \<Rightarrow> State_Monad.return (Inl err)
      | Inr (ips, dnsNames) \<Rightarrow>
          orReturn (leaf P out ca caKey (name x) ips dnsNames usage) (\<lambda>_. F xs))"
    and slash: "\<And>x n. names x = Inr n \<Longrightarrow> CHR ''/'' \<notin> set (name x)"
    and Q: "\<And>r t. touchesOnly out (name ` set xs) (files s) (files t) \<Longrightarrow>
      (r = Inr () \<longrightarrow> (\<forall>x \<in> set xs. CHR ''/'' \<notin> set (name x)) \<and>
        (distinct (map name xs) \<longrightarrow> (\<forall>x \<in> set xs.
          certified issued keyOf out caKey (name x) (leafFor names name usage x) (files t)))) \<Longrightarrow> Q r t"
  shows "wp (F xs) Q s"
  using Q
proof (induction xs arbitrary: s)
  case Nil
  then show ?case by (simp add: nil wp touchesOnly_refl)
next
  case (Cons x xs)
  show ?case
  proof (cases "names x")
    case (Inl err)
    then show ?thesis using Cons.prems by (simp add: cons wp touchesOnly_refl)
  next
    case (Inr n)
    then obtain ips dnsNames where names: "names x = Inr (ips, dnsNames)" by (cases n) simp
    have ok: "leafOk (name x) ips dnsNames usage = leafFor names name usage x"
      by (simp add: leafFor_def names fun_eq_iff)
    show ?thesis
      unfolding cons names sum.case prod.case wp
    proof (rule wp_leaf [OF doc slash [OF names]], unfold ok, goal_cases)
      case (1 r t)
      have touched: "touchesOnly out {name x} (files s) (files t)" using 1(1) by (simp add: touchesOnly_def)
      show ?case
      proof (cases r)
        case (Inl err)
        with touched show ?thesis
          by (auto intro!: Cons.prems touchesOnly_trans [OF touched touchesOnly_refl])
      next
        case (Inr u)
        have "wp (F xs) Q t"
          by (rule Cons.IH, rule Cons.prems)
            (use 1(2) Inr slash [OF names] in \<open>auto intro: touchesOnly_trans [OF touched]
              elim: certified_kept [where N = "name ` set xs"]\<close>)
        with Inr show ?thesis by simp
      qed
    qed
  qed
qed

lemma wp_agentLeaves:
  assumes "pki_documented P files issued keyOf"
    and "\<And>r t. touchesOnly out (agentFile ` set agents) (files s) (files t) \<Longrightarrow>
      (r = Inr () \<longrightarrow> (\<forall>a \<in> set agents. CHR ''/'' \<notin> set (agentFile a)) \<and>
        (distinct (map agentFile agents) \<longrightarrow> (\<forall>a \<in> set agents.
          certified issued keyOf out caKey (agentFile a) (leafFor agentNames agentFile ServerAuth a) (files t)))) \<Longrightarrow> Q r t"
  shows "wp (agentLeaves P out ca caKey agents) Q s"
  by (rule wp_leaves [where F = "agentLeaves P out ca caKey" and names = agentNames
      and name = agentFile and usage = ServerAuth, OF assms(1)])
    (auto intro: assms(2) dest: agentFile_no_slash)

text \<open>A controller's certificate has no alternative names.\<close>

definition controllerNames :: "string \<Rightarrow> error + nat list list \<times> string list" where
  "controllerNames cid =
    (if CHR ''/'' \<in> set cid \<or> CHR 0x5C \<in> set cid
     then Inl ''controller ID may not contain path separators'' else Inr ([], []))"

lemma wp_controllerLeaves:
  assumes "pki_documented P files issued keyOf"
    and "\<And>r t. touchesOnly out (set ids) (files s) (files t) \<Longrightarrow>
      (r = Inr () \<longrightarrow> (\<forall>x \<in> set ids. CHR ''/'' \<notin> set x) \<and> (distinct ids \<longrightarrow> (\<forall>x \<in> set ids.
        certified issued keyOf out caKey x (leafFor controllerNames (\<lambda>x. x) ClientAuth x) (files t)))) \<Longrightarrow> Q r t"
  shows "wp (controllerLeaves P out ca caKey ids) Q s"
  by (rule wp_leaves [where F = "controllerLeaves P out ca caKey" and names = controllerNames
      and name = "\<lambda>x. x" and usage = ClientAuth, OF assms(1)])
    (auto simp: controllerNames_def split: if_splits intro!: assms(2))

definition allCertified ::
  "('d \<rightharpoonup> Certificate \<times> privateKey \<times> privateKey) \<Rightarrow> ('d \<rightharpoonup> privateKey) \<Rightarrow> string \<Rightarrow> privateKey \<Rightarrow>
    string list \<Rightarrow> string list \<Rightarrow> (string \<rightharpoonup> 'd pemBlock \<times> nat) \<Rightarrow> bool" where
  "allCertified issued keyOf out caKey agents ids fs \<longleftrightarrow>
    (\<forall>a \<in> set agents. certified issued keyOf out caKey (agentFile a) (leafFor agentNames agentFile ServerAuth a) fs) \<and>
    (\<forall>c \<in> set ids. certified issued keyOf out caKey c (leafFor controllerNames (\<lambda>c. c) ClientAuth c) fs)"

lemma wp_pkiLeaves:
  assumes doc: "pki_documented P files issued keyOf" and dist: "distinct (map agentFile agents @ ids)"
    and Q: "\<And>r t. touchesOnly out (agentFile ` set agents \<union> set ids) (files s) (files t) \<Longrightarrow>
      (\<not> isl r \<longrightarrow> allCertified issued keyOf out caKey agents ids (files t) \<and>
        (\<forall>n \<in> agentFile ` set agents \<union> set ids. CHR ''/'' \<notin> set n)) \<Longrightarrow> Q r t"
  shows "wp (pkiLeaves P out ca caKey agents ids) Q s"
  unfolding pkiLeaves_def wp
proof (rule wp_agentLeaves [OF doc], goal_cases)
  case (1 r t)
  show ?case
  proof (cases r)
    case (Inl err)
    then show ?thesis by (auto intro!: Q touchesOnly_trans [OF 1(1) touchesOnly_refl])
  next
    case (Inr u)
    with 1(2) dist have agents: "\<forall>a \<in> set agents. CHR ''/'' \<notin> set (agentFile a)"
      "\<forall>a \<in> set agents. certified issued keyOf out caKey (agentFile a)
        (leafFor agentNames agentFile ServerAuth a) (files t)" by auto
    have "agentFile a \<notin> set ids" if "a \<in> set agents" for a
      using dist that by (auto simp: disjoint_iff)
    with agents have kept: "certified issued keyOf out caKey (agentFile a)
        (leafFor agentNames agentFile ServerAuth a) (files t')"
      if "touchesOnly out (set ids) (files t) (files t')" "a \<in> set agents" "\<forall>x \<in> set ids. CHR ''/'' \<notin> set x" for a t'
      using that by (blast intro: certified_kept)
    from agents Inr dist show ?thesis
      by (auto simp: allCertified_def split: sum.splits intro!: wp_controllerLeaves [OF doc] Q
        intro: touchesOnly_trans [OF 1(1)] kept)
  qed
qed

definition pkiMade ::
  "('d \<rightharpoonup> Certificate \<times> privateKey \<times> privateKey) \<Rightarrow> ('d \<rightharpoonup> privateKey) \<Rightarrow> string \<Rightarrow>
    string list \<Rightarrow> string list \<Rightarrow> (string \<rightharpoonup> 'd pemBlock \<times> nat) \<Rightarrow> error + string \<Rightarrow>
    (string \<rightharpoonup> 'd pemBlock \<times> nat) \<Rightarrow> bool" where
  "pkiMade issued keyOf out agents ids fs r fs' \<longleftrightarrow>
    touchesOnly out ({''ca''} \<union> agentFile ` set agents \<union> set ids) fs fs' \<and>
    (\<not> isl r \<longrightarrow> (\<exists>caKey. allCertified issued keyOf out caKey agents ids fs' \<and>
      (''ca'' \<notin> set ids \<longrightarrow> (\<exists>der m ca.
        fs' (JoinPath out ''ca.crt'') = Some (Pem ''CERTIFICATE'' der, m) \<and>
        issued der = Some (ca, caKey, caKey) \<and> x_IsCA ca))))"

lemma pkiMade_failed:
  "touchesOnly out {''ca''} fs fs' \<Longrightarrow> pkiMade issued keyOf out agents ids fs (Inl err) fs'"
  by (auto simp: pkiMade_def intro: touchesOnly_trans [OF _ touchesOnly_refl [where N = "{}"]])

lemma wp_pkiLeaves_made:
  assumes doc: "pki_documented P files issued keyOf" and dist: "distinct (map agentFile agents @ ids)"
    and t: "touchesOnly out {''ca''} (files s) (files t)" "issued der = Some (caTemplate n now, caKey, caKey)"
      "\<exists>m. files t (JoinPath out ''ca.crt'') = Some (Pem ''CERTIFICATE'' der, m)"
  shows "wp (pkiLeaves P out ca caKey agents ids)
    (\<lambda>r t'. pkiMade issued keyOf out agents ids (files s) r (files t')) t"
proof (rule wp_pkiLeaves [OF doc dist], goal_cases)
  case (1 r t')
  have crt: "JoinPath out ''ca.crt'' \<in> leafPaths out ''ca''" by (simp add: leafPaths_def)
  have "''ca'' \<noteq> agentFile a" for a by (simp add: agentFile_def)
  then have "files t' (JoinPath out ''ca.crt'') = files t (JoinPath out ''ca.crt'')"
    if "''ca'' \<notin> set ids" "\<not> isl r"
    using 1 that by (intro touchesOnly_other [OF 1(1) _ _ _ crt]) auto
  moreover have "x_IsCA (caTemplate n now)" by (simp add: caTemplate_def)
  ultimately show ?case
    using 1 t by (auto simp: pkiMade_def intro: touchesOnly_trans [OF t(1) 1(1)])
qed

lemma wp_pkiMain:
  assumes doc: "pki_documented P files issued keyOf"
    and dist: "distinct (map agentFile (pki_split agents) @ pki_split controllers)"
  shows "wp (pkiMain P out agents controllers) (\<lambda>r t.
    pkiMade issued keyOf out (pki_split agents) (pki_split controllers) (files s) r (files t)) s"
proof -
  have paths: "JoinPath out ''ca.crt'' \<in> leafPaths out ''ca''" "JoinPath out ''ca.key'' \<in> leafPaths out ''ca''"
    "JoinPath out ''ca.crt'' \<noteq> JoinPath out ''ca.key''"
    using JoinPath_files [of "''ca''" "''ca''" "''.crt''" "''.key''" out] by (auto simp: leafPaths_def)
  have key: "touchesOnly out {''ca''} fs gs"
    if "\<forall>q. q \<noteq> JoinPath out ''ca.crt'' \<longrightarrow> hs q = fs q" "\<forall>q. q \<noteq> JoinPath out ''ca.key'' \<longrightarrow> gs q = hs q"
    for fs gs hs :: "string \<Rightarrow> ('d pemBlock \<times> nat) option"
    using touchesOnly_trans [OF touchesOnly_file [OF that(1) paths(1)] touchesOnly_file [OF that(2) paths(2)]]
    by simp
  show ?thesis
    unfolding pkiMain_def Let_def write_file_def
    by (auto simp: wp touchesOnly_refl paths(3) split: sum.splits
      intro!: pkiMade_failed wp_pki [OF doc] wp_CreateCertificate [OF doc] wp_WriteFile [OF doc]
        wp_writeKey [OF doc] wp_pkiLeaves_made [OF doc dist])
      (blast intro: key touchesOnly_file [OF _ paths(1)])+
qed

text \<open>
  C32. What \<open>pki-gen\<close> made when it succeeded. Where no two names have the same file, every agent has a
  server certificate for its address and every controller a client certificate, each with its
  own private key beside it, signed with the authority's key, not an authority itself, and valid
  for some time, and the authority's certificate, signed with the same key, is in \<open>ca.crt\<close>. No file
  but those of the names and of the authority is touched, whether it succeeds or not.
\<close>

theorem pkiMain_complete:
  assumes "pki_documented P files issued keyOf"
    and "distinct (''ca'' # map agentFile (pki_split agents) @ pki_split controllers)"
  shows "wp (pkiMain P out agents controllers) (\<lambda>r t.
    touchesOnly out ({''ca''} \<union> agentFile ` set (pki_split agents) \<union> set (pki_split controllers))
      (files s) (files t) \<and>
    (\<not> isl r \<longrightarrow> (\<exists>caKey der m ca.
      allCertified issued keyOf out caKey (pki_split agents) (pki_split controllers) (files t) \<and>
      files t (JoinPath out ''ca.crt'') = Some (Pem ''CERTIFICATE'' der, m) \<and>
      issued der = Some (ca, caKey, caKey) \<and> x_IsCA ca))) s"
proof -
  have "distinct (map agentFile (pki_split agents) @ pki_split controllers)"
    "''ca'' \<notin> set (pki_split controllers)" using assms(2) by auto
  with wp_pkiMain [OF assms(1) this(1), of out s] show ?thesis
    by (elim wp_mono) (auto simp: pkiMade_def)
qed


section \<open>A reference environment\<close>

text \<open>
  Files in memory and keys in sequence; the bytes of a certificate are what it says and those of a
  key the key.
\<close>

type_synonym refDer = "Certificate \<times> privateKey \<times> privateKey + privateKey"
type_synonym refFiles = "string \<rightharpoonup> refDer pemBlock \<times> nat"

definition refPki :: "(refFiles \<times> nat, refDer) Pki" where
  "refPki = \<lparr>pk_Now = State_Monad.return 1700000000000000000,
     pk_RandInt = (\<lambda>n. State_Monad.return (Inr 7)),
     pk_GenerateKey = State (\<lambda>(fs, k). (Inr k, (fs, k + 1))),
     pk_CreateCertificate = (\<lambda>t ca pub key. State_Monad.return (Inr (Inl (t, pub, key)))),
     pk_ParseCertificate = (\<lambda>d. case d of Inl (t, _, _) \<Rightarrow> Inr t | Inr _ \<Rightarrow> Inl ''malformed certificate''),
     pk_MarshalPKCS8 = (\<lambda>key. Inr (Inr key)),
     pk_MkdirAll = (\<lambda>p m. State_Monad.return (Inr ())),
     pk_WriteFile = (\<lambda>p b m. State (\<lambda>(fs, k). (Inr (),
       (fs(p \<mapsto> (b, case fs p of None \<Rightarrow> m | Some (_, m') \<Rightarrow> m')), k))))\<rparr>"

definition refIssued :: "refDer \<rightharpoonup> Certificate \<times> privateKey \<times> privateKey" where
  "refIssued d = (case d of Inl c \<Rightarrow> Some c | Inr _ \<Rightarrow> None)"

definition refKeyOf :: "refDer \<rightharpoonup> privateKey" where
  "refKeyOf d = (case d of Inl _ \<Rightarrow> None | Inr k \<Rightarrow> Some k)"

lemma refPki_documented: "pki_documented refPki fst refIssued refKeyOf"
  by (auto simp: pki_documented_def keepsFiles_def refPki_def refIssued_def refKeyOf_def
    split: prod.splits)

lemma pki_split_examples:
  "pki_split ''10.0.0.1, db-2.example'' = [''10.0.0.1'', ''db-2.example'']"
  "pki_split ''controller-1'' = [''controller-1'']" "pki_split ''ca'' = [''ca'']"
  by code_simp+

theorem pkiMain_complete_witness:
  "wp (pkiMain refPki ''pki'' ''10.0.0.1, db-2.example'' ''controller-1'') (\<lambda>r t.
    \<not> isl r \<and> (\<exists>caKey der m ca.
      allCertified refIssued refKeyOf ''pki'' caKey [''10.0.0.1'', ''db-2.example''] [''controller-1''] (fst t) \<and>
      fst t (JoinPath ''pki'' ''ca.crt'') = Some (Pem ''CERTIFICATE'' der, m) \<and>
      refIssued der = Some (ca, caKey, caKey) \<and> x_IsCA ca)) (Map.empty, 0)"
proof -
  have "wp (pkiMain refPki ''pki'' ''10.0.0.1, db-2.example'' ''controller-1'') (\<lambda>r t. \<not> isl r) (Map.empty, 0)"
    unfolding pkiMain_def pki_split_examples by code_simp
  with pkiMain_complete [OF refPki_documented, of "''10.0.0.1, db-2.example''" "''controller-1''" "''pki''" "(Map.empty, 0)"]
  show ?thesis by (auto simp: wp_def pki_split_examples agentFile_def split: prod.splits)
qed


end
