(* ===== verification/HA_Controller_Laws.thy ===== *)
theory HA_Controller_Laws
  imports HA_Controller HA_Mysql_Laws
begin

text \<open>
  The choice of a target: the eligible replica that is least behind, the smallest name among
  equals, whatever the order in which the map is visited. The alert a failure raises.
\<close>

section \<open>Choosing a node\<close>

lemma sort_head:
  assumes "sort xs = y # ys"
  shows "y \<in> set xs" "\<And>z. z \<in> set xs \<Longrightarrow> y \<le> z"
proof -
  have "set xs = set (y # ys)" by (metis assms set_sort)
  moreover have "sorted (y # ys)" by (metis assms sorted_sort)
  ultimately show "y \<in> set xs" "\<And>z. z \<in> set xs \<Longrightarrow> y \<le> z" by auto
qed

lemma map_of_key: "map_of m k = Some v \<Longrightarrow> k \<in> fst ` set m"
  by (metis fst_conv image_eqI map_of_SomeD)


text \<open>Node \<open>n\<close> is eligible at this lag.\<close>

definition eligible :: "Config \<Rightarrow> string \<Rightarrow> (string, NodeStatus) gomap \<Rightarrow> int \<Rightarrow> string \<Rightarrow> bool" where
  "eligible cfg exclude statuses lag n \<longleftrightarrow>
    (\<exists>st. map_of statuses n = Some st \<and> candidateLag cfg exclude n st = Some lag)"

definition bestCandidate :: "Config \<Rightarrow> string \<Rightarrow> (string, NodeStatus) gomap \<Rightarrow> error + string \<Rightarrow> bool" where
  "bestCandidate cfg exclude statuses r = (case r of
      Inl _ \<Rightarrow> (\<forall>lag n. \<not> eligible cfg exclude statuses lag n)
    | Inr n \<Rightarrow> (\<exists>lag. eligible cfg exclude statuses lag n \<and>
        (\<forall>lag' m. eligible cfg exclude statuses lag' m \<longrightarrow> (lag, n) \<le> (lag', m))))"



text \<open>The best candidate is unique: the order of the map does not matter.\<close>

lemma bestCandidate_unique:
  "bestCandidate cfg x m (Inr n) \<Longrightarrow> bestCandidate cfg x m (Inr n') \<Longrightarrow> n = n'"
  unfolding bestCandidate_def by (fastforce dest: order_antisym)

definition reportableNode :: "string \<Rightarrow> (string, NodeStatus) gomap \<Rightarrow> string \<Rightarrow> bool" where
  "reportableNode exclude statuses n \<longleftrightarrow>
    (case map_of statuses n of None \<Rightarrow> False | Some st \<Rightarrow> reportable exclude n st)"

text \<open>
  The node a dry run reports is the smallest of the reachable replicas with a running SQL
  thread, and an error means there is none.
\<close>

lemma chooseDryRunTarget_least:
  assumes "runtime_ok rt"
  shows "wp (chooseDryRunTarget rt exclude) (\<lambda>r t. hist t = hist s \<and> othersOnly s t \<and> (case r of
      Inl _ \<Rightarrow> (\<forall>n. \<not> reportableNode exclude (v_statuses (ctl t)) n)
    | Inr n \<Rightarrow> reportableNode exclude (v_statuses (ctl t)) n \<and>
        (\<forall>m. reportableNode exclude (v_statuses (ctl t)) m \<longrightarrow> n \<le> m))) s"
proof -
  have *: "case (case sort (filter (reportableNode exclude m) ids) of [] \<Rightarrow> Inl e | n # _ \<Rightarrow> Inr n) of
      Inl _ \<Rightarrow> \<forall>n. \<not> reportableNode exclude m n
    | Inr n \<Rightarrow> reportableNode exclude m n \<and> (\<forall>k. reportableNode exclude m k \<longrightarrow> n \<le> k)"
    if "set ids = fst ` set m" for ids m and e :: error
  proof -
    have all: "set (filter (reportableNode exclude m) ids) = {n. reportableNode exclude m n}"
      using that by (auto simp: reportableNode_def dest: map_of_key split: option.splits)
    show ?thesis
    proof (cases "sort (filter (reportableNode exclude m) ids)")
      case Nil
      then have "set (filter (reportableNode exclude m) ids) = {}"
        by (metis set_empty2 set_sort)
      with Nil show ?thesis unfolding all by auto
    next
      case (Cons y ys)
      with sort_head [OF Cons] show ?thesis unfolding all by auto
    qed
  qed
  then show ?thesis
    unfolding chooseDryRunTarget_def reportableNode_def [symmetric, abs_def]
    by (auto simp: wp cong: sum.case_cong intro!: wp_acquire_others [OF othersOnly_refl] wp_range [OF assms])
qed

section \<open>Alerts\<close>

text \<open>An alert always has a message: the node's own error where there is one.\<close>

lemma failureAlert_message:
  assumes "failureAlert st = (severity, title, message)"
  shows "message \<noteq> ''''" "ns_Error st \<noteq> '''' \<Longrightarrow> message = ns_Error st"
    "severity = ''critical'' \<or> severity = ''warning''"
  using assms by (auto simp: failureAlert_def Let_def split: option.splits if_splits)

end
