(* ===== verification/Spec2Isabelle.thy ===== *)
theory Spec2Isabelle
  imports HA_Runs HA_Peers HA_Operation HA_RefEtcd HA_Main HA_Process HA_Migrate HA_Pki HA_Alerts HA_Controller_Laws
begin

text \<open>
  A verification of \<open>ha\<close>, a controller that keeps a group of MySQL servers available: it watches
  the servers through agents, moves the role of the primary from one to another on request or
  after a failure, and records in etcd which server is the primary.

  \<^bold>\<open>The program and its model.\<close> Every component is a theory of definitions translated from the Go
  source, most with a companion of lemmas (\<open>_Laws\<close>).

  \<^item> \<open>Go_Prelude\<close>, \<open>Go_Strings\<close>, \<open>Go_Library\<close>: what is used of Go. Statements with effects are terms
    of the state monad, reasoned about with the weakest precondition \<open>wp\<close> and with \<open>maintains\<close>
    (a statement keeps a condition); \<open>strings\<close>, \<open>strconv\<close>, \<open>path/filepath\<close>, \<open>net.ParseIP\<close> and the
    calendar as functions. 64-bit epochs are words, so \<open>Epoch + 1\<close> wraps.
  \<^item> \<open>HA_Model\<close>, \<open>HA_Json\<close>: \<open>internal/model/model.go\<close>, one record per struct, and what
    \<open>encoding/json\<close> makes of each by its tags.
  \<^item> \<open>HA_Store\<close>: \<open>internal/store/store.go\<close>. The interface \<open>Store\<close> is a record of operations;
    \<open>MemoryStore\<close> is its struct; \<open>EtcdStore\<close> is written over a record of etcd client calls.
  \<^item> \<open>HA_Mysql\<close>: \<open>internal/mysql/client.go\<close> over a record of \<open>database/sql\<close> calls.
  \<^item> \<open>HA_Agent\<close>: \<open>internal/agent/server.go\<close>, the handlers of an agent, and \<open>client.go\<close>, the calls
    a controller makes to it.
  \<^item> \<open>HA_Controller\<close>, \<open>HA_Switch\<close>, \<open>HA_Probe\<close>, \<open>HA_Election\<close>: \<open>internal/ha/controller.go\<close> with
    \<open>internal/alert\<close>, \<open>internal/fence\<close> and \<open>internal/route\<close>: construction, leadership and the choice
    of a target; \<open>Switch\<close> and \<open>SetAutoFailover\<close> with their deferred calls in order; probing,
    alerting and automatic failover; \<open>Run\<close> over the elections of the two stores.
  \<^item> \<open>HA_Api\<close>: \<open>internal/api/server.go\<close>. \<open>HA_Config\<close>: \<open>internal/config/config.go\<close>.
  \<^item> \<open>HA_Main\<close>: what \<open>cmd/controller\<close> and \<open>cmd/mysql-agent\<close> decide before they serve. \<open>HA_Process\<close>: how
    they then serve, are signalled and exit, a machine whose steps are those of their goroutines.
    \<open>HA_Migrate\<close>, \<open>HA_Pki\<close>, \<open>HA_Alerts\<close>: the tools \<open>cmd/state-migrate\<close>, \<open>cmd/pki-gen\<close> and \<open>cmd/alert-receiver\<close>.

  A controller's statements run over \<open>sys\<close>: its fields, what other goroutines do to them, the world
  behind its collaborators, and a history of the calls it made with their outcomes. The history is
  a ghost that no statement reads. The world is a type variable and collaborators are arbitrary
  statements over it, so a theorem about the history holds whatever other controllers, agents,
  servers and the network do. Where the source takes the mutex or uses the atomic flag the model has
  \<open>acquire\<close>, at which the other goroutines of the process (\<open>others\<close>, an arbitrary sequence of
  writes) have changed the fields; while the mutex is held they do not. Theorems about the fields
  say what they need of the others: nothing, \<open>leadershipKept\<close> (they do not write the fields of
  leadership) or \<open>alone\<close> (they do not write).

  \<^bold>\<open>What is shown.\<close>

  \<^item> \<open>HA_Protocol\<close> states the switch protocol as an automaton over the history (\<open>follows\<close>) and shows
    that what it accepts is safe: before a promotion the old primary was demoted, seen read-only,
    and its transactions applied by the target, under one lock; a commit follows a verified
    promotion; locks are given back. \<open>HA_Switch_Laws\<close>, \<open>HA_Probe_Laws\<close>, \<open>HA_Service\<close> and
    \<open>HA_Election\<close> show that the controller follows it through every switch, probe, request, term
    and campaign. The step relation \<open>serve\<close> lets operations, writes of other goroutines and changes
    of the world follow one another in any order.
  \<^item> \<open>HA_Peers\<close>: any number of controllers and of their goroutines at once, their calls interleaved
    one by one. If the switch lock is granted to one at a time, none disturbs the promotion of another.
  \<^item> \<open>HA_Fleet\<close> and \<open>HA_Cluster\<close> put the components together: a controller from \<open>NewController\<close>, agents
    behind HTTP, MySQL servers and a store (\<open>installation\<close>). There a call that reports success had
    its effect, an agent acts only for the active operation, and a switch never opens a second
    server for writing. \<open>HA_Operation\<close> carries this through the whole service: at most the recorded
    primary accepts writes, as long as no promotion fails to be recorded.
  \<^item> \<open>HA_Store_Laws\<close>: the contracts of the stores; \<open>PutClusterIfEpoch\<close> is atomic under interference.
    \<open>HA_Store_Equiv\<close>: the two stores answer alike.
  \<^item> The round trips of all documents, of quoted SQL and of durations; the bounds of accepted
    configurations; the answers of the HTTP interface; the files the tools leave behind.
  \<^item> \<open>HA_Reference\<close>, \<open>HA_RefEtcd\<close>, \<open>HA_Runs\<close>: a concrete installation of three servers, a concrete
    etcd and runs computed in the logic. They show that the hypotheses can hold, and where the
    code falls short.

  \<^bold>\<open>Interfaces.\<close> What one component relies on in another is a locale. \<open>json_codec\<close> is interpreted
  for every document; \<open>epoch_store\<close>, \<open>switch_verifier\<close>, \<open>switch_store\<close> and \<open>exclusive_store\<close> for
  \<open>MemoryStore\<close>, and the first three for \<open>EtcdStore\<close> over any etcd with \<open>etcd_documented\<close>;
  \<open>reachable_etcd\<close> for the concrete etcd; \<open>mysql_operator\<close> for the MySQL client; \<open>fenced_agent\<close>,
  \<open>site_node\<close>, \<open>plant_store\<close>, \<open>fleet\<close>, \<open>operated_fleet\<close> and \<open>installation\<close> build on one another and are
  interpreted for the concrete installation. \<open>loop_invariant\<close>, \<open>term_invariant\<close>, \<open>service_invariant\<close> and
  \<open>election_invariant\<close> say what a condition needs to hold of a controller's whole life, and are
  interpreted for the protocol, for reporting only and for leadership; \<open>election_deadline\<close> says what
  ends an election.

  \<^bold>\<open>Bounds.\<close> Three loops run until a context ends: the probes of a term, the campaigns of an
  election and an agent's wait for its replica threads. They take the number of turns as an
  argument, and the theorems hold for every number; an election that has used up its turns returns
  \<open>None\<close>, "still running", and with a deadline it returns within the time left. All other loops
  range over finite data.

  \<^bold>\<open>Parameters.\<close> etcd, \<open>database/sql\<close>, HTTP, \<open>crypto/x509\<close>, the file system, the clock and the order
  in which Go visits a map are arguments. What is assumed of them is documented behaviour, named
  (\<open>etcd_documented\<close>, \<open>mysql_documented\<close>, \<open>pki_documented\<close>, \<open>runtime_ok\<close>, \<open>site_ok\<close>) and shown to
  hold of a concrete instance.

  \<^bold>\<open>Where the code falls short.\<close> A commit that fails after a promotion leaves two writers after
  the next switch (\<open>failed_commits_leave_two_writers\<close>); a task that cannot be stored turns automatic
  failover off (\<open>refused_task_disables_failover\<close>); a switch overwrites a setting stored while it
  waited for its lock (\<open>switch_loses_concurrent_setting\<close>); a controller named \<open>ca\<close> replaces the
  authority of the PKI (\<open>pkiMain_ca_overwritten\<close>); a controller asked to stop can exit in the middle
  of a switch (\<open>exit_cuts_requests\<close>); a probe interval of zero is accepted
  (\<open>Load_accepts_zero_interval\<close>).

  \<^bold>\<open>Not modelled.\<close> Log lines. Data races: the fields of the last task, which a switch writes
  without the mutex, are seen by others only when the mutex is next acquired. The mutex of
  \<open>MemoryStore\<close>, of which every operation is one step. The TLS handshake, of which the settings are
  modelled. The Prometheus handler, a parameter. The scripts and unit files under \<open>deploy\<close>, and the
  Go tests.
\<close>

section \<open>Inputs of the witnesses\<close>


definition refVisits :: "visit list" where
  "refVisits = [Plain [CallPutCluster (zeroClusterState\<lparr>cs_Primary := ''a'', cs_Epoch := 7\<rparr>)],
     Switching ''switch-1'' [CallVerify \<lparr>auth_OperationID = ''switch-1'', auth_FromEpoch = 7, auth_ToEpoch = 8\<rparr>,
       CallPutClusterIfEpoch 7 (zeroClusterState\<lparr>cs_Primary := ''b'', cs_Epoch := 8\<rparr>)],
     Plain [CallPutClusterIfEpoch 7 zeroClusterState, CallGetCluster]]"



section \<open>Safety of the controller\<close>

text \<open>
  C1. Promotions are safe. In whatever order the controller's operations (requests, probes, terms of
  leadership) follow one another, and whatever its other goroutines do to its fields and the world
  does meanwhile, before each
  promotion of a node the controller has, under one switch lock that it still holds, demoted another node, seen that node
  read-only, read its executed transactions and seen the target catch up with exactly those.
\<close>

theorem controller_promotions_safe:
  assumes "serves rt c s t" and "hist s = []"
  shows "promotionsSafe (hist t)"
  using serve_follows [OF assms(1), of Idle] assms(2) by (auto intro: follows_promotionsSafe)

theorem controller_promotions_safe_witness:
  "promotionsSafe (hist (refServed (memoryStore rev))) \<and>
    EvPromote ''b'' refAuth None \<in> set (hist (refServed (memoryStore rev)))"
  using controller_promotions_safe [OF refServed_served refStart_hist]
  by (simp add: refServed_outcome)

text \<open>
  C2. Commits are safe. A cluster state of a new epoch is stored only after the primary it names
  was promoted and then seen healthy and writable, under the same lock, and with the epochs of
  the authorization of that lock.
\<close>

theorem controller_commits_safe:
  assumes "serves rt c s t" and "hist s = []"
  shows "commitsSafe (hist t)"
  using serve_follows [OF assms(1), of Idle] assms(2) by (auto intro: follows_commitsSafe)

theorem controller_commits_safe_witness:
  "commitsSafe (hist (refServed (memoryStore rev))) \<and>
    cs_Epoch (ms_cluster (pl_store (world (refServed (memoryStore rev))))) = 8"
  using controller_commits_safe [OF refServed_served refStart_hist]
  by (simp add: refServed_outcome)

text \<open>
  C3. Locks are given back: every lock that the controller acquires is released, on every path of
  every operation, before it asks for another one.
\<close>

theorem controller_locks_released:
  assumes "serves rt c s t" and "hist s = []"
  shows "locksReleased (hist t)"
  using serve_follows [OF assms(1), of Idle] assms(2) by (auto intro: follows_locksReleased)

theorem controller_locks_released_witness: "locksReleased (hist (refServed (memoryStore rev)))"
  by (rule controller_locks_released [OF refServed_served refStart_hist])





section \<open>What a switch does\<close>



text \<open>
  C11. A switch that reports success has done everything: it promoted the target, stored the cluster
  state with the target as primary and the next epoch, and reconfigured every other configured
  node to replicate from the target, all under one authorization of the epoch it started from.
\<close>

theorem switch_complete:
  assumes "runtime_ok rt" and "hist s = []"
  shows "wp (Switch rt c cx target automatic) (\<lambda>r t. \<forall>task. r = (Some task, None) \<and> \<not> st_DryRun task \<longrightarrow>
    (\<exists>state auth. auth_FromEpoch auth = cs_Epoch state \<and> completed c state (st_To task) auth (hist t))) s"
proof (rule wp_mono [OF Switch_achieved [OF assms(1)]], intro allI impI)
  fix r t task
  assume "\<exists>state auth. auth_FromEpoch auth = cs_Epoch state \<and> achieved c state auth r t"
    and r: "r = (Some task, None) \<and> \<not> st_DryRun task"
  then obtain state auth where "auth_FromEpoch auth = cs_Epoch state" "achieved c state auth r t" by blast
  with r show "\<exists>state auth. auth_FromEpoch auth = cs_Epoch state \<and> completed c state (st_To task) auth (hist t)"
    by (intro exI [of _ state] exI [of _ auth]) (simp add: achieved_def)
qed

theorem switch_complete_witness:
  "wp (Switch refClock (refController (memoryStore rev)) Background ''b'' False) (\<lambda>r t.
    \<forall>task. r = (Some task, None) \<and> \<not> st_DryRun task \<longrightarrow>
    (\<exists>state auth. auth_FromEpoch auth = cs_Epoch state \<and>
      completed (refController (memoryStore rev)) state (st_To task) auth (hist t))) refStart"
  by (rule switch_complete [OF refClock_ok(1) refStart_hist])




section \<open>A controller's life\<close>

text \<open>
  C16. Without \<open>HA_AUTO_FAILOVER_EXECUTE\<close> a controller never intervenes on its own: through all its
  campaigns and terms its loop demotes, promotes, reconfigures, fences and commits nothing.
\<close>

theorem loop_only_reports:
  assumes "\<not> cfg_AutoFailoverExecute (c_cfg c)"
  shows "wp (Run_Etcd rt E el p c cx ticks turns)
    (\<lambda>_ t. filter intervening (hist t) = filter intervening (hist s)) s"
proof -
  have "wp (Run_Etcd rt E el p c cx ticks turns) (\<lambda>_. onlyReports (c_cfg c) (filter intervening (hist s))) s"
    unfolding Run_Etcd_def by (rule maintainsD [OF reports_election.etcd_election]) (simp add: onlyReports_def)
  then show ?thesis by (rule wp_mono) (use assms in \<open>simp add: onlyReports_def\<close>)
qed

theorem loop_only_reports_witness:
  "wp (Run_Etcd refClock refSessions refElection refPrefix
      ((refController (memoryStore rev))\<lparr>c_cfg := refConfig\<lparr>cfg_AutoFailoverExecute := False\<rparr>\<rparr>) Background 2 3)
    (\<lambda>_ t. filter intervening (hist t) = filter intervening (hist refStart)) refStart"
  by (rule loop_only_reports) simp



section \<open>No two writers\<close>

text \<open>
  C4. A switch never opens a second node. In an installation (a controller accepted by
  \<open>NewController\<close>, its agents over their MySQL servers, and a store, all behaving as documented
  and undisturbed) in which at most the recorded primary accepts writes, at most one node accepts
  writes after a switch, whatever calls failed on the way: the recorded primary with the record
  unchanged and nothing promoted, or a promoted node, which is the recorded primary if the switch
  returned without an error.
\<close>

theorem switch_never_splits:
  assumes "installation S cl op flags rt tls http post cfg c"
    and "onlyWriter (acceptsWrites flags (set (map fst (c_clients c)))) (world s)
      (cs_Primary (cl (pl_store (world s))))"
    and "\<not> attempted (hist s)" "\<not> committed (hist s)"
  shows "wp (Switch rt c cx target automatic) (\<lambda>r t.
    unsplit (\<lambda>w. cl (pl_store w)) (acceptsWrites flags (set (map fst (c_clients c))))
      (cl (pl_store (world s))) (snd r) t) s"
  by (rule installation.switch_unsplit [OF assms])

theorem switch_never_splits_witness:
  "wp (Switch refClock (refController (memoryStore rev)) Background ''b'' False) (\<lambda>r t.
    unsplit (\<lambda>w. ms_cluster (pl_store w))
      (acceptsWrites ref_flags (set (map fst (c_clients (refController (memoryStore rev))))))
      (ms_cluster (pl_store (world refStart))) (snd r) t) refStart"
  by (rule switch_never_splits [OF ref.installation_axioms refStart_writer])
    (simp_all add: refStart_hist)

text \<open>
  C5. One writer at any time. In an installation in which at most the recorded primary accepts writes,
  this stays so through any sequence of requests to the controller, probes with the automatic
  failovers they start, and changes of leadership, as long as every operation that attempted a
  promotion also stored a cluster state.
\<close>

theorem one_writer_in_operation:
  assumes "installation S cl op flags rt tls http post cfg c"
    and "(operate rt c (\<lambda>w. (acceptsWrites flags (set (map fst (c_clients c))) w, cl (pl_store w))))\<^sup>*\<^sup>* s t"
    and "recorded (\<lambda>w. cl (pl_store w)) (acceptsWrites flags (set (map fst (c_clients c)))) s"
  shows "recorded (\<lambda>w. cl (pl_store w)) (acceptsWrites flags (set (map fst (c_clients c)))) t"
  by (rule installation.one_writer [OF assms])

theorem one_writer_in_operation_witness:
  "recorded (\<lambda>w. ms_cluster (pl_store w))
      (acceptsWrites ref_flags (set (map fst (c_clients (refController (memoryStore rev))))))
      (refServed (memoryStore rev)) \<and>
    cs_Primary (ms_cluster (pl_store (world (refServed (memoryStore rev))))) = ''b''"
proof -
  have "refStart\<lparr>hist := []\<rparr> = (refStart :: (MemoryStore, RefServer) plant sys)"
    by (simp add: refStart_def)
  then have run: "refServed (memoryStore rev) = snd (run_state (api_Handler (\<lambda>_. '''') (\<lambda>r. ask (refMetrics r))
      refClock (refController (memoryStore rev)) ''/api/v1/switchover'' (refRequest ''b'')) (refStart\<lparr>hist := []\<rparr>))"
    by (simp only: refServed_def)
  have step: "operate refClock (refController (memoryStore rev)) f refStart (refServed (memoryStore rev))"
    for f :: "_ \<Rightarrow> 'a"
    by (rule operate.request [OF run])
      (simp_all add: accounted_def refServed_outcome refMetrics_def keeps_return)
  show ?thesis
    using one_writer_in_operation [OF ref.installation_axioms r_into_rtranclp, OF step]
      refStart_writer by (simp add: recorded_def refServed_outcome)
qed

text \<open>
  C10. What a successful call of the controller did. In an installation, when a demotion or a
  reconfiguration reports success the node's server is read-only and super-read-only, when a
  promotion does it is writable, and in each case the authorization sent along was that of the
  active operation.
\<close>

theorem calls_effective:
  assumes "installation S cl op flags rt tls http post cfg c" and "map_of (c_clients c) n = Some nd"
  shows "wp (n_Demote nd cx a) (\<lambda>r w'. r = None \<longrightarrow> flags (pl_server w' n) = (True, True) \<and>
      activeOperation (\<lambda>w. cl (pl_store w)) (\<lambda>w. op (pl_store w)) w a) w \<and>
    wp (n_Promote nd cx a) (\<lambda>r w'. r = None \<longrightarrow> flags (pl_server w' n) = (False, False) \<and>
      activeOperation (\<lambda>w. cl (pl_store w)) (\<lambda>w. op (pl_store w)) w a) w \<and>
    wp (n_ReconfigureReplica nd cx a src) (\<lambda>r w'. r = None \<longrightarrow> flags (pl_server w' n) = (True, True) \<and>
      activeOperation (\<lambda>w. cl (pl_store w)) (\<lambda>w. op (pl_store w)) w a) w"
  by (intro conjI installation.call_effects [OF assms])

theorem calls_effective_witness:
  "wp (n_Promote (clientNode refClock (refClient (memoryStore rev) ''b'')) Background refAuth)
    (\<lambda>r w'. r = None \<longrightarrow> ref_flags (pl_server w' ''b'') = (False, False) \<and>
      activeOperation (\<lambda>w. ms_cluster (pl_store w)) (\<lambda>w. ms_operation (pl_store w)) refWorld refAuth) refWorld"
  using calls_effective [OF ref.installation_axioms, where n = "''b''"] by (simp add: refController_simps)

section \<open>The agents\<close>

text \<open>
  C8. An agent acts only for the active switch operation. Over a MySQL server and a store that behave
  as documented, whatever request an agent is sent, the read-only variables of its server stay as
  they are unless the request carries the authorization of the operation that is active in the
  store at the store's epoch.
\<close>

theorem agents_act_for_active_operation:
  assumes "site_ok S cl op flags"
  shows "wp (siteHandler S n path r) (\<lambda>_ w'. flags (pl_server w' n) = flags (pl_server w n) \<or>
    (\<exists>a. carries r a \<and> activeOperation (\<lambda>w. cl (pl_store w)) (\<lambda>w. op (pl_store w)) w a)) w"
proof -
  let ?node = "\<lparr>anc_ID = n, anc_Address = '''', anc_AgentURL = ''''\<rparr>"
  have "site_node S cl op flags ?node (directClient (TrimRight '''' CHR ''/'') (siteHandler S n))"
    using assms by unfold_locales (simp_all add: nodeClient_def directClient_transports)
  from site_node.agent_fenced [OF this] show ?thesis by (simp add: siteHandler_def)
qed

theorem agents_act_for_active_operation_witness:
  "wp (siteHandler (refSite (memoryStore rev)) ''b'' ''/api/v1/promote''
      \<lparr>rq_ctx = Background, rq_Method = ''POST'', rq_URL = '''', rq_Body = Some (Doc (JObj []))\<rparr>)
    (\<lambda>_ w'. ref_flags (pl_server w' ''b'') = (True, True)) refWorld"
  by (rule wp_mono [OF agents_act_for_active_operation [OF ref.site]])
    (simp add: activeOperation_def refWorld_def NewMemoryStore_def refReplica_def)

section \<open>The stores\<close>

text \<open>
  C13. The etcd store keeps the contract of a store that the controller and the agents rely on, over an
  etcd that behaves as documented and is not used by others meanwhile: what is read is what was
  stored, a compare-and-swap succeeds only at the expected epoch, the switch lock publishes its
  authorization, only that authorization verifies, and storing a task leaves the rest alone.
\<close>

theorem etcd_store_contract:
  assumes "etcd_documented E p view (=)"
  shows "store_ok (etcdStore E p) (\<lambda>e. clusterIn p (view e)) (\<lambda>e. operationIn p (view e))"
  by (rule etcd_store_ok [OF assms])

theorem etcd_store_contract_witness:
  "store_ok (etcdStore refEtcd refPrefix) (\<lambda>e. clusterIn refPrefix (re_view e))
    (\<lambda>e. operationIn refPrefix (re_view e))"
  by (rule etcd_store_contract [OF refEtcd_documented])

theorem etcd_cas_atomic_witness:
  "\<exists>m1 m. re_view \<lparr>re_keys = [], re_rev = 0, re_sessions = 0\<rparr> = m1 \<and> (m = m1 \<or> m1 = m) \<and>
    (cs_Epoch (clusterIn refPrefix m) = 0 \<and>
       (\<exists>rev. re_view (snd (run_state (Etcd_PutClusterIfEpoch refEtcd refPrefix Background 0 zeroClusterState)
          \<lparr>re_keys = [], re_rev = 0, re_sessions = 0\<rparr>)) =
          m(clusterKey refPrefix \<mapsto> (Doc (encClusterState zeroClusterState), rev)))
     \<or> fst (run_state (Etcd_PutClusterIfEpoch refEtcd refPrefix Background 0 zeroClusterState)
          \<lparr>re_keys = [], re_rev = 0, re_sessions = 0\<rparr>) \<noteq> None \<and>
       re_view (snd (run_state (Etcd_PutClusterIfEpoch refEtcd refPrefix Background 0 zeroClusterState)
          \<lparr>re_keys = [], re_rev = 0, re_sessions = 0\<rparr>)) = m)"
  using etcd_cas_atomic [of refEtcd re_view "(=)" refPrefix Background 0 zeroClusterState
      "\<lparr>re_keys = [], re_rev = 0, re_sessions = 0\<rparr>"] refEtcd_documented [of refPrefix] revisions_eq
  by (simp add: etcd_documented_def)


theorem stores_interchangeable_witness:
  "fst (run_state (visits (etcdStore refEtcd refPrefix) Background refVisits)
      \<lparr>re_keys = [], re_rev = 0, re_sessions = 0\<rparr>) =
    fst (run_state (visits (memoryStore rev) Background refVisits) (NewMemoryStore ''mysql-ha''))"
  by (rule stores_interchangeable [OF reachable.reachable_etcd_axioms])
    (simp_all add: refPrefix_def re_view_def refVisits_def)

section \<open>The MySQL client\<close>

text \<open>
  C22. What a status means. Whatever the server answers or fails to answer: a node reported as primary
  is healthy, writable, no replica and without an error; a node reported as replica was reached
  and is not writable; a healthy node is one of the two, and a healthy replica has both threads
  running and a known lag; a node that is not healthy is not reported as primary; and the status
  is within the ranges of its wire format.
\<close>

theorem mysql_status_contract: "status_ok (fst (run_state (Mysql_Status rt db config c) s))"
  by (rule mysql.status_contract)

text \<open>
  C23. Values cannot escape their quotes: read back by MySQL's rules for string literals, the text that
  \<open>quoteSQL\<close> puts between apostrophes is the value itself, and the literal ends where the client
  ended it.
\<close>

theorem quoteSQL_reads_back:
  assumes "rest = [] \<or> hd rest \<noteq> apostrophe"
  shows "sqlLiteral (quoteSQL s @ apostrophe # rest) = Some (s, rest)"
  by (rule sqlLiteral_quote [OF assms])

theorem quoteSQL_reads_back_witness:
  "sqlLiteral (quoteSQL (''it'' @ apostrophe # ''s; DROP'') @ apostrophe # '', SOURCE_PORT=1'') =
    Some (''it'' @ apostrophe # ''s; DROP'', '', SOURCE_PORT=1'')"
  by (rule quoteSQL_reads_back) simp

section \<open>What crosses a process boundary\<close>



section \<open>The HTTP interface\<close>

text \<open>
  C26. Only a \<open>POST\<close> can act. Any other request to the controller, on whatever path, writes none of the
  controller's fields (only other goroutines do meanwhile) and calls nobody but the store, to read the cluster state or tasks.
\<close>

theorem api_reads_harmless:
  assumes "rq_Method r \<noteq> ''POST''"
  shows "wp (api_Handler render (\<lambda>r. ask (metrics r)) rt c path r) (\<lambda>_. onlyReads s) s"
  unfolding api_Handler_def
proof (rule wp_serveMux_method, goal_cases)
  case (1 m p h)
  with assms have "maintains (onlyReads s) (h r)"
    by (auto intro: handlers_read onlyReads_rules)
  then show ?case by (rule maintainsD) (rule onlyReads_refl)
qed (rule onlyReads_refl)

theorem api_reads_harmless_witness:
  "wp (api_Handler (\<lambda>_. '''') (\<lambda>r. ask (refMetrics r)) refClock (refController (memoryStore rev))
      ''/api/v1/status'' ((refRequest ''b'')\<lparr>rq_Method := ''GET''\<rparr>)) (\<lambda>_. onlyReads refStart) refStart"
  by (rule api_reads_harmless) simp



section \<open>Choosing and watching\<close>


section \<open>Starting\<close>

theorem controllerMain_requires_etcd_witness:
  "wp (controllerMain refClock refTls (refHttp (memoryStore rev)) refPost (\<lambda>_. plantStore (memoryStore rev))
      refEtcd (\<lambda>_. State_Monad.return None) (Inr (refConfig\<lparr>cfg_EtcdEndpoints := [''http://etcd:2379'']\<rparr>)))
    (\<lambda>r _. case r of Inl _ \<Rightarrow> True | Inr (st, c, server) \<Rightarrow> st = EtcdState \<lparr>es_prefix = ''/ha/mysql-ha''\<rparr>)
    \<lparr>re_keys = [], re_rev = 0, re_sessions = 0\<rparr>"
  by (rule wp_mono [OF controllerMain_requires_etcd]) (auto simp: refConfig_def split: sum.splits)


theorem observeAll_failing_witness:
  "alerted (snd (observeAll refConfig ''a'' [zeroNodeStatus, zeroNodeStatus, zeroNodeStatus] initialCtl)) ''a''"
proof -
  have "cfg_FailureThreshold refConfig = 3" "failing [zeroNodeStatus, zeroNodeStatus, zeroNodeStatus] = 3"
    by (simp_all add: refConfig_def failing_def zeroNodeStatus_def)
  then show ?thesis
    using observeAll_failing [of refConfig "''a''" "[zeroNodeStatus, zeroNodeStatus, zeroNodeStatus]"] by simp
qed

section \<open>Where the code falls short\<close>

text \<open>
  C36. A switch whose commit fails leaves its target writable while the record still names the old
  primary, and the next switch demotes only the recorded one: on a store that cannot write the
  cluster state, two failed switches, to \<open>b\<close> and then to \<open>c\<close>, leave both open for writes, with
  \<open>a\<close> still recorded.
\<close>

theorem failed_commits_leave_two_writers:
  "wp (do {
      r \<leftarrow> Switch refClock (refController (downStore rng)) Background ''b'' False;
      r' \<leftarrow> Switch refClock (refController (downStore rng)) Background ''c'' False;
      State_Monad.return (snd r, snd r')
    }) (\<lambda>(e, e') t. e = Some ''persist cluster state: etcd timeout'' \<and>
      e' = Some ''persist cluster state: etcd timeout'' \<and>
      cs_Primary (ms_cluster (pl_store (world t))) = ''a'' \<and>
      ref_flags (pl_server (world t) ''b'') = (False, False) \<and>
      ref_flags (pl_server (world t) ''c'') = (False, False)) refStart"
  unfolding wp_def using down_outcome [of rng] by (auto split: prod.splits)

text \<open>
  C37. A switch whose task cannot be stored leaves \<open>tripping\<close> set, since the error return comes before
  the deferred reset; from then on automatic failover does nothing, whichever node fails, unless
  another goroutine resets it.
\<close>

theorem refused_task_disables_failover:
  "wp (Switch refClock (refController (fullStore rng)) Background ''b'' False) (\<lambda>r t.
    r = (None, Some ''database space exceeded'') \<and> v_tripping (ctl t) \<and>
    wp (tryAutomaticFailover rt c cx primary) (\<lambda>_ u. world u = world t \<and> hist u = hist t) t) refStart"
proof -
  have "wp (tryAutomaticFailover rt c cx primary) (\<lambda>_ u. world u = world t \<and> hist u = hist t) t"
    if "v_tripping (ctl t)" "alone t" for t
    using that unfolding tryAutomaticFailover_def isTripping_def by (auto simp: wp split: option.splits)
  with full_outcome [of rng] show ?thesis by (simp add: wp_run [where m = "Switch _ _ _ _ _"])
qed

text \<open>
  C38. A switch writes back the state it read before it had the lock. A setting for automatic failover
  that another client stored in between, which leaves the epoch as it is, is lost although the
  switch reports success.
\<close>

theorem switch_loses_concurrent_setting:
  "wp (Switch refClock (refController (sharedStore rng)) Background ''b'' False) (\<lambda>r t.
    snd r = None \<and> \<not> cs_AutoFailover (ms_cluster (pl_store (world t)))) refStart"
  using shared_outcome [of rng] unfolding wp_run by blast

end
